(* ===== verification/Py_Prelude.thy ===== *)
theory Py_Prelude
  imports Main "HOL-Library.Char_ord" "HOL-Library.List_Lexorder"
begin

text \<open>
  What every component of the model shares: the exceptions the modelled code raises, the
  result type of a function that may raise, the string functions of Python the code calls,
  and the regular expressions it matches with \<open>fullmatch\<close>.

  A Python text is a \<open>string\<close> (a list of characters with code points 0 to 255); the
  code points above 255 are outside the model. Within that range \<open>str.strip\<close>,
  \<open>str.encode\<close> and the character classes are those of Python.
\<close>

named_theorems res_simps \<open>when a computation that may raise returns or raises\<close>
named_theorems shape_simps \<open>field sets and reads of Python dictionaries\<close>

section \<open>Exceptions and results\<close>

datatype pyerr =
    ValueError string
  | TypeError string
  | KeyError string
  | OverflowError string
  | FencedWrite string
  | RecoveryRejected string string bool
  | ResearchNotFound string
  | InvalidTransition string
  | IdempotencyConflict string
  | ZeroDivisionError string
  | BacktestResourceExceeded string
  | BacktestNotFound string
  | BacktestConflict string
  | ObjectIntegrityError string
  | InvalidOperation string
  | ModelTurnNotAllowed string
  | StageModelCallLimitExceeded string
  | AssertionError string
  | SQLAlchemyError string

type_synonym 'a res = "pyerr + 'a"

definition andThen :: "'a res \<Rightarrow> ('a \<Rightarrow> 'b res) \<Rightarrow> 'b res" where
  "andThen m f = (case m of Inl e \<Rightarrow> Inl e | Inr x \<Rightarrow> f x)"

definition returns :: "'a res \<Rightarrow> bool" where
  "returns m \<longleftrightarrow> (case m of Inl _ \<Rightarrow> False | Inr _ \<Rightarrow> True)"

fun raises_value_error :: "'a res \<Rightarrow> bool" where
  "raises_value_error (Inl (ValueError _)) = True"
| "raises_value_error _ = False"

text \<open>A loop over a list whose body may raise: the first exception stops it.\<close>

fun forEach :: "('a \<Rightarrow> unit res) \<Rightarrow> 'a list \<Rightarrow> unit res" where
  "forEach f [] = Inr ()"
| "forEach f (x # xs) = andThen (f x) (\<lambda>_. forEach f xs)"

fun mapRes :: "('a \<Rightarrow> 'b res) \<Rightarrow> 'a list \<Rightarrow> 'b list res" where
  "mapRes f [] = Inr []"
| "mapRes f (x # xs) = andThen (f x) (\<lambda>y. andThen (mapRes f xs) (\<lambda>ys. Inr (y # ys)))"

text \<open>\<open>any(p(x) for x in xs)\<close> where the test itself may raise.\<close>

fun anyRes :: "('a \<Rightarrow> bool res) \<Rightarrow> 'a list \<Rightarrow> bool res" where
  "anyRes p [] = Inr False"
| "anyRes p (x # xs) = andThen (p x) (\<lambda>b. if b then Inr True else anyRes p xs)"

lemma andThen_Inr [simp]: "andThen (Inr x) f = f x"
  by (simp add: andThen_def)

lemma andThen_Inl [simp]: "andThen (Inl e) f = Inl e"
  by (simp add: andThen_def)

lemma andThen_returns [res_simps]:
  "(andThen m f = Inr y) = (\<exists>x. m = Inr x \<and> f x = Inr y)"
  by (cases m) auto

lemma if_raise_returns [res_simps]:
  "((if c then Inl e else k) = Inr y) = (\<not> c \<and> k = Inr y)"
  by auto

text \<open>A test whose result decides the next check.\<close>

lemma ex_Inr_bool [res_simps]:
  "(\<exists>b. m = Inr b \<and> b) = (m = Inr True)"
  "(\<exists>b. m = Inr b \<and> \<not> b) = (m = Inr False)"
  "(\<exists>b. m = Inr b \<and> b \<and> P b) = (m = Inr True \<and> P True)"
  "(\<exists>b. m = Inr b \<and> \<not> b \<and> P b) = (m = Inr False \<and> P False)"
  by (cases m; auto)+

text \<open>The branches of a computation that returned.\<close>

lemma if_returnsE: "(if c then x else y) = Inr r \<Longrightarrow> (c \<Longrightarrow> x = Inr r \<Longrightarrow> R) \<Longrightarrow> (\<not> c \<Longrightarrow> y = Inr r \<Longrightarrow> R) \<Longrightarrow> R"
  by (cases c) simp_all

lemma andThen_returnsE: "andThen x f = Inr r \<Longrightarrow> (\<And>y. x = Inr y \<Longrightarrow> f y = Inr r \<Longrightarrow> R) \<Longrightarrow> R"
  by (cases x) auto

lemma pair_returnsE: "(case p of (x, y) \<Rightarrow> f x y) = Inr r \<Longrightarrow> (\<And>x y. p = (x, y) \<Longrightarrow> f x y = Inr r \<Longrightarrow> R) \<Longrightarrow> R"
  by (cases p) simp

lemma option_returnsE: "(case m of None \<Rightarrow> x | Some y \<Rightarrow> f y) = Inr r \<Longrightarrow> (m = None \<Longrightarrow> x = Inr r \<Longrightarrow> R)
  \<Longrightarrow> (\<And>y. m = Some y \<Longrightarrow> f y = Inr r \<Longrightarrow> R) \<Longrightarrow> R"
  by (cases m) simp_all

lemmas returns_elims = if_returnsE andThen_returnsE pair_returnsE option_returnsE

lemma andThen_raises:
  "(andThen m f = Inl e) = (m = Inl e \<or> (\<exists>x. m = Inr x \<and> f x = Inl e))"
  by (cases m) auto

lemma returns_Inr [simp]: "returns (Inr x)"
  by (simp add: returns_def)

lemma returns_Inl [simp]: "\<not> returns (Inl e)"
  by (simp add: returns_def)

lemma returns_iff: "returns m \<longleftrightarrow> (\<exists>x. m = Inr x)"
  by (cases m) auto

lemma not_returns_iff: "\<not> returns m \<longleftrightarrow> (\<exists>e. m = Inl e)"
  by (cases m) auto

lemma forEach_returns [res_simps]:
  "(forEach f xs = Inr u) = (\<forall>x \<in> set xs. f x = Inr ())"
  by (induction xs) (auto simp: res_simps)

lemma forEach_append: "forEach f (xs @ ys) = andThen (forEach f xs) (\<lambda>_. forEach f ys)"
proof (induction xs)
  case Nil
  then show ?case by simp
next
  case (Cons x xs)
  then show ?case by (cases "f x") auto
qed

lemma mapRes_returns [res_simps]:
  "(mapRes f xs = Inr ys) = (list_all2 (\<lambda>x y. f x = Inr y) xs ys)"
  by (induction xs arbitrary: ys) (auto simp: res_simps list_all2_Cons1)

lemma anyRes_False [res_simps]:
  "(anyRes p xs = Inr False) = (\<forall>x \<in> set xs. p x = Inr False)"
proof (induction xs)
  case Nil
  then show ?case by simp
next
  case (Cons x xs)
  then show ?case by (cases "p x") auto
qed

text \<open>The results of a loop over a list, one by one.\<close>

lemma mapRes_member:
  "mapRes f xs = Inr ys \<Longrightarrow> y \<in> set ys \<Longrightarrow> \<exists>x \<in> set xs. f x = Inr y"
  "mapRes f xs = Inr ys \<Longrightarrow> x \<in> set xs \<Longrightarrow> \<exists>y \<in> set ys. f x = Inr y"
  by (induction xs arbitrary: ys) (auto simp: andThen_returns simp del: mapRes_returns)

lemma mapRes_all:
  assumes "mapRes f xs = Inr ys" "\<And>x y. f x = Inr y \<Longrightarrow> P y"
  shows "list_all P ys \<and> length ys = length xs"
  using assms(1) by (induction xs arbitrary: ys) (auto simp: res_simps intro: assms(2) simp del: mapRes_returns)

lemma mapRes_eq:
  assumes "mapRes f xs = Inr ys" "\<And>x y. x \<in> set xs \<Longrightarrow> f x = Inr y \<Longrightarrow> y = g x"
  shows "ys = map g xs"
  using assms by (induction xs arbitrary: ys) (auto simp: res_simps simp del: mapRes_returns)

lemma mapRes_map: "(\<And>x. f (g x) = Inr (h x)) \<Longrightarrow> mapRes f (map g xs) = Inr (map h xs)"
  by (induction xs) simp_all

lemma mapRes_upt: "(\<And>k. k < n \<Longrightarrow> f k = Inr (g k)) \<Longrightarrow> mapRes f [0..<n] = Inr (map g [0..<n])"
  by (simp add: mapRes_returns list_all2_conv_all_nth)

lemma forEach_map: "forEach f (map g xs) = Inr () \<longleftrightarrow> (\<forall>x \<in> set xs. f (g x) = Inr ())"
  by (simp add: forEach_returns)

section \<open>Texts\<close>

definition code :: "char \<Rightarrow> nat" where
  "code c = of_char c"

definition is_digit :: "char \<Rightarrow> bool" where
  "is_digit c \<longleftrightarrow> 48 \<le> code c \<and> code c \<le> 57"

definition is_lower :: "char \<Rightarrow> bool" where
  "is_lower c \<longleftrightarrow> 97 \<le> code c \<and> code c \<le> 122"

definition is_upper :: "char \<Rightarrow> bool" where
  "is_upper c \<longleftrightarrow> 65 \<le> code c \<and> code c \<le> 90"

definition is_alnum :: "char \<Rightarrow> bool" where
  "is_alnum c \<longleftrightarrow> is_digit c \<or> is_lower c \<or> is_upper c"

definition is_hex :: "char \<Rightarrow> bool" where
  "is_hex c \<longleftrightarrow> is_digit c \<or> 97 \<le> code c \<and> code c \<le> 102"

text \<open>The white space that \<open>str.strip()\<close> removes, among the code points below 256.\<close>

definition is_space :: "char \<Rightarrow> bool" where
  "is_space c \<longleftrightarrow> (9 \<le> code c \<and> code c \<le> 13) \<or> (28 \<le> code c \<and> code c \<le> 32)
     \<or> code c = 133 \<or> code c = 160"

definition strip :: "string \<Rightarrow> string" where
  "strip s = rev (dropWhile is_space (rev (dropWhile is_space s)))"

text \<open>\<open>str.startswith\<close>, \<open>str.endswith\<close> and \<open>str.removeprefix\<close>.\<close>

definition startswith :: "string \<Rightarrow> string \<Rightarrow> bool" where
  "startswith p s \<longleftrightarrow> take (length p) s = p"

definition endswith :: "string \<Rightarrow> string \<Rightarrow> bool" where
  "endswith p s \<longleftrightarrow> startswith (rev p) (rev s)"

definition removeprefix :: "string \<Rightarrow> string \<Rightarrow> string" where
  "removeprefix p s = (if startswith p s then drop (length p) s else s)"

text \<open>\<open>str.lower\<close>: the letters A to Z and the Latin-1 capitals (192 to 222 but for 215).\<close>

definition lower_char :: "char \<Rightarrow> char" where
  "lower_char c = (if is_upper c \<or> (192 \<le> code c \<and> code c \<le> 222 \<and> code c \<noteq> 215)
     then char_of (code c + 32) else c)"

definition lower :: "string \<Rightarrow> string" where
  "lower s = map lower_char s"

text \<open>The decimal digits of a natural number, and \<open>str(n)\<close> of a Python integer.\<close>

fun nat_digits :: "nat \<Rightarrow> string" where
  "nat_digits n = (if n < 10 then [char_of (48 + n)]
     else nat_digits (n div 10) @ [char_of (48 + n mod 10)])"

declare nat_digits.simps [simp del]

definition int_str :: "int \<Rightarrow> string" where
  "int_str n = (if n < 0 then ''-'' @ nat_digits (nat (- n)) else nat_digits (nat n))"

text \<open>\<open>repr\<close> of a text whose characters are printable ASCII without a backslash, and of a
  list of such texts. The code prints field names this way in its messages.\<close>

definition repr_str :: "string \<Rightarrow> string" where
  "repr_str s = (let q = (if CHR 0x27 \<in> set s \<and> CHR 0x22 \<notin> set s then [CHR 0x22] else [CHR 0x27]) in
     q @ concat (map (\<lambda>c. if [c] = q \<or> c = CHR 0x5C then [CHR 0x5C, c] else [c]) s) @ q)"

fun join :: "string \<Rightarrow> string list \<Rightarrow> string" where
  "join sep [] = []"
| "join sep [s] = s"
| "join sep (s # t # ts) = s @ sep @ join sep (t # ts)"

definition repr_strs :: "string list \<Rightarrow> string" where
  "repr_strs ss = ''['' @ join '', '' (map repr_str ss) @ '']''"

text \<open>UTF-8: one byte below 128, two bytes for the rest of the modelled range.\<close>

definition utf8_char :: "char \<Rightarrow> string" where
  "utf8_char c = (if code c < 128 then [c]
     else [char_of (192 + code c div 64), char_of (128 + code c mod 64)])"

definition utf8 :: "string \<Rightarrow> string" where
  "utf8 s = concat (map utf8_char s)"

section \<open>The regular expressions the code matches in full\<close>

definition ident_char :: "char \<Rightarrow> bool" where
  "ident_char c \<longleftrightarrow> is_alnum c \<or> c \<in> set ''_.:-''"

text \<open>\<^verbatim>\<open>[A-Za-z0-9_.:-]{1,128}\<close>\<close>

definition re_identity :: "string \<Rightarrow> bool" where
  "re_identity s \<longleftrightarrow> 1 \<le> length s \<and> length s \<le> 128 \<and> list_all ident_char s"

text \<open>\<^verbatim>\<open>[A-Za-z0-9][A-Za-z0-9_.:-]{0,127}\<close>\<close>

definition re_identifier :: "string \<Rightarrow> bool" where
  "re_identifier s \<longleftrightarrow> (case s of [] \<Rightarrow> False
     | c # cs \<Rightarrow> is_alnum c \<and> length cs \<le> 127 \<and> list_all ident_char cs)"

text \<open>\<^verbatim>\<open>[0-9a-f]{n}\<close>, and the same after a fixed prefix.\<close>

definition re_hex :: "nat \<Rightarrow> string \<Rightarrow> bool" where
  "re_hex n s \<longleftrightarrow> length s = n \<and> list_all is_hex s"

definition re_prefix_hex :: "string \<Rightarrow> nat \<Rightarrow> string \<Rightarrow> bool" where
  "re_prefix_hex p n s \<longleftrightarrow> startswith p s \<and> re_hex n (drop (length p) s)"

lemma startswith_append [simp]: "startswith p (p @ s)"
  by (simp add: startswith_def)

lemma removeprefix_append [simp]: "removeprefix p (p @ s) = s"
  by (simp add: removeprefix_def)

lemma re_prefix_hex_append [simp]: "re_prefix_hex p n (p @ s) \<longleftrightarrow> re_hex n s"
  by (simp add: re_prefix_hex_def)

lemma startswithD: "startswith p s \<Longrightarrow> s = p @ drop (length p) s"
  by (metis append_take_drop_id startswith_def)

lemma re_prefix_hexD:
  "re_prefix_hex p n s \<Longrightarrow> \<exists>t. s = p @ t \<and> re_hex n t"
  unfolding re_prefix_hex_def using startswithD by blast

lemma is_hex_ident: "is_hex c \<Longrightarrow> ident_char c"
  by (auto simp: is_hex_def ident_char_def is_alnum_def is_lower_def)

lemma re_hex_take: "re_hex n s \<Longrightarrow> k \<le> n \<Longrightarrow> re_hex k (take k s)"
  by (auto simp: re_hex_def list_all_iff dest: in_set_takeD)

lemma re_hex_identity: "re_hex n s \<Longrightarrow> 1 \<le> n \<Longrightarrow> n \<le> 128 \<Longrightarrow> re_identity s"
  by (auto simp: re_hex_def re_identity_def list_all_iff is_hex_ident)

lemma int_str_inj_nat: "nat_digits n \<noteq> []"
  by (subst nat_digits.simps) simp

text \<open>What has no white space is its own \<open>strip\<close>.\<close>

lemma strip_no_space:
  assumes "list_all (\<lambda>c. \<not> is_space c) s"
  shows "strip s = s"
proof -
  have keep: "dropWhile is_space t = t" if "list_all (\<lambda>c. \<not> is_space c) t" for t
    using that by (cases t) auto
  have "list_all (\<lambda>c. \<not> is_space c) (rev s)" using assms by (simp add: list_all_iff)
  then show ?thesis by (simp add: strip_def keep [OF assms] keep)
qed

lemma hex_no_space: "is_hex c \<Longrightarrow> \<not> is_space c"
  by (auto simp: is_hex_def is_digit_def is_space_def)

end
