(* ===== verification/Py_Value.thy ===== *)
theory Py_Value
  imports Py_Prelude Complex_Main "HOL-Library.AList"
begin

text \<open>
  The values the modelled functions receive as \<open>object\<close>: the JSON-shaped values of Python.
  A dictionary has text keys and keeps its insertion order, as Python's does. Equality,
  membership and ordering follow Python: \<open>True == 1 == 1.0\<close>, a list or a dictionary is
  unhashable (testing it for membership in a set raises \<open>TypeError\<close>), dictionaries are
  equal whatever their order. A finite float is the rational number it denotes.
\<close>

section \<open>Values\<close>

datatype pyfloat = FNaN | FInf | FNegInf | FFin rat

datatype pyval =
    PNone
  | PBool bool
  | PInt int
  | PFloat pyfloat
  | PStr string
  | PList "pyval list"
  | PDict "(string \<times> pyval) list"

type_synonym pydict = "(string \<times> pyval) list"

text \<open>\<open>isinstance(v, t)\<close> and \<open>type(v) is t\<close>. A \<open>bool\<close> is an \<open>int\<close> for \<open>isinstance\<close>.\<close>

fun is_dict :: "pyval \<Rightarrow> bool" where
  "is_dict (PDict _) = True" | "is_dict _ = False"

fun is_list :: "pyval \<Rightarrow> bool" where
  "is_list (PList _) = True" | "is_list _ = False"

fun is_str :: "pyval \<Rightarrow> bool" where
  "is_str (PStr _) = True" | "is_str _ = False"

fun is_bool :: "pyval \<Rightarrow> bool" where
  "is_bool (PBool _) = True" | "is_bool _ = False"

fun type_is_int :: "pyval \<Rightarrow> bool" where
  "type_is_int (PInt _) = True" | "type_is_int _ = False"

fun is_float :: "pyval \<Rightarrow> bool" where
  "is_float (PFloat _) = True" | "is_float _ = False"

text \<open>Views that are only used behind the corresponding test.\<close>

fun the_str :: "pyval \<Rightarrow> string" where
  "the_str (PStr s) = s" | "the_str _ = []"

fun the_int :: "pyval \<Rightarrow> int" where
  "the_int (PInt n) = n" | "the_int (PBool b) = (if b then 1 else 0)" | "the_int _ = 0"

fun the_bool :: "pyval \<Rightarrow> bool" where
  "the_bool (PBool b) = b" | "the_bool _ = False"

fun the_list :: "pyval \<Rightarrow> pyval list" where
  "the_list (PList xs) = xs" | "the_list _ = []"

fun the_dict :: "pyval \<Rightarrow> pydict" where
  "the_dict (PDict d) = d" | "the_dict _ = []"

text \<open>The truth value of \<open>if v\<close> and \<open>not v\<close>.\<close>

fun truthy :: "pyval \<Rightarrow> bool" where
  "truthy PNone = False"
| "truthy (PBool b) = b"
| "truthy (PInt n) = (n \<noteq> 0)"
| "truthy (PFloat x) = (x \<noteq> FFin 0)"
| "truthy (PStr s) = (s \<noteq> [])"
| "truthy (PList xs) = (xs \<noteq> [])"
| "truthy (PDict d) = (d \<noteq> [])"

definition int_opt :: "int option \<Rightarrow> pyval" where
  "int_opt x = (case x of None \<Rightarrow> PNone | Some n \<Rightarrow> PInt n)"

definition strs :: "string list \<Rightarrow> pyval" where
  "strs xs = PList (map PStr xs)"

section \<open>Dictionaries\<close>

text \<open>\<open>d.get(k)\<close>, \<open>k in d\<close>, \<open>d[k] = v\<close> and \<open>d[k]\<close>, which raises when the key is missing.
  Where the code has just checked the exact field set, \<open>d[k]\<close> cannot miss and is read
  with \<open>fld\<close>.\<close>

definition fld :: "pyval \<Rightarrow> string \<Rightarrow> pyval" where
  "fld v k = (case map_of (the_dict v) k of None \<Rightarrow> PNone | Some x \<Rightarrow> x)"

definition has_key :: "pyval \<Rightarrow> string \<Rightarrow> bool" where
  "has_key v k \<longleftrightarrow> map_of (the_dict v) k \<noteq> None"

definition item :: "pyval \<Rightarrow> string \<Rightarrow> pyval res" where
  "item v k = (case map_of (the_dict v) k of None \<Rightarrow> Inl (KeyError k) | Some x \<Rightarrow> Inr x)"

definition dict_set :: "string \<Rightarrow> pyval \<Rightarrow> pyval \<Rightarrow> pyval" where
  "dict_set k x v = PDict (AList.update k x (the_dict v))"

text \<open>\<open>{**a, **b}\<close>: later entries overwrite in place, new ones are appended.\<close>

definition dict_merge :: "pyval \<Rightarrow> pydict \<Rightarrow> pyval" where
  "dict_merge a b = PDict (fold (\<lambda>(k, x) d. AList.update k x d) b (the_dict a))"

definition keys_of :: "pyval \<Rightarrow> string list" where
  "keys_of v = map fst (the_dict v)"

text \<open>\<open>set(v) <= F\<close>, \<open>F <= set(v)\<close> and \<open>set(v) == F\<close> for a dictionary and a field set.\<close>

definition keys_within :: "pyval \<Rightarrow> string list \<Rightarrow> bool" where
  "keys_within v F \<longleftrightarrow> list_all (\<lambda>k. k \<in> set F) (keys_of v)"

definition keys_include :: "pyval \<Rightarrow> string list \<Rightarrow> bool" where
  "keys_include v F \<longleftrightarrow> list_all (has_key v) F"

definition keys_are :: "pyval \<Rightarrow> string list \<Rightarrow> bool" where
  "keys_are v F \<longleftrightarrow> keys_within v F \<and> keys_include v F"

text \<open>\<open>sorted(set(v) - F)\<close> and \<open>sorted(F - set(v))\<close>, which the messages print.\<close>

definition unknown_keys :: "pyval \<Rightarrow> string list \<Rightarrow> string list" where
  "unknown_keys v F = sort (remdups (filter (\<lambda>k. k \<notin> set F) (keys_of v)))"

definition missing_keys :: "pyval \<Rightarrow> string list \<Rightarrow> string list" where
  "missing_keys v F = sort (filter (\<lambda>k. \<not> has_key v k) F)"

text \<open>\<open>{f: v[f] for f in F if f in v}\<close> and \<open>v.get(k, default)\<close>.\<close>

definition dict_pick :: "pyval \<Rightarrow> string list \<Rightarrow> pydict" where
  "dict_pick v F = map (\<lambda>f. (f, fld v f)) (filter (has_key v) F)"

definition fld_or :: "pyval \<Rightarrow> string \<Rightarrow> pyval \<Rightarrow> pyval" where
  "fld_or v k d = (if has_key v k then fld v k else d)"

text \<open>\<open>dict(v)\<close>: a dictionary, or a sequence of pairs (two-element lists, two-letter texts,
  two-key dictionaries) whose keys are texts.\<close>

fun pair_of :: "pyval \<Rightarrow> (string \<times> pyval) res" where
  "pair_of (PList [PStr k, x]) = Inr (k, x)"
| "pair_of (PList [PList _, _]) = Inl (TypeError ''unhashable type'')"
| "pair_of (PList [PDict _, _]) = Inl (TypeError ''unhashable type'')"
| "pair_of (PList _) = Inl (ValueError ''dictionary update sequence element has wrong shape'')"
| "pair_of (PStr [a, b]) = Inr ([a], PStr [b])"
| "pair_of (PStr _) = Inl (ValueError ''dictionary update sequence element has wrong shape'')"
| "pair_of (PDict [(a, _), (b, _)]) = Inr (a, PStr b)"
| "pair_of (PDict _) = Inl (ValueError ''dictionary update sequence element has wrong shape'')"
| "pair_of _ = Inl (TypeError ''cannot convert dictionary update sequence element'')"

fun dict_of :: "pyval \<Rightarrow> pyval res" where
  "dict_of (PDict d) = Inr (PDict d)"
| "dict_of (PList xs) = andThen (mapRes pair_of xs) (\<lambda>ps. Inr (dict_merge (PDict []) ps))"
| "dict_of (PStr s) = andThen (mapRes (\<lambda>c. pair_of (PStr [c])) s)
     (\<lambda>ps. Inr (dict_merge (PDict []) ps))"
| "dict_of _ = Inl (TypeError ''object is not iterable'')"

lemma has_key_iff: "has_key v k \<longleftrightarrow> k \<in> set (keys_of v)"
  by (force simp: has_key_def keys_of_def map_of_eq_None_iff)

lemma keys_are_iff [shape_simps]: "keys_are v F \<longleftrightarrow> set (keys_of v) = set F"
  by (auto simp: keys_are_def keys_within_def keys_include_def list_all_iff has_key_iff)

lemma keys_within_iff [shape_simps]: "keys_within v F \<longleftrightarrow> set (keys_of v) \<subseteq> set F"
  by (auto simp: keys_within_def list_all_iff)

lemma keys_include_iff [shape_simps]: "keys_include v F \<longleftrightarrow> set F \<subseteq> set (keys_of v)"
  by (auto simp: keys_include_def list_all_iff has_key_iff)

lemma fld_PDict_Nil [simp]: "fld (PDict []) k = PNone"
  by (simp add: fld_def)

lemma fld_PDict_Cons [simp]:
  "fld (PDict ((k', x) # d)) k = (if k = k' then x else fld (PDict d) k)"
  by (simp add: fld_def)

lemma fld_PDict_map: "fld (PDict (map (\<lambda>f. (f, g f)) fs)) k = (if k \<in> set fs then g k else PNone)"
  by (induction fs) auto

lemma has_key_PDict_Cons [simp]:
  "has_key (PDict ((k', x) # d)) k = (k = k' \<or> has_key (PDict d) k)"
  by (simp add: has_key_def)

lemma has_key_PDict_Nil [simp]: "\<not> has_key (PDict []) k"
  by (simp add: has_key_def)

lemma keys_of_PDict [simp]: "keys_of (PDict d) = map fst d"
  by (simp add: keys_of_def)

lemma has_keyD: "has_key v k \<Longrightarrow> item v k = Inr (fld v k)"
  by (auto simp: has_key_def item_def fld_def)

lemma fld_PNone [simp]: "fld PNone k = PNone"
  by (simp add: fld_def)

lemma is_dict_conv: "is_dict v \<longleftrightarrow> (\<exists>d. v = PDict d)"
  by (cases v) auto

lemma is_list_conv: "is_list v \<longleftrightarrow> (\<exists>xs. v = PList xs)"
  by (cases v) auto

lemma is_str_conv: "is_str v \<longleftrightarrow> (\<exists>s. v = PStr s)"
  by (cases v) auto

lemma is_bool_conv: "is_bool v \<longleftrightarrow> (\<exists>b. v = PBool b)"
  by (cases v) auto

lemma type_is_int_conv: "type_is_int v \<longleftrightarrow> (\<exists>n. v = PInt n)"
  by (cases v) auto

lemmas type_convs = is_dict_conv is_list_conv is_str_conv is_bool_conv type_is_int_conv

lemma map_of_fold_update:
  "map_of (fold (\<lambda>(k, x) d. AList.update k x d) b a) = map_of a ++ map_of (rev b)"
proof (induction b arbitrary: a)
  case Nil
  then show ?case by simp
next
  case (Cons p b)
  obtain k x where p: "p = (k, x)" by (cases p)
  have "map_of a ++ map_of (rev b @ [(k, x)]) = (map_of a)(k \<mapsto> x) ++ map_of (rev b)"
    by (auto simp: fun_eq_iff map_add_def split: option.splits)
  then show ?case
    using Cons p by (simp add: update_conv' fun_upd_def)
qed

lemma fld_dict_merge:
  "fld (dict_merge a b) k =
     (case map_of (rev b) k of Some x \<Rightarrow> x | None \<Rightarrow> fld a k)"
  by (simp add: fld_def dict_merge_def map_of_fold_update map_add_def split: option.splits)

lemma keys_dict_merge [simp]:
  "set (keys_of (dict_merge a b)) = set (keys_of a) \<union> fst ` set b"
proof -
  have "dom (map_of (fold (\<lambda>(k, x) d. AList.update k x d) b (the_dict a)))
    = dom (map_of (the_dict a)) \<union> dom (map_of (rev b))"
    by (auto simp: map_of_fold_update)
  then show ?thesis
    by (simp add: keys_of_def dict_merge_def dom_map_of_conv_image_fst)
qed

lemma is_dict_dict_merge [simp]: "is_dict (dict_merge a b)"
  by (simp add: dict_merge_def)

lemma fld_dict_set [simp]: "fld (dict_set k x v) k' = (if k' = k then x else fld v k')"
  by (simp add: fld_def dict_set_def update_conv')

lemma keys_dict_set [simp]: "set (keys_of (dict_set k x v)) = insert k (set (keys_of v))"
  by (simp add: keys_of_def dict_set_def dom_update)

lemma is_dict_dict_set [simp]: "is_dict (dict_set k x v)"
  by (simp add: dict_set_def)

section \<open>Equality, membership and order\<close>

fun num_of :: "pyval \<Rightarrow> rat option" where
  "num_of (PBool b) = Some (if b then 1 else 0)"
| "num_of (PInt n) = Some (of_int n)"
| "num_of (PFloat (FFin q)) = Some q"
| "num_of _ = None"

definition scalar_eq :: "pyval \<Rightarrow> pyval \<Rightarrow> bool" where
  "scalar_eq x y = (case (num_of x, num_of y) of
       (Some a, Some b) \<Rightarrow> a = b
     | (None, None) \<Rightarrow> x = y \<and> x \<noteq> PFloat FNaN
     | _ \<Rightarrow> False)"

function (sequential) py_eq :: "pyval \<Rightarrow> pyval \<Rightarrow> bool"
  and py_list_eq :: "pyval list \<Rightarrow> pyval list \<Rightarrow> bool"
  and py_dict_sub :: "pydict \<Rightarrow> pydict \<Rightarrow> bool" where
  "py_eq (PList xs) (PList ys) = py_list_eq xs ys"
| "py_eq (PDict xs) (PDict ys) = (length xs = length ys \<and> py_dict_sub xs ys)"
| "py_eq x y = scalar_eq x y"
| "py_list_eq [] [] = True"
| "py_list_eq (x # xs) (y # ys) = (py_eq x y \<and> py_list_eq xs ys)"
| "py_list_eq _ _ = False"
| "py_dict_sub [] ys = True"
| "py_dict_sub ((k, x) # xs) ys =
     ((case map_of ys k of None \<Rightarrow> False | Some y \<Rightarrow> py_eq x y) \<and> py_dict_sub xs ys)"
  by pat_completeness auto
termination
  by (relation "measure (case_sum (\<lambda>(x, _). size x)
        (case_sum (\<lambda>(xs, _). size_list size xs)
           (\<lambda>(xs, _). size_list (size_prod (\<lambda>_. 0) size) xs)))") auto

text \<open>\<open>v in S\<close> for a set of texts and for a set of integers, and the loops over them.\<close>

fun hashable :: "pyval \<Rightarrow> bool" where
  "hashable (PList _) = False"
| "hashable (PDict _) = False"
| "hashable _ = True"

definition in_strs :: "pyval \<Rightarrow> string list \<Rightarrow> bool res" where
  "in_strs v S = (if \<not> hashable v then Inl (TypeError ''unhashable type'')
     else Inr (is_str v \<and> the_str v \<in> set S))"

definition in_ints :: "pyval \<Rightarrow> int list \<Rightarrow> bool res" where
  "in_ints v S = (if \<not> hashable v then Inl (TypeError ''unhashable type'')
     else Inr (list_ex (\<lambda>n. num_of v = Some (of_int n)) S))"

text \<open>Comparing numbers with \<open><\<close>, \<open><=\<close>, \<open>>\<close> or \<open>>=\<close>. An infinity lies on its side of every finite number and
  equals itself, nothing compares with a NaN, and the other operands raise \<open>TypeError\<close>.\<close>

fun inf_side :: "pyval \<Rightarrow> rat" where
  "inf_side (PFloat FInf) = 1"
| "inf_side (PFloat FNegInf) = -1"
| "inf_side _ = 0"

definition num_cmp :: "(rat \<Rightarrow> rat \<Rightarrow> bool) \<Rightarrow> pyval \<Rightarrow> pyval \<Rightarrow> bool res" where
  "num_cmp r x y = (case (num_of x, num_of y) of
       (Some a, Some b) \<Rightarrow> Inr (r a b)
     | _ \<Rightarrow>
       if num_of x = None \<and> \<not> is_float x \<or> num_of y = None \<and> \<not> is_float y
       then Inl (TypeError ''unorderable operands'')
       else Inr (x \<noteq> PFloat FNaN \<and> y \<noteq> PFloat FNaN \<and> r (inf_side x) (inf_side y)))"

text \<open>\<open>isinstance(v, int) and not isinstance(v, bool) and v >= n\<close>.\<close>

definition int_at_least :: "int \<Rightarrow> pyval \<Rightarrow> bool" where
  "int_at_least n v \<longleftrightarrow> type_is_int v \<and> n \<le> the_int v"

definition int_between :: "int \<Rightarrow> int \<Rightarrow> pyval \<Rightarrow> bool" where
  "int_between lo hi v \<longleftrightarrow> type_is_int v \<and> lo \<le> the_int v \<and> the_int v \<le> hi"

text \<open>\<open>isinstance(v, str) and pattern.fullmatch(v)\<close>.\<close>

definition str_matches :: "(string \<Rightarrow> bool) \<Rightarrow> pyval \<Rightarrow> bool" where
  "str_matches re v \<longleftrightarrow> is_str v \<and> re (the_str v)"

lemma int_at_least_conv: "int_at_least n v \<longleftrightarrow> (\<exists>k. v = PInt k \<and> n \<le> k)"
  by (cases v) (auto simp: int_at_least_def)

lemma int_between_conv: "int_between lo hi v \<longleftrightarrow> (\<exists>k. v = PInt k \<and> lo \<le> k \<and> k \<le> hi)"
  by (cases v) (auto simp: int_between_def)

lemma str_matches_conv: "str_matches re v \<longleftrightarrow> (\<exists>s. v = PStr s \<and> re s)"
  by (cases v) (auto simp: str_matches_def)

lemmas value_convs = type_convs int_at_least_conv int_between_conv str_matches_conv

lemma in_strs_True [res_simps]: "(in_strs v S = Inr True) = (\<exists>s. v = PStr s \<and> s \<in> set S)"
  by (cases v) (auto simp: in_strs_def)

lemma in_strs_False [res_simps]: "(in_strs v S = Inr False) = (hashable v \<and> (\<forall>s. v = PStr s \<longrightarrow> s \<notin> set S))"
  by (cases v) (auto simp: in_strs_def)

lemma in_strs_PStr [simp]: "in_strs (PStr s) S = Inr (s \<in> set S)"
  by (simp add: in_strs_def)

lemma in_strs_raises: "(in_strs v S = Inl e) = (\<not> hashable v \<and> e = TypeError ''unhashable type'')"
  by (auto simp: in_strs_def)

lemma in_ints_True [res_simps]:
  "(in_ints v S = Inr True) = (\<exists>n \<in> set S. num_of v = Some (of_int n))"
  by (cases v) (auto simp: in_ints_def list_ex_iff)

lemma in_ints_PInt [simp]: "in_ints (PInt n) S = Inr (n \<in> set S)"
  by (auto simp: in_ints_def list_ex_iff)

lemma scalar_eq_consts [simp]:
  "scalar_eq v (PStr s) \<longleftrightarrow> v = PStr s"
  "scalar_eq v PNone \<longleftrightarrow> v = PNone"
  "scalar_eq v (PInt n) \<longleftrightarrow> num_of v = Some (of_int n)"
  by (cases v; auto simp: scalar_eq_def split: option.splits)+

lemma py_eq_PStr [simp]: "py_eq v (PStr s) \<longleftrightarrow> v = PStr s"
  by (cases v) (auto simp: scalar_eq_def split: option.splits)

lemma py_eq_PNone [simp]: "py_eq v PNone \<longleftrightarrow> v = PNone"
  by (cases v) (auto simp: scalar_eq_def split: option.splits)

lemma py_eq_PInt [simp]: "py_eq v (PInt n) \<longleftrightarrow> num_of v = Some (of_int n)"
  by (cases v) (auto simp: scalar_eq_def split: option.splits)

lemma py_list_eq_strs: "py_list_eq xs (map PStr ss) \<longleftrightarrow> xs = map PStr ss"
proof (induction xs arbitrary: ss)
  case Nil
  then show ?case by (cases ss) auto
next
  case (Cons x xs)
  then show ?case by (cases ss) auto
qed

lemma py_eq_strs [simp]: "py_eq v (strs ss) \<longleftrightarrow> v = strs ss"
  by (cases v) (auto simp: strs_def scalar_eq_def py_list_eq_strs split: option.splits)

lemma strs_inj [simp]: "strs xs = strs ys \<longleftrightarrow> xs = ys"
  by (simp add: strs_def inj_map_eq_map inj_on_def inj_def)

lemma PStr_list: "(\<forall>x \<in> set xs. \<exists>s. x = PStr s) \<longleftrightarrow> (\<exists>ss. xs = map PStr ss)"
  by (induction xs) (auto simp: Cons_eq_map_conv)

section \<open>Values equal to themselves\<close>

text \<open>A plain value: no NaN, no dictionary with a repeated key. It equals itself.\<close>

fun plain :: "pyval \<Rightarrow> bool" where
  "plain (PFloat x) = (x \<noteq> FNaN)"
| "plain (PList xs) = list_all plain xs"
| "plain (PDict d) = (distinct (map fst d) \<and> list_all (\<lambda>(_, x). plain x) d)"
| "plain _ = True"

lemma py_list_eq_refl: "(\<And>x. x \<in> set xs \<Longrightarrow> py_eq x x) \<Longrightarrow> py_list_eq xs xs"
  by (induction xs) auto

lemma py_dict_sub_iff:
  "py_dict_sub xs ys \<longleftrightarrow> (\<forall>(k, x) \<in> set xs. \<exists>y. map_of ys k = Some y \<and> py_eq x y)"
  by (induction xs) (auto split: option.splits)

lemma py_eq_refl: "plain x \<Longrightarrow> py_eq x x"
proof (induction x)
  case (PList xs)
  then show ?case by (auto simp: list_all_iff intro: py_list_eq_refl)
next
  case (PDict d)
  then have "py_dict_sub d d"
    by (fastforce simp: py_dict_sub_iff list_all_iff)
  then show ?case by simp
qed (auto simp: scalar_eq_def split: option.splits)

lemma plain_strs [simp]: "plain (strs ss)"
  by (simp add: strs_def list_all_iff)

lemma plain_fld: "plain v \<Longrightarrow> plain (fld v k)"
  by (cases v) (auto simp: fld_def list_all_iff split: option.splits dest!: map_of_SomeD)

section \<open>Sorting\<close>

text \<open>
  \<open>a < b\<close> and \<open>sorted\<close>: texts by code points, numbers by value, lists lexicographically;
  anything else raises \<open>TypeError\<close> as soon as two such values are compared.
\<close>

fun py_lt :: "pyval \<Rightarrow> pyval \<Rightarrow> bool res"
  and py_list_lt :: "pyval list \<Rightarrow> pyval list \<Rightarrow> bool res" where
  "py_lt (PStr s) (PStr t) = Inr (s < t)"
| "py_lt (PList xs) (PList ys) = py_list_lt xs ys"
| "py_lt x y = num_cmp (<) x y"
| "py_list_lt xs [] = Inr False"
| "py_list_lt [] (y # ys) = Inr True"
| "py_list_lt (x # xs) (y # ys) = (if py_eq x y then py_list_lt xs ys else py_lt x y)"

fun py_insert :: "pyval \<Rightarrow> pyval list \<Rightarrow> pyval list res" where
  "py_insert x [] = Inr [x]"
| "py_insert x (y # ys) = andThen (py_lt y x) (\<lambda>b.
     if b then andThen (py_insert x ys) (\<lambda>zs. Inr (y # zs)) else Inr (x # y # ys))"

fun py_sort :: "pyval list \<Rightarrow> pyval list res" where
  "py_sort [] = Inr []"
| "py_sort (x # xs) = andThen (py_sort xs) (\<lambda>ys. py_insert x ys)"

text \<open>\<open>sorted(v)\<close>: a list, the keys of a dictionary, the characters of a text.\<close>

fun py_sorted :: "pyval \<Rightarrow> pyval list res" where
  "py_sorted (PList xs) = py_sort xs"
| "py_sorted (PDict d) = py_sort (map (\<lambda>(k, _). PStr k) d)"
| "py_sorted (PStr s) = py_sort (map (\<lambda>c. PStr [c]) s)"
| "py_sorted _ = Inl (TypeError ''object is not iterable'')"

lemma py_insert_strs: "py_insert (PStr s) (map PStr ts) = Inr (map PStr (insort s ts))"
  by (induction ts) (auto simp: not_le not_less)

lemma py_sort_strs [simp]: "py_sort (map PStr ss) = Inr (map PStr (sort ss))"
proof (induction ss)
  case Nil
  then show ?case by simp
next
  case (Cons s ss)
  then show ?case by (simp add: py_insert_strs sort_key_def)
qed

lemma py_sorted_strs [simp]: "py_sorted (strs ss) = Inr (map PStr (sort ss))"
  by (simp add: strs_def)

end
