(* ===== verification/Plan_Vocabulary.thy ===== *)
theory Plan_Vocabulary
  imports Py_Value
begin

text \<open>
  The closed vocabulary of \<^verbatim>\<open>packages/contracts/research_execution_plan.py\<close>: stages, statuses
  and actions as datatypes with the texts the code uses for them, the stage specification
  table, the transition table and the tables derived from them.
\<close>

section \<open>Stages\<close>

datatype stage =
    Strategy_draft
  | Waiting_for_strategy_approval
  | Ready_to_create_backtest_task
  | Waiting_for_task_create_approval
  | Waiting_for_data
  | Waiting_for_task_execute_approval
  | Ready_to_execute_backtest_task
  | Waiting_for_backtest_job
  | Backtest_analysis
  | Iteration_comparison
  | Final_selection
  | Waiting_for_paper_account_approval
  | Ready_to_create_paper_account
  | Needs_attention
  | Completed

primrec stage_str :: "stage \<Rightarrow> string" where
  "stage_str Strategy_draft = ''strategy_draft''"
| "stage_str Waiting_for_strategy_approval = ''waiting_for_strategy_approval''"
| "stage_str Ready_to_create_backtest_task = ''ready_to_create_backtest_task''"
| "stage_str Waiting_for_task_create_approval = ''waiting_for_task_create_approval''"
| "stage_str Waiting_for_data = ''waiting_for_data''"
| "stage_str Waiting_for_task_execute_approval = ''waiting_for_task_execute_approval''"
| "stage_str Ready_to_execute_backtest_task = ''ready_to_execute_backtest_task''"
| "stage_str Waiting_for_backtest_job = ''waiting_for_backtest_job''"
| "stage_str Backtest_analysis = ''backtest_analysis''"
| "stage_str Iteration_comparison = ''iteration_comparison''"
| "stage_str Final_selection = ''final_selection''"
| "stage_str Waiting_for_paper_account_approval = ''waiting_for_paper_account_approval''"
| "stage_str Ready_to_create_paper_account = ''ready_to_create_paper_account''"
| "stage_str Needs_attention = ''needs_attention''"
| "stage_str Completed = ''completed''"

definition all_stages :: "stage list" where
  "all_stages = [Strategy_draft, Waiting_for_strategy_approval, Ready_to_create_backtest_task,
     Waiting_for_task_create_approval, Waiting_for_data, Waiting_for_task_execute_approval,
     Ready_to_execute_backtest_task, Waiting_for_backtest_job, Backtest_analysis,
     Iteration_comparison, Final_selection, Waiting_for_paper_account_approval,
     Ready_to_create_paper_account, Needs_attention, Completed]"

definition STAGES :: "string list" where
  "STAGES = map stage_str all_stages"

definition stage_of :: "string \<Rightarrow> stage option" where
  "stage_of s = find (\<lambda>st. stage_str st = s) all_stages"

definition APPROVAL_WAIT_STAGES :: "stage list" where
  "APPROVAL_WAIT_STAGES = [Waiting_for_strategy_approval, Waiting_for_task_create_approval,
     Waiting_for_task_execute_approval, Waiting_for_paper_account_approval]"

definition READY_STAGES :: "stage list" where
  "READY_STAGES = [Ready_to_create_backtest_task, Ready_to_execute_backtest_task,
     Ready_to_create_paper_account]"

definition ACTION_STAGES :: "stage list" where
  "ACTION_STAGES = [Strategy_draft, Waiting_for_data, Waiting_for_backtest_job,
     Backtest_analysis, Iteration_comparison, Final_selection]"

lemma all_stages_complete [simp]: "st \<in> set all_stages"
  by (cases st) (simp_all add: all_stages_def)

lemma distinct_STAGES: "distinct STAGES"
  by (simp add: STAGES_def all_stages_def)

lemma stage_str_eq [simp]: "stage_str a = stage_str b \<longleftrightarrow> a = b"
proof
  assume eq: "stage_str a = stage_str b"
  have "inj_on stage_str (set all_stages)"
    using distinct_STAGES by (simp add: STAGES_def distinct_map)
  with eq show "a = b" by (auto dest: inj_onD)
qed simp

lemma stage_of_stage_str [simp]: "stage_of (stage_str st) = Some st"
proof -
  have "find (\<lambda>st'. stage_str st' = stage_str st) xs = Some st" if "st \<in> set xs" for xs
    using that by (induction xs) auto
  then show ?thesis by (simp add: stage_of_def)
qed

lemma stage_of_Some: "stage_of s = Some st \<longleftrightarrow> s = stage_str st"
proof
  assume "stage_of s = Some st"
  then show "s = stage_str st"
    by (auto simp: stage_of_def find_Some_iff)
qed simp

lemma STAGES_iff: "s \<in> set STAGES \<longleftrightarrow> (\<exists>st. s = stage_str st)"
  by (auto simp: STAGES_def image_iff)

lemma stage_of_None: "stage_of s = None \<longleftrightarrow> s \<notin> set STAGES"
  by (metis STAGES_iff not_None_eq stage_of_Some)

section \<open>Statuses and actions\<close>

datatype status = Active | Waiting | Blocked | Done | Cancelled

primrec status_str :: "status \<Rightarrow> string" where
  "status_str Active = ''active''"
| "status_str Waiting = ''waiting''"
| "status_str Blocked = ''blocked''"
| "status_str Done = ''completed''"
| "status_str Cancelled = ''cancelled''"

definition STATUSES :: "string list" where
  "STATUSES = map status_str [Active, Waiting, Blocked, Done, Cancelled]"

lemma status_str_eq [simp]: "status_str a = status_str b \<longleftrightarrow> a = b"
  by (cases a; cases b) simp_all

lemma STATUSES_iff: "s \<in> set STATUSES \<longleftrightarrow> (\<exists>st. s = status_str st)"
  unfolding STATUSES_def by (auto; metis status.exhaust status_str.simps)

datatype action =
    Draft_strategy
  | Request_strategy_approval
  | Create_backtest_task
  | Wait_for_data
  | Execute_backtest_task_approval_wait
  | Execute_backtest_task
  | Wait_for_backtest_job
  | Analyse_backtest_result
  | Compare_iterations
  | Select_best_iteration
  | Request_paper_account_approval
  | Create_paper_account
  | Resolve_blockers
  | Notify_user
  | Cancel_research

primrec action_str :: "action \<Rightarrow> string" where
  "action_str Draft_strategy = ''draft_strategy''"
| "action_str Request_strategy_approval = ''request_strategy_approval''"
| "action_str Create_backtest_task = ''create_backtest_task''"
| "action_str Wait_for_data = ''wait_for_data''"
| "action_str Execute_backtest_task_approval_wait = ''execute_backtest_task_approval_wait''"
| "action_str Execute_backtest_task = ''execute_backtest_task''"
| "action_str Wait_for_backtest_job = ''wait_for_backtest_job''"
| "action_str Analyse_backtest_result = ''analyse_backtest_result''"
| "action_str Compare_iterations = ''compare_iterations''"
| "action_str Select_best_iteration = ''select_best_iteration''"
| "action_str Request_paper_account_approval = ''request_paper_account_approval''"
| "action_str Create_paper_account = ''create_paper_account''"
| "action_str Resolve_blockers = ''resolve_blockers''"
| "action_str Notify_user = ''notify_user''"
| "action_str Cancel_research = ''cancel_research''"

definition all_actions :: "action list" where
  "all_actions = [Draft_strategy, Request_strategy_approval, Create_backtest_task, Wait_for_data,
     Execute_backtest_task_approval_wait, Execute_backtest_task, Wait_for_backtest_job,
     Analyse_backtest_result, Compare_iterations, Select_best_iteration,
     Request_paper_account_approval, Create_paper_account, Resolve_blockers, Notify_user,
     Cancel_research]"

definition NEXT_ACTIONS :: "string list" where
  "NEXT_ACTIONS = map action_str all_actions"

definition action_of :: "string \<Rightarrow> action option" where
  "action_of s = find (\<lambda>a. action_str a = s) all_actions"

lemma all_actions_complete [simp]: "a \<in> set all_actions"
  by (cases a) (simp_all add: all_actions_def)

lemma distinct_NEXT_ACTIONS: "distinct NEXT_ACTIONS"
  by (simp add: NEXT_ACTIONS_def all_actions_def)

lemma action_str_eq [simp]: "action_str a = action_str b \<longleftrightarrow> a = b"
proof
  assume eq: "action_str a = action_str b"
  have "inj_on action_str (set all_actions)"
    using distinct_NEXT_ACTIONS by (simp add: NEXT_ACTIONS_def distinct_map)
  with eq show "a = b" by (auto dest: inj_onD)
qed simp

lemma NEXT_ACTIONS_iff: "s \<in> set NEXT_ACTIONS \<longleftrightarrow> (\<exists>a. s = action_str a)"
  by (auto simp: NEXT_ACTIONS_def image_iff)

lemma action_of_action_str [simp]: "action_of (action_str a) = Some a"
proof -
  have "find (\<lambda>b. action_str b = action_str a) xs = Some a" if "a \<in> set xs" for xs
    using that by (induction xs) auto
  then show ?thesis by (simp add: action_of_def)
qed

section \<open>Rounds, resource kinds, facts\<close>

definition ITERATIONS :: "int list" where
  "ITERATIONS = [1, 2, 3]"

definition MAX_ROUNDS :: int where
  "MAX_ROUNDS = 3"

definition RESOURCE_KINDS :: "string list" where
  "RESOURCE_KINDS = [''research_task'', ''conversation'', ''strategy_version'',
     ''strategy_approval'', ''stock_pool_snapshot'', ''signal_producer_job'',
     ''signal_snapshot'', ''backtest_task'', ''backtest_job'', ''backtest_result'',
     ''ml_prediction'', ''paper_account'']"

definition PREREQUISITES :: "string list" where
  "PREREQUISITES = [''strategy_draft_validated'', ''strategy_version_approved'',
     ''strategy_version_validated'', ''backtest_task_create_approved'',
     ''backtest_task_prepared'', ''signal_snapshot_validated'',
     ''backtest_task_execute_approved'', ''backtest_job_terminal'',
     ''backtest_result_available'', ''iteration_analysis_complete'',
     ''previous_iteration_settled'', ''paper_account_create_approved'']"

definition POSTCONDITIONS :: "string list" where
  "POSTCONDITIONS = [''strategy_draft_created'', ''strategy_approval_requested'',
     ''strategy_version_approved'', ''backtest_task_created'', ''backtest_task_prepared'',
     ''signal_job_completed_with_validated_snapshot'', ''backtest_execute_approval_requested'',
     ''backtest_job_queued'', ''backtest_result_available'', ''backtest_result_analysed'',
     ''iteration_compared'', ''next_round_task_create_approval_requested'',
     ''best_iteration_selected'', ''paper_account_approval_requested'',
     ''paper_account_created'', ''blocks_resolved_or_confirmed'', ''user_notified'',
     ''research_cancelled'']"

text \<open>The P0 action of an executable-action descriptor and the plan action it equals.\<close>

definition P0_ACTION_EQUIVALENTS :: "(string \<times> action) list" where
  "P0_ACTION_EQUIVALENTS = [(''create'', Create_backtest_task), (''wait'', Wait_for_data),
     (''execute'', Execute_backtest_task), (''review_result'', Analyse_backtest_result),
     (''review_failure'', Resolve_blockers), (''resolve_blockers'', Resolve_blockers)]"

section \<open>Capabilities and approvals of an action\<close>

primrec ACTION_CAPABILITIES :: "action \<Rightarrow> string list" where
  "ACTION_CAPABILITIES Draft_strategy = [''byq_research_get'', ''byq_strategy_version_create'']"
| "ACTION_CAPABILITIES Request_strategy_approval = [''byq_research_get'']"
| "ACTION_CAPABILITIES Create_backtest_task = [''byq_research_get'', ''byq_backtest_task_create'']"
| "ACTION_CAPABILITIES Wait_for_data = [''byq_research_get'', ''byq_backtest_task_get'']"
| "ACTION_CAPABILITIES Execute_backtest_task_approval_wait = [''byq_research_get'']"
| "ACTION_CAPABILITIES Execute_backtest_task = [''byq_research_get'', ''byq_backtest_task_execute'']"
| "ACTION_CAPABILITIES Wait_for_backtest_job = [''byq_research_get'', ''byq_backtest_task_get'']"
| "ACTION_CAPABILITIES Analyse_backtest_result = [''byq_research_get'', ''byq_backtest_analysis_get'']"
| "ACTION_CAPABILITIES Compare_iterations = [''byq_research_get'', ''byq_backtest_task_get'']"
| "ACTION_CAPABILITIES Select_best_iteration = [''byq_research_get'']"
| "ACTION_CAPABILITIES Request_paper_account_approval = [''byq_research_get'']"
| "ACTION_CAPABILITIES Create_paper_account = [''byq_research_get'', ''byq_paper_account_create'']"
| "ACTION_CAPABILITIES Resolve_blockers = [''byq_research_get'']"
| "ACTION_CAPABILITIES Notify_user = []"
| "ACTION_CAPABILITIES Cancel_research = [''byq_research_get'']"

text \<open>The approved action and the kind of the approved resource.\<close>

type_synonym approval_requirement = "string \<times> string"

fun ACTION_APPROVAL :: "action \<Rightarrow> approval_requirement option" where
  "ACTION_APPROVAL Create_backtest_task = Some (''backtest_task_create'', ''strategy_version'')"
| "ACTION_APPROVAL Execute_backtest_task = Some (''backtest_execute'', ''backtest_task'')"
| "ACTION_APPROVAL Create_paper_account = Some (''create_paper_account'', ''research_task'')"
| "ACTION_APPROVAL _ = None"

definition DETERMINISTIC_ACTIONS :: "action list" where
  "DETERMINISTIC_ACTIONS = [Create_backtest_task, Wait_for_data, Execute_backtest_task,
     Wait_for_backtest_job, Create_paper_account, Resolve_blockers, Notify_user, Cancel_research]"

section \<open>The stage specification\<close>

record stage_spec =
  ss_action :: action
  ss_statuses :: "status list"
  ss_prerequisites :: "string list"
  ss_postcondition :: string
  ss_approval :: "approval_requirement option"

definition spec_of :: "action \<Rightarrow> status list \<Rightarrow> string list \<Rightarrow> string
    \<Rightarrow> approval_requirement option \<Rightarrow> stage_spec" where
  "spec_of a st pre post app = \<lparr>ss_action = a, ss_statuses = st, ss_prerequisites = pre,
     ss_postcondition = post, ss_approval = app\<rparr>"

primrec STAGE_SPEC :: "stage \<Rightarrow> stage_spec" where
  "STAGE_SPEC Strategy_draft = spec_of Draft_strategy [Active] [] ''strategy_draft_created'' None"
| "STAGE_SPEC Waiting_for_strategy_approval = spec_of Request_strategy_approval [Waiting]
     [''strategy_draft_validated''] ''strategy_approval_requested''
     (Some (''strategy_approve'', ''strategy_version''))"
| "STAGE_SPEC Ready_to_create_backtest_task = spec_of Create_backtest_task [Active]
     [''strategy_version_approved''] ''backtest_task_created''
     (Some (''backtest_task_create'', ''strategy_version''))"
| "STAGE_SPEC Waiting_for_task_create_approval = spec_of Request_strategy_approval [Waiting]
     [''strategy_version_approved''] ''next_round_task_create_approval_requested''
     (Some (''backtest_task_create'', ''strategy_version''))"
| "STAGE_SPEC Waiting_for_data = spec_of Wait_for_data [Waiting]
     [''backtest_task_prepared''] ''signal_job_completed_with_validated_snapshot'' None"
| "STAGE_SPEC Waiting_for_task_execute_approval = spec_of Execute_backtest_task_approval_wait
     [Waiting] [''signal_snapshot_validated''] ''backtest_execute_approval_requested''
     (Some (''backtest_execute'', ''backtest_task''))"
| "STAGE_SPEC Ready_to_execute_backtest_task = spec_of Execute_backtest_task [Active]
     [''backtest_task_execute_approved''] ''backtest_job_queued''
     (Some (''backtest_execute'', ''backtest_task''))"
| "STAGE_SPEC Waiting_for_backtest_job = spec_of Wait_for_backtest_job [Waiting]
     [''backtest_job_terminal''] ''backtest_result_available'' None"
| "STAGE_SPEC Backtest_analysis = spec_of Analyse_backtest_result [Active]
     [''backtest_result_available''] ''backtest_result_analysed'' None"
| "STAGE_SPEC Iteration_comparison = spec_of Compare_iterations [Active]
     [''iteration_analysis_complete''] ''iteration_compared'' None"
| "STAGE_SPEC Final_selection = spec_of Select_best_iteration [Active]
     [''previous_iteration_settled''] ''best_iteration_selected'' None"
| "STAGE_SPEC Waiting_for_paper_account_approval = spec_of Request_paper_account_approval [Waiting]
     [''previous_iteration_settled''] ''paper_account_approval_requested''
     (Some (''create_paper_account'', ''research_task''))"
| "STAGE_SPEC Ready_to_create_paper_account = spec_of Create_paper_account [Active]
     [''paper_account_create_approved''] ''paper_account_created''
     (Some (''create_paper_account'', ''research_task''))"
| "STAGE_SPEC Needs_attention = spec_of Resolve_blockers [Blocked] []
     ''blocks_resolved_or_confirmed'' None"
| "STAGE_SPEC Completed = spec_of Notify_user [Done, Cancelled] [] ''user_notified'' None"

definition CANCEL_STAGE :: stage where "CANCEL_STAGE = Completed"
definition CANCEL_STATUS :: status where "CANCEL_STATUS = Cancelled"
definition CANCEL_ACTION :: action where "CANCEL_ACTION = Cancel_research"
definition CANCEL_POSTCONDITION :: string where "CANCEL_POSTCONDITION = ''research_cancelled''"

section \<open>Transitions\<close>

primrec TRANSITIONS :: "stage \<Rightarrow> stage list" where
  "TRANSITIONS Strategy_draft = [Waiting_for_strategy_approval, Needs_attention, Completed]"
| "TRANSITIONS Waiting_for_strategy_approval = [Ready_to_create_backtest_task,
     Waiting_for_task_create_approval, Needs_attention, Completed]"
| "TRANSITIONS Ready_to_create_backtest_task = [Waiting_for_data, Needs_attention, Completed]"
| "TRANSITIONS Waiting_for_task_create_approval = [Ready_to_create_backtest_task,
     Waiting_for_data, Needs_attention, Completed]"
| "TRANSITIONS Waiting_for_data = [Waiting_for_task_execute_approval,
     Ready_to_execute_backtest_task, Needs_attention, Completed]"
| "TRANSITIONS Waiting_for_task_execute_approval = [Ready_to_execute_backtest_task,
     Needs_attention, Completed]"
| "TRANSITIONS Ready_to_execute_backtest_task = [Waiting_for_backtest_job, Needs_attention,
     Completed]"
| "TRANSITIONS Waiting_for_backtest_job = [Backtest_analysis, Needs_attention, Completed]"
| "TRANSITIONS Backtest_analysis = [Iteration_comparison, Needs_attention, Completed]"
| "TRANSITIONS Iteration_comparison = [Waiting_for_task_create_approval, Final_selection,
     Needs_attention, Completed]"
| "TRANSITIONS Final_selection = [Waiting_for_paper_account_approval, Needs_attention]"
| "TRANSITIONS Waiting_for_paper_account_approval = [Ready_to_create_paper_account,
     Needs_attention, Completed]"
| "TRANSITIONS Ready_to_create_paper_account = [Completed, Needs_attention]"
| "TRANSITIONS Needs_attention = [Strategy_draft, Waiting_for_strategy_approval,
     Ready_to_create_backtest_task, Waiting_for_task_create_approval, Waiting_for_data,
     Waiting_for_task_execute_approval, Ready_to_execute_backtest_task, Waiting_for_backtest_job,
     Backtest_analysis, Iteration_comparison, Waiting_for_paper_account_approval,
     Ready_to_create_paper_account]"
| "TRANSITIONS Completed = []"

section \<open>Tables derived from the specification\<close>

definition STAGE_ACTION :: "stage \<Rightarrow> action" where
  "STAGE_ACTION st = ss_action (STAGE_SPEC st)"

definition STAGE_POSTCONDITION :: "stage \<Rightarrow> string" where
  "STAGE_POSTCONDITION st = ss_postcondition (STAGE_SPEC st)"

definition STAGE_APPROVAL_REQUIREMENT :: "stage \<Rightarrow> approval_requirement option" where
  "STAGE_APPROVAL_REQUIREMENT st = ss_approval (STAGE_SPEC st)"

text \<open>The first status in text order that is not \<^verbatim>\<open>cancelled\<close>.\<close>

definition STAGE_STATUS :: "stage \<Rightarrow> string" where
  "STAGE_STATUS st = (case sort (map status_str
       (filter (\<lambda>s. s \<noteq> Cancelled) (ss_statuses (STAGE_SPEC st)))) of
     [] \<Rightarrow> ''active'' | s # _ \<Rightarrow> s)"

lemmas plan_tables = spec_of_def STAGE_ACTION_def STAGE_POSTCONDITION_def
  STAGE_APPROVAL_REQUIREMENT_def CANCEL_STAGE_def CANCEL_STATUS_def CANCEL_ACTION_def
  CANCEL_POSTCONDITION_def MAX_ROUNDS_def ITERATIONS_def

lemma STAGE_STATUS_legal: "\<exists>s \<in> set (ss_statuses (STAGE_SPEC st)). STAGE_STATUS st = status_str s"
  by (cases st) (simp_all add: STAGE_STATUS_def spec_of_def)

lemma stage_has_status: "ss_statuses (STAGE_SPEC st) \<noteq> []"
  by (cases st) (simp_all add: spec_of_def)

lemma spec_prerequisites_closed: "set (ss_prerequisites (STAGE_SPEC st)) \<subseteq> set PREREQUISITES"
  by (cases st) (simp_all add: spec_of_def PREREQUISITES_def)

lemma spec_prerequisites_short: "length (ss_prerequisites (STAGE_SPEC st)) \<le> 1"
  by (cases st) (simp_all add: spec_of_def)

lemma sort_spec_prerequisites [simp]:
  "sort (ss_prerequisites (STAGE_SPEC st)) = ss_prerequisites (STAGE_SPEC st)"
  by (cases st) (simp_all add: spec_of_def)

lemma spec_approval_kind:
  "ss_approval (STAGE_SPEC st) = Some (a, k) \<Longrightarrow> k \<in> set RESOURCE_KINDS"
  by (cases st) (auto simp: spec_of_def RESOURCE_KINDS_def)

lemma spec_approval_of_action:
  "ACTION_APPROVAL (ss_action (STAGE_SPEC st)) = Some r \<Longrightarrow> ss_approval (STAGE_SPEC st) = Some r"
  by (cases st) (auto simp: spec_of_def)

end
