(* ===== verification/Research_Plan.thy ===== *)
theory Research_Plan
  imports Plan_Vocabulary
begin

text \<open>
  The execution plan of \<^verbatim>\<open>packages/contracts/research_execution_plan.py\<close>: the closed-schema
  validator \<open>validate_plan\<close>, the constructors \<open>new_plan\<close> and \<open>plan_at_stage\<close>, and the
  compare-and-swap step \<open>advance\<close>. The declarative counterpart \<open>plan_ok\<close> says what a
  valid plan is without the order of the checks; \<open>validate_plan\<close> is shown to accept exactly
  those values.
\<close>

definition PLAN_SCHEMA_VERSION :: string where
  "PLAN_SCHEMA_VERSION = ''research-execution-plan.v1''"

definition PLAN_REQUIRED_FIELDS :: "string list" where
  "PLAN_REQUIRED_FIELDS = [''schema_version'', ''task_id'', ''plan_version'', ''task_version'',
     ''owner_principal'', ''workspace_id'', ''conversation_id'', ''stage'', ''iteration'',
     ''status'', ''next_action'', ''references'', ''prerequisites'', ''expected_postcondition'',
     ''approval'', ''idempotency_key'', ''allowed_capabilities'', ''last_progress_identity'']"

definition re_digest :: "string \<Rightarrow> bool" where
  "re_digest = re_prefix_hex ''sha256:'' 64"

section \<open>Transitions\<close>

definition can_transition :: "string \<Rightarrow> string \<Rightarrow> bool" where
  "can_transition cur nxt = (case stage_of cur of None \<Rightarrow> False
     | Some st \<Rightarrow> nxt \<in> set (map stage_str (TRANSITIONS st)))"

definition assert_transition :: "string \<Rightarrow> string \<Rightarrow> unit res" where
  "assert_transition cur nxt =
    (if cur \<notin> set STAGES \<or> nxt \<notin> set STAGES
     then Inl (ValueError ''research execution plan stage is unknown'')
     else if \<not> can_transition cur nxt
     then Inl (ValueError (''illegal research execution plan transition: '' @ cur @ '' -> '' @ nxt))
     else Inr ())"

section \<open>Validators\<close>

definition validate_references :: "pyval \<Rightarrow> unit res" where
  "validate_references value =
    (if \<not> is_dict value
     then Inl (ValueError ''research execution plan references must be an object'')
     else forEach (\<lambda>(key, reference).
       if key \<notin> set RESOURCE_KINDS
       then Inl (ValueError (''research execution plan reference kind is unknown: '' @ key))
       else if \<not> is_dict reference \<or> \<not> keys_are reference [key]
       then Inl (ValueError ''research execution plan reference must be a closed kind/id pair'')
       else if \<not> str_matches re_identity (fld reference key)
       then Inl (ValueError ''research execution plan reference id is invalid'')
       else Inr ()) (the_dict value))"

definition validate_prerequisites :: "pyval \<Rightarrow> unit res" where
  "validate_prerequisites value =
    (if \<not> is_list value
     then Inl (ValueError ''research execution plan prerequisites are not closed enum values'')
     else andThen (anyRes (\<lambda>item. andThen (in_strs item PREREQUISITES) (\<lambda>b. Inr (\<not> b)))
                     (the_list value)) (\<lambda>bad.
       if bad
       then Inl (ValueError ''research execution plan prerequisites are not closed enum values'')
       else if \<not> distinct (the_list value)
       then Inl (ValueError ''research execution plan prerequisites contain duplicates'')
       else Inr ()))"

definition APPROVAL_BASE_FIELDS :: "string list" where
  "APPROVAL_BASE_FIELDS = [''action'', ''resource_kind'', ''resource_id'', ''plan_version'',
     ''task_version'']"

definition validate_approval ::
    "pyval \<Rightarrow> pyval \<Rightarrow> approval_requirement option \<Rightarrow> action \<Rightarrow> unit res" where
  "validate_approval value plan spec_approval next_action =
    (case (case spec_approval of Some r \<Rightarrow> Some r | None \<Rightarrow> ACTION_APPROVAL next_action) of
       None \<Rightarrow> (if value \<noteq> PNone
         then Inl (ValueError ''research execution plan approval is not permitted for its action'')
         else Inr ())
     | Some (req_action, req_kind) \<Rightarrow>
       if \<not> is_dict value \<or> (\<not> keys_are value APPROVAL_BASE_FIELDS
            \<and> \<not> keys_are value (APPROVAL_BASE_FIELDS @ [''params_digest'']))
       then Inl (ValueError ''research execution plan approval requirement is invalid'')
       else if has_key value ''params_digest'' \<and> \<not> str_matches re_digest (fld value ''params_digest'')
       then Inl (ValueError ''research execution plan approval params_digest is invalid'')
       else andThen (in_strs (fld value ''resource_kind'') RESOURCE_KINDS) (\<lambda>known.
       if \<not> known
       then Inl (ValueError ''research execution plan approval resource kind is unknown'')
       else if \<not> py_eq (fld value ''action'') (PStr req_action)
            \<or> \<not> py_eq (fld value ''resource_kind'') (PStr req_kind)
       then Inl (ValueError ''research execution plan approval does not match its action'')
       else if \<not> str_matches re_identity (fld value ''resource_id'')
       then Inl (ValueError ''research execution plan approval resource id is invalid'')
       else andThen (forEach (\<lambda>field. if \<not> int_at_least 1 (fld value field)
             then Inl (ValueError (''research execution plan approval '' @ field @ '' is invalid''))
             else Inr ()) [''plan_version'', ''task_version'']) (\<lambda>_.
       if \<not> py_eq (fld value ''plan_version'') (fld plan ''plan_version'')
       then Inl (ValueError ''research execution plan approval plan_version does not match the plan'')
       else if \<not> py_eq (fld value ''task_version'') (fld plan ''task_version'')
       then Inl (ValueError ''research execution plan approval task_version does not match the plan'')
       else let references = (if is_dict (fld plan ''references'') then fld plan ''references''
                              else PDict []);
                reference = fld references req_kind in
         if \<not> is_dict reference \<or> \<not> py_eq (fld reference req_kind) (fld value ''resource_id'')
         then Inl (ValueError ''research execution plan approval resource is not bound to its reference'')
         else Inr ())))"

text \<open>\<open>validate_plan\<close>, in the order of its checks: the field set and the header fields, the
  stage with its status, action and expectations, then the rest.\<close>

definition plan_header :: "pyval \<Rightarrow> unit res" where
  "plan_header plan =
    (if \<not> is_dict plan then Inl (ValueError ''research execution plan must be an object'')
     else if \<not> keys_are plan PLAN_REQUIRED_FIELDS
     then Inl (ValueError (''research execution plan has invalid fields (unknown=''
       @ repr_strs (unknown_keys plan PLAN_REQUIRED_FIELDS) @ '', missing=''
       @ repr_strs (missing_keys plan PLAN_REQUIRED_FIELDS) @ '')''))
     else if \<not> py_eq (fld plan ''schema_version'') (PStr PLAN_SCHEMA_VERSION)
     then Inl (ValueError ''research execution plan schema is invalid'')
     else andThen (forEach (\<lambda>field. if \<not> str_matches re_identity (fld plan field)
         then Inl (ValueError (''research execution plan '' @ field @ '' is invalid''))
         else Inr ()) [''task_id'', ''owner_principal'', ''workspace_id'', ''conversation_id'']) (\<lambda>_.
       forEach (\<lambda>field. if \<not> int_at_least 1 (fld plan field)
         then Inl (ValueError (''research execution plan '' @ field @ '' must be a positive integer''))
         else Inr ()) [''plan_version'', ''task_version'']))"

record plan_expectation =
  pe_stage :: stage
  pe_action :: action
  pe_prerequisites :: "string list"
  pe_postcondition :: string
  pe_approval :: "approval_requirement option"

definition plan_expected :: "pyval \<Rightarrow> plan_expectation res" where
  "plan_expected plan =
    andThen (in_strs (fld plan ''stage'') STAGES) (\<lambda>known.
    if \<not> known then Inl (ValueError ''research execution plan stage is unknown'')
    else andThen (in_strs (fld plan ''status'') STATUSES) (\<lambda>known.
    if \<not> known then Inl (ValueError ''research execution plan status is unknown'')
    else andThen (in_strs (fld plan ''next_action'') NEXT_ACTIONS) (\<lambda>known.
    if \<not> known then Inl (ValueError ''research execution plan next_action is unknown'')
    else let stage = the (stage_of (the_str (fld plan ''stage'')));
             status = the_str (fld plan ''status'');
             action = the (action_of (the_str (fld plan ''next_action''))) in
      if stage = CANCEL_STAGE then
        if status \<noteq> ''completed'' \<and> status \<noteq> ''cancelled''
        then Inl (ValueError ''a terminal plan stage requires a terminal status'')
        else if status = ''cancelled'' then
          (if action \<noteq> CANCEL_ACTION
           then Inl (ValueError ''a cancelled plan must carry the cancel action'')
           else Inr \<lparr>pe_stage = stage, pe_action = action, pe_prerequisites = [],
                      pe_postcondition = CANCEL_POSTCONDITION, pe_approval = None\<rparr>)
        else
          (if action \<noteq> ss_action (STAGE_SPEC CANCEL_STAGE)
           then Inl (ValueError ''research execution plan next_action does not match its stage'')
           else Inr \<lparr>pe_stage = stage, pe_action = action, pe_prerequisites = [],
                      pe_postcondition = ss_postcondition (STAGE_SPEC CANCEL_STAGE),
                      pe_approval = None\<rparr>)
      else
        (if status \<notin> set (map status_str (ss_statuses (STAGE_SPEC stage)))
         then Inl (ValueError (''research execution plan status '' @ status
           @ '' is invalid for stage '' @ stage_str stage))
         else if action \<noteq> ss_action (STAGE_SPEC stage)
         then Inl (ValueError ''research execution plan next_action does not match its stage'')
         else Inr \<lparr>pe_stage = stage, pe_action = action,
                    pe_prerequisites = sort (ss_prerequisites (STAGE_SPEC stage)),
                    pe_postcondition = ss_postcondition (STAGE_SPEC stage),
                    pe_approval = ss_approval (STAGE_SPEC stage)\<rparr>))))"

definition write_capability :: "string \<Rightarrow> bool" where
  "write_capability c \<longleftrightarrow> endswith ''_create'' c \<or> endswith ''_execute'' c \<or> endswith ''_approve'' c"

definition plan_capabilities :: "pyval \<Rightarrow> plan_expectation \<Rightarrow> unit res" where
  "plan_capabilities capabilities ex =
    (if \<not> is_list capabilities \<or> list_ex (\<lambda>item. \<not> is_str item) (the_list capabilities)
     then Inl (ValueError ''research execution plan allowed_capabilities are invalid'')
     else if set (map the_str (the_list capabilities)) \<noteq> set (ACTION_CAPABILITIES (pe_action ex))
     then Inl (ValueError ''research execution plan capabilities do not match its action'')
     else if pe_stage ex \<in> set APPROVAL_WAIT_STAGES
          \<and> list_ex (\<lambda>c. write_capability (the_str c)) (the_list capabilities)
     then Inl (ValueError ''a human approval gate must not expose a write capability'')
     else Inr ())"

definition validate_plan :: "pyval \<Rightarrow> pyval res" where
  "validate_plan plan =
    andThen (plan_header plan) (\<lambda>_.
    andThen (plan_expected plan) (\<lambda>ex.
    andThen (in_ints (fld plan ''iteration'') ITERATIONS) (\<lambda>known.
    if \<not> known then Inl (ValueError ''research execution plan iteration must be 1..3'')
    else if pe_stage ex = Final_selection \<and> \<not> py_eq (fld plan ''iteration'') (PInt MAX_ROUNDS)
    then Inl (ValueError ''final selection requires the final iteration'')
    else andThen (validate_references (fld plan ''references'')) (\<lambda>_.
    andThen (validate_prerequisites (fld plan ''prerequisites'')) (\<lambda>_.
    andThen (py_sorted (fld plan ''prerequisites'')) (\<lambda>prereqs.
    if \<not> py_eq (PList prereqs) (strs (pe_prerequisites ex))
    then Inl (ValueError ''research execution plan prerequisites do not match its stage'')
    else if \<not> py_eq (fld plan ''expected_postcondition'') (PStr (pe_postcondition ex))
    then Inl (ValueError ''research execution plan expected_postcondition does not match its stage'')
    else andThen (validate_approval (fld plan ''approval'') plan (pe_approval ex) (pe_action ex)) (\<lambda>_.
    if \<not> is_str (fld plan ''idempotency_key'') \<or> the_str (fld plan ''idempotency_key'') = []
    then Inl (ValueError ''research execution plan idempotency_key is invalid'')
    else andThen (plan_capabilities (fld plan ''allowed_capabilities'') ex) (\<lambda>_.
    if fld plan ''last_progress_identity'' \<noteq> PNone
       \<and> \<not> str_matches re_digest (fld plan ''last_progress_identity'')
    then Inl (ValueError ''research execution plan progress identity is invalid'')
    else Inr plan))))))))"

definition is_deterministic_action :: "string \<Rightarrow> bool res" where
  "is_deterministic_action act =
    (if act \<notin> set NEXT_ACTIONS
     then Inl (ValueError ''research execution plan action is unknown'')
     else Inr (act \<in> set (map action_str DETERMINISTIC_ACTIONS)))"

section \<open>Constructors\<close>

record plan_ids =
  pi_task_id :: string
  pi_owner_principal :: string
  pi_workspace_id :: string
  pi_conversation_id :: string

definition default_references :: "plan_ids \<Rightarrow> pyval" where
  "default_references ids = PDict
     [(''research_task'', PDict [(''research_task'', PStr (pi_task_id ids))]),
      (''conversation'', PDict [(''conversation'', PStr (pi_conversation_id ids))])]"

text \<open>The dictionary both constructors build, at plan version 1.\<close>

definition plan_value :: "plan_ids \<Rightarrow> int \<Rightarrow> string \<Rightarrow> pyval \<Rightarrow> string \<Rightarrow> action \<Rightarrow> pyval
    \<Rightarrow> string list \<Rightarrow> string \<Rightarrow> pyval \<Rightarrow> pyval \<Rightarrow> pyval \<Rightarrow> pyval" where
  "plan_value ids task_version stage iteration status action references prerequisites
      postcondition approval idempotency_key last_progress_identity = PDict
     [(''schema_version'', PStr PLAN_SCHEMA_VERSION),
      (''task_id'', PStr (pi_task_id ids)),
      (''plan_version'', PInt 1),
      (''task_version'', PInt task_version),
      (''owner_principal'', PStr (pi_owner_principal ids)),
      (''workspace_id'', PStr (pi_workspace_id ids)),
      (''conversation_id'', PStr (pi_conversation_id ids)),
      (''stage'', PStr stage),
      (''iteration'', iteration),
      (''status'', PStr status),
      (''next_action'', PStr (action_str action)),
      (''references'', if references \<noteq> PNone then references else default_references ids),
      (''prerequisites'', strs prerequisites),
      (''expected_postcondition'', PStr postcondition),
      (''approval'', approval),
      (''idempotency_key'', idempotency_key),
      (''allowed_capabilities'', strs (sort (ACTION_CAPABILITIES action))),
      (''last_progress_identity'', last_progress_identity)]"

definition new_plan :: "plan_ids \<Rightarrow> int \<Rightarrow> pyval \<Rightarrow> pyval \<Rightarrow> pyval \<Rightarrow> pyval \<Rightarrow> pyval res" where
  "new_plan ids task_version idempotency_key references iteration last_progress_identity =
    (let sp = STAGE_SPEC Strategy_draft in
     validate_plan (plan_value ids task_version (stage_str Strategy_draft) iteration ''active''
       (ss_action sp) references (sort (ss_prerequisites sp)) (ss_postcondition sp) PNone
       idempotency_key last_progress_identity))"

definition plan_at_stage :: "plan_ids \<Rightarrow> int \<Rightarrow> string \<Rightarrow> pyval \<Rightarrow> pyval \<Rightarrow> pyval \<Rightarrow> pyval
    \<Rightarrow> pyval \<Rightarrow> pyval res" where
  "plan_at_stage ids task_version stage idempotency_key references iteration approval
      last_progress_identity =
    (case stage_of stage of
       None \<Rightarrow> Inl (ValueError ''research execution plan stage is unknown'')
     | Some st \<Rightarrow>
       let sp = STAGE_SPEC st;
           prerequisites = (if st = CANCEL_STAGE then [] else sort (ss_prerequisites sp));
           required_approval = (if st = CANCEL_STAGE then None else ss_approval sp) in
       if required_approval \<noteq> None \<and> approval = PNone
       then Inl (ValueError ''research execution plan stage requires its bound approval'')
       else validate_plan (plan_value ids task_version stage iteration (STAGE_STATUS st)
              (ss_action sp) references prerequisites (ss_postcondition sp) approval
              idempotency_key last_progress_identity))"

section \<open>The step\<close>

text \<open>The keyword arguments of \<open>advance\<close>; \<open>PNone\<close> is an omitted optional argument.\<close>

record advance_args =
  aa_expected_plan_version :: int
  aa_expected_task_version :: int
  aa_next_stage :: string
  aa_iteration :: pyval
  aa_status :: string
  aa_expected_postcondition :: string
  aa_idempotency_key :: pyval
  aa_references :: pyval
  aa_prerequisites :: pyval
  aa_approval :: pyval
  aa_last_progress_identity :: pyval

definition advanced_plan :: "pyval \<Rightarrow> advance_args \<Rightarrow> string \<Rightarrow> string \<Rightarrow> action \<Rightarrow> pyval \<Rightarrow> string
    \<Rightarrow> pyval \<Rightarrow> pyval" where
  "advanced_plan current a stage status action prerequisites postcondition approval =
    dict_merge current
     [(''plan_version'', PInt (the_int (fld current ''plan_version'') + 1)),
      (''stage'', PStr stage),
      (''iteration'', aa_iteration a),
      (''status'', PStr status),
      (''next_action'', PStr (action_str action)),
      (''references'', if aa_references a \<noteq> PNone then aa_references a
                       else fld current ''references''),
      (''prerequisites'', prerequisites),
      (''expected_postcondition'', PStr postcondition),
      (''approval'', approval),
      (''idempotency_key'', aa_idempotency_key a),
      (''allowed_capabilities'', strs (sort (ACTION_CAPABILITIES action))),
      (''last_progress_identity'', aa_last_progress_identity a)]"

text \<open>The rules on rounds that \<open>advance\<close> checks before it builds the next plan.\<close>

definition advance_round_rules :: "pyval \<Rightarrow> advance_args \<Rightarrow> unit res" where
  "advance_round_rules current a =
    (let stage = the_str (fld current ''stage'');
         cur = fld current ''iteration'' in
     if aa_next_stage a = ''iteration_comparison'' \<and> \<not> py_eq (aa_iteration a) cur
     then Inl (ValueError ''iteration comparison must keep the current iteration'')
     else if stage = ''iteration_comparison'' \<and> aa_next_stage a = ''waiting_for_task_create_approval''
       \<and> (num_of (aa_iteration a) \<noteq> map_option (\<lambda>q. q + 1) (num_of cur)
          \<or> \<not> (case num_of (aa_iteration a) of Some q \<Rightarrow> q \<le> of_int MAX_ROUNDS | None \<Rightarrow> False))
     then Inl (ValueError ''the next round must advance the iteration by exactly one'')
     else if aa_next_stage a = ''final_selection'' \<and> \<not> py_eq (aa_iteration a) (PInt MAX_ROUNDS)
     then Inl (ValueError ''final selection requires the final iteration'')
     else Inr ())"

definition advance_to :: "pyval \<Rightarrow> advance_args \<Rightarrow> stage \<Rightarrow> pyval res" where
  "advance_to current a nxt =
    (let sp = STAGE_SPEC nxt in
    if aa_status a \<notin> set (map status_str (ss_statuses sp))
    then Inl (ValueError (''research execution plan status '' @ aa_status a
      @ '' is invalid for stage '' @ stage_str nxt))
    else if nxt = CANCEL_STAGE then
      (let cancelled = (aa_status a = status_str CANCEL_STATUS);
           action = (if cancelled then CANCEL_ACTION else ss_action (STAGE_SPEC CANCEL_STAGE)) in
       validate_plan (advanced_plan current a (stage_str CANCEL_STAGE)
         (if cancelled then status_str CANCEL_STATUS else ''completed'') action (strs [])
         (if cancelled then CANCEL_POSTCONDITION else ss_postcondition (STAGE_SPEC CANCEL_STAGE))
         PNone))
    else andThen (if aa_prerequisites a = PNone then Inr (map PStr (sort (ss_prerequisites sp)))
                  else py_sorted (aa_prerequisites a)) (\<lambda>chosen.
    if \<not> py_eq (PList chosen) (strs (sort (ss_prerequisites sp)))
    then Inl (ValueError ''research execution plan prerequisites do not match its stage'')
    else if aa_expected_postcondition a \<noteq> ss_postcondition sp
    then Inl (ValueError ''research execution plan expected_postcondition does not match its stage'')
    else validate_plan (advanced_plan current a (stage_str nxt) (aa_status a) (ss_action sp)
           (PList chosen) (aa_expected_postcondition a) (aa_approval a))))"

definition advance :: "pyval \<Rightarrow> advance_args \<Rightarrow> pyval res" where
  "advance plan a =
    andThen (validate_plan plan) (\<lambda>current.
    if \<not> py_eq (fld current ''plan_version'') (PInt (aa_expected_plan_version a))
    then Inl (ValueError ''research execution plan version is stale'')
    else if \<not> py_eq (fld current ''task_version'') (PInt (aa_expected_task_version a))
    then Inl (ValueError ''research execution task version is stale'')
    else andThen (assert_transition (the_str (fld current ''stage'')) (aa_next_stage a)) (\<lambda>_.
    andThen (advance_round_rules current a) (\<lambda>_.
    advance_to current a (the (stage_of (aa_next_stage a))))))"

section \<open>What a valid plan is\<close>

text \<open>The action and the postcondition a stage has under a status; the two terminal outcomes
  share the stage \<^verbatim>\<open>completed\<close>.\<close>

definition plan_action :: "stage \<Rightarrow> status \<Rightarrow> action" where
  "plan_action st s = (if st = Completed \<and> s = Cancelled then Cancel_research
     else ss_action (STAGE_SPEC st))"

definition plan_postcondition :: "stage \<Rightarrow> status \<Rightarrow> string" where
  "plan_postcondition st s = (if st = Completed \<and> s = Cancelled then ''research_cancelled''
     else ss_postcondition (STAGE_SPEC st))"

definition references_ok :: "pyval \<Rightarrow> bool" where
  "references_ok v \<longleftrightarrow> (\<exists>d. v = PDict d \<and> (\<forall>(k, r) \<in> set d. k \<in> set RESOURCE_KINDS
     \<and> is_dict r \<and> set (keys_of r) = {k} \<and> (\<exists>i. fld r k = PStr i \<and> re_identity i)))"

text \<open>The plan names an exact approved resource: the approval carries the action and the kind
  its stage requires, the versions of this plan, and the id the plan's own references give.\<close>

definition approval_bound :: "pyval \<Rightarrow> pyval \<Rightarrow> approval_requirement \<Rightarrow> bool" where
  "approval_bound app plan r \<longleftrightarrow> is_dict app
     \<and> (set (keys_of app) = set APPROVAL_BASE_FIELDS
        \<or> (set (keys_of app) = insert ''params_digest'' (set APPROVAL_BASE_FIELDS)
           \<and> (\<exists>d. fld app ''params_digest'' = PStr d \<and> re_digest d)))
     \<and> fld app ''action'' = PStr (fst r) \<and> fld app ''resource_kind'' = PStr (snd r)
     \<and> fld app ''plan_version'' = fld plan ''plan_version''
     \<and> fld app ''task_version'' = fld plan ''task_version''
     \<and> (\<exists>i. fld app ''resource_id'' = PStr i \<and> re_identity i
           \<and> fld (fld (fld plan ''references'') (snd r)) (snd r) = PStr i)"

definition approval_ok :: "pyval \<Rightarrow> stage \<Rightarrow> bool" where
  "approval_ok plan st \<longleftrightarrow> (case ss_approval (STAGE_SPEC st) of
     None \<Rightarrow> fld plan ''approval'' = PNone
   | Some r \<Rightarrow> approval_bound (fld plan ''approval'') plan r)"

definition plan_ok :: "pyval \<Rightarrow> stage \<Rightarrow> status \<Rightarrow> bool" where
  "plan_ok v st s \<longleftrightarrow> is_dict v \<and> set (keys_of v) = set PLAN_REQUIRED_FIELDS
     \<and> fld v ''schema_version'' = PStr PLAN_SCHEMA_VERSION
     \<and> (\<forall>f \<in> {''task_id'', ''owner_principal'', ''workspace_id'', ''conversation_id''}.
          \<exists>i. fld v f = PStr i \<and> re_identity i)
     \<and> (\<forall>f \<in> {''plan_version'', ''task_version''}. \<exists>n. fld v f = PInt n \<and> 1 \<le> n)
     \<and> s \<in> set (ss_statuses (STAGE_SPEC st))
     \<and> fld v ''stage'' = PStr (stage_str st)
     \<and> fld v ''status'' = PStr (status_str s)
     \<and> fld v ''next_action'' = PStr (action_str (plan_action st s))
     \<and> (\<exists>n \<in> {1, 2, 3}. num_of (fld v ''iteration'') = Some (of_int n)
          \<and> (st = Final_selection \<longrightarrow> n = 3))
     \<and> references_ok (fld v ''references'')
     \<and> fld v ''prerequisites'' = strs (ss_prerequisites (STAGE_SPEC st))
     \<and> fld v ''expected_postcondition'' = PStr (plan_postcondition st s)
     \<and> approval_ok v st
     \<and> (\<exists>k. fld v ''idempotency_key'' = PStr k \<and> k \<noteq> [])
     \<and> (\<exists>cs. fld v ''allowed_capabilities'' = strs cs
          \<and> set cs = set (ACTION_CAPABILITIES (plan_action st s)))
     \<and> (fld v ''last_progress_identity'' = PNone
        \<or> (\<exists>d. fld v ''last_progress_identity'' = PStr d \<and> re_digest d))"

section \<open>The validator accepts exactly the valid plans\<close>

lemma plan_header_returns [res_simps]:
  "plan_header v = Inr u \<longleftrightarrow> is_dict v \<and> set (keys_of v) = set PLAN_REQUIRED_FIELDS
     \<and> fld v ''schema_version'' = PStr PLAN_SCHEMA_VERSION
     \<and> (\<forall>f \<in> {''task_id'', ''owner_principal'', ''workspace_id'', ''conversation_id''}.
          \<exists>i. fld v f = PStr i \<and> re_identity i)
     \<and> (\<forall>f \<in> {''plan_version'', ''task_version''}. \<exists>n. fld v f = PInt n \<and> 1 \<le> n)"
  unfolding plan_header_def by (simp add: res_simps shape_simps value_convs)

lemma validate_references_returns [res_simps]:
  "validate_references v = Inr u \<longleftrightarrow> references_ok v"
  unfolding validate_references_def references_ok_def
  by (cases v) (auto simp: res_simps shape_simps str_matches_conv split: prod.splits)

lemma validate_prerequisites_returns [res_simps]:
  "validate_prerequisites v = Inr u
     \<longleftrightarrow> (\<exists>ss. v = strs ss \<and> set ss \<subseteq> set PREREQUISITES \<and> distinct ss)" (is "?L = ?R")
proof
  assume ?L
  then obtain xs where xs: "v = PList xs" "distinct xs"
      "\<forall>x \<in> set xs. \<exists>s. x = PStr s \<and> s \<in> set PREREQUISITES"
    by (cases v) (auto simp: validate_prerequisites_def res_simps)
  then obtain ss where ss: "xs = map PStr ss" using PStr_list by metis
  with xs show ?R by (auto simp: strs_def distinct_map)
next
  assume ?R
  then obtain ss where ss: "v = strs ss" "\<forall>s \<in> set ss. s \<in> set PREREQUISITES" "distinct ss"
    by blast
  then show ?L
    by (simp add: validate_prerequisites_def res_simps strs_def distinct_map inj_on_def)
qed


lemma plan_capabilities_returns [res_simps]:
  "plan_capabilities v ex = Inr u \<longleftrightarrow> (\<exists>cs. v = strs cs
     \<and> set cs = set (ACTION_CAPABILITIES (pe_action ex))
     \<and> (pe_stage ex \<in> set APPROVAL_WAIT_STAGES \<longrightarrow> (\<forall>c \<in> set cs. \<not> write_capability c)))"
  (is "?L = ?R")
proof -
  have of_strs: "plan_capabilities (strs cs) ex = Inr u
     \<longleftrightarrow> set cs = set (ACTION_CAPABILITIES (pe_action ex))
     \<and> (pe_stage ex \<in> set APPROVAL_WAIT_STAGES \<longrightarrow> (\<forall>c \<in> set cs. \<not> write_capability c))" for cs
    by (simp add: plan_capabilities_def res_simps strs_def list_ex_iff image_image)
  show ?thesis
  proof
    assume L: ?L
    then obtain xs where "v = PList xs" "\<forall>x \<in> set xs. \<exists>s. x = PStr s"
      by (cases v) (simp_all add: plan_capabilities_def res_simps list_ex_iff is_str_conv)
    then obtain cs where "v = strs cs" unfolding PStr_list by (auto simp: strs_def)
    with L of_strs show ?R by blast
  next
    assume ?R
    with of_strs show ?L by blast
  qed
qed

lemma plan_expected_at:
  assumes "fld v ''stage'' = PStr (stage_str st)" "fld v ''status'' = PStr (status_str s)"
    "fld v ''next_action'' = PStr (action_str a)"
  shows "plan_expected v = Inr ex \<longleftrightarrow> s \<in> set (ss_statuses (STAGE_SPEC st)) \<and> a = plan_action st s
     \<and> ex = \<lparr>pe_stage = st, pe_action = plan_action st s,
             pe_prerequisites = ss_prerequisites (STAGE_SPEC st),
             pe_postcondition = plan_postcondition st s, pe_approval = ss_approval (STAGE_SPEC st)\<rparr>"
proof -
  have known: "stage_str st \<in> set STAGES" "status_str s \<in> set STATUSES"
     "action_str a \<in> set NEXT_ACTIONS"
    by (auto simp: STAGES_iff STATUSES_iff NEXT_ACTIONS_iff)
  have member: "status_str s \<in> status_str ` A \<longleftrightarrow> s \<in> A" for A by auto
  show ?thesis
  proof (cases "st = Completed")
    case True
    show ?thesis unfolding True
      using assms known unfolding True plan_expected_def
      by (cases s; simp add: Let_def plan_tables plan_action_def
            plan_postcondition_def del: stage_str.simps; auto)
  next
    case False
    with assms known show ?thesis
      by (auto simp: plan_expected_def Let_def plan_tables plan_action_def
            plan_postcondition_def member split: if_splits)
  qed
qed

lemma plan_expected_returns [res_simps]:
  "plan_expected v = Inr ex \<longleftrightarrow> (\<exists>st s. s \<in> set (ss_statuses (STAGE_SPEC st))
     \<and> fld v ''stage'' = PStr (stage_str st) \<and> fld v ''status'' = PStr (status_str s)
     \<and> fld v ''next_action'' = PStr (action_str (plan_action st s))
     \<and> ex = \<lparr>pe_stage = st, pe_action = plan_action st s,
             pe_prerequisites = ss_prerequisites (STAGE_SPEC st),
             pe_postcondition = plan_postcondition st s, pe_approval = ss_approval (STAGE_SPEC st)\<rparr>)"
  (is "?L = ?R")
proof
  assume L: ?L
  then obtain st s a where eq: "fld v ''stage'' = PStr (stage_str st)"
      "fld v ''status'' = PStr (status_str s)" "fld v ''next_action'' = PStr (action_str a)"
    unfolding plan_expected_def andThen_returns if_raise_returns ex_Inr_bool not_not in_strs_True
    by (auto simp: STAGES_iff STATUSES_iff NEXT_ACTIONS_iff)
  with L plan_expected_at [OF eq] show ?R by blast
next
  assume ?R
  then show ?L using plan_expected_at by blast
qed

lemma digest_fields:
  "set (APPROVAL_BASE_FIELDS @ [''params_digest'']) = insert ''params_digest'' (set APPROVAL_BASE_FIELDS)"
  by auto

lemma approval_bound_key:
  assumes "set (keys_of v) = set APPROVAL_BASE_FIELDS"
  shows "\<not> has_key v ''params_digest''"
  using assms by (simp add: has_key_iff APPROVAL_BASE_FIELDS_def)

lemma references_ok_is_dict: "references_ok v \<Longrightarrow> is_dict v"
  by (auto simp: references_ok_def)

lemma references_ok_fld:
  assumes "references_ok v" "fld v k \<noteq> PNone"
  shows "is_dict (fld v k)" "\<exists>i. fld (fld v k) k = PStr i \<and> re_identity i"
proof -
  obtain r where r: "map_of (the_dict v) k = Some r" "fld v k = r"
    using assms(2) by (auto simp: fld_def split: option.splits)
  have "(k, r) \<in> set (the_dict v)" using r(1) by (rule map_of_SomeD)
  with assms(1) r(2) show "is_dict (fld v k)" "\<exists>i. fld (fld v k) k = PStr i \<and> re_identity i"
    by (auto simp: references_ok_def)
qed

lemma validate_approval_unfold:
  assumes "(case spec of Some r \<Rightarrow> Some r | None \<Rightarrow> ACTION_APPROVAL a) = Some (ra, rk)"
    and "is_dict (fld p ''references'')" and "rk \<in> set RESOURCE_KINDS"
    and "fld p ''plan_version'' = PInt n" "1 \<le> n" "fld p ''task_version'' = PInt m" "1 \<le> m"
  shows "validate_approval v p spec a = Inr u \<longleftrightarrow>
     is_dict v \<and> (set (keys_of v) = set APPROVAL_BASE_FIELDS
         \<or> set (keys_of v) = insert ''params_digest'' (set APPROVAL_BASE_FIELDS))
     \<and> (has_key v ''params_digest'' \<longrightarrow> str_matches re_digest (fld v ''params_digest''))
     \<and> fld v ''action'' = PStr ra \<and> fld v ''resource_kind'' = PStr rk
     \<and> str_matches re_identity (fld v ''resource_id'')
     \<and> fld v ''plan_version'' = PInt n \<and> fld v ''task_version'' = PInt m
     \<and> is_dict (fld (fld p ''references'') rk)
     \<and> py_eq (fld (fld (fld p ''references'') rk) rk) (fld v ''resource_id'')"
  unfolding validate_approval_def assms(1) option.case prod.case if_raise_returns andThen_returns
    ex_Inr_bool in_strs_True forEach_returns Let_def
  using assms
  by (auto simp: int_at_least_conv keys_are_iff digest_fields)

lemma validate_approval_returns:
  assumes refs: "references_ok (fld p ''references'')"
    and vers: "fld p ''plan_version'' = PInt n" "1 \<le> n" "fld p ''task_version'' = PInt m" "1 \<le> m"
  shows "validate_approval (fld p ''approval'') p (ss_approval (STAGE_SPEC st)) (plan_action st s) = Inr u
    \<longleftrightarrow> approval_ok p st"
proof (cases "ss_approval (STAGE_SPEC st)")
  case None
  then have "ACTION_APPROVAL (plan_action st s) = None"
    using spec_approval_of_action
    by (cases "ACTION_APPROVAL (ss_action (STAGE_SPEC st))") (auto simp: plan_action_def)
  with None show ?thesis by (simp add: validate_approval_def approval_ok_def res_simps)
next
  case (Some r)
  obtain ra rk where r: "r = (ra, rk)" by (cases r)
  have kind: "rk \<in> set RESOURCE_KINDS" using Some r spec_approval_kind by simp
  have refd: "is_dict (fld p ''references'')" using refs references_ok_is_dict by blast
  have bound: "approval_bound v p r \<longleftrightarrow>
     is_dict v \<and> (set (keys_of v) = set APPROVAL_BASE_FIELDS
         \<or> set (keys_of v) = insert ''params_digest'' (set APPROVAL_BASE_FIELDS))
     \<and> (has_key v ''params_digest'' \<longrightarrow> str_matches re_digest (fld v ''params_digest''))
     \<and> fld v ''action'' = PStr ra \<and> fld v ''resource_kind'' = PStr rk
     \<and> str_matches re_identity (fld v ''resource_id'')
     \<and> fld v ''plan_version'' = PInt n \<and> fld v ''task_version'' = PInt m
     \<and> is_dict (fld (fld p ''references'') rk)
     \<and> py_eq (fld (fld (fld p ''references'') rk) rk) (fld v ''resource_id'')" for v
  proof -
    have digest: "(set (keys_of v) = set APPROVAL_BASE_FIELDS
        \<or> (set (keys_of v) = insert ''params_digest'' (set APPROVAL_BASE_FIELDS)
           \<and> (\<exists>d. fld v ''params_digest'' = PStr d \<and> re_digest d)))
      \<longleftrightarrow> (set (keys_of v) = set APPROVAL_BASE_FIELDS
         \<or> set (keys_of v) = insert ''params_digest'' (set APPROVAL_BASE_FIELDS))
      \<and> (has_key v ''params_digest'' \<longrightarrow> str_matches re_digest (fld v ''params_digest''))"
      using approval_bound_key [of v] unfolding str_matches_conv has_key_iff by blast
    show ?thesis
    proof (cases "fld (fld p ''references'') rk = PNone")
      case True
      then show ?thesis by (simp add: approval_bound_def r fld_PNone)
    next
      case False
      then obtain i where i: "is_dict (fld (fld p ''references'') rk)"
          "fld (fld (fld p ''references'') rk) rk = PStr i" "re_identity i"
        using references_ok_fld [OF refs, of rk] by blast
      show ?thesis
        unfolding approval_bound_def r fst_conv snd_conv digest i(2) vers str_matches_conv
        using i by auto
    qed
  qed
  have req: "(case ss_approval (STAGE_SPEC st) of Some r \<Rightarrow> Some r
     | None \<Rightarrow> ACTION_APPROVAL (plan_action st s)) = Some (ra, rk)"
    using Some r by simp
  show ?thesis
    using validate_approval_unfold [OF req refd kind vers, of "fld p ''approval''"]
    by (simp only: approval_ok_def Some option.case bound)
qed

text \<open>A human gate has no write capability whatever the table says of its action.\<close>

lemma wait_stage_no_write:
  "st \<in> set APPROVAL_WAIT_STAGES \<Longrightarrow> s \<in> set (ss_statuses (STAGE_SPEC st))
     \<Longrightarrow> c \<in> set (ACTION_CAPABILITIES (plan_action st s)) \<Longrightarrow> \<not> write_capability c"
  by (auto simp: APPROVAL_WAIT_STAGES_def plan_action_def spec_of_def write_capability_def
      endswith_def startswith_def)

lemma validate_plan_iff: "validate_plan v = Inr p \<longleftrightarrow> p = v \<and> (\<exists>st s. plan_ok v st s)"
proof
  assume L: "validate_plan v = Inr p"
  from L obtain ex where ex: "plan_expected v = Inr ex" and h: "plan_header v = Inr ()"
      and it: "in_ints (fld v ''iteration'') ITERATIONS = Inr True"
      "pe_stage ex = Final_selection \<longrightarrow> py_eq (fld v ''iteration'') (PInt MAX_ROUNDS)"
      and refs: "validate_references (fld v ''references'') = Inr ()"
      and pre: "validate_prerequisites (fld v ''prerequisites'') = Inr ()"
      "\<exists>ps. py_sorted (fld v ''prerequisites'') = Inr ps
         \<and> py_eq (PList ps) (strs (pe_prerequisites ex))"
      and post: "py_eq (fld v ''expected_postcondition'') (PStr (pe_postcondition ex))"
      and app: "validate_approval (fld v ''approval'') v (pe_approval ex) (pe_action ex) = Inr ()"
      and rest: "is_str (fld v ''idempotency_key'')" "the_str (fld v ''idempotency_key'') \<noteq> []"
      "plan_capabilities (fld v ''allowed_capabilities'') ex = Inr ()"
      "fld v ''last_progress_identity'' = PNone \<or> str_matches re_digest (fld v ''last_progress_identity'')"
      "p = v"
    unfolding validate_plan_def andThen_returns if_raise_returns ex_Inr_bool by auto
  from ex obtain st s where st: "s \<in> set (ss_statuses (STAGE_SPEC st))"
      "fld v ''stage'' = PStr (stage_str st)" "fld v ''status'' = PStr (status_str s)"
      "fld v ''next_action'' = PStr (action_str (plan_action st s))"
      and exd: "ex = \<lparr>pe_stage = st, pe_action = plan_action st s,
             pe_prerequisites = ss_prerequisites (STAGE_SPEC st),
             pe_postcondition = plan_postcondition st s, pe_approval = ss_approval (STAGE_SPEC st)\<rparr>"
    unfolding plan_expected_returns by blast
  have "fld v ''prerequisites'' = strs (ss_prerequisites (STAGE_SPEC st))"
  proof -
    obtain ss where ss: "fld v ''prerequisites'' = strs ss"
      using pre(1) by (auto simp: res_simps)
    with pre(2) have "strs (sort ss) = strs (ss_prerequisites (STAGE_SPEC st))"
      by (simp add: exd strs_def py_list_eq_strs)
    then have sorted: "sort ss = ss_prerequisites (STAGE_SPEC st)"
      by (simp add: strs_inj)
    moreover have "length ss \<le> 1"
      using spec_prerequisites_short [of st] sorted by (metis length_sort)
    ultimately have "ss = ss_prerequisites (STAGE_SPEC st)"
      by (cases ss) (auto simp: le_Suc_eq)
    with ss show ?thesis by simp
  qed
  moreover have "approval_ok v st"
    using h app refs validate_approval_returns by (auto simp: plan_header_returns exd validate_references_returns)
  ultimately show "p = v \<and> (\<exists>st s. plan_ok v st s)"
    using h st it refs post rest unfolding plan_header_returns plan_ok_def exd
    by (auto simp: res_simps is_str_conv str_matches_conv plan_tables)
next
  assume R: "p = v \<and> (\<exists>st s. plan_ok v st s)"
  then obtain st s where ok: "plan_ok v st s" and p: "p = v" by blast
  have h: "plan_header v = Inr ()" using ok by (simp add: plan_header_returns plan_ok_def)
  have ex: "plan_expected v = Inr \<lparr>pe_stage = st, pe_action = plan_action st s,
      pe_prerequisites = ss_prerequisites (STAGE_SPEC st),
      pe_postcondition = plan_postcondition st s, pe_approval = ss_approval (STAGE_SPEC st)\<rparr>"
    using ok unfolding plan_ok_def plan_expected_returns by blast
  have it: "in_ints (fld v ''iteration'') ITERATIONS = Inr True"
    using ok by (auto simp: plan_ok_def res_simps plan_tables)
  have refs: "validate_references (fld v ''references'') = Inr ()"
    using ok by (auto simp: plan_ok_def res_simps)
  have pre: "validate_prerequisites (fld v ''prerequisites'') = Inr ()"
  proof -
    have "distinct (ss_prerequisites (STAGE_SPEC st))"
      using spec_prerequisites_short [of st] by (cases "ss_prerequisites (STAGE_SPEC st)") simp_all
    moreover have "fld v ''prerequisites'' = strs (ss_prerequisites (STAGE_SPEC st))"
      using ok by (simp add: plan_ok_def)
    ultimately show ?thesis
      using spec_prerequisites_closed validate_prerequisites_returns by blast
  qed
  have app: "validate_approval (fld v ''approval'') v (ss_approval (STAGE_SPEC st)) (plan_action st s) = Inr ()"
    using ok validate_approval_returns by (auto simp: plan_ok_def)
  have caps: "plan_capabilities (fld v ''allowed_capabilities'') \<lparr>pe_stage = st, pe_action = plan_action st s,
      pe_prerequisites = ss_prerequisites (STAGE_SPEC st),
      pe_postcondition = plan_postcondition st s, pe_approval = ss_approval (STAGE_SPEC st)\<rparr> = Inr ()"
    using ok wait_stage_no_write by (auto simp: plan_ok_def plan_capabilities_returns)
  show "validate_plan v = Inr p"
    using ok unfolding validate_plan_def h ex it refs pre app caps andThen_Inr plan_ok_def
    by (auto simp: app caps str_matches_conv strs_def [symmetric] plan_tables p)
qed

section \<open>What a successful step does\<close>

definition valid_plan :: "pyval \<Rightarrow> bool" where
  "valid_plan v \<longleftrightarrow> (\<exists>st s. plan_ok v st s)"

lemma plan_ok_fields:
  assumes "plan_ok v st s"
  shows "is_dict v" "set (keys_of v) = set PLAN_REQUIRED_FIELDS"
    "fld v ''stage'' = PStr (stage_str st)" "fld v ''status'' = PStr (status_str s)"
    "s \<in> set (ss_statuses (STAGE_SPEC st))"
    "fld v ''next_action'' = PStr (action_str (plan_action st s))"
    "approval_ok v st" "references_ok (fld v ''references'')"
    "\<exists>n. fld v ''plan_version'' = PInt n \<and> 1 \<le> n"
    "\<exists>n. fld v ''task_version'' = PInt n \<and> 1 \<le> n"
    "\<exists>n \<in> {1, 2, 3}. num_of (fld v ''iteration'') = Some (of_int n) \<and> (st = Final_selection \<longrightarrow> n = 3)"
    "\<exists>cs. fld v ''allowed_capabilities'' = strs cs \<and> set cs = set (ACTION_CAPABILITIES (plan_action st s))"
  using assms unfolding plan_ok_def by simp_all

lemma plan_ok_unique: "plan_ok v st s \<Longrightarrow> plan_ok v st' s' \<Longrightarrow> st' = st \<and> s' = s"
  by (metis plan_ok_fields(3,4) pyval.inject(4) stage_str_eq status_str_eq)

lemma advanced_plan_fld:
  "fld (advanced_plan cur a stg stt act pre post app) k =
    (if k = ''plan_version'' then PInt (the_int (fld cur ''plan_version'') + 1)
     else if k = ''stage'' then PStr stg
     else if k = ''iteration'' then aa_iteration a
     else if k = ''status'' then PStr stt
     else if k = ''next_action'' then PStr (action_str act)
     else if k = ''references'' then (if aa_references a \<noteq> PNone then aa_references a else fld cur ''references'')
     else if k = ''prerequisites'' then pre
     else if k = ''expected_postcondition'' then PStr post
     else if k = ''approval'' then app
     else if k = ''idempotency_key'' then aa_idempotency_key a
     else if k = ''allowed_capabilities'' then strs (sort (ACTION_CAPABILITIES act))
     else if k = ''last_progress_identity'' then aa_last_progress_identity a
     else fld cur k)"
  by (simp add: advanced_plan_def fld_dict_merge)

lemma advanced_plan_shape:
  assumes "set (keys_of cur) = set PLAN_REQUIRED_FIELDS"
  shows "set (keys_of (advanced_plan cur a stg stt act pre post app)) = set PLAN_REQUIRED_FIELDS"
    "is_dict (advanced_plan cur a stg stt act pre post app)"
  using assms by (auto simp: advanced_plan_def PLAN_REQUIRED_FIELDS_def)

lemma assert_transition_returns [res_simps]:
  "assert_transition c n = Inr u \<longleftrightarrow> (\<exists>a b. c = stage_str a \<and> n = stage_str b \<and> b \<in> set (TRANSITIONS a))"
  by (auto simp: assert_transition_def can_transition_def res_simps STAGES_iff split: option.splits)

text \<open>The round rules over the stages and the numbers the iterations denote.\<close>

definition round_rules_ok :: "stage \<Rightarrow> rat \<Rightarrow> stage \<Rightarrow> rat option \<Rightarrow> bool" where
  "round_rules_ok st i st' j \<longleftrightarrow>
     (st' = Iteration_comparison \<longrightarrow> j = Some i)
     \<and> (st = Iteration_comparison \<and> st' = Waiting_for_task_create_approval
          \<longrightarrow> j = Some (i + 1) \<and> i + 1 \<le> 3)
     \<and> (st' = Final_selection \<longrightarrow> j = Some 3)"

lemma py_eq_num: "num_of y = Some i \<Longrightarrow> py_eq x y \<longleftrightarrow> num_of x = Some i"
  by (cases x; cases y) (auto simp: scalar_eq_def split: option.splits)

lemma round_rules_returns:
  assumes "fld p ''stage'' = PStr (stage_str st)" "num_of (fld p ''iteration'') = Some i"
    "aa_next_stage a = stage_str st'"
  shows "advance_round_rules p a = Inr u \<longleftrightarrow> round_rules_ok st i st' (num_of (aa_iteration a))"
proof -
  have texts: "''iteration_comparison'' = stage_str Iteration_comparison"
    "''waiting_for_task_create_approval'' = stage_str Waiting_for_task_create_approval"
    "''final_selection'' = stage_str Final_selection" by simp_all
  show ?thesis
    unfolding advance_round_rules_def round_rules_ok_def Let_def texts assms(1,3) the_str.simps
      stage_str_eq py_eq_num [OF assms(2)] py_eq_PInt if_raise_returns MAX_ROUNDS_def
    by (auto simp: assms(2))
qed

text \<open>The outcome of a successful step, over the stages it connects.\<close>

definition advance_target :: "pyval \<Rightarrow> advance_args \<Rightarrow> stage \<Rightarrow> status \<Rightarrow> pyval" where
  "advance_target p a st s = advanced_plan p a (stage_str st) (status_str s) (plan_action st s)
     (strs (ss_prerequisites (STAGE_SPEC st))) (plan_postcondition st s)
     (if st = Completed then PNone else aa_approval a)"

lemma validate_plan_at:
  assumes "fld v ''stage'' = PStr (stage_str st)" "fld v ''status'' = PStr (status_str s)"
  shows "validate_plan v = Inr q \<longleftrightarrow> q = v \<and> plan_ok v st s"
  unfolding validate_plan_iff using assms plan_ok_fields(3,4)
  by (metis pyval.inject(4) stage_str_eq status_str_eq)

lemma advance_target_at:
  "fld (advance_target p a st s) ''stage'' = PStr (stage_str st)"
  "fld (advance_target p a st s) ''status'' = PStr (status_str s)"
  by (simp_all add: advance_target_def advanced_plan_fld)

lemma spec_status_texts: "x \<in> set (map status_str ss) \<longleftrightarrow> (\<exists>s. x = status_str s \<and> s \<in> set ss)"
  by auto

text \<open>The last part of \<open>advance\<close>, over its typed arguments.\<close>

lemma advance_to_Completed:
  "advance_to p a Completed = Inr q \<longleftrightarrow> (\<exists>s \<in> set (ss_statuses (STAGE_SPEC Completed)).
     aa_status a = status_str s \<and> q = advance_target p a Completed s \<and> plan_ok q Completed s)"
  (is "?L \<longleftrightarrow> ?R")
proof -
  have at: "advance_to p a Completed = validate_plan (advance_target p a Completed s)"
    if "aa_status a = status_str s" "s \<in> set (ss_statuses (STAGE_SPEC Completed))" for s
    using that by (auto simp: advance_to_def Let_def advance_target_def plan_tables
        plan_action_def plan_postcondition_def)
  have status: "?L \<Longrightarrow> \<exists>s \<in> set (ss_statuses (STAGE_SPEC Completed)). aa_status a = status_str s"
    unfolding advance_to_def Let_def if_raise_returns by auto
  show ?thesis
    using at status validate_plan_at [OF advance_target_at] by metis
qed

definition prerequisites_given :: "advance_args \<Rightarrow> stage \<Rightarrow> bool" where
  "prerequisites_given a st \<longleftrightarrow> (aa_prerequisites a \<noteq> PNone \<longrightarrow>
     py_sorted (aa_prerequisites a) = Inr (map PStr (ss_prerequisites (STAGE_SPEC st))))"

lemma advance_to_ordinary:
  assumes "st \<noteq> Completed"
  shows "advance_to p a st = Inr q \<longleftrightarrow> prerequisites_given a st
     \<and> aa_expected_postcondition a = ss_postcondition (STAGE_SPEC st)
     \<and> (\<exists>s \<in> set (ss_statuses (STAGE_SPEC st)).
          aa_status a = status_str s \<and> q = advance_target p a st s \<and> plan_ok q st s)"
  (is "?L \<longleftrightarrow> ?R")
proof -
  have at: "advance_target p a st s = advanced_plan p a (stage_str st) (status_str s)
      (ss_action (STAGE_SPEC st)) (PList (map PStr (ss_prerequisites (STAGE_SPEC st))))
      (ss_postcondition (STAGE_SPEC st)) (aa_approval a)" for s
    using assms by (simp add: advance_target_def plan_action_def plan_postcondition_def strs_def)
  have chosen: "py_eq (PList chosen) (strs (ss_prerequisites (STAGE_SPEC st)))
      \<longleftrightarrow> chosen = map PStr (ss_prerequisites (STAGE_SPEC st))" for chosen
    unfolding py_eq_strs sort_spec_prerequisites by (simp add: strs_def)
  have status: "?L \<Longrightarrow> \<exists>s \<in> set (ss_statuses (STAGE_SPEC st)). aa_status a = status_str s"
    unfolding advance_to_def Let_def if_raise_returns by auto
  have "?L \<longleftrightarrow> prerequisites_given a st \<and> aa_expected_postcondition a = ss_postcondition (STAGE_SPEC st)
     \<and> validate_plan (advance_target p a st s) = Inr q"
    if "aa_status a = status_str s" "s \<in> set (ss_statuses (STAGE_SPEC st))" for s
    unfolding advance_to_def Let_def at prerequisites_given_def
    using that assms
    by (auto simp: CANCEL_STAGE_def andThen_returns if_raise_returns chosen
        simp del: py_eq_strs)
  note that = this [unfolded validate_plan_at [OF advance_target_at]]
  from that status show ?thesis by (metis status_str_eq)
qed

lemma advance_returns_at:
  assumes p: "plan_ok p st s" and n: "aa_next_stage a = stage_str st'"
  shows "advance p a = Inr q \<longleftrightarrow>
    fld p ''plan_version'' = PInt (aa_expected_plan_version a)
    \<and> fld p ''task_version'' = PInt (aa_expected_task_version a)
    \<and> st' \<in> set (TRANSITIONS st)
    \<and> advance_round_rules p a = Inr ()
    \<and> (st' \<noteq> Completed \<longrightarrow> prerequisites_given a st'
         \<and> aa_expected_postcondition a = ss_postcondition (STAGE_SPEC st'))
    \<and> (\<exists>s' \<in> set (ss_statuses (STAGE_SPEC st')). aa_status a = status_str s'
        \<and> q = advance_target p a st' s' \<and> plan_ok q st' s')"
proof -
  have valid: "validate_plan p = Inr p" using p validate_plan_iff by blast
  have versions: "py_eq (fld p ''plan_version'') (PInt k) \<longleftrightarrow> fld p ''plan_version'' = PInt k"
    "py_eq (fld p ''task_version'') (PInt k) \<longleftrightarrow> fld p ''task_version'' = PInt k" for k
    using plan_ok_fields(9,10) [OF p] by auto
  have stage: "the_str (fld p ''stage'') = stage_str st" using plan_ok_fields(3) [OF p] by simp
  have edge: "assert_transition (stage_str st) (stage_str st') = Inr u \<longleftrightarrow> st' \<in> set (TRANSITIONS st)" for u
    unfolding assert_transition_returns by auto
  have "advance p a = Inr q \<longleftrightarrow> fld p ''plan_version'' = PInt (aa_expected_plan_version a)
    \<and> fld p ''task_version'' = PInt (aa_expected_task_version a)
    \<and> st' \<in> set (TRANSITIONS st)
    \<and> advance_round_rules p a = Inr () \<and> advance_to p a st' = Inr q"
    unfolding advance_def valid andThen_Inr stage n stage_of_stage_str option.sel
      andThen_returns if_raise_returns edge versions not_not by simp
  then show ?thesis
    using advance_to_Completed [of p a q] advance_to_ordinary [of st' p a q]
    by (cases "st' = Completed") metis+
qed

lemma advance_valid_source: "advance p a = Inr q \<Longrightarrow> \<exists>st s. plan_ok p st s"
  unfolding advance_def andThen_returns validate_plan_iff by blast

lemma advance_legal_target: "advance p a = Inr q \<Longrightarrow> \<exists>st. aa_next_stage a = stage_str st"
  unfolding advance_def andThen_returns if_raise_returns assert_transition_returns by blast

lemma advanceD:
  assumes "advance p a = Inr q"
  obtains st s st' s' where "plan_ok p st s" "aa_next_stage a = stage_str st'"
    "fld p ''plan_version'' = PInt (aa_expected_plan_version a)"
    "fld p ''task_version'' = PInt (aa_expected_task_version a)"
    "st' \<in> set (TRANSITIONS st)" "advance_round_rules p a = Inr ()"
    "s' \<in> set (ss_statuses (STAGE_SPEC st'))"
    "aa_status a = status_str s'" "q = advance_target p a st' s'" "plan_ok q st' s'"
proof -
  obtain st s st' where "plan_ok p st s" "aa_next_stage a = stage_str st'"
    using assms advance_valid_source advance_legal_target by blast
  then show ?thesis using assms that unfolding advance_returns_at [OF \<open>plan_ok p st s\<close> \<open>aa_next_stage a = stage_str st'\<close>] by blast
qed

end
