(* ===== verification/Contract_Specs.thy ===== *)
theory Contract_Specs
  imports Py_Prelude
begin

text \<open>
  The contracts that recur in the code, each as a locale with the lemmas a client may use:
  a validator that returns its argument, a machine whose operations may raise and keep an
  invariant, a machine that also bumps a version, a gate of upper bounds. The theories of
  the components interpret them on the definitions of the code.
\<close>

section \<open>Running a list of operations\<close>

fun runOps :: "('s \<Rightarrow> 'a \<Rightarrow> 's res) \<Rightarrow> 's \<Rightarrow> 'a list \<Rightarrow> 's res" where
  "runOps f s [] = Inr s"
| "runOps f s (a # as) = andThen (f s a) (\<lambda>t. runOps f t as)"

lemma runOps_append: "runOps f s (as @ bs) = andThen (runOps f s as) (\<lambda>t. runOps f t bs)"
proof (induction as arbitrary: s)
  case Nil
  then show ?case by simp
next
  case (Cons a as)
  then show ?case by (cases "f s a") auto
qed

section \<open>A validator that returns its argument\<close>

locale checker =
  fixes check :: "'a \<Rightarrow> 'a res"
    and ok :: "'a \<Rightarrow> bool"
  assumes check_iff: "check x = Inr y \<longleftrightarrow> y = x \<and> ok x"
begin

lemma accepted: "ok x \<Longrightarrow> check x = Inr x"
  by (simp add: check_iff)

lemma returned: "check x = Inr y \<Longrightarrow> ok y"
  by (simp add: check_iff)

lemma check_check: "andThen (check x) check = check x"
proof (cases "check x")
  case (Inr y)
  then have "y = x" using check_iff by blast
  with Inr show ?thesis by simp
qed simp

lemma rejected: "returns (check x) \<longleftrightarrow> ok x"
  by (auto simp: returns_iff check_iff)

end

section \<open>A validator that returns a normal form\<close>

locale normaliser =
  fixes norm :: "'a \<Rightarrow> 'a res"
    and ok :: "'a \<Rightarrow> bool"
    and normal :: "'a \<Rightarrow> 'a"
  assumes norm_iff: "norm x = Inr y \<longleftrightarrow> ok x \<and> y = normal x"
    and normal_ok: "ok x \<Longrightarrow> ok (normal x)"
    and normal_normal: "ok x \<Longrightarrow> normal (normal x) = normal x"
begin

lemma norm_again: "norm x = Inr y \<Longrightarrow> norm y = Inr y"
  using norm_iff normal_ok normal_normal by metis

lemma norm_norm: "andThen (norm x) norm = norm x"
proof (cases "norm x")
  case (Inr y)
  then show ?thesis using norm_again by simp
qed simp

lemma accepts_iff: "returns (norm x) \<longleftrightarrow> ok x"
  by (auto simp: returns_iff norm_iff)

end

text \<open>A validator is a normaliser that changes nothing.\<close>

sublocale checker \<subseteq> normaliser check ok "\<lambda>x. x"
  by unfold_locales (auto simp: check_iff)

section \<open>A carrier that is rebuilt from its own fields\<close>

text \<open>The validator reads the free fields of a carrier, rebuilds the carrier from them and
  accepts exactly what equals the rebuilt one, which it returns.\<close>

locale rebuilt_carrier =
  fixes check :: "'a \<Rightarrow> 'a res"
    and build :: "'a \<Rightarrow> 'a res"
    and same :: "'a \<Rightarrow> 'a \<Rightarrow> bool"
  assumes check_iff: "check x = Inr y \<longleftrightarrow> build x = Inr y \<and> same x y"
    and build_again: "build x = Inr y \<Longrightarrow> build y = Inr y"
    and same_refl: "build x = Inr y \<Longrightarrow> same y y"
begin

lemma built_accepted: "build x = Inr y \<Longrightarrow> check y = Inr y"
  using check_iff build_again same_refl by blast

lemma check_again: "check x = Inr y \<Longrightarrow> check y = Inr y"
  using check_iff built_accepted by blast

lemma only_built: "check x = Inr y \<Longrightarrow> build x' = build x \<Longrightarrow> check x' = Inr z \<Longrightarrow> z = y"
  using check_iff by simp

end

section \<open>A machine whose operations may raise\<close>

locale machine =
  fixes act :: "'s \<Rightarrow> 'a \<Rightarrow> 's res"
    and inv :: "'s \<Rightarrow> bool"
  assumes act_inv: "inv s \<Longrightarrow> act s a = Inr t \<Longrightarrow> inv t"
begin

lemma run_inv: "inv s \<Longrightarrow> runOps act s as = Inr t \<Longrightarrow> inv t"
  by (induction as arbitrary: s) (auto simp: res_simps dest: act_inv)

end

text \<open>Every successful operation adds one to the version, so a run is as long as the
  difference of the versions and a version never comes back.\<close>

locale versioned_machine = machine act inv
  for act :: "'s \<Rightarrow> 'a \<Rightarrow> 's res" and inv :: "'s \<Rightarrow> bool" +
  fixes version :: "'s \<Rightarrow> int"
  assumes act_version: "inv s \<Longrightarrow> act s a = Inr t \<Longrightarrow> version t = version s + 1"
begin

lemma run_version: "inv s \<Longrightarrow> runOps act s as = Inr t \<Longrightarrow> version t = version s + int (length as)"
proof (induction as arbitrary: s)
  case Nil
  then show ?case by simp
next
  case (Cons a as)
  then obtain u where u: "act s a = Inr u" "runOps act u as = Inr t"
    by (auto simp: res_simps)
  then have "version t = version u + int (length as)"
    using Cons act_inv by blast
  with u Cons.prems act_version show ?case by fastforce
qed

lemma run_no_return: "inv s \<Longrightarrow> runOps act s as = Inr t \<Longrightarrow> as \<noteq> [] \<Longrightarrow> t \<noteq> s"
  using run_version by fastforce

end

section \<open>A gate of upper bounds\<close>

text \<open>A request is admitted exactly when no dimension exceeds its limit; the gate names the
  first dimension, in its fixed order, that does.\<close>

locale upper_bounds_gate =
  fixes dims :: "'d list"
    and used limit :: "'q \<Rightarrow> 'd \<Rightarrow> int"
    and gate :: "'q \<Rightarrow> 'd option"
  assumes gate_first: "gate q = find (\<lambda>d. limit q d < used q d) dims"
begin

lemma admits_iff: "gate q = None \<longleftrightarrow> (\<forall>d \<in> set dims. used q d \<le> limit q d)"
  by (auto simp: gate_first find_None_iff not_less)

lemma admits_monotone:
  assumes "gate q = None" "\<And>d. d \<in> set dims \<Longrightarrow> used q' d \<le> used q d"
    "\<And>d. d \<in> set dims \<Longrightarrow> limit q d \<le> limit q' d"
  shows "gate q' = None"
  using assms unfolding admits_iff by (meson order.trans)

lemma names_first:
  assumes "gate q = Some d"
  shows "d \<in> set dims" "limit q d < used q d"
    "\<exists>i < length dims. dims ! i = d \<and> (\<forall>j < i. used q (dims ! j) \<le> limit q (dims ! j))"
  using assms unfolding gate_first find_Some_iff by (auto simp: not_less)

end

end
