(* ===== verification/Plan_Machine.thy ===== *)
theory Plan_Machine
  imports Research_Plan Contract_Specs
begin

text \<open>
  The plan as a state machine: the state a validated plan denotes, the step relation that
  \<open>advance\<close> implements, and the invariants of its runs. \<open>advance\<close> refines the relation in
  both directions: every successful call is a step, and every step of the machine is the
  result of some call.
\<close>

section \<open>States and steps\<close>

record plan_state =
  ps_task_id :: string
  ps_owner_principal :: string
  ps_workspace_id :: string
  ps_conversation_id :: string
  ps_task_version :: int
  ps_plan_version :: int
  ps_stage :: stage
  ps_iteration :: int
  ps_status :: status

definition status_of :: "string \<Rightarrow> status" where
  "status_of s = the (find (\<lambda>x. status_str x = s) [Active, Waiting, Blocked, Done, Cancelled])"

definition abs_plan :: "pyval \<Rightarrow> plan_state" where
  "abs_plan v = \<lparr>ps_task_id = the_str (fld v ''task_id''),
     ps_owner_principal = the_str (fld v ''owner_principal''),
     ps_workspace_id = the_str (fld v ''workspace_id''),
     ps_conversation_id = the_str (fld v ''conversation_id''),
     ps_task_version = the_int (fld v ''task_version''),
     ps_plan_version = the_int (fld v ''plan_version''),
     ps_stage = the (stage_of (the_str (fld v ''stage''))),
     ps_iteration = \<lfloor>the (num_of (fld v ''iteration''))\<rfloor>,
     ps_status = status_of (the_str (fld v ''status''))\<rparr>"

definition round_ok :: "stage \<Rightarrow> int \<Rightarrow> stage \<Rightarrow> int \<Rightarrow> bool" where
  "round_ok st i st' j \<longleftrightarrow> 1 \<le> j \<and> j \<le> 3
     \<and> (st' = Iteration_comparison \<longrightarrow> j = i)
     \<and> (st = Iteration_comparison \<and> st' = Waiting_for_task_create_approval \<longrightarrow> j = i + 1)
     \<and> (st' = Final_selection \<longrightarrow> j = 3)"

inductive plan_step :: "plan_state \<Rightarrow> plan_state \<Rightarrow> bool" where
  advance_plan: "st' \<in> set (TRANSITIONS (ps_stage p)) \<Longrightarrow> s' \<in> set (ss_statuses (STAGE_SPEC st'))
    \<Longrightarrow> round_ok (ps_stage p) (ps_iteration p) st' j
    \<Longrightarrow> plan_step p (p\<lparr>ps_plan_version := ps_plan_version p + 1, ps_stage := st',
          ps_iteration := j, ps_status := s'\<rparr>)"

inductive_simps plan_step_iff: "plan_step p q"

definition state_ok :: "plan_state \<Rightarrow> bool" where
  "state_ok p \<longleftrightarrow> 1 \<le> ps_plan_version p \<and> 1 \<le> ps_task_version p
     \<and> 1 \<le> ps_iteration p \<and> ps_iteration p \<le> 3
     \<and> (ps_stage p = Final_selection \<longrightarrow> ps_iteration p = 3)
     \<and> ps_status p \<in> set (ss_statuses (STAGE_SPEC (ps_stage p)))"

lemma status_of_status_str [simp]: "status_of (status_str s) = s"
  by (cases s) (simp_all add: status_of_def)

lemma plan_step_ok: "state_ok p \<Longrightarrow> plan_step p q \<Longrightarrow> state_ok q"
  by (auto simp: state_ok_def plan_step_iff round_ok_def)

lemma plan_steps_ok: "plan_step\<^sup>*\<^sup>* p q \<Longrightarrow> state_ok p \<Longrightarrow> state_ok q"
  by (induction rule: rtranclp_induct) (auto intro: plan_step_ok)

lemma abs_plan_at:
  assumes "plan_ok p st s"
  shows "ps_stage (abs_plan p) = st" "ps_status (abs_plan p) = s"
    "fld p ''plan_version'' = PInt (ps_plan_version (abs_plan p))"
    "fld p ''task_version'' = PInt (ps_task_version (abs_plan p))"
    "num_of (fld p ''iteration'') = Some (of_int (ps_iteration (abs_plan p)))"
    "state_ok (abs_plan p)"
proof -
  note f = plan_ok_fields [OF assms]
  obtain n m i where v: "fld p ''plan_version'' = PInt n" "1 \<le> n" "fld p ''task_version'' = PInt m" "1 \<le> m"
    "i \<in> {1, 2, 3}" "num_of (fld p ''iteration'') = Some (of_int i)" "st = Final_selection \<longrightarrow> i = 3"
    using f(9-11) by blast
  show s: "ps_stage (abs_plan p) = st" "ps_status (abs_plan p) = s"
    using f(3,4) by (simp_all add: abs_plan_def del: stage_str.simps status_str.simps)
  show w: "fld p ''plan_version'' = PInt (ps_plan_version (abs_plan p))"
    "fld p ''task_version'' = PInt (ps_task_version (abs_plan p))"
    "num_of (fld p ''iteration'') = Some (of_int (ps_iteration (abs_plan p)))"
    using v by (simp_all add: abs_plan_def)
  have "ps_plan_version (abs_plan p) = n" "ps_task_version (abs_plan p) = m" "ps_iteration (abs_plan p) = i"
    using v by (simp_all add: abs_plan_def)
  then show "state_ok (abs_plan p)"
    using v f(5) s by (auto simp: state_ok_def)
qed

section \<open>Every call is a step\<close>

lemma advance_target_fld:
  "fld (advance_target p a st s) ''task_id'' = fld p ''task_id''"
  "fld (advance_target p a st s) ''owner_principal'' = fld p ''owner_principal''"
  "fld (advance_target p a st s) ''workspace_id'' = fld p ''workspace_id''"
  "fld (advance_target p a st s) ''conversation_id'' = fld p ''conversation_id''"
  "fld (advance_target p a st s) ''task_version'' = fld p ''task_version''"
  "fld (advance_target p a st s) ''schema_version'' = fld p ''schema_version''"
  "fld (advance_target p a st s) ''plan_version'' = PInt (the_int (fld p ''plan_version'') + 1)"
  "fld (advance_target p a st s) ''iteration'' = aa_iteration a"
  by (simp_all add: advance_target_def advanced_plan_fld)

lemma abs_advance_target:
  assumes "num_of (aa_iteration a) = Some (of_int j)"
  shows "abs_plan (advance_target p a st s) = (abs_plan p)\<lparr>ps_plan_version := ps_plan_version (abs_plan p) + 1,
     ps_stage := st, ps_iteration := j, ps_status := s\<rparr>"
  using assms by (simp add: abs_plan_def advance_target_fld advance_target_at)

lemma round_rules_abs:
  assumes "plan_ok p st s" "aa_next_stage a = stage_str st'"
    "num_of (aa_iteration a) = Some (of_int j)" "1 \<le> j" "j \<le> 3"
  shows "advance_round_rules p a = Inr () \<longleftrightarrow> round_ok st (ps_iteration (abs_plan p)) st' j"
proof -
  have "rat_of_int j = of_int (ps_iteration (abs_plan p)) + 1 \<longleftrightarrow> j = ps_iteration (abs_plan p) + 1"
    by (metis of_int_1 of_int_add of_int_eq_iff)
  moreover have "rat_of_int (ps_iteration (abs_plan p)) + 1 \<le> 3 \<longleftrightarrow> ps_iteration (abs_plan p) + 1 \<le> 3"
    by (metis of_int_1 of_int_add of_int_le_iff of_int_numeral)
  moreover have "rat_of_int j = 3 \<longleftrightarrow> j = 3" by (metis of_int_eq_iff of_int_numeral)
  ultimately show ?thesis
    unfolding round_rules_returns [OF plan_ok_fields(3) [OF assms(1)] abs_plan_at(5) [OF assms(1)] assms(2)]
    using assms(3-5) by (auto simp: round_rules_ok_def round_ok_def)
qed

lemma advance_step: "advance p a = Inr q \<Longrightarrow> plan_step (abs_plan p) (abs_plan q)"
proof (erule advanceD)
  fix st s st' s'
  assume h: "plan_ok p st s" "aa_next_stage a = stage_str st'" "st' \<in> set (TRANSITIONS st)"
    "advance_round_rules p a = Inr ()" "s' \<in> set (ss_statuses (STAGE_SPEC st'))"
    "q = advance_target p a st' s'" "plan_ok q st' s'"
  obtain j where j: "num_of (aa_iteration a) = Some (of_int j)" "1 \<le> j" "j \<le> 3"
    using plan_ok_fields(11) [OF h(7)] h(6) by (auto simp: advance_target_fld)
  have "round_ok (ps_stage (abs_plan p)) (ps_iteration (abs_plan p)) st' j"
    using round_rules_abs [OF h(1,2) j] h(4) abs_plan_at(1) [OF h(1)] by simp
  then show "plan_step (abs_plan p) (abs_plan q)"
    unfolding h(6) abs_advance_target [OF j(1)]
    using h abs_plan_at(1) [OF h(1)] by (intro advance_plan) simp_all
qed

section \<open>Every step is a call\<close>

definition any_references :: pyval where
  "any_references = PDict (map (\<lambda>k. (k, PDict [(k, PStr ''x'')])) RESOURCE_KINDS)"

definition any_approval :: "plan_state \<Rightarrow> stage \<Rightarrow> pyval" where
  "any_approval p st = (case ss_approval (STAGE_SPEC st) of None \<Rightarrow> PNone
     | Some r \<Rightarrow> PDict [(''action'', PStr (fst r)), (''resource_kind'', PStr (snd r)),
         (''resource_id'', PStr ''x''), (''plan_version'', PInt (ps_plan_version p + 1)),
         (''task_version'', PInt (ps_task_version p))])"

definition step_args :: "plan_state \<Rightarrow> plan_state \<Rightarrow> advance_args" where
  "step_args p q = \<lparr>aa_expected_plan_version = ps_plan_version p,
     aa_expected_task_version = ps_task_version p, aa_next_stage = stage_str (ps_stage q),
     aa_iteration = PInt (ps_iteration q), aa_status = status_str (ps_status q),
     aa_expected_postcondition = ss_postcondition (STAGE_SPEC (ps_stage q)),
     aa_idempotency_key = PStr ''k'', aa_references = any_references, aa_prerequisites = PNone,
     aa_approval = any_approval p (ps_stage q), aa_last_progress_identity = PNone\<rparr>"

lemma re_identity_x: "re_identity ''x''"
  by (simp add: re_identity_def ident_char_def is_alnum_def is_lower_def code_def)

lemma any_references_ok: "references_ok any_references"
  using re_identity_x by (auto simp: references_ok_def any_references_def)

lemma any_references_fld:
  "k \<in> set RESOURCE_KINDS \<Longrightarrow> fld (fld any_references k) k = PStr ''x''"
  by (simp add: any_references_def fld_PDict_map)


lemma target_ok:
  assumes p: "plan_ok p st s" and q: "st' \<in> set (TRANSITIONS st)" "s' \<in> set (ss_statuses (STAGE_SPEC st'))"
    "round_ok st (ps_iteration (abs_plan p)) st' j"
    and t: "t = (abs_plan p)\<lparr>ps_plan_version := ps_plan_version (abs_plan p) + 1, ps_stage := st',
          ps_iteration := j, ps_status := s'\<rparr>"
    and a: "a = step_args (abs_plan p) t"
  shows "plan_ok (advance_target p a st' s') st' s'"
proof -
  have v: "1 \<le> ps_plan_version (abs_plan p)" using abs_plan_at(6) [OF p] by (simp add: state_ok_def)
  have refs: "fld (advance_target p a st' s') ''references'' = any_references"
    by (simp add: advance_target_def advanced_plan_fld a step_args_def any_references_def)
  have app: "fld (advance_target p a st' s') ''approval'' = any_approval (abs_plan p) st'"
    by (simp add: advance_target_def advanced_plan_fld a step_args_def t any_approval_def spec_of_def)
  have "approval_ok (advance_target p a st' s') st'"
  proof (cases "ss_approval (STAGE_SPEC st')")
    case None
    then show ?thesis by (simp add: approval_ok_def app any_approval_def)
  next
    case (Some r)
    then have "snd r \<in> set RESOURCE_KINDS" using spec_approval_kind by (cases r) auto
    with Some show ?thesis
      using abs_plan_at(3,4) [OF p]
      by (auto simp: approval_ok_def app any_approval_def approval_bound_def advance_target_fld refs
          any_references_fld APPROVAL_BASE_FIELDS_def re_identity_x)
  qed
  moreover have "\<exists>n \<in> {1, 2, 3}. j = n \<and> (st' = Final_selection \<longrightarrow> n = 3)"
    using q(3) by (auto simp: round_ok_def)
  ultimately show ?thesis
    using p q(2) v unfolding plan_ok_def refs
    by (simp add: advance_target_def advanced_plan_shape advanced_plan_fld any_references_ok
        a step_args_def t) (auto simp: any_references_def)
qed

lemma step_advance:
  assumes p: "valid_plan p" and step: "plan_step (abs_plan p) t"
  shows "\<exists>q. advance p (step_args (abs_plan p) t) = Inr q \<and> abs_plan q = t"
proof -
  obtain st s where ok: "plan_ok p st s" using p by (auto simp: valid_plan_def)
  from step obtain st' s' j where t: "t = (abs_plan p)\<lparr>ps_plan_version := ps_plan_version (abs_plan p) + 1,
      ps_stage := st', ps_iteration := j, ps_status := s'\<rparr>"
    and q: "st' \<in> set (TRANSITIONS st)" "s' \<in> set (ss_statuses (STAGE_SPEC st'))"
      "round_ok st (ps_iteration (abs_plan p)) st' j"
    by (auto simp: plan_step_iff abs_plan_at(1) [OF ok])
  let ?a = "step_args (abs_plan p) t"
  have next': "aa_next_stage ?a = stage_str st'" and it: "num_of (aa_iteration ?a) = Some (of_int j)"
    by (simp_all add: step_args_def t)
  have "advance_round_rules p ?a = Inr ()"
    using round_rules_abs [OF ok next' it] q(3) by (simp add: round_ok_def)
  then have "advance p ?a = Inr (advance_target p ?a st' s')"
    unfolding advance_returns_at [OF ok next'] using q target_ok [OF ok q t refl] abs_plan_at(3,4) [OF ok]
    by (simp add: step_args_def t prerequisites_given_def)
  moreover have "abs_plan (advance_target p ?a st' s') = t"
    unfolding abs_advance_target [OF it] by (rule t [symmetric])
  ultimately show ?thesis by blast
qed

section \<open>Runs\<close>

interpretation plan_checker: checker validate_plan valid_plan
  by unfold_locales (auto simp: validate_plan_iff valid_plan_def)

interpretation plans: versioned_machine advance valid_plan "\<lambda>p. ps_plan_version (abs_plan p)"
proof unfold_locales
  fix p a q
  assume "advance p a = Inr q"
  then show "valid_plan q" by (elim advanceD) (auto simp: valid_plan_def)
next
  fix p a q
  assume "advance p a = Inr q"
  then have "plan_step (abs_plan p) (abs_plan q)" by (rule advance_step)
  then show "ps_plan_version (abs_plan q) = ps_plan_version (abs_plan p) + 1"
    by (auto simp: plan_step_iff)
qed

lemma run_steps: "runOps advance p as = Inr q \<Longrightarrow> plan_step\<^sup>*\<^sup>* (abs_plan p) (abs_plan q)"
  by (induction as arbitrary: p)
    (auto simp: res_simps dest: advance_step intro: converse_rtranclp_into_rtranclp)

lemma run_ids:
  "plan_step\<^sup>*\<^sup>* s t \<Longrightarrow> ps_task_id t = ps_task_id s \<and> ps_owner_principal t = ps_owner_principal s
     \<and> ps_workspace_id t = ps_workspace_id s \<and> ps_conversation_id t = ps_conversation_id s
     \<and> ps_task_version t = ps_task_version s"
  by (induction rule: rtranclp_induct) (auto simp: plan_step_iff)

lemma Completed_edge: "Completed \<in> set (TRANSITIONS st)
    \<longleftrightarrow> st \<notin> {Completed, Final_selection, Needs_attention}"
  by (cases st) simp_all

lemma completing_step:
  assumes "state_ok p" "Completed \<in> set (TRANSITIONS (ps_stage p))"
  shows "\<exists>q. plan_step p q \<and> ps_stage q = Completed"
proof -
  have "round_ok (ps_stage p) (ps_iteration p) Completed (ps_iteration p)"
    using assms(1) by (simp add: round_ok_def state_ok_def)
  then have "plan_step p (p\<lparr>ps_plan_version := ps_plan_version p + 1, ps_stage := Completed,
      ps_iteration := ps_iteration p, ps_status := Cancelled\<rparr>)"
    using assms(2) by (intro advance_plan) (simp_all add: spec_of_def)
  then show ?thesis by fastforce
qed

lemma step_to:
  assumes "state_ok p" "st \<in> set (TRANSITIONS (ps_stage p))" "st \<in> {Strategy_draft, Needs_attention}"
  shows "\<exists>q. plan_step p q \<and> ps_stage q = st"
proof -
  obtain s where "s \<in> set (ss_statuses (STAGE_SPEC st))"
    using stage_has_status [of st] by (metis list.set_intros(1) neq_Nil_conv)
  moreover have "round_ok (ps_stage p) (ps_iteration p) st (ps_iteration p)"
    using assms(1,3) by (auto simp: round_ok_def state_ok_def)
  ultimately have "plan_step p (p\<lparr>ps_plan_version := ps_plan_version p + 1, ps_stage := st,
      ps_iteration := ps_iteration p, ps_status := s\<rparr>)"
    using assms(2) by (intro advance_plan)
  then show ?thesis by fastforce
qed

section \<open>Constructed plans\<close>

lemma default_references_ok:
  "references_ok (default_references ids)
     \<longleftrightarrow> re_identity (pi_task_id ids) \<and> re_identity (pi_conversation_id ids)"
  by (auto simp: references_ok_def default_references_def RESOURCE_KINDS_def)

lemma default_references_not_None: "default_references ids \<noteq> PNone"
  by (simp add: default_references_def)

text \<open>What the constructors ask of their arguments.\<close>

definition plan_args_ok :: "plan_ids \<Rightarrow> int \<Rightarrow> pyval \<Rightarrow> pyval \<Rightarrow> pyval \<Rightarrow> bool" where
  "plan_args_ok ids tv key refs progress \<longleftrightarrow>
     re_identity (pi_task_id ids) \<and> re_identity (pi_owner_principal ids)
     \<and> re_identity (pi_workspace_id ids) \<and> re_identity (pi_conversation_id ids) \<and> 1 \<le> tv
     \<and> (\<exists>k. key = PStr k \<and> k \<noteq> []) \<and> (refs = PNone \<or> references_ok refs)
     \<and> (progress = PNone \<or> (\<exists>d. progress = PStr d \<and> re_digest d))"

definition initial_state :: "plan_ids \<Rightarrow> int \<Rightarrow> stage \<Rightarrow> int \<Rightarrow> status \<Rightarrow> plan_state" where
  "initial_state ids tv st n s = \<lparr>ps_task_id = pi_task_id ids,
     ps_owner_principal = pi_owner_principal ids, ps_workspace_id = pi_workspace_id ids,
     ps_conversation_id = pi_conversation_id ids, ps_task_version = tv, ps_plan_version = 1,
     ps_stage = st, ps_iteration = n, ps_status = s\<rparr>"

lemma plan_value_fld:
  "fld (plan_value ids tv stg it stt act refs pre post app key progress) k =
    (if k = ''schema_version'' then PStr PLAN_SCHEMA_VERSION
     else if k = ''task_id'' then PStr (pi_task_id ids)
     else if k = ''plan_version'' then PInt 1
     else if k = ''task_version'' then PInt tv
     else if k = ''owner_principal'' then PStr (pi_owner_principal ids)
     else if k = ''workspace_id'' then PStr (pi_workspace_id ids)
     else if k = ''conversation_id'' then PStr (pi_conversation_id ids)
     else if k = ''stage'' then PStr stg
     else if k = ''iteration'' then it
     else if k = ''status'' then PStr stt
     else if k = ''next_action'' then PStr (action_str act)
     else if k = ''references'' then (if refs \<noteq> PNone then refs else default_references ids)
     else if k = ''prerequisites'' then strs pre
     else if k = ''expected_postcondition'' then PStr post
     else if k = ''approval'' then app
     else if k = ''idempotency_key'' then key
     else if k = ''allowed_capabilities'' then strs (sort (ACTION_CAPABILITIES act))
     else if k = ''last_progress_identity'' then progress
     else PNone)"
  by (simp add: plan_value_def)

lemma plan_value_shape:
  "is_dict (plan_value ids tv stg it stt act refs pre post app key progress)"
  "set (keys_of (plan_value ids tv stg it stt act refs pre post app key progress))
     = set PLAN_REQUIRED_FIELDS"
  by (simp_all add: plan_value_def PLAN_REQUIRED_FIELDS_def)

lemma plan_value_ok:
  assumes "\<not> (st = Completed \<and> s = Cancelled)" "s \<in> set (ss_statuses (STAGE_SPEC st))"
    and v: "v = plan_value ids tv (stage_str st) it (status_str s) (ss_action (STAGE_SPEC st)) refs
     (ss_prerequisites (STAGE_SPEC st)) (ss_postcondition (STAGE_SPEC st)) app key progress"
  shows "plan_ok v st s \<longleftrightarrow> plan_args_ok ids tv key refs progress
     \<and> (\<exists>n \<in> {1, 2, 3}. num_of it = Some (of_int n) \<and> (st = Final_selection \<longrightarrow> n = 3))
     \<and> approval_ok v st"
  unfolding v plan_ok_def plan_args_ok_def
  using assms(1,2) default_references_ok [of ids] default_references_not_None [of ids]
  by (auto simp: plan_value_fld plan_value_shape plan_action_def plan_postcondition_def)

lemma abs_plan_value:
  assumes "num_of it = Some (of_int n)"
  shows "abs_plan (plan_value ids tv (stage_str st) it (status_str s) act refs pre post app key progress)
    = initial_state ids tv st n s"
  using assms by (simp add: abs_plan_def initial_state_def plan_value_fld)

definition sample_ids :: plan_ids where
  "sample_ids = \<lparr>pi_task_id = ''task-1'', pi_owner_principal = ''owner'',
     pi_workspace_id = ''ws'', pi_conversation_id = ''conv''\<rparr>"

lemma sample_ids_match:
  "re_identity ''task-1''" "re_identity ''owner''" "re_identity ''ws''" "re_identity ''conv''"
  by (simp_all add: re_identity_def ident_char_def is_alnum_def is_lower_def is_digit_def
      is_upper_def code_def)

definition sample_plan :: pyval where
  "sample_plan = plan_value sample_ids 1 (stage_str Strategy_draft) (PInt 3) (status_str Active)
     (ss_action (STAGE_SPEC Strategy_draft)) PNone (ss_prerequisites (STAGE_SPEC Strategy_draft))
     (ss_postcondition (STAGE_SPEC Strategy_draft)) PNone (PStr ''key'') PNone"

lemma sample_args_ok: "plan_args_ok sample_ids 1 (PStr ''key'') PNone PNone"
  by (simp add: plan_args_ok_def sample_ids_def sample_ids_match)

lemma sample_plan_ok: "plan_ok sample_plan Strategy_draft Active"
  unfolding sample_plan_def
  by (subst plan_value_ok [OF _ _ refl])
    (auto simp: sample_args_ok approval_ok_def plan_value_fld spec_of_def)

lemma sample_valid: "valid_plan sample_plan"
  using sample_plan_ok by (auto simp: valid_plan_def)

lemma sample_state: "abs_plan sample_plan = initial_state sample_ids 1 Strategy_draft 3 Active"
  unfolding sample_plan_def by (rule abs_plan_value) simp

text \<open>A ready plan with its approval, and a completed one.\<close>

definition sample_approval :: pyval where
  "sample_approval = PDict [(''action'', PStr ''backtest_task_create''),
     (''resource_kind'', PStr ''strategy_version''), (''resource_id'', PStr ''x''),
     (''plan_version'', PInt 1), (''task_version'', PInt 1)]"

definition sample_ready :: pyval where
  "sample_ready = plan_value sample_ids 1 (stage_str Ready_to_create_backtest_task) (PInt 1)
     (status_str Active) (ss_action (STAGE_SPEC Ready_to_create_backtest_task)) any_references
     (ss_prerequisites (STAGE_SPEC Ready_to_create_backtest_task))
     (ss_postcondition (STAGE_SPEC Ready_to_create_backtest_task)) sample_approval (PStr ''key'') PNone"

definition sample_completed :: pyval where
  "sample_completed = plan_value sample_ids 1 (stage_str Completed) (PInt 3) (status_str Done)
     (ss_action (STAGE_SPEC Completed)) PNone (ss_prerequisites (STAGE_SPEC Completed))
     (ss_postcondition (STAGE_SPEC Completed)) PNone (PStr ''key'') PNone"

lemma sample_ready_ok: "plan_ok sample_ready Ready_to_create_backtest_task Active"
proof -
  have "plan_args_ok sample_ids 1 (PStr ''key'') any_references PNone"
    using sample_args_ok any_references_ok by (simp add: plan_args_ok_def)
  moreover have "any_references \<noteq> PNone" by (simp add: any_references_def)
  moreover have "fld (fld any_references ''strategy_version'') ''strategy_version'' = PStr ''x''"
    by (rule any_references_fld) (simp add: RESOURCE_KINDS_def)
  moreover note re_identity_x
  ultimately show ?thesis
    unfolding sample_ready_def
    by (subst plan_value_ok [OF _ _ refl])
      (simp_all add: approval_ok_def plan_value_fld spec_of_def approval_bound_def sample_approval_def
        APPROVAL_BASE_FIELDS_def)
qed

lemma sample_completed_ok: "plan_ok sample_completed Completed Done"
  unfolding sample_completed_def
  by (subst plan_value_ok [OF _ _ refl])
    (auto simp: sample_args_ok approval_ok_def plan_value_fld spec_of_def)

lemma new_plan_iff:
  "(\<exists>p. new_plan ids tv key refs it progress = Inr p \<and> valid_plan p
      \<and> abs_plan p = initial_state ids tv Strategy_draft n Active)
   \<longleftrightarrow> plan_args_ok ids tv key refs progress \<and> n \<in> {1, 2, 3} \<and> num_of it = Some (of_int n)"
proof -
  define v where "v = plan_value ids tv (stage_str Strategy_draft) it (status_str Active)
     (ss_action (STAGE_SPEC Strategy_draft)) refs (ss_prerequisites (STAGE_SPEC Strategy_draft))
     (ss_postcondition (STAGE_SPEC Strategy_draft)) PNone key progress"
  have new: "new_plan ids tv key refs it progress = validate_plan v"
    by (simp only: new_plan_def v_def Let_def sort_spec_prerequisites status_str.simps)
  have "fld v ''stage'' = PStr (stage_str Strategy_draft)" "fld v ''status'' = PStr (status_str Active)"
    by (simp_all add: v_def plan_value_fld)
  from validate_plan_at [OF this] have returned: "(\<exists>p. new_plan ids tv key refs it progress = Inr p
      \<and> valid_plan p \<and> abs_plan p = t) \<longleftrightarrow> plan_ok v Strategy_draft Active \<and> abs_plan v = t" for t
    unfolding new valid_plan_def by metis
  have ok: "plan_ok v Strategy_draft Active \<longleftrightarrow> plan_args_ok ids tv key refs progress
      \<and> (\<exists>n \<in> {1, 2, 3}. num_of it = Some (of_int n))"
    unfolding v_def
    by (subst plan_value_ok [OF _ _ refl]) (auto simp: approval_ok_def plan_value_fld spec_of_def)
  have abs: "abs_plan v = initial_state ids tv Strategy_draft m Active"
    if "num_of it = Some (of_int m)" for m
    using abs_plan_value [OF that] by (simp only: v_def)
  have same: "initial_state ids tv Strategy_draft m Active = initial_state ids tv Strategy_draft n Active
      \<longleftrightarrow> m = n" for m
    by (simp add: initial_state_def)
  show ?thesis
    unfolding returned ok using abs same by metis
qed

section \<open>Properties\<close>

text \<open>C2. The validator accepts exactly the valid plans of the declarative specification
  \<open>plan_ok\<close> and returns its argument unchanged.\<close>

theorem validate_plan_exact: "validate_plan v = Inr p \<longleftrightarrow> p = v \<and> (\<exists>st s. plan_ok v st s)"
  by (rule validate_plan_iff)

text \<open>C1. Refinement. On a valid plan, the results \<open>advance\<close> can return are exactly the steps
  of the plan machine: it never leaves the machine, and no step of the machine is unreachable
  through it.\<close>

theorem advance_refines_plan_step:
  assumes "valid_plan p"
  shows "(\<exists>a q. advance p a = Inr q \<and> abs_plan q = t) \<longleftrightarrow> plan_step (abs_plan p) t"
  using assms advance_step step_advance by metis

theorem advance_refines_plan_step_witness:
  "\<exists>a q. advance sample_plan a = Inr q
     \<and> abs_plan q = (abs_plan sample_plan)\<lparr>ps_plan_version := 2, ps_stage := Waiting_for_strategy_approval,
          ps_iteration := 1, ps_status := Waiting\<rparr>"
proof -
  have "plan_step (abs_plan sample_plan) ((abs_plan sample_plan)\<lparr>ps_plan_version :=
      ps_plan_version (abs_plan sample_plan) + 1, ps_stage := Waiting_for_strategy_approval,
      ps_iteration := 1, ps_status := Waiting\<rparr>)"
    by (rule advance_plan) (simp_all add: sample_state initial_state_def spec_of_def round_ok_def)
  then show ?thesis
    using advance_refines_plan_step [OF sample_valid] by (simp add: sample_state initial_state_def)
qed

text \<open>\<open>new_plan\<close> returns exactly for well-formed identities, a positive task version, a
  non-empty key, closed references and a round among 1 to 3; what it returns is a valid
  version-1 plan of the strategy draft with those identities and that round.\<close>

theorem new_plan_exact:
  "(\<exists>p. new_plan ids tv key refs it progress = Inr p \<and> valid_plan p
      \<and> abs_plan p = initial_state ids tv Strategy_draft n Active)
   \<longleftrightarrow> plan_args_ok ids tv key refs progress \<and> n \<in> {1, 2, 3} \<and> num_of it = Some (of_int n)"
  by (rule new_plan_iff)

text \<open>C3. No approval, no write: the capabilities of a valid plan contain a write tool
  (\<^verbatim>\<open>_create\<close>, \<^verbatim>\<open>_execute\<close> or \<^verbatim>\<open>_approve\<close>) only in the strategy draft, or in a ready stage whose
  approval names this very plan version, task version and referenced resource.\<close>

theorem write_capability_needs_bound_approval:
  assumes "valid_plan p" "fld p ''allowed_capabilities'' = strs cs" "c \<in> set cs" "write_capability c"
  shows "ps_stage (abs_plan p) = Strategy_draft
    \<or> (ps_stage (abs_plan p) \<in> set READY_STAGES
       \<and> (\<exists>r. STAGE_APPROVAL_REQUIREMENT (ps_stage (abs_plan p)) = Some r
            \<and> approval_bound (fld p ''approval'') p r))"
proof -
  obtain st s where ok: "plan_ok p st s" using assms(1) by (auto simp: valid_plan_def)
  have "c \<in> set (ACTION_CAPABILITIES (plan_action st s))" "s \<in> set (ss_statuses (STAGE_SPEC st))"
    using plan_ok_fields(5,12) [OF ok] assms(2,3) by auto
  then have "st = Strategy_draft \<or> st \<in> set READY_STAGES"
    using assms(4) by (cases st) (auto simp: plan_action_def READY_STAGES_def spec_of_def
        write_capability_def endswith_def startswith_def split: if_splits)
  moreover have "\<exists>r. ss_approval (STAGE_SPEC st) = Some r" if "st \<in> set READY_STAGES"
    using that by (auto simp: READY_STAGES_def spec_of_def)
  ultimately show ?thesis
    using abs_plan_at(1) [OF ok] plan_ok_fields(7) [OF ok]
    by (auto simp: approval_ok_def STAGE_APPROVAL_REQUIREMENT_def)
qed

theorem write_capability_needs_bound_approval_witness:
  "\<exists>r. STAGE_APPROVAL_REQUIREMENT Ready_to_create_backtest_task = Some r
     \<and> approval_bound (fld sample_ready ''approval'') sample_ready r"
proof -
  have "valid_plan sample_ready" using sample_ready_ok by (auto simp: valid_plan_def)
  moreover have "fld sample_ready ''allowed_capabilities''
      = strs (sort [''byq_research_get'', ''byq_backtest_task_create''])"
    by (simp add: sample_ready_def plan_value_fld spec_of_def)
  moreover have "write_capability ''byq_backtest_task_create''"
    by (simp add: write_capability_def endswith_def startswith_def)
  moreover have "ps_stage (abs_plan sample_ready) = Ready_to_create_backtest_task"
    using abs_plan_at(1) [OF sample_ready_ok] .
  ultimately show ?thesis
    using write_capability_needs_bound_approval [of sample_ready _ "''byq_backtest_task_create''"]
    by fastforce
qed

text \<open>C4. The value of an approval is checked against the revision the plan will have: an approval
  recorded for another plan version, task version, action or resource than the next plan's own reference, whether
  that reference is given with the call or inherited from the plan, never lets \<open>advance\<close> return, and neither does
  any approval for a stage that requires none. Completing the plan is excepted: it drops the approval.\<close>

theorem stale_approval_never_advances:
  assumes "valid_plan p" "aa_next_stage a = stage_str st" "st \<noteq> Completed"
    "case STAGE_APPROVAL_REQUIREMENT st of None \<Rightarrow> aa_approval a \<noteq> PNone
     | Some (act, kind) \<Rightarrow>
         fld (aa_approval a) ''plan_version'' \<noteq> PInt (ps_plan_version (abs_plan p) + 1)
         \<or> fld (aa_approval a) ''task_version'' \<noteq> PInt (ps_task_version (abs_plan p))
         \<or> fld (aa_approval a) ''resource_id''
             \<noteq> fld (fld (if aa_references a \<noteq> PNone then aa_references a else fld p ''references'') kind) kind
         \<or> fld (aa_approval a) ''action'' \<noteq> PStr act \<or> fld (aa_approval a) ''resource_kind'' \<noteq> PStr kind"
  shows "\<not> returns (advance p a)"
proof
  assume "returns (advance p a)"
  then obtain q where "advance p a = Inr q" by (auto simp: returns_iff)
  then obtain st0 s s' where h: "plan_ok p st0 s" "q = advance_target p a st s'" "plan_ok q st s'"
    by (elim advanceD) (auto simp: assms(2))
  have app: "fld q ''approval'' = aa_approval a"
    and refs: "fld q ''references'' = (if aa_references a \<noteq> PNone then aa_references a else fld p ''references'')"
    using assms(3) by (simp_all add: h(2) advance_target_def advanced_plan_fld)
  have "case STAGE_APPROVAL_REQUIREMENT st of None \<Rightarrow> aa_approval a = PNone | Some r \<Rightarrow> approval_bound (aa_approval a) q r"
    using plan_ok_fields(7) [OF h(3)] app
    by (auto simp: approval_ok_def STAGE_APPROVAL_REQUIREMENT_def split: option.splits)
  then show False
    using assms(4) refs abs_plan_at(3,4) [OF h(1)]
    by (auto simp: approval_bound_def h(2) advance_target_fld split: option.splits)
qed

definition stale_args :: advance_args where
  "stale_args = \<lparr>aa_expected_plan_version = 1, aa_expected_task_version = 1,
     aa_next_stage = stage_str Waiting_for_strategy_approval, aa_iteration = PInt 3,
     aa_status = ''waiting'', aa_expected_postcondition = ''strategy_approval_requested'',
     aa_idempotency_key = PStr ''k'', aa_references = PNone, aa_prerequisites = PNone,
     aa_approval = sample_approval, aa_last_progress_identity = PNone\<rparr>"

theorem stale_approval_never_advances_witness: "\<not> returns (advance sample_plan stale_args)"
  by (rule stale_approval_never_advances [OF sample_valid, where st = Waiting_for_strategy_approval])
    (simp_all add: stale_args_def STAGE_APPROVAL_REQUIREMENT_def spec_of_def sample_state
      initial_state_def sample_approval_def)

text \<open>C5. A run of \<open>advance\<close> calls from a valid plan ends in a valid plan of the same task, owner,
  workspace, conversation and task version; the plan version counts the calls.\<close>

theorem advance_run:
  assumes "valid_plan p" "runOps advance p as = Inr q"
  shows "valid_plan q \<and> ps_plan_version (abs_plan q) = ps_plan_version (abs_plan p) + int (length as)
    \<and> ps_task_id (abs_plan q) = ps_task_id (abs_plan p)
    \<and> ps_owner_principal (abs_plan q) = ps_owner_principal (abs_plan p)
    \<and> ps_workspace_id (abs_plan q) = ps_workspace_id (abs_plan p)
    \<and> ps_conversation_id (abs_plan q) = ps_conversation_id (abs_plan p)
    \<and> ps_task_version (abs_plan q) = ps_task_version (abs_plan p)"
  using plans.run_inv [OF assms] plans.run_version [OF assms] run_ids [OF run_steps [OF assms(2)]]
  by simp

theorem advance_run_witness:
  "\<exists>a q. runOps advance sample_plan [a] = Inr q \<and> valid_plan q \<and> ps_plan_version (abs_plan q) = 2"
proof -
  have "state_ok (abs_plan sample_plan)" using abs_plan_at(6) [OF sample_plan_ok] .
  then obtain t where "plan_step (abs_plan sample_plan) t"
    using completing_step by (fastforce simp: sample_state initial_state_def)
  then obtain a q where "advance sample_plan a = Inr q"
    using step_advance [OF sample_valid] by blast
  then have "runOps advance sample_plan [a] = Inr q" by simp
  with advance_run [OF sample_valid this] show ?thesis
    by (auto simp: sample_state initial_state_def)
qed

text \<open>C6. A completed or cancelled plan stays as it is: every further \<open>advance\<close> raises
  \<open>ValueError\<close>.\<close>

theorem completed_is_final:
  assumes "valid_plan p" "ps_stage (abs_plan p) = Completed"
  shows "raises_value_error (advance p a)"
proof -
  have v: "validate_plan p = Inr p" using assms(1) plan_checker.accepted by blast
  have st: "fld p ''stage'' = PStr (stage_str Completed)"
    using assms plan_ok_fields(3) abs_plan_at(1) by (metis valid_plan_def)
  have "raises_value_error (assert_transition (stage_str Completed) n)" for n
    by (simp add: assert_transition_def can_transition_def del: stage_str.simps)
  moreover have "raises_value_error (andThen m f)" if "raises_value_error m" for m :: "unit res" and f :: "unit \<Rightarrow> pyval res"
    using that by (cases m rule: raises_value_error.cases) simp_all
  ultimately show ?thesis
    unfolding advance_def v andThen_Inr st the_str.simps by simp
qed

theorem completed_is_final_witness: "raises_value_error (advance sample_completed stale_args)"
  using completed_is_final [of sample_completed] sample_completed_ok abs_plan_at(1) [OF sample_completed_ok]
  by (auto simp: valid_plan_def)

text \<open>Exactly three stages cannot be completed or cancelled directly: the completed plan itself,
  the final selection and a plan that needs attention. From every other stage there is a
  call of \<open>advance\<close> that ends the research.\<close>

theorem direct_completion:
  assumes "valid_plan p"
  shows "(\<exists>a q. advance p a = Inr q \<and> ps_stage (abs_plan q) = Completed)
    \<longleftrightarrow> ps_stage (abs_plan p) \<notin> {Completed, Final_selection, Needs_attention}"
proof -
  obtain st s where ok: "plan_ok p st s" using assms by (auto simp: valid_plan_def)
  have "(\<exists>t. plan_step (abs_plan p) t \<and> ps_stage t = Completed)
      \<longleftrightarrow> Completed \<in> set (TRANSITIONS (ps_stage (abs_plan p)))"
    using completing_step [OF abs_plan_at(6) [OF ok]] by (auto simp: plan_step_iff)
  moreover have "(\<exists>a q. advance p a = Inr q \<and> ps_stage (abs_plan q) = Completed)
      \<longleftrightarrow> (\<exists>t. plan_step (abs_plan p) t \<and> ps_stage t = Completed)"
    using step_advance [OF assms] advance_step by metis
  ultimately show ?thesis unfolding Completed_edge by simp
qed

theorem direct_completion_witness:
  "\<exists>a q. advance sample_plan a = Inr q \<and> ps_stage (abs_plan q) = Completed"
  using direct_completion [OF sample_valid] by (simp add: sample_state initial_state_def)

text \<open>C7. No plan is stuck: from every valid plan at most three calls of \<open>advance\<close> end the
  research, through \<^verbatim>\<open>needs_attention\<close> and \<^verbatim>\<open>strategy_draft\<close> where there is no direct edge.\<close>

theorem research_can_end:
  assumes "valid_plan p"
  shows "\<exists>as q. runOps advance p as = Inr q \<and> ps_stage (abs_plan q) = Completed \<and> length as \<le> 3"
proof -
  have valid: "state_ok (abs_plan r)" if "valid_plan r" for r
    using that abs_plan_at(6) by (auto simp: valid_plan_def)
  have end0: "\<exists>as q. runOps advance r as = Inr q \<and> ps_stage (abs_plan q) = Completed \<and> length as \<le> 1"
    if r: "valid_plan r" "ps_stage (abs_plan r) \<notin> {Final_selection, Needs_attention}" for r
  proof (cases "ps_stage (abs_plan r) = Completed")
    case True
    then show ?thesis by (intro exI [of _ "[]"]) simp
  next
    case False
    then obtain a q where "advance r a = Inr q" "ps_stage (abs_plan q) = Completed"
      using completing_step [OF valid [OF r(1)]] step_advance [OF r(1)] r(2)
        Completed_edge by blast
    then show ?thesis by (intro exI [of _ "[a]"]) simp
  qed
  have hop: "\<exists>a q. advance r a = Inr q \<and> valid_plan q \<and> ps_stage (abs_plan q) = st"
    if "valid_plan r" "st \<in> set (TRANSITIONS (ps_stage (abs_plan r)))"
      "st \<in> {Strategy_draft, Needs_attention}" for r st
    using step_to [OF valid [OF that(1)] that(2,3)] step_advance [OF that(1)] plans.act_inv [OF that(1)]
    by blast
  have end1: "\<exists>as q. runOps advance r as = Inr q \<and> ps_stage (abs_plan q) = Completed \<and> length as \<le> 2"
    if r: "valid_plan r" "ps_stage (abs_plan r) \<noteq> Final_selection" for r
  proof (cases "ps_stage (abs_plan r) = Needs_attention")
    case True
    then obtain a u where u: "advance r a = Inr u" "valid_plan u" "ps_stage (abs_plan u) = Strategy_draft"
      using hop [OF r(1), of Strategy_draft] by auto
    then obtain as q where "runOps advance u as = Inr q" "ps_stage (abs_plan q) = Completed" "length as \<le> 1"
      using end0 [OF u(2)] by auto
    with u(1) show ?thesis by (intro exI [of _ "a # as"]) simp
  next
    case False
    with r obtain as q where "runOps advance r as = Inr q" "ps_stage (abs_plan q) = Completed" "length as \<le> 1"
      using end0 by blast
    then show ?thesis by (intro exI [of _ as] exI [of _ q]) simp
  qed
  show ?thesis
  proof (cases "ps_stage (abs_plan p) = Final_selection")
    case True
    then obtain a u where u: "advance p a = Inr u" "valid_plan u" "ps_stage (abs_plan u) = Needs_attention"
      using hop [OF assms, of Needs_attention] by auto
    then obtain as q where "runOps advance u as = Inr q" "ps_stage (abs_plan q) = Completed" "length as \<le> 2"
      using end1 [OF u(2)] by auto
    with u(1) show ?thesis by (intro exI [of _ "a # as"]) simp
  next
    case False
    with assms obtain as q where "runOps advance p as = Inr q" "ps_stage (abs_plan q) = Completed" "length as \<le> 2"
      using end1 by blast
    then show ?thesis by (intro exI [of _ as] exI [of _ q]) simp
  qed
qed

theorem research_can_end_witness:
  "\<exists>as q. runOps advance sample_ready as = Inr q \<and> ps_stage (abs_plan q) = Completed \<and> length as \<le> 3"
  using research_can_end [of sample_ready] sample_ready_ok by (auto simp: valid_plan_def)

text \<open>The round is only checked on the edges into the comparison, into the next round's
  approval gate and into the final selection. In particular the final selection can be
  entered from the comparison of any round (the call names round 3), and other edges may
  set any round, also an earlier one.\<close>

theorem rounds_outside_the_checked_edges:
  assumes "valid_plan p"
  shows "(\<exists>a q. advance p a = Inr q \<and> ps_stage (abs_plan q) = st \<and> ps_iteration (abs_plan q) = j)
    \<longleftrightarrow> st \<in> set (TRANSITIONS (ps_stage (abs_plan p)))
      \<and> round_ok (ps_stage (abs_plan p)) (ps_iteration (abs_plan p)) st j"
proof -
  obtain s where s: "s \<in> set (ss_statuses (STAGE_SPEC st))"
    using stage_has_status [of st] by (metis list.set_intros(1) neq_Nil_conv)
  have "(\<exists>t. plan_step (abs_plan p) t \<and> ps_stage t = st \<and> ps_iteration t = j)
    \<longleftrightarrow> st \<in> set (TRANSITIONS (ps_stage (abs_plan p)))
      \<and> round_ok (ps_stage (abs_plan p)) (ps_iteration (abs_plan p)) st j" (is "?L \<longleftrightarrow> ?R")
  proof
    assume ?R
    then have "plan_step (abs_plan p) ((abs_plan p)\<lparr>ps_plan_version := ps_plan_version (abs_plan p) + 1,
        ps_stage := st, ps_iteration := j, ps_status := s\<rparr>)"
      using s by (intro advance_plan) simp_all
    then show ?L by fastforce
  qed (auto simp: plan_step_iff)
  moreover have "(\<exists>a q. advance p a = Inr q \<and> ps_stage (abs_plan q) = st \<and> ps_iteration (abs_plan q) = j)
      \<longleftrightarrow> (\<exists>t. plan_step (abs_plan p) t \<and> ps_stage t = st \<and> ps_iteration t = j)"
    using step_advance [OF assms] advance_step by metis
  ultimately show ?thesis by simp
qed

theorem rounds_outside_the_checked_edges_witness:
  "ps_iteration (abs_plan sample_plan) = 3 \<and> (\<exists>a q. advance sample_plan a = Inr q
     \<and> ps_stage (abs_plan q) = Waiting_for_strategy_approval \<and> ps_iteration (abs_plan q) = 1)"
  using rounds_outside_the_checked_edges [OF sample_valid]
  by (simp add: sample_state initial_state_def round_ok_def)

end
