(* ===== verification/Py_Json.thy ===== *)
theory Py_Json
  imports Py_Value
begin

text \<open>
  \<open>json.dumps\<close> with the compact separators \<^verbatim>\<open>(",", ":")\<close>, the only ones the code uses for
  what it hashes or measures, with its options \<open>sort_keys\<close> and \<open>ensure_ascii\<close>; and
  \<open>repr\<close> of a float, which it prints: the shortest decimal that reads back as the same
  double, in the notation Python chooses.
\<close>

section \<open>Doubles\<close>

function ilog2 :: "int \<Rightarrow> int" where
  "ilog2 n = (if n \<le> 1 then 0 else 1 + ilog2 (n div 2))"
  by pat_completeness auto
termination
  by (relation "measure nat") auto

declare ilog2.simps [simp del]

definition pow_int :: "rat \<Rightarrow> int \<Rightarrow> rat" where
  "pow_int b e = (if 0 \<le> e then b ^ nat e else 1 / b ^ nat (- e))"

definition round_half_even :: "rat \<Rightarrow> int" where
  "round_half_even q = (let f = \<lfloor>q\<rfloor>; r = q - of_int f in
     if r < 1 / 2 then f else if r > 1 / 2 then f + 1 else if even f then f else f + 1)"

text \<open>The double nearest to a positive rational, ties to even, with gradual underflow.\<close>

definition round_double :: "rat \<Rightarrow> rat" where
  "round_double q = (let (a, b) = quotient_of q;
     e0 = ilog2 a - ilog2 b;
     e = (if pow_int 2 e0 \<le> q then e0 else e0 - 1);
     p = max (e - 52) (- 1074)
     in of_int (round_half_even (q * pow_int 2 (- p))) * pow_int 2 p)"

fun ilog10 :: "nat \<Rightarrow> nat" where
  "ilog10 n = (if n \<le> 9 then 0 else Suc (ilog10 (n div 10)))"

declare ilog10.simps [simp del]

text \<open>\<open>dec_exp q\<close> is the exponent of the first decimal digit of \<open>q\<close>.\<close>

definition dec_exp :: "rat \<Rightarrow> int" where
  "dec_exp q = (if 1 \<le> q then int (ilog10 (nat \<lfloor>q\<rfloor>))
     else (let (a, b) = quotient_of q; k = - int (ilog10 (nat b div nat a)) in
       if pow_int 10 k \<le> q then k else k - 1))"

text \<open>The shortest digits: for \<open>n\<close> digits the two neighbours of \<open>q\<close>, the one that reads back
  as \<open>q\<close> and is closer. Seventeen digits always read back, so the search ends.\<close>

fun shortest_from :: "nat \<Rightarrow> nat \<Rightarrow> rat \<Rightarrow> int \<times> int" where
  "shortest_from fuel n q = (let s = dec_exp q + 1 - int n;
     lo = \<lfloor>q * pow_int 10 (- s)\<rfloor>;
     ok = (\<lambda>c. round_double (of_int c * pow_int 10 s) = q);
     nearer_hi = (of_int (lo + 1) * pow_int 10 s - q < q - of_int lo * pow_int 10 s) in
     if ok lo \<and> \<not> (ok (lo + 1) \<and> nearer_hi) then (lo, s)
     else if ok (lo + 1) then (lo + 1, s)
     else if fuel = 0 then (round_half_even (q * pow_int 10 (- s)), s)
     else shortest_from (fuel - 1) (Suc n) q)"

declare shortest_from.simps [simp del]

fun strip_zeros :: "int \<Rightarrow> int \<Rightarrow> int \<times> int" where
  "strip_zeros m s = (if m \<noteq> 0 \<and> m mod 10 = 0 then strip_zeros (m div 10) (s + 1) else (m, s))"

declare strip_zeros.simps [simp del]

definition float_repr_pos :: "rat \<Rightarrow> string" where
  "float_repr_pos q = (let (m0, s0) = shortest_from 16 1 q; (m, s) = strip_zeros m0 s0;
     ds = nat_digits (nat m); len = int (length ds); e = s + len - 1 in
     if - 4 \<le> e \<and> e < 16 then
       (if 0 \<le> s then ds @ replicate (nat s) CHR ''0'' @ ''.0''
        else if 0 \<le> e then take (nat (e + 1)) ds @ ''.'' @ drop (nat (e + 1)) ds
        else ''0.'' @ replicate (nat (- e - 1)) CHR ''0'' @ ds)
     else (let mant = (case ds of [] \<Rightarrow> [] | d # rest \<Rightarrow> d # (if rest = [] then [] else CHR ''.'' # rest));
             ex = nat_digits (nat \<bar>e\<bar>) in
       mant @ ''e'' @ (if e < 0 then ''-'' else ''+'')
         @ (if length ex < 2 then CHR ''0'' # ex else ex)))"

fun float_repr :: "pyfloat \<Rightarrow> string" where
  "float_repr FNaN = ''NaN''"
| "float_repr FInf = ''Infinity''"
| "float_repr FNegInf = ''-Infinity''"
| "float_repr (FFin q) = (if q = 0 then ''0.0''
     else if q < 0 then ''-'' @ float_repr_pos (- q) else float_repr_pos q)"

section \<open>Texts and values\<close>

definition hex_digit :: "nat \<Rightarrow> char" where
  "hex_digit n = (if n < 10 then char_of (48 + n) else char_of (87 + n))"

definition json_char :: "bool \<Rightarrow> char \<Rightarrow> string" where
  "json_char ascii c =
    (if c = CHR 0x22 then [CHR 0x5C, CHR 0x22]
     else if c = CHR 0x5C then [CHR 0x5C, CHR 0x5C]
     else if code c = 8 then [CHR 0x5C, CHR ''b'']
     else if code c = 9 then [CHR 0x5C, CHR ''t'']
     else if code c = 10 then [CHR 0x5C, CHR ''n'']
     else if code c = 12 then [CHR 0x5C, CHR ''f'']
     else if code c = 13 then [CHR 0x5C, CHR ''r'']
     else if code c < 32 \<or> (ascii \<and> code c > 126)
       then CHR 0x5C # ''u00'' @ [hex_digit (code c div 16), hex_digit (code c mod 16)]
     else [c])"

definition json_str :: "bool \<Rightarrow> string \<Rightarrow> string" where
  "json_str ascii s = CHR 0x22 # concat (map (json_char ascii) s) @ [CHR 0x22]"

fun json_dumps :: "bool \<Rightarrow> bool \<Rightarrow> pyval \<Rightarrow> string" where
  "json_dumps asc srt PNone = ''null''"
| "json_dumps asc srt (PBool b) = (if b then ''true'' else ''false'')"
| "json_dumps asc srt (PInt n) = int_str n"
| "json_dumps asc srt (PFloat x) = float_repr x"
| "json_dumps asc srt (PStr s) = json_str asc s"
| "json_dumps asc srt (PList xs) = ''['' @ join '','' (map (json_dumps asc srt) xs) @ '']''"
| "json_dumps asc srt (PDict d) = ''{'' @ join '','' (map (\<lambda>(k, t). json_str asc k @ '':'' @ t)
     ((if srt then sort_key fst else (\<lambda>x. x)) (map (\<lambda>(k, x). (k, json_dumps asc srt x)) d))) @ ''}''"

text \<open>The two calls that recur: \<open>json.dumps(v, sort_keys=True, separators=(",", ":")).encode()\<close>,
  and the same with \<open>ensure_ascii=False\<close>.\<close>

definition canonical_ascii :: "pyval \<Rightarrow> string" where
  "canonical_ascii v = utf8 (json_dumps True True v)"

definition canonical_utf8 :: "pyval \<Rightarrow> string" where
  "canonical_utf8 v = utf8 (json_dumps False True v)"

end
