(* ===== verification/Sha256.thy ===== *)
theory Sha256
  imports Py_Prelude "HOL-Library.Word"
begin

text \<open>
  \<open>hashlib.sha256(...).hexdigest()\<close> (FIPS 180-4), executable on 32-bit words. Everything the
  proofs use of it is that a digest has 64 lower-case hexadecimal digits.
\<close>

unbundle bit_operations_syntax

type_synonym u32 = "32 word"

definition sha_k :: "u32 list" where
  "sha_k = [1116352408, 1899447441, 3049323471, 3921009573, 961987163, 1508970993, 2453635748, 2870763221,
   3624381080, 310598401, 607225278, 1426881987, 1925078388, 2162078206, 2614888103, 3248222580,
   3835390401, 4022224774, 264347078, 604807628, 770255983, 1249150122, 1555081692, 1996064986,
   2554220882, 2821834349, 2952996808, 3210313671, 3336571891, 3584528711, 113926993, 338241895,
   666307205, 773529912, 1294757372, 1396182291, 1695183700, 1986661051, 2177026350, 2456956037,
   2730485921, 2820302411, 3259730800, 3345764771, 3516065817, 3600352804, 4094571909, 275423344,
   430227734, 506948616, 659060556, 883997877, 958139571, 1322822218, 1537002063, 1747873779,
   1955562222, 2024104815, 2227730452, 2361852424, 2428436474, 2756734187, 3204031479, 3329325298]"

definition sha_init :: "u32 list" where
  "sha_init = [1779033703, 3144134277, 1013904242, 2773480762, 1359893119, 2600822924, 528734635, 1541459225]"

text \<open>Padding: the bit 1, zeros, and the length in bits as 64 bits, to a multiple of 64 bytes.\<close>

definition be_bytes :: "nat \<Rightarrow> nat \<Rightarrow> nat list" where
  "be_bytes n x = map (\<lambda>i. x div 256 ^ (n - 1 - i) mod 256) [0..<n]"

definition sha_pad :: "nat list \<Rightarrow> nat list" where
  "sha_pad m = m @ [128] @ replicate ((119 - length m mod 64) mod 64) 0 @ be_bytes 8 (8 * length m)"

fun word_of_bytes :: "nat list \<Rightarrow> u32" where
  "word_of_bytes bs = of_nat (foldl (\<lambda>a b. a * 256 + b) 0 bs)"

fun chunks :: "nat \<Rightarrow> 'a list \<Rightarrow> 'a list list" where
  "chunks n xs = (if n = 0 \<or> xs = [] then [] else take n xs # chunks n (drop n xs))"

declare chunks.simps [simp del]

definition rotr :: "nat \<Rightarrow> u32 \<Rightarrow> u32" where
  "rotr n w = drop_bit n w OR push_bit (32 - n) w"

definition sched_next :: "u32 list \<Rightarrow> u32" where
  "sched_next rw = (let w15 = rw ! 14; w2 = rw ! 1;
     s0 = rotr 7 w15 XOR rotr 18 w15 XOR drop_bit 3 w15;
     s1 = rotr 17 w2 XOR rotr 19 w2 XOR drop_bit 10 w2 in
     rw ! 15 + s0 + rw ! 6 + s1)"

text \<open>The message schedule, built backwards: the newest word comes first.\<close>

fun schedule :: "nat \<Rightarrow> u32 list \<Rightarrow> u32 list" where
  "schedule 0 rw = rw"
| "schedule (Suc n) rw = schedule n (sched_next rw # rw)"

fun sha_round :: "u32 list \<Rightarrow> u32 \<times> u32 \<Rightarrow> u32 list" where
  "sha_round [a, b, c, d, e, f, g, h] (k, w) = (let
     s1 = rotr 6 e XOR rotr 11 e XOR rotr 25 e;
     ch = (e AND f) XOR (NOT e AND g);
     t1 = h + s1 + ch + k + w;
     s0 = rotr 2 a XOR rotr 13 a XOR rotr 22 a;
     maj = (a AND b) XOR (a AND c) XOR (b AND c);
     t2 = s0 + maj in
     [t1 + t2, a, b, c, d + t1, e, f, g])"
| "sha_round st _ = st"

definition sha_block :: "u32 list \<Rightarrow> nat list \<Rightarrow> u32 list" where
  "sha_block st bs = (let ws = rev (schedule 48 (rev (map word_of_bytes (chunks 4 bs)))) in
     map2 (+) st (foldl sha_round st (zip sha_k ws)))"

definition sha256_words :: "nat list \<Rightarrow> u32 list" where
  "sha256_words m = foldl sha_block sha_init (chunks 64 (sha_pad m))"

definition nibble :: "nat \<Rightarrow> char" where
  "nibble n = (if n mod 16 < 10 then char_of (48 + n mod 16) else char_of (87 + n mod 16))"

definition hex_word :: "u32 \<Rightarrow> string" where
  "hex_word w = map (\<lambda>i. nibble (unat (drop_bit (28 - 4 * i) w))) [0..<8]"

definition sha256_hex :: "string \<Rightarrow> string" where
  "sha256_hex s = concat (map hex_word (sha256_words (map of_char s)))"

section \<open>The shape of a digest\<close>

lemma code_char_of: "n < 256 \<Longrightarrow> code (char_of n) = n"
  by (simp add: code_def)

lemma is_hex_nibble: "is_hex (nibble n)"
  by (auto simp: nibble_def is_hex_def is_digit_def code_char_of)

lemma length_hex_word [simp]: "length (hex_word w) = 8"
  by (simp add: hex_word_def)

lemma hex_word_hex: "list_all is_hex (hex_word w)"
  by (simp add: hex_word_def list_all_iff is_hex_nibble)

lemma length_sha_round [simp]: "length (sha_round st kw) = length st"
  by (cases "(st, kw)" rule: sha_round.cases) (auto simp: Let_def)

lemma length_foldl_sha_round [simp]: "length (foldl sha_round st kws) = length st"
  by (induction kws arbitrary: st) auto

lemma length_sha_block [simp]: "length (sha_block st bs) = length st"
  by (simp add: sha_block_def Let_def)

lemma length_foldl_sha_block [simp]: "length (foldl sha_block st bss) = length st"
  by (induction bss arbitrary: st) auto

lemma length_sha256_words [simp]: "length (sha256_words m) = 8"
  by (simp add: sha256_words_def sha_init_def)

lemma sha256_hex_digest: "re_hex 64 (sha256_hex s)"
proof -
  have "length (concat (map hex_word ws)) = 8 * length ws" for ws
    by (induction ws) auto
  then have "length (sha256_hex s) = 64"
    by (simp add: sha256_hex_def)
  moreover have "list_all is_hex (sha256_hex s)"
    using hex_word_hex by (auto simp: sha256_hex_def list_all_iff)
  ultimately show ?thesis by (simp add: re_hex_def)
qed

end
