(* ===== verification/Plan_Store.thy ===== *)
theory Plan_Store
  imports Plan_Machine Py_Json Sha256
begin

text \<open>
  The durable plan ledger of \<^verbatim>\<open>services/backend/app/research_execution_plan.py\<close>: one current plan
  per research task, receipts for replayed commands, and the transactions that create, read
  and advance a plan. The database is the state: the tables the transactions only read
  (\<open>db_tables\<close>, by name), the plans by task id (the primary key) and the receipts by task id
  and idempotency key. A transaction that raises is rolled back, so an operation returns its
  value with the new state or an exception alone. The row locks make the transactions
  serial, which is how they are modelled. Time stamps are left out: nothing reads them.
\<close>

section \<open>The database\<close>

record plan_row =
  pr_owner_principal :: pyval
  pr_workspace_id :: pyval
  pr_conversation_id :: string
  pr_plan_version :: pyval
  pr_task_version :: pyval
  pr_stage :: pyval
  pr_iteration :: pyval
  pr_status :: pyval
  pr_next_action :: pyval
  pr_plan :: pyval
  pr_idempotency_key :: string
  pr_request_hash :: string

record plan_receipt =
  rc_request_hash :: string
  rc_plan_version :: pyval
  rc_result :: pyval

record plan_db =
  db_tables :: "string \<Rightarrow> pyval list"
  db_plans :: "string \<Rightarrow> plan_row option"
  db_receipts :: "string \<times> string \<Rightarrow> plan_receipt option"

text \<open>\<^verbatim>\<open>SELECT ... WHERE c1 = v1 AND ...\<close> and its first row. A \<^verbatim>\<open>NULL\<close> equals nothing.\<close>

definition row_matches :: "(string \<times> pyval) list \<Rightarrow> pyval \<Rightarrow> bool" where
  "row_matches clauses r \<longleftrightarrow> list_all (\<lambda>(c, x). x \<noteq> PNone \<and> py_eq (fld r c) x) clauses"

definition fetch_one :: "pyval list \<Rightarrow> (string \<times> pyval) list \<Rightarrow> pyval option" where
  "fetch_one rows clauses = find (row_matches clauses) rows"

text \<open>Per reference kind: table, key column, scope columns, required artifact kind.\<close>

definition REFERENCE_TABLES :: "(string \<times> string \<times> string \<times> string list \<times> string option) list" where
  "REFERENCE_TABLES =
    (let ow = [''owner_principal'', ''workspace_id''];
         owt = [''owner_principal'', ''workspace_id'', ''task_id''] in
    [(''research_task'', ''research_tasks'', ''task_id'', ow, None),
     (''conversation'', ''product_conversations'', ''conversation_id'', ow, None),
     (''strategy_version'', ''artifacts'', ''artifact_id'', owt, Some ''strategy_version''),
     (''strategy_approval'', ''artifacts'', ''artifact_id'', owt, Some ''strategy_approval''),
     (''signal_snapshot'', ''artifacts'', ''artifact_id'', owt, Some ''signal_snapshot''),
     (''backtest_result'', ''artifacts'', ''artifact_id'', owt, Some ''backtest_result''),
     (''ml_prediction'', ''artifacts'', ''artifact_id'', owt, Some ''ml_prediction_snapshot''),
     (''stock_pool_snapshot'', ''stock_pool_snapshots'', ''snapshot_id'', [''workspace_id''], None),
     (''signal_producer_job'', ''signal_producer_jobs'', ''job_id'', owt, None),
     (''backtest_job'', ''backtest_jobs'', ''job_id'', owt, None),
     (''paper_account'', ''paper_accounts'', ''account_id'', ow, None)])"

section \<open>Requests and projections\<close>

definition project_execution_plan :: "pyval \<Rightarrow> pyval res" where
  "project_execution_plan plan = andThen (validate_plan plan) (\<lambda>verified.
     Inr (PDict (map (\<lambda>f. (f, fld verified f))
       [''schema_version'', ''task_id'', ''plan_version'', ''task_version'', ''stage'', ''iteration'',
        ''status'', ''next_action'', ''expected_postcondition'', ''approval''])))"

definition check_key :: "pyval \<Rightarrow> unit res" where
  "check_key value = (if \<not> is_str value \<or> strip (the_str value) = [] \<or> 128 < length (the_str value)
     then Inl (ValueError ''research execution plan idempotency key is invalid'') else Inr ())"

definition CREATE_FIELDS :: "string list" where
  "CREATE_FIELDS = [''idempotency_key'', ''references'', ''iteration'', ''last_progress_identity'']"

definition create_request :: "pyval \<Rightarrow> pyval res" where
  "create_request payload =
    (if \<not> is_dict payload \<or> \<not> has_key payload ''idempotency_key'' \<or> \<not> keys_within payload CREATE_FIELDS
     then Inl (ValueError ''invalid research execution plan create request'')
     else andThen (check_key (fld payload ''idempotency_key'')) (\<lambda>_.
       Inr (PDict (dict_pick payload CREATE_FIELDS))))"

definition ADVANCE_REQUIRED :: "string list" where
  "ADVANCE_REQUIRED = [''expected_plan_version'', ''expected_task_version'', ''next_stage'',
     ''iteration'', ''status'', ''expected_postcondition'', ''idempotency_key'']"

definition advance_request :: "pyval \<Rightarrow> pyval res" where
  "advance_request payload =
    (if \<not> is_dict payload \<or> \<not> keys_include payload ADVANCE_REQUIRED
        \<or> \<not> keys_within payload (ADVANCE_REQUIRED @ [''references'', ''prerequisites'', ''approval'',
             ''last_progress_identity''])
     then Inl (ValueError ''invalid research execution plan advance request'')
     else andThen (forEach (\<lambda>field. if \<not> int_at_least 1 (fld payload field)
         then Inl (ValueError (''research execution plan '' @ field @ '' is invalid''))
         else Inr ()) [''expected_plan_version'', ''expected_task_version'', ''iteration'']) (\<lambda>_.
     andThen (forEach (\<lambda>field. if \<not> is_str (fld payload field) \<or> the_str (fld payload field) = []
         then Inl (ValueError (''research execution plan '' @ field @ '' is invalid''))
         else Inr ()) [''next_stage'', ''status'', ''expected_postcondition'']) (\<lambda>_.
     andThen (check_key (fld payload ''idempotency_key'')) (\<lambda>_.
       Inr (PDict (dict_pick payload ADVANCE_REQUIRED
         @ dict_pick payload [''references'', ''prerequisites'', ''approval'']
         @ [(''last_progress_identity'', fld payload ''last_progress_identity'')]))))))"

definition request_hash :: "pyval \<Rightarrow> pyval \<Rightarrow> string" where
  "request_hash task_id request =
     sha256_hex (canonical_ascii (PDict [(''task_id'', task_id), (''request'', request)]))"

section \<open>The task and its references\<close>

definition plan_task :: "plan_db \<Rightarrow> string \<Rightarrow> pyval \<Rightarrow> pyval res" where
  "plan_task db task_id context =
    (let owner = fld context ''owner_principal''; workspace = fld context ''workspace_id'' in
     if \<not> truthy owner \<or> \<not> truthy workspace
     then Inl (ValueError ''research execution plan requires its authenticated owner'')
     else case fetch_one (db_tables db ''research_tasks'')
         [(''task_id'', PStr task_id), (''owner_principal'', owner), (''workspace_id'', workspace)] of
       None \<Rightarrow> Inl (ResearchNotFound ''research task not found'')
     | Some task \<Rightarrow> Inr task)"

definition require_conversation :: "pyval \<Rightarrow> string res" where
  "require_conversation task = (let c = fld task ''conversation_id'' in
     if \<not> is_str c \<or> the_str c = []
     then Inl (ValueError ''research execution plan requires the bound conversation'')
     else Inr (the_str c))"

definition bind_reference :: "string \<Rightarrow> pyval \<Rightarrow> pyval \<Rightarrow> pyval res" where
  "bind_reference kind identity effective =
    (let bound = PDict [(kind, identity)]; supplied = fld effective kind in
     if supplied \<noteq> PNone \<and> \<not> py_eq supplied bound
     then Inl (ResearchNotFound ''research execution plan reference is not bound to this task'')
     else Inr (dict_set kind bound effective))"

definition resolve_reference :: "plan_db \<Rightarrow> pyval \<Rightarrow> string \<times> pyval \<Rightarrow> unit res" where
  "resolve_reference db task kr = (case kr of (kind, reference) \<Rightarrow>
     (case map_of REFERENCE_TABLES kind of
       None \<Rightarrow> Inl (ResearchNotFound ''research execution plan reference is not verifiable at creation'')
     | Some (table, key_column, scope_columns, required_kind) \<Rightarrow>
         (case fetch_one (db_tables db table)
             ((key_column, fld reference kind) # map (\<lambda>c. (c, fld task c)) scope_columns
              @ (case required_kind of None \<Rightarrow> [] | Some k \<Rightarrow> [(''kind'', PStr k)])) of
           None \<Rightarrow> Inl (ResearchNotFound ''research execution plan reference not found'')
         | Some _ \<Rightarrow> Inr ())))"

definition validate_create_references :: "plan_db \<Rightarrow> pyval \<Rightarrow> pyval \<Rightarrow> pyval res" where
  "validate_create_references db task references =
    andThen (dict_of references) (\<lambda>effective.
    andThen (bind_reference ''research_task'' (fld task ''task_id'') effective) (\<lambda>effective.
    andThen (bind_reference ''conversation'' (fld task ''conversation_id'') effective) (\<lambda>effective.
    andThen (validate_references effective) (\<lambda>_.
    andThen (forEach (resolve_reference db task) (the_dict effective)) (\<lambda>_.
    Inr effective)))))"

section \<open>The transactions\<close>

definition row_of_plan :: "pyval \<Rightarrow> string \<Rightarrow> pyval \<Rightarrow> string \<Rightarrow> string \<Rightarrow> plan_row" where
  "row_of_plan task conversation plan key h = \<lparr>pr_owner_principal = fld task ''owner_principal'',
     pr_workspace_id = fld task ''workspace_id'', pr_conversation_id = conversation,
     pr_plan_version = fld plan ''plan_version'', pr_task_version = fld plan ''task_version'',
     pr_stage = fld plan ''stage'', pr_iteration = fld plan ''iteration'',
     pr_status = fld plan ''status'', pr_next_action = fld plan ''next_action'',
     pr_plan = plan, pr_idempotency_key = key, pr_request_hash = h\<rparr>"

definition task_ids :: "pyval \<Rightarrow> string \<Rightarrow> plan_ids" where
  "task_ids task conversation = \<lparr>pi_task_id = the_str (fld task ''task_id''),
     pi_owner_principal = the_str (fld task ''owner_principal''),
     pi_workspace_id = the_str (fld task ''workspace_id''), pi_conversation_id = conversation\<rparr>"

definition create_execution_plan ::
    "plan_db \<Rightarrow> string \<Rightarrow> pyval \<Rightarrow> pyval \<Rightarrow> bool \<Rightarrow> bool \<Rightarrow> (pyval \<times> plan_db) res" where
  "create_execution_plan db task_id payload context require_active_grant bind_grant_references =
    andThen (create_request payload) (\<lambda>request.
    andThen (plan_task db task_id context) (\<lambda>task.
    if require_active_grant
    then Inl (InvalidTransition ''a continuation permission cannot authorize execution plan creation'')
    else if bind_grant_references
    then Inl (InvalidTransition ''execution plan references must be provided by the foreground caller'')
    else andThen (require_conversation task) (\<lambda>conversation.
    let tid = the_str (fld task ''task_id'');
        h = request_hash (fld task ''task_id'') request;
        key = the_str (fld request ''idempotency_key'') in
    case db_plans db tid of
      Some existing \<Rightarrow>
        (if pr_idempotency_key existing = key \<and> pr_request_hash existing = h
         then andThen (project_execution_plan (pr_plan existing)) (\<lambda>v. Inr (v, db))
         else Inl (IdempotencyConflict ''a current research execution plan already exists for this task''))
    | None \<Rightarrow>
        if fld task ''status'' \<in> set (map PStr [''completed'', ''failed'', ''cancelled''])
        then Inl (InvalidTransition ''a terminal research task cannot start an execution plan'')
        else andThen (validate_create_references db task
            (if truthy (fld request ''references'') then fld request ''references'' else PDict [])) (\<lambda>references.
        andThen (new_plan (task_ids task conversation) (the_int (fld task ''version''))
            (fld request ''idempotency_key'') references (fld_or request ''iteration'' (PInt 1))
            (fld request ''last_progress_identity'')) (\<lambda>plan.
        andThen (project_execution_plan plan) (\<lambda>v.
        Inr (v, db\<lparr>db_plans := (db_plans db)(tid \<mapsto> row_of_plan task conversation plan key h)\<rparr>)))))))"

definition get_execution_plan :: "plan_db \<Rightarrow> string \<Rightarrow> pyval \<Rightarrow> pyval res" where
  "get_execution_plan db task_id context =
    andThen (plan_task db task_id context) (\<lambda>task.
    case db_plans db (the_str (fld task ''task_id'')) of
      None \<Rightarrow> Inl (ResearchNotFound ''research execution plan not found'')
    | Some row \<Rightarrow> project_execution_plan (pr_plan row))"

text \<open>\<open>except ValueError as error: raise InvalidTransition(str(error))\<close>\<close>

fun as_invalid_transition :: "'a res \<Rightarrow> 'a res" where
  "as_invalid_transition (Inl (ValueError s)) = Inl (InvalidTransition s)"
| "as_invalid_transition m = m"

definition advance_args_of :: "pyval \<Rightarrow> advance_args" where
  "advance_args_of request =
    \<lparr>aa_expected_plan_version = the_int (fld request ''expected_plan_version''),
     aa_expected_task_version = the_int (fld request ''expected_task_version''),
     aa_next_stage = the_str (fld request ''next_stage''), aa_iteration = fld request ''iteration'',
     aa_status = the_str (fld request ''status''),
     aa_expected_postcondition = the_str (fld request ''expected_postcondition''),
     aa_idempotency_key = fld request ''idempotency_key'', aa_references = fld request ''references'',
     aa_prerequisites = fld request ''prerequisites'', aa_approval = fld request ''approval'',
     aa_last_progress_identity = fld request ''last_progress_identity''\<rparr>"

definition advanced_row :: "plan_row \<Rightarrow> pyval \<Rightarrow> string \<Rightarrow> string \<Rightarrow> plan_row" where
  "advanced_row row plan key h = row\<lparr>pr_plan_version := fld plan ''plan_version'',
     pr_task_version := fld plan ''task_version'', pr_stage := fld plan ''stage'',
     pr_iteration := fld plan ''iteration'', pr_status := fld plan ''status'',
     pr_next_action := fld plan ''next_action'', pr_plan := plan, pr_idempotency_key := key,
     pr_request_hash := h\<rparr>"

definition advance_execution_plan ::
    "plan_db \<Rightarrow> string \<Rightarrow> pyval \<Rightarrow> pyval \<Rightarrow> (pyval \<times> plan_db) res" where
  "advance_execution_plan db task_id payload context =
    andThen (advance_request payload) (\<lambda>request.
    andThen (plan_task db task_id context) (\<lambda>task.
    let tid = the_str (fld task ''task_id'');
        h = request_hash (fld task ''task_id'') request;
        key = the_str (fld request ''idempotency_key'') in
    case db_plans db tid of
      None \<Rightarrow> Inl (ResearchNotFound ''research execution plan not found'')
    | Some existing \<Rightarrow>
    (case db_receipts db (tid, key) of
      Some receipt \<Rightarrow>
        if rc_request_hash receipt \<noteq> h
        then Inl (IdempotencyConflict ''research execution plan idempotency key was reused'')
        else andThen (project_execution_plan (rc_result receipt)) (\<lambda>v. Inr (v, db))
    | None \<Rightarrow>
        if \<not> py_eq (pr_plan_version existing) (fld request ''expected_plan_version'')
        then Inl (InvalidTransition ''research execution plan version is stale'')
        else if \<not> py_eq (fld task ''version'') (fld request ''expected_task_version'')
        then Inl (InvalidTransition ''research execution task version is stale'')
        else andThen (as_invalid_transition (advance (pr_plan existing) (advance_args_of request))) (\<lambda>advanced.
        if \<not> py_eq (pr_plan_version existing) (fld request ''expected_plan_version'')
        then Inl (InvalidTransition ''research execution plan compare-and-swap failed'')
        else andThen (project_execution_plan advanced) (\<lambda>v.
        Inr (v, db\<lparr>db_plans := (db_plans db)(tid \<mapsto> advanced_row existing advanced key h),
                   db_receipts := (db_receipts db)((tid, key) \<mapsto>
                     \<lparr>rc_request_hash = h, rc_plan_version = fld advanced ''plan_version'',
                      rc_result = advanced\<rparr>)\<rparr>))))))"

section \<open>What the transactions do\<close>

definition row_ok :: "string \<Rightarrow> plan_row \<Rightarrow> bool" where
  "row_ok tid row \<longleftrightarrow> valid_plan (pr_plan row) \<and> fld (pr_plan row) ''task_id'' = PStr tid
     \<and> pr_plan_version row = fld (pr_plan row) ''plan_version''
     \<and> pr_task_version row = fld (pr_plan row) ''task_version''
     \<and> pr_stage row = fld (pr_plan row) ''stage'' \<and> pr_iteration row = fld (pr_plan row) ''iteration''
     \<and> pr_status row = fld (pr_plan row) ''status''
     \<and> pr_next_action row = fld (pr_plan row) ''next_action''"

definition receipt_ok :: "plan_db \<Rightarrow> string \<Rightarrow> plan_receipt \<Rightarrow> bool" where
  "receipt_ok db tid rc \<longleftrightarrow> valid_plan (rc_result rc) \<and> fld (rc_result rc) ''task_id'' = PStr tid
     \<and> (\<exists>row. db_plans db tid = Some row
          \<and> ps_plan_version (abs_plan (rc_result rc)) \<le> ps_plan_version (abs_plan (pr_plan row)))"

definition store_ok :: "plan_db \<Rightarrow> bool" where
  "store_ok db \<longleftrightarrow> (\<forall>tid row. db_plans db tid = Some row \<longrightarrow> row_ok tid row)
     \<and> (\<forall>tid key rc. db_receipts db (tid, key) = Some rc \<longrightarrow> receipt_ok db tid rc)"

lemma fetch_one_Some: "fetch_one rows cl = Some r \<Longrightarrow> r \<in> set rows \<and> row_matches cl r"
  unfolding fetch_one_def find_Some_iff by (auto simp: nth_mem)

lemma plan_taskD:
  assumes "plan_task db tid ctx = Inr task"
  shows "fld task ''task_id'' = PStr tid" "task \<in> set (db_tables db ''research_tasks'')"
    "py_eq (fld task ''owner_principal'') (fld ctx ''owner_principal'')"
    "py_eq (fld task ''workspace_id'') (fld ctx ''workspace_id'')"
  using assms
  by (auto simp: plan_task_def Let_def row_matches_def res_simps split: option.splits
      dest!: fetch_one_Some)

lemma validate_planD: "validate_plan v = Inr p \<Longrightarrow> p = v \<and> valid_plan v"
  by (simp add: validate_plan_iff valid_plan_def)

lemma new_planD:
  assumes "new_plan ids tv key refs it progress = Inr p"
  shows "valid_plan p" "fld p ''task_id'' = PStr (pi_task_id ids)"
    "fld p ''references'' = (if refs \<noteq> PNone then refs else default_references ids)"
  using assms unfolding new_plan_def Let_def
  by (auto dest!: validate_planD simp: plan_value_fld)

text \<open>A create that returns either replays the request that wrote the plan, or writes the
  first plan of the task.\<close>

lemma create_returns:
  assumes "create_execution_plan db tid payload ctx g b = Inr (v, db')"
  obtains (replay) request task row where "create_request payload = Inr request"
      "plan_task db tid ctx = Inr task" "db' = db" "db_plans db tid = Some row"
      "pr_idempotency_key row = the_str (fld request ''idempotency_key'')"
      "pr_request_hash row = request_hash (PStr tid) request"
      "project_execution_plan (pr_plan row) = Inr v"
    | (first) request task conv refs plan where "create_request payload = Inr request"
      "plan_task db tid ctx = Inr task" "db_plans db tid = None"
      "require_conversation task = Inr conv"
      "validate_create_references db task (if truthy (fld request ''references'')
          then fld request ''references'' else PDict []) = Inr refs"
      "new_plan (task_ids task conv) (the_int (fld task ''version'')) (fld request ''idempotency_key'')
         refs (fld_or request ''iteration'' (PInt 1)) (fld request ''last_progress_identity'') = Inr plan"
      "project_execution_plan plan = Inr v"
      "db' = db\<lparr>db_plans := (db_plans db)(tid \<mapsto> row_of_plan task conv plan
          (the_str (fld request ''idempotency_key'')) (request_hash (PStr tid) request))\<rparr>"
      "\<not> g" "\<not> b"
proof -
  from assms obtain request task conv where r: "create_request payload = Inr request"
      "plan_task db tid ctx = Inr task" "require_conversation task = Inr conv" "\<not> g" "\<not> b"
    unfolding create_execution_plan_def andThen_returns if_raise_returns by blast
  note t = plan_taskD(1) [OF r(2)]
  show ?thesis
  proof (cases "db_plans db tid")
    case None
    with assms r t obtain refs plan where
      "validate_create_references db task (if truthy (fld request ''references'')
          then fld request ''references'' else PDict []) = Inr refs"
      "new_plan (task_ids task conv) (the_int (fld task ''version'')) (fld request ''idempotency_key'')
         refs (fld_or request ''iteration'' (PInt 1)) (fld request ''last_progress_identity'') = Inr plan"
      "project_execution_plan plan = Inr v"
      "db' = db\<lparr>db_plans := (db_plans db)(tid \<mapsto> row_of_plan task conv plan
          (the_str (fld request ''idempotency_key'')) (request_hash (PStr tid) request))\<rparr>"
      by (auto simp: create_execution_plan_def res_simps Let_def)
    then show ?thesis using first r None by blast
  next
    case (Some row)
    with assms r t have "db' = db" "pr_idempotency_key row = the_str (fld request ''idempotency_key'')"
      "pr_request_hash row = request_hash (PStr tid) request"
      "project_execution_plan (pr_plan row) = Inr v"
      by (auto simp: create_execution_plan_def res_simps Let_def split: if_splits)
    then show ?thesis using replay r Some by blast
  qed
qed

text \<open>An advance that returns either replays a receipt, or writes the next version and its
  receipt.\<close>

lemma as_invalid_transition_returns [res_simps]: "as_invalid_transition m = Inr x \<longleftrightarrow> m = Inr x"
  by (cases m rule: as_invalid_transition.cases) auto

definition advanced_db :: "plan_db \<Rightarrow> string \<Rightarrow> plan_row \<Rightarrow> pyval \<Rightarrow> string \<Rightarrow> string \<Rightarrow> plan_db" where
  "advanced_db db tid row plan key h = db\<lparr>db_plans := (db_plans db)(tid \<mapsto> advanced_row row plan key h),
     db_receipts := (db_receipts db)((tid, key) \<mapsto> \<lparr>rc_request_hash = h,
       rc_plan_version = fld plan ''plan_version'', rc_result = plan\<rparr>)\<rparr>"

lemma advance_returns:
  assumes "advance_execution_plan db tid payload ctx = Inr (v, db')"
  obtains (replay) request task row rc where "advance_request payload = Inr request"
      "plan_task db tid ctx = Inr task" "db_plans db tid = Some row"
      "db_receipts db (tid, the_str (fld request ''idempotency_key'')) = Some rc"
      "rc_request_hash rc = request_hash (PStr tid) request"
      "project_execution_plan (rc_result rc) = Inr v" "db' = db"
    | (fresh) request task row plan where "advance_request payload = Inr request"
      "plan_task db tid ctx = Inr task" "db_plans db tid = Some row"
      "db_receipts db (tid, the_str (fld request ''idempotency_key'')) = None"
      "py_eq (pr_plan_version row) (fld request ''expected_plan_version'')"
      "py_eq (fld task ''version'') (fld request ''expected_task_version'')"
      "advance (pr_plan row) (advance_args_of request) = Inr plan"
      "project_execution_plan plan = Inr v"
      "db' = advanced_db db tid row plan (the_str (fld request ''idempotency_key''))
         (request_hash (PStr tid) request)"
proof -
  from assms obtain request task where r: "advance_request payload = Inr request"
      "plan_task db tid ctx = Inr task"
    unfolding advance_execution_plan_def andThen_returns by blast
  note t = plan_taskD(1) [OF r(2)]
  let ?key = "the_str (fld request ''idempotency_key'')"
  from assms r t obtain row where row: "db_plans db tid = Some row"
    by (cases "db_plans db tid") (auto simp: advance_execution_plan_def res_simps Let_def)
  show ?thesis
  proof (cases "db_receipts db (tid, ?key)")
    case None
    with assms r t row obtain plan where
      "py_eq (pr_plan_version row) (fld request ''expected_plan_version'')"
      "py_eq (fld task ''version'') (fld request ''expected_task_version'')"
      "advance (pr_plan row) (advance_args_of request) = Inr plan"
      "project_execution_plan plan = Inr v"
      "db' = advanced_db db tid row plan ?key (request_hash (PStr tid) request)"
      by (auto simp: advance_execution_plan_def advanced_db_def res_simps Let_def)
    then show ?thesis using fresh r row None by blast
  next
    case (Some rc)
    with assms r t row have "db' = db" "rc_request_hash rc = request_hash (PStr tid) request"
      "project_execution_plan (rc_result rc) = Inr v"
      by (auto simp: advance_execution_plan_def res_simps Let_def)
    then show ?thesis using replay r row Some by blast
  qed
qed

section \<open>The ledger as a machine\<close>

text \<open>What may happen to the database here: the two writing transactions of this module, and any change
  the rest of the system makes to the tables they read. A transaction that raises changes
  nothing. Other modules write the plans too (the decision on a research action, the judgment
  mixin, the continuation of a plan and the reset of a workspace); the judgment mixin has its own
  machine in \<open>Judgment_Calls\<close>.\<close>

datatype plan_op =
    CreatePlan string pyval pyval bool bool
  | AdvancePlan string pyval pyval
  | OtherTables "string \<Rightarrow> pyval list"

fun attempt :: "plan_db \<Rightarrow> plan_op \<Rightarrow> plan_db" where
  "attempt db (CreatePlan tid payload ctx g b) =
     (case create_execution_plan db tid payload ctx g b of Inl _ \<Rightarrow> db | Inr (_, db') \<Rightarrow> db')"
| "attempt db (AdvancePlan tid payload ctx) =
     (case advance_execution_plan db tid payload ctx of Inl _ \<Rightarrow> db | Inr (_, db') \<Rightarrow> db')"
| "attempt db (OtherTables tables) = db\<lparr>db_tables := tables\<rparr>"

lemma advance_keeps_task_id: "advance p a = Inr q \<Longrightarrow> fld q ''task_id'' = fld p ''task_id''"
  by (elim advanceD) (simp add: advance_target_fld)

lemma advance_newer: "valid_plan p \<Longrightarrow> advance p a = Inr q
    \<Longrightarrow> valid_plan q \<and> ps_plan_version (abs_plan p) < ps_plan_version (abs_plan q)"
  using plans.act_inv plans.act_version by fastforce

text \<open>What one operation can do to one task's plan and receipts.\<close>

lemma create_step:
  assumes "store_ok db" "create_execution_plan db tid payload ctx g b = Inr (v, db')"
  shows "db' = db \<or> (db_plans db tid = None \<and> (\<exists>row. row_ok tid row
     \<and> db' = db\<lparr>db_plans := (db_plans db)(tid \<mapsto> row)\<rparr>))"
  using assms(2)
proof (cases rule: create_returns)
  case (first request task conv refs plan)
  have "row_ok tid (row_of_plan task conv plan (the_str (fld request ''idempotency_key''))
      (request_hash (PStr tid) request))"
    using new_planD(1,2) [OF first(6)] plan_taskD(1) [OF first(2)]
    by (simp add: row_ok_def row_of_plan_def task_ids_def)
  with first show ?thesis by blast
qed simp

lemma advance_db_step:
  assumes "store_ok db" "advance_execution_plan db tid payload ctx = Inr (v, db')"
  shows "db' = db \<or> (\<exists>row plan key h. db_plans db tid = Some row \<and> db_receipts db (tid, key) = None
     \<and> row_ok tid (advanced_row row plan key h) \<and> valid_plan plan
     \<and> ps_plan_version (abs_plan (pr_plan row)) < ps_plan_version (abs_plan plan)
     \<and> db' = advanced_db db tid row plan key h)"
  using assms(2)
proof (cases rule: advance_returns)
  case (fresh request task row plan)
  have row: "row_ok tid row" using assms(1) fresh(3) by (simp add: store_ok_def)
  then have "valid_plan plan" "ps_plan_version (abs_plan (pr_plan row)) < ps_plan_version (abs_plan plan)"
    using advance_newer fresh(7) by (auto simp: row_ok_def)
  moreover have "row_ok tid (advanced_row row plan key h)" for key h
    using row calculation(1) advance_keeps_task_id [OF fresh(7)]
    by (simp add: row_ok_def advanced_row_def)
  ultimately show ?thesis using fresh by blast
qed simp

lemma attempt_cases:
  assumes "store_ok db"
  obtains (same) "attempt db op = db"
    | (tables) tables where "attempt db op = db\<lparr>db_tables := tables\<rparr>"
    | (first) tid row where "db_plans db tid = None" "row_ok tid row"
        "attempt db op = db\<lparr>db_plans := (db_plans db)(tid \<mapsto> row)\<rparr>"
    | (moved) tid row plan key h where "db_plans db tid = Some row" "db_receipts db (tid, key) = None"
        "row_ok tid (advanced_row row plan key h)" "valid_plan plan"
        "ps_plan_version (abs_plan (pr_plan row)) < ps_plan_version (abs_plan plan)"
        "attempt db op = advanced_db db tid row plan key h"
proof (cases op)
  case (CreatePlan tid payload ctx g b)
  then show ?thesis
    using create_step [OF assms, of tid payload ctx g b] first same
    by (cases "create_execution_plan db tid payload ctx g b") auto
next
  case (AdvancePlan tid payload ctx)
  then show ?thesis
    using advance_db_step [OF assms, of tid payload ctx] moved same
    by (cases "advance_execution_plan db tid payload ctx") auto
next
  case (OtherTables t)
  then show ?thesis using tables by simp
qed

lemma attempt_ok:
  assumes "store_ok db"
  shows "store_ok (attempt db op)"
  using assms
proof (cases rule: attempt_cases [of db op])
  case (first tid row)
  with assms show ?thesis by (fastforce simp: store_ok_def receipt_ok_def)
next
  case (moved tid row plan key h)
  with assms show ?thesis
    by (fastforce simp: store_ok_def receipt_ok_def advanced_db_def advanced_row_def row_ok_def)
qed (use assms in \<open>simp_all add: store_ok_def receipt_ok_def\<close>)

text \<open>A ledger that has moved on: no plan is lost or goes back, no receipt changes.\<close>

definition ledger_le :: "plan_db \<Rightarrow> plan_db \<Rightarrow> bool" where
  "ledger_le db db' \<longleftrightarrow>
     (\<forall>tid row. db_plans db tid = Some row \<longrightarrow> (\<exists>row'. db_plans db' tid = Some row'
        \<and> ps_plan_version (abs_plan (pr_plan row)) \<le> ps_plan_version (abs_plan (pr_plan row'))))
     \<and> (\<forall>k rc. db_receipts db k = Some rc \<longrightarrow> db_receipts db' k = Some rc)"

lemma ledger_le_refl: "ledger_le db db"
  by (simp add: ledger_le_def)

lemma ledger_le_trans: "ledger_le a b \<Longrightarrow> ledger_le b c \<Longrightarrow> ledger_le a c"
  unfolding ledger_le_def by (meson order.trans)

lemma attempt_le: "store_ok db \<Longrightarrow> ledger_le db (attempt db op)"
  by (erule attempt_cases [of db op])
    (auto simp: ledger_le_def advanced_db_def advanced_row_def)

interpretation ledger: machine "\<lambda>db op. Inr (attempt db op)" store_ok
  by unfold_locales (auto intro: attempt_ok)

definition run_ops :: "plan_db \<Rightarrow> plan_op list \<Rightarrow> plan_db" where
  "run_ops db ops = foldl attempt db ops"

lemma run_ops_machine: "runOps (\<lambda>db op. Inr (attempt db op)) db ops = Inr (run_ops db ops)"
  by (induction ops arbitrary: db) (simp_all add: run_ops_def)

lemma run_ops_ok: "store_ok db \<Longrightarrow> store_ok (run_ops db ops)"
  using ledger.run_inv run_ops_machine by blast

lemma run_ops_le: "store_ok db \<Longrightarrow> ledger_le db (run_ops db ops)"
proof (induction ops arbitrary: db)
  case Nil
  then show ?case by (simp add: run_ops_def ledger_le_refl)
next
  case (Cons op ops)
  then show ?case
    using ledger_le_trans attempt_le attempt_ok by (simp add: run_ops_def) metis
qed

definition empty_ledger :: "(string \<Rightarrow> pyval list) \<Rightarrow> plan_db" where
  "empty_ledger tables = \<lparr>db_tables = tables, db_plans = Map.empty, db_receipts = Map.empty\<rparr>"

lemma empty_ledger_ok: "store_ok (empty_ledger tables)"
  by (simp add: store_ok_def empty_ledger_def)

section \<open>Replay\<close>

lemma advance_replay:
  assumes adv: "advance_execution_plan db tid payload ctx = Inr (v, db')"
    and later: "ledger_le db' db''" and visible: "plan_task db'' tid ctx' = Inr task'"
  shows "advance_execution_plan db'' tid payload ctx' = Inr (v, db'')"
proof -
  obtain request rc where rc: "advance_request payload = Inr request"
      "db_receipts db' (tid, the_str (fld request ''idempotency_key'')) = Some rc"
      "rc_request_hash rc = request_hash (PStr tid) request"
      "project_execution_plan (rc_result rc) = Inr v" and "db_plans db' tid \<noteq> None"
    using adv
  proof (cases rule: advance_returns)
    case (fresh request task row plan)
    then show ?thesis by (intro that [of request]) (auto simp: advanced_db_def)
  qed (use that in auto)
  then obtain row where "db_plans db'' tid = Some row"
      "db_receipts db'' (tid, the_str (fld request ''idempotency_key'')) = Some rc"
    using later unfolding ledger_le_def by blast
  then show ?thesis
    using rc visible plan_taskD(1) [OF visible]
    by (simp add: advance_execution_plan_def Let_def)
qed


lemma create_replay:
  assumes "create_execution_plan db tid payload ctx g b = Inr (v, db')"
  shows "create_execution_plan db' tid payload ctx False False = Inr (v, db')"
proof -
  have conv: "\<exists>c. require_conversation task = Inr c" if "plan_task db tid ctx = Inr task" for task
    using assms that unfolding create_execution_plan_def andThen_returns if_raise_returns by auto
  have tables: "plan_task (db\<lparr>db_plans := p\<rparr>) tid ctx = plan_task db tid ctx" for p
    by (simp add: plan_task_def Let_def)
  show ?thesis
    using assms
  proof (cases rule: create_returns)
    case (replay request task row)
    then show ?thesis
      using conv [OF replay(2)] plan_taskD(1) [OF replay(2)]
      by (auto simp: create_execution_plan_def Let_def)
  next
    case (first request task c refs plan)
    then show ?thesis
      using plan_taskD(1) [OF first(2)]
      by (auto simp: create_execution_plan_def Let_def tables row_of_plan_def)
  qed
qed

lemma plan_task_advanced [simp]: "plan_task (advanced_db db t row plan key h) tid ctx = plan_task db tid ctx"
  by (simp add: plan_task_def advanced_db_def Let_def)

section \<open>References\<close>

definition reference_resolves :: "plan_db \<Rightarrow> string \<Rightarrow> string \<Rightarrow> string \<Rightarrow> string \<Rightarrow> bool" where
  "reference_resolves db owner workspace kind i \<longleftrightarrow>
     (\<exists>table col scope req. map_of REFERENCE_TABLES kind = Some (table, col, scope, req)
        \<and> (\<exists>r \<in> set (db_tables db table). fld r col = PStr i \<and> fld r ''workspace_id'' = PStr workspace
             \<and> (''owner_principal'' \<in> set scope \<longrightarrow> fld r ''owner_principal'' = PStr owner)))"

lemma reference_scope:
  "map_of REFERENCE_TABLES kind = Some (table, col, scope, req) \<Longrightarrow> ''workspace_id'' \<in> set scope"
  by (auto simp: REFERENCE_TABLES_def Let_def split: if_splits dest!: map_of_SomeD)

lemma resolve_referenceD:
  assumes "resolve_reference db task (kind, r) = Inr u"
    "fld task ''workspace_id'' = PStr w" "fld task ''owner_principal'' = PStr own" "fld r kind = PStr i"
  shows "reference_resolves db own w kind i"
proof -
  obtain table col scope req where t: "map_of REFERENCE_TABLES kind = Some (table, col, scope, req)"
    using assms(1) by (auto simp: resolve_reference_def split: option.splits prod.splits)
  with assms(1) obtain row where row: "fetch_one (db_tables db table)
       ((col, fld r kind) # map (\<lambda>c. (c, fld task c)) scope
        @ (case req of None \<Rightarrow> [] | Some k \<Rightarrow> [(''kind'', PStr k)])) = Some row"
    by (auto simp: resolve_reference_def split: option.splits)
  have scope: "c \<in> set scope \<Longrightarrow> py_eq (fld row c) (fld task c)" and "row \<in> set (db_tables db table)"
      "fld row col = PStr i" for c
    using fetch_one_Some [OF row] assms(4) by (auto simp: row_matches_def list_all_iff)
  then show ?thesis
    using t scope [OF reference_scope [OF t]] scope [of "''owner_principal''"] assms(2,3)
    by (auto simp: reference_resolves_def)
qed

lemma validate_create_referencesD:
  assumes "validate_create_references db task refs = Inr eff"
    "fld task ''workspace_id'' = PStr w" "fld task ''owner_principal'' = PStr own"
    "fld (fld eff kind) kind = PStr i"
  shows "reference_resolves db own w kind i"
proof -
  have each: "\<forall>kr \<in> set (the_dict eff). resolve_reference db task kr = Inr ()"
    using assms(1) by (auto simp: validate_create_references_def res_simps)
  have "fld eff kind \<noteq> PNone" using assms(4) by auto
  then have "(kind, fld eff kind) \<in> set (the_dict eff)"
    by (auto simp: fld_def split: option.splits dest: map_of_SomeD)
  with each resolve_referenceD assms show ?thesis by blast
qed

lemma validate_create_references_bound:
  assumes "validate_create_references db task refs = Inr eff"
  shows "eff \<noteq> PNone"
    "fld eff ''research_task'' = PDict [(''research_task'', fld task ''task_id'')]"
    "fld eff ''conversation'' = PDict [(''conversation'', fld task ''conversation_id'')]"
  using assms by (auto simp: validate_create_references_def bind_reference_def Let_def res_simps dict_set_def)
    (auto simp: fld_def update_conv')

section \<open>Properties\<close>

text \<open>A database with one task and its fresh plan, the requests the witnesses use.\<close>

definition sample_task :: pyval where
  "sample_task = PDict [(''task_id'', PStr ''task-1''), (''owner_principal'', PStr ''owner''),
     (''workspace_id'', PStr ''ws''), (''conversation_id'', PStr ''conv''),
     (''version'', PInt 1), (''status'', PStr ''draft'')]"

definition sample_conversation :: pyval where
  "sample_conversation = PDict [(''conversation_id'', PStr ''conv''),
     (''owner_principal'', PStr ''owner''), (''workspace_id'', PStr ''ws'')]"

definition sample_db :: plan_db where
  "sample_db = empty_ledger ((\<lambda>_. [])(''research_tasks'' := [sample_task],
     ''product_conversations'' := [sample_conversation]))"

definition sample_context :: pyval where
  "sample_context = PDict [(''owner_principal'', PStr ''owner''), (''workspace_id'', PStr ''ws'')]"

definition sample_create :: pyval where
  "sample_create = PDict [(''idempotency_key'', PStr ''create-1'')]"

definition sample_cancel :: "string \<Rightarrow> pyval" where
  "sample_cancel key = PDict [(''expected_plan_version'', PInt 1), (''expected_task_version'', PInt 1),
     (''next_stage'', PStr ''completed''), (''iteration'', PInt 1), (''status'', PStr ''cancelled''),
     (''expected_postcondition'', PStr ''research_cancelled''), (''idempotency_key'', PStr key)]"

lemma sample_plan_task: "db_tables db = db_tables sample_db
    \<Longrightarrow> plan_task db ''task-1'' sample_context = Inr sample_task"
  by (simp add: plan_task_def sample_context_def sample_db_def empty_ledger_def fetch_one_def
      row_matches_def sample_task_def Let_def)

lemma sample_create_request: "create_request sample_create = Inr sample_create"
  by (simp add: create_request_def sample_create_def CREATE_FIELDS_def keys_within_iff check_key_def
      dict_pick_def strip_def is_space_def code_def)

definition sample_references :: pyval where
  "sample_references = PDict [(''research_task'', PDict [(''research_task'', PStr ''task-1'')]),
     (''conversation'', PDict [(''conversation'', PStr ''conv'')])]"

lemma sample_references_resolve:
  "validate_create_references sample_db sample_task (PDict []) = Inr sample_references"
  by (simp add: validate_create_references_def bind_reference_def sample_task_def dict_set_def
      sample_references_def validate_references_def RESOURCE_KINDS_def keys_are_iff sample_ids_match
      str_matches_def resolve_reference_def REFERENCE_TABLES_def Let_def fetch_one_def row_matches_def
      sample_db_def empty_ledger_def sample_conversation_def)

lemma sample_fields [simp]:
  "fld sample_task ''task_id'' = PStr ''task-1''" "fld sample_task ''version'' = PInt 1"
  "fld sample_task ''status'' = PStr ''draft''" "fld sample_task ''conversation_id'' = PStr ''conv''"
  "fld sample_create ''idempotency_key'' = PStr ''create-1''" "fld sample_create ''references'' = PNone"
  "fld sample_create ''last_progress_identity'' = PNone" "fld_or sample_create ''iteration'' x = x"
  "db_plans sample_db = Map.empty" "db_receipts sample_db = Map.empty"
  "task_ids sample_task ''conv'' = sample_ids" "require_conversation sample_task = Inr ''conv''"
  by (simp_all add: sample_task_def sample_create_def sample_db_def empty_ledger_def fld_or_def
      task_ids_def sample_ids_def require_conversation_def)

lemma sample_created:
  obtains v db' row where
    "create_execution_plan sample_db ''task-1'' sample_create sample_context False False = Inr (v, db')"
    "db_plans db' ''task-1'' = Some row" "pr_idempotency_key row = ''create-1''"
    "db_tables db' = db_tables sample_db" "db_receipts db' = Map.empty"
    "abs_plan (pr_plan row) = initial_state sample_ids 1 Strategy_draft 1 Active"
proof -
  have args: "plan_args_ok sample_ids 1 (PStr ''create-1'') sample_references PNone"
    using sample_args_ok default_references_ok [of sample_ids]
    by (simp add: plan_args_ok_def sample_references_def default_references_def sample_ids_def)
  obtain plan where plan: "new_plan sample_ids 1 (PStr ''create-1'') sample_references (PInt 1) PNone = Inr plan"
      "valid_plan plan" "abs_plan plan = initial_state sample_ids 1 Strategy_draft 1 Active"
    using args new_plan_iff [of sample_ids 1 "PStr ''create-1''" sample_references "PInt 1" PNone 1]
    by auto
  then obtain v where "project_execution_plan plan = Inr v"
    using plan_checker.accepted by (simp add: project_execution_plan_def)
  with plan have "create_execution_plan sample_db ''task-1'' sample_create sample_context False False
      = Inr (v, sample_db\<lparr>db_plans := [''task-1'' \<mapsto> row_of_plan sample_task ''conv'' plan ''create-1''
          (request_hash (PStr ''task-1'') sample_create)]\<rparr>)"
    by (simp add: create_execution_plan_def sample_create_request sample_plan_task
        sample_references_resolve Let_def)
  then show ?thesis
    using that [of v _ "row_of_plan sample_task ''conv'' plan ''create-1''
          (request_hash (PStr ''task-1'') sample_create)"]
    by (simp add: row_of_plan_def plan)
qed

lemma sample_cancel_request:
  assumes "strip key \<noteq> []" "length key \<le> 128"
  shows "\<exists>r. advance_request (sample_cancel key) = Inr r \<and> fld r ''idempotency_key'' = PStr key
     \<and> fld r ''expected_plan_version'' = PInt 1 \<and> fld r ''expected_task_version'' = PInt 1
     \<and> advance_args_of r = \<lparr>aa_expected_plan_version = 1, aa_expected_task_version = 1,
         aa_next_stage = stage_str Completed, aa_iteration = PInt 1, aa_status = status_str Cancelled,
         aa_expected_postcondition = ''research_cancelled'', aa_idempotency_key = PStr key,
         aa_references = PNone, aa_prerequisites = PNone, aa_approval = PNone,
         aa_last_progress_identity = PNone\<rparr>"
  using assms
  by (simp add: advance_request_def sample_cancel_def ADVANCE_REQUIRED_def keys_include_iff keys_within_iff
      check_key_def dict_pick_def int_at_least_def advance_args_of_def)

lemma cancel_draft:
  assumes p: "valid_plan p" "abs_plan p = initial_state ids tv Strategy_draft n Active"
    and a: "a = \<lparr>aa_expected_plan_version = 1, aa_expected_task_version = tv,
         aa_next_stage = stage_str Completed, aa_iteration = PInt n, aa_status = status_str Cancelled,
         aa_expected_postcondition = ''research_cancelled'', aa_idempotency_key = PStr key,
         aa_references = PNone, aa_prerequisites = PNone, aa_approval = PNone,
         aa_last_progress_identity = PNone\<rparr>" and key: "key \<noteq> []"
  shows "\<exists>q. advance p a = Inr q"
proof -
  obtain st s where "plan_ok p st s" using p(1) by (auto simp: valid_plan_def)
  with p(2) have ok: "plan_ok p Strategy_draft Active"
    using abs_plan_at(1,2) by (metis initial_state_def plan_state.select_convs(7,9))
  have n: "1 \<le> n" "n \<le> 3" using abs_plan_at(6) [OF ok] p(2) by (simp_all add: state_ok_def initial_state_def)
  have next': "aa_next_stage a = stage_str Completed" by (simp add: a)
  have v: "fld p ''plan_version'' = PInt 1" "fld p ''task_version'' = PInt tv"
    using abs_plan_at(3,4) [OF ok] p(2) by (simp_all add: initial_state_def)
  have "advance_round_rules p a = Inr ()"
    using round_rules_abs [OF ok next', of n] n by (simp add: a round_ok_def)
  moreover have "plan_ok (advance_target p a Completed Cancelled) Completed Cancelled"
  proof -
    have "n = 1 \<or> n = 2 \<or> n = 3" using n by auto
    then show ?thesis
      using ok key v unfolding plan_ok_def
      by (elim disjE; simp add: advance_target_def advanced_plan_shape advanced_plan_fld a
          plan_action_def plan_postcondition_def spec_of_def approval_ok_def)
  qed
  ultimately show ?thesis
    unfolding advance_returns_at [OF ok next'] using v by (simp add: a spec_of_def)
qed

definition sample_db1 :: plan_db where
  "sample_db1 = attempt sample_db (CreatePlan ''task-1'' sample_create sample_context False False)"

definition sample_db2 :: plan_db where
  "sample_db2 = attempt sample_db1 (AdvancePlan ''task-1'' (sample_cancel ''cancel-1'') sample_context)"

lemma sample_db1_ok: "store_ok sample_db1"
  unfolding sample_db1_def by (rule attempt_ok) (simp add: sample_db_def empty_ledger_ok)

lemma sample_db1_created:
  obtains v row where
    "create_execution_plan sample_db ''task-1'' sample_create sample_context False False = Inr (v, sample_db1)"
    "db_plans sample_db1 ''task-1'' = Some row" "pr_idempotency_key row = ''create-1''"
    "db_tables sample_db1 = db_tables sample_db" "db_receipts sample_db1 = Map.empty"
    "abs_plan (pr_plan row) = initial_state sample_ids 1 Strategy_draft 1 Active"
    "pr_plan_version row = PInt 1"
proof -
  obtain v db' row where c:
    "create_execution_plan sample_db ''task-1'' sample_create sample_context False False = Inr (v, db')"
    "db_plans db' ''task-1'' = Some row" "pr_idempotency_key row = ''create-1''"
    "db_tables db' = db_tables sample_db" "db_receipts db' = Map.empty"
    "abs_plan (pr_plan row) = initial_state sample_ids 1 Strategy_draft 1 Active"
    by (rule sample_created)
  have db': "db' = sample_db1" by (simp add: sample_db1_def c(1))
  have row: "row_ok ''task-1'' row" using sample_db1_ok c(2) by (simp add: db' store_ok_def)
  then obtain st s where "plan_ok (pr_plan row) st s" by (auto simp: row_ok_def valid_plan_def)
  then have "pr_plan_version row = PInt 1"
    using row abs_plan_at(3) [of "pr_plan row" st s] c(6) by (simp add: row_ok_def initial_state_def)
  with c show ?thesis using that db' by blast
qed

lemma sample_advanced:
  obtains v row where
    "advance_execution_plan sample_db1 ''task-1'' (sample_cancel ''cancel-1'') sample_context = Inr (v, sample_db2)"
    "db_plans sample_db2 ''task-1'' = Some row" "pr_idempotency_key row = ''cancel-1''"
    "db_tables sample_db2 = db_tables sample_db"
    "db_receipts sample_db2 (''task-1'', ''create-1'') = None"
    "db_receipts sample_db2 (''task-1'', ''cancel-1'') \<noteq> None"
proof -
  obtain row where row: "db_plans sample_db1 ''task-1'' = Some row"
    "db_tables sample_db1 = db_tables sample_db" "db_receipts sample_db1 = Map.empty"
    "abs_plan (pr_plan row) = initial_state sample_ids 1 Strategy_draft 1 Active"
    "pr_plan_version row = PInt 1"
    using sample_db1_created by metis
  have "strip ''cancel-1'' \<noteq> []" by (simp add: strip_def is_space_def code_def)
  then obtain r where r: "advance_request (sample_cancel ''cancel-1'') = Inr r"
    "fld r ''idempotency_key'' = PStr ''cancel-1''"
    "fld r ''expected_plan_version'' = PInt 1" "fld r ''expected_task_version'' = PInt 1"
    "advance_args_of r = \<lparr>aa_expected_plan_version = 1, aa_expected_task_version = 1,
         aa_next_stage = stage_str Completed, aa_iteration = PInt 1, aa_status = status_str Cancelled,
         aa_expected_postcondition = ''research_cancelled'', aa_idempotency_key = PStr ''cancel-1'',
         aa_references = PNone, aa_prerequisites = PNone, aa_approval = PNone,
         aa_last_progress_identity = PNone\<rparr>"
    using sample_cancel_request [of "''cancel-1''"] by auto
  have valid: "valid_plan (pr_plan row)"
    using sample_db1_ok row(1) by (simp add: store_ok_def row_ok_def)
  then obtain plan where plan: "advance (pr_plan row) (advance_args_of r) = Inr plan"
    using cancel_draft [OF _ row(4) r(5)] by auto
  then have "valid_plan plan" using plans.act_inv valid by blast
  then obtain v where "project_execution_plan plan = Inr v"
    using plan_checker.accepted by (simp add: project_execution_plan_def)
  with row plan r have adv: "advance_execution_plan sample_db1 ''task-1'' (sample_cancel ''cancel-1'') sample_context
      = Inr (v, advanced_db sample_db1 ''task-1'' row plan ''cancel-1'' (request_hash (PStr ''task-1'') r))"
    by (simp add: advance_execution_plan_def Let_def sample_plan_task advanced_db_def)
  then have db2: "sample_db2 = advanced_db sample_db1 ''task-1'' row plan ''cancel-1'' (request_hash (PStr ''task-1'') r)"
    by (simp add: sample_db2_def)
  let ?row = "advanced_row row plan ''cancel-1'' (request_hash (PStr ''task-1'') r)"
  have "db_plans sample_db2 ''task-1'' = Some ?row" "pr_idempotency_key ?row = ''cancel-1''"
    "db_tables sample_db2 = db_tables sample_db"
    "db_receipts sample_db2 (''task-1'', ''create-1'') = None"
    "db_receipts sample_db2 (''task-1'', ''cancel-1'') \<noteq> None"
    by (simp_all add: db2 advanced_db_def advanced_row_def row)
  then show ?thesis using that adv [folded db2] by blast
qed

text \<open>C8. The ledger keeps its invariant over every interleaving of create and advance
  transactions, failed ones included, with arbitrary changes of the other tables: each
  stored plan is valid, is of its own task and agrees with the columns of its row, each
  receipt holds a valid plan no newer than the current one; and whatever happens later, no
  plan is lost or goes back and no receipt changes.\<close>

theorem ledger_history:
  "store_ok (run_ops (empty_ledger tables) ops)
   \<and> ledger_le (run_ops (empty_ledger tables) ops) (run_ops (empty_ledger tables) (ops @ later))"
proof -
  have ok: "store_ok (run_ops (empty_ledger tables) ops)"
    using run_ops_ok empty_ledger_ok by blast
  moreover have "run_ops (empty_ledger tables) (ops @ later) = run_ops (run_ops (empty_ledger tables) ops) later"
    by (simp add: run_ops_def)
  ultimately show ?thesis using run_ops_le [OF ok] by simp
qed

text \<open>C9. At most once: an advance that has returned, repeated by any caller who still sees the
  task and after any later transactions, returns the same projection and writes nothing.\<close>

theorem advance_at_most_once:
  assumes "store_ok db" "advance_execution_plan db tid payload ctx = Inr (v, db')"
    "plan_task (run_ops db' ops) tid ctx' = Inr task"
  shows "advance_execution_plan (run_ops db' ops) tid payload ctx' = Inr (v, run_ops db' ops)"
proof -
  have "attempt db (AdvancePlan tid payload ctx) = db'" using assms(2) by simp
  then have "store_ok db'" using attempt_ok assms(1) by metis
  then show ?thesis using advance_replay [OF assms(2) run_ops_le assms(3)] by blast
qed

theorem advance_at_most_once_witness:
  "\<exists>v. advance_execution_plan sample_db2 ''task-1'' (sample_cancel ''cancel-1'') sample_context
     = Inr (v, sample_db2)"
proof -
  obtain v where "advance_execution_plan sample_db1 ''task-1'' (sample_cancel ''cancel-1'') sample_context
      = Inr (v, sample_db2)" and t: "db_tables sample_db2 = db_tables sample_db"
    by (rule sample_advanced)
  from advance_at_most_once [OF sample_db1_ok this(1), of "[]"] show ?thesis
    using sample_plan_task [OF t] by (auto simp: run_ops_def)
qed

text \<open>C10. One writer per version: once an advance has written, a different command that expects
  the version it found is refused as stale and changes nothing.\<close>

theorem stale_writer_loses:
  assumes "store_ok db" "advance_execution_plan db tid p1 ctx1 = Inr (v1, db1)" "db1 \<noteq> db"
    "db_plans db tid = Some row" "advance_request p2 = Inr r2"
    "fld r2 ''expected_plan_version'' = pr_plan_version row"
    "db_receipts db1 (tid, the_str (fld r2 ''idempotency_key'')) = None"
    "plan_task db1 tid ctx2 = Inr task"
  shows "advance_execution_plan db1 tid p2 ctx2
    = Inl (InvalidTransition ''research execution plan version is stale'')"
proof -
  obtain row' where row': "db_plans db1 tid = Some row'"
      "ps_plan_version (abs_plan (pr_plan row)) < ps_plan_version (abs_plan (pr_plan row'))"
    using advance_db_step [OF assms(1,2)] assms(3,4) by (auto simp: advanced_db_def advanced_row_def)
  have "attempt db (AdvancePlan tid p1 ctx1) = db1" using assms(2) by simp
  then have "store_ok db1" using attempt_ok assms(1) by metis
  then have "row_ok tid row'" "row_ok tid row"
    using assms(1,4) row'(1) by (simp_all add: store_ok_def)
  then have "pr_plan_version row' = PInt (ps_plan_version (abs_plan (pr_plan row')))"
      "pr_plan_version row = PInt (ps_plan_version (abs_plan (pr_plan row)))"
    using abs_plan_at(3) unfolding row_ok_def valid_plan_def by metis+
  with row' assms plan_taskD(1) [OF assms(8)] show ?thesis
    by (simp add: advance_execution_plan_def Let_def)
qed

theorem stale_writer_loses_witness:
  "advance_execution_plan sample_db2 ''task-1'' (sample_cancel ''create-1'') sample_context
     = Inl (InvalidTransition ''research execution plan version is stale'')"
proof -
  obtain v where a: "advance_execution_plan sample_db1 ''task-1'' (sample_cancel ''cancel-1'') sample_context
      = Inr (v, sample_db2)" and t: "db_tables sample_db2 = db_tables sample_db"
    and rc: "db_receipts sample_db2 (''task-1'', ''create-1'') = None"
      "db_receipts sample_db2 (''task-1'', ''cancel-1'') \<noteq> None"
    by (rule sample_advanced)
  obtain row where row: "db_plans sample_db1 ''task-1'' = Some row" "db_receipts sample_db1 = Map.empty"
      "pr_plan_version row = PInt 1"
    using sample_db1_created by metis
  have ne: "sample_db2 \<noteq> sample_db1" using rc(2) row(2) by auto
  have "strip ''create-1'' \<noteq> []" by (simp add: strip_def is_space_def code_def)
  then obtain r where r: "advance_request (sample_cancel ''create-1'') = Inr r"
    "fld r ''idempotency_key'' = PStr ''create-1''" "fld r ''expected_plan_version'' = PInt 1"
    using sample_cancel_request [of "''create-1''"] by auto
  show ?thesis
    by (rule stale_writer_loses [OF sample_db1_ok a ne row(1) r(1)])
      (use r row rc sample_plan_task [OF t] in auto)
qed

text \<open>A create that has returned, repeated with the same key and body, returns the same
  projection and writes nothing. Once an advance under another key has written, though, the
  same repetition is refused: the advance overwrites the key and the hash in the plan's row.\<close>

theorem create_replay_until_advance:
  assumes "create_execution_plan db tid payload ctx False False = Inr (v, db1)"
  shows "create_execution_plan db1 tid payload ctx False False = Inr (v, db1)
    \<and> (\<forall>p r w db2. store_ok db1 \<and> advance_execution_plan db1 tid p ctx = Inr (w, db2) \<and> db2 \<noteq> db1
         \<and> advance_request p = Inr r \<and> fld r ''idempotency_key'' \<noteq> fld payload ''idempotency_key''
         \<longrightarrow> create_execution_plan db2 tid payload ctx False False
             = Inl (IdempotencyConflict ''a current research execution plan already exists for this task''))"
proof (intro conjI allI impI)
  show "create_execution_plan db1 tid payload ctx False False = Inr (v, db1)"
    by (rule create_replay [OF assms])
  fix p r w db2
  assume h: "store_ok db1 \<and> advance_execution_plan db1 tid p ctx = Inr (w, db2) \<and> db2 \<noteq> db1
         \<and> advance_request p = Inr r \<and> fld r ''idempotency_key'' \<noteq> fld payload ''idempotency_key''"
  obtain request task conv where c: "create_request payload = Inr request"
      "plan_task db1 tid ctx = Inr task" "require_conversation task = Inr conv"
    using create_replay [OF assms] unfolding create_execution_plan_def andThen_returns if_raise_returns
    by blast
  have key: "fld request ''idempotency_key'' = fld payload ''idempotency_key''"
      "is_str (fld payload ''idempotency_key'')"
    using c(1) by (auto simp: create_request_def check_key_def res_simps CREATE_FIELDS_def dict_pick_def)
  have rkey: "is_str (fld r ''idempotency_key'')"
    using h by (auto simp: advance_request_def check_key_def res_simps ADVANCE_REQUIRED_def
        dict_pick_def keys_include_iff has_key_iff)
  from h obtain row plan where a: "plan_task db1 tid ctx = Inr task"
      "db2 = advanced_db db1 tid row plan (the_str (fld r ''idempotency_key'')) (request_hash (PStr tid) r)"
    using c(2) by (auto elim!: advance_returns)
  have "the_str (fld r ''idempotency_key'') \<noteq> the_str (fld payload ''idempotency_key'')"
    using h key(2) rkey by (auto simp: is_str_conv)
  then show "create_execution_plan db2 tid payload ctx False False
      = Inl (IdempotencyConflict ''a current research execution plan already exists for this task'')"
    using c a(2) key plan_taskD(1) [OF c(2)]
    by (simp add: create_execution_plan_def Let_def) (simp add: advanced_db_def advanced_row_def)
qed

theorem create_replay_until_advance_witness:
  "create_execution_plan sample_db2 ''task-1'' sample_create sample_context False False
     = Inl (IdempotencyConflict ''a current research execution plan already exists for this task'')"
proof -
  obtain w where a: "advance_execution_plan sample_db1 ''task-1'' (sample_cancel ''cancel-1'') sample_context
      = Inr (w, sample_db2)" and rc: "db_receipts sample_db2 (''task-1'', ''cancel-1'') \<noteq> None"
    by (rule sample_advanced)
  obtain v where c: "create_execution_plan sample_db ''task-1'' sample_create sample_context False False
      = Inr (v, sample_db1)" and rc1: "db_receipts sample_db1 = Map.empty"
    using sample_db1_created by metis
  have ne: "sample_db2 \<noteq> sample_db1" using rc rc1 by auto
  have "strip ''cancel-1'' \<noteq> []" by (simp add: strip_def is_space_def code_def)
  then obtain r where r: "advance_request (sample_cancel ''cancel-1'') = Inr r"
    "fld r ''idempotency_key'' = PStr ''cancel-1''"
    using sample_cancel_request [of "''cancel-1''"] by auto
  show ?thesis
    using create_replay_until_advance [OF c] sample_db1_ok a ne r by fastforce
qed

text \<open>Created plans reference only what their owner can see: every reference stored by a create
  that wrote resolves to a row of its table with that id, in the caller's workspace and,
  where the table is owner scoped, of the caller; and the plan is bound to its own task.\<close>

theorem created_references_resolve:
  assumes "create_execution_plan db tid payload ctx g b = Inr (v, db')" "db_plans db tid = None"
    "fld ctx ''owner_principal'' = PStr own" "fld ctx ''workspace_id'' = PStr w"
  shows "\<exists>row. db_plans db' tid = Some row
    \<and> fld (fld (pr_plan row) ''references'') ''research_task'' = PDict [(''research_task'', PStr tid)]
    \<and> (\<forall>kind i. fld (fld (fld (pr_plan row) ''references'') kind) kind = PStr i
         \<longrightarrow> reference_resolves db own w kind i)"
  using assms(1)
proof (cases rule: create_returns)
  case (replay request task row)
  with assms(2) show ?thesis by simp
next
  case (first request task conv refs plan)
  have t: "fld task ''workspace_id'' = PStr w" "fld task ''owner_principal'' = PStr own"
    using plan_taskD(3,4) [OF first(2)] assms(3,4) by simp_all
  have "fld plan ''references'' = refs"
    using new_planD(3) [OF first(6)] validate_create_references_bound(1) [OF first(5)] by simp
  then show ?thesis
    using first(8) validate_create_referencesD [OF first(5) t] validate_create_references_bound(2) [OF first(5)]
      plan_taskD(1) [OF first(2)]
    by (simp add: row_of_plan_def)
qed

theorem created_references_resolve_witness:
  "\<exists>row. db_plans sample_db1 ''task-1'' = Some row
    \<and> fld (fld (pr_plan row) ''references'') ''research_task'' = PDict [(''research_task'', PStr ''task-1'')]"
proof -
  obtain v where "create_execution_plan sample_db ''task-1'' sample_create sample_context False False
      = Inr (v, sample_db1)"
    using sample_db1_created by metis
  from created_references_resolve [OF this, where own = "''owner''" and w = "''ws''"] show ?thesis
    by (auto simp: sample_context_def)
qed

end
