(* ===== verification/Plan_Approval.thy ===== *)
theory Plan_Approval
  imports Plan_Machine Py_Json Sha256
begin

text \<open>
  Exact plan approvals, \<^verbatim>\<open>packages/contracts/research_plan_approval.py\<close>: the digest that binds
  a plan command, the binding an approval row carries, and the decision that turns an
  approved command into the next plan stage.
\<close>

section \<open>Tables\<close>

definition PLAN_APPROVAL_ACTION :: "(string \<times> string) list" where
  "PLAN_APPROVAL_ACTION = [(''strategy_approve'', ''byq_strategy_approve''),
     (''backtest_task_create'', ''byq_backtest_task_create''),
     (''backtest_execute'', ''byq_backtest_task_execute''),
     (''create_paper_account'', ''byq_paper_account_create'')]"

definition AGENT_APPROVAL_PLAN_ACTION :: "(string \<times> string) list" where
  "AGENT_APPROVAL_PLAN_ACTION = map (\<lambda>(plan_action, agent_action). (agent_action, plan_action))
     PLAN_APPROVAL_ACTION"

definition PAPER_ACCOUNT_CREATE_ACTION :: string where
  "PAPER_ACCOUNT_CREATE_ACTION = ''create_paper_account''"

definition PAPER_ACCOUNT_DEFAULT_CASH :: string where
  "PAPER_ACCOUNT_DEFAULT_CASH = ''100000.0000''"

record approval_target =
  at_action :: string
  at_kind :: string
  at_next_stage :: stage
  at_status :: status
  at_next_action :: string
  at_next_kind :: string

fun APPROVAL_TARGET :: "stage \<Rightarrow> approval_target option" where
  "APPROVAL_TARGET Waiting_for_strategy_approval = Some \<lparr>at_action = ''strategy_approve'',
     at_kind = ''strategy_version'', at_next_stage = Waiting_for_task_create_approval,
     at_status = Waiting, at_next_action = ''backtest_task_create'',
     at_next_kind = ''strategy_version''\<rparr>"
| "APPROVAL_TARGET Waiting_for_task_create_approval = Some \<lparr>at_action = ''backtest_task_create'',
     at_kind = ''strategy_version'', at_next_stage = Ready_to_create_backtest_task,
     at_status = Active, at_next_action = ''backtest_task_create'',
     at_next_kind = ''strategy_version''\<rparr>"
| "APPROVAL_TARGET Waiting_for_task_execute_approval = Some \<lparr>at_action = ''backtest_execute'',
     at_kind = ''backtest_task'', at_next_stage = Ready_to_execute_backtest_task,
     at_status = Active, at_next_action = ''backtest_execute'', at_next_kind = ''backtest_task''\<rparr>"
| "APPROVAL_TARGET Waiting_for_paper_account_approval = Some
     \<lparr>at_action = PAPER_ACCOUNT_CREATE_ACTION, at_kind = ''research_task'',
     at_next_stage = Ready_to_create_paper_account, at_status = Active,
     at_next_action = PAPER_ACCOUNT_CREATE_ACTION, at_next_kind = ''research_task''\<rparr>"
| "APPROVAL_TARGET _ = None"

section \<open>Digests\<close>

text \<open>The values hashed here are texts and integers, so \<open>allow_nan=False\<close> never raises.\<close>

definition approval_hash :: "pyval \<Rightarrow> string" where
  "approval_hash v = ''sha256:'' @ sha256_hex (canonical_utf8 v)"

definition bound_approval :: "string \<Rightarrow> string \<Rightarrow> pyval \<Rightarrow> int \<Rightarrow> int \<Rightarrow> pyval \<Rightarrow> pyval" where
  "bound_approval action resource_kind resource_id plan_version task_version params_digest =
     PDict ([(''action'', PStr action), (''resource_kind'', PStr resource_kind),
       (''resource_id'', resource_id), (''plan_version'', PInt plan_version),
       (''task_version'', PInt task_version)]
       @ (if params_digest \<noteq> PNone then [(''params_digest'', params_digest)] else []))"

definition last_chars :: "nat \<Rightarrow> string \<Rightarrow> string" where
  "last_chars n s = drop (length s - n) s"

definition paper_account_execution_parameters :: "pyval \<Rightarrow> pyval res" where
  "paper_account_execution_parameters plan = andThen (validate_plan plan) (\<lambda>verified.
     Inr (PDict [(''schema_version'', PStr ''paper-account-create-command.v1''),
       (''action'', PStr PAPER_ACCOUNT_CREATE_ACTION), (''resource_kind'', PStr ''research_task''),
       (''resource_id'', fld verified ''task_id''),
       (''name'', PStr (''research-paper-'' @ last_chars 12 (the_str (fld verified ''task_id'')))),
       (''cash'', PStr PAPER_ACCOUNT_DEFAULT_CASH)]))"

definition plan_command_digest :: "pyval \<Rightarrow> pyval \<Rightarrow> pyval \<Rightarrow> pyval \<Rightarrow> string res" where
  "plan_command_digest plan action resource_kind resource_id =
    andThen (validate_plan plan) (\<lambda>verified.
    if action = PStr PAPER_ACCOUNT_CREATE_ACTION then
      andThen (paper_account_execution_parameters verified) (\<lambda>execution.
      Inr (approval_hash (PDict [(''task_id'', fld verified ''task_id''), (''action'', action),
        (''resource_kind'', resource_kind), (''resource_id'', resource_id),
        (''execution'', execution), (''references'', fld verified ''references'')])))
    else Inr (approval_hash (PDict [(''task_id'', fld verified ''task_id''),
        (''plan_version'', fld verified ''plan_version''),
        (''task_version'', fld verified ''task_version''), (''action'', action),
        (''resource_kind'', resource_kind), (''resource_id'', resource_id),
        (''references'', fld verified ''references'')])))"

definition bind_command_digest :: "pyval \<Rightarrow> pyval res" where
  "bind_command_digest plan = andThen (validate_plan plan) (\<lambda>verified.
     let approval = fld verified ''approval'' in
     if \<not> is_dict approval then Inr verified
     else andThen (plan_command_digest verified (fld approval ''action'')
         (fld approval ''resource_kind'') (fld approval ''resource_id'')) (\<lambda>digest.
       validate_plan (dict_merge verified [(''approval'',
         dict_merge approval [(''params_digest'', PStr digest)])])))"

definition plan_command_idempotency_key :: "pyval \<Rightarrow> pyval \<Rightarrow> pyval \<Rightarrow> pyval \<Rightarrow> string res" where
  "plan_command_idempotency_key plan action resource_kind resource_id =
     andThen (plan_command_digest plan action resource_kind resource_id) (\<lambda>digest.
       Inr (''plancmd_'' @ take 32 (removeprefix ''sha256:'' digest)))"

section \<open>The binding of an approval row\<close>

definition APPROVAL_BINDING_FIELDS :: "string list" where
  "APPROVAL_BINDING_FIELDS = [''plan_task_id'', ''plan_workspace_id'', ''plan_version'',
     ''plan_task_version'', ''plan_action'', ''plan_resource_kind'', ''plan_resource_id'',
     ''plan_params_digest'', ''plan_idempotency_key'']"

definition APPROVAL_BINDING_TEXT_FIELDS :: "string list" where
  "APPROVAL_BINDING_TEXT_FIELDS = [''plan_task_id'', ''plan_workspace_id'', ''plan_action'',
     ''plan_resource_kind'', ''plan_resource_id'', ''plan_params_digest'', ''plan_idempotency_key'']"

definition approval_plan_binding :: "pyval \<Rightarrow> pyval option" where
  "approval_plan_binding row =
    (if \<not> is_dict row then None
     else if list_ex (\<lambda>f. \<not> is_str (fld row f) \<and> \<not> type_is_int (fld row f)) APPROVAL_BINDING_FIELDS
     then None
     else if list_ex (\<lambda>f. \<not> is_str (fld row f) \<or> \<not> truthy (fld row f)) APPROVAL_BINDING_TEXT_FIELDS
     then None
     else Some (PDict [(''task_id'', fld row ''plan_task_id''),
       (''workspace'', fld row ''plan_workspace_id''), (''plan_version'', fld row ''plan_version''),
       (''task_version'', fld row ''plan_task_version''), (''action'', fld row ''plan_action''),
       (''resource_kind'', fld row ''plan_resource_kind''),
       (''resource_id'', fld row ''plan_resource_id''),
       (''params_digest'', fld row ''plan_params_digest''),
       (''idempotency_key'', fld row ''plan_idempotency_key'')]))"

section \<open>The decision\<close>

text \<open>The three shapes of the returned dictionary, told apart by its \<^verbatim>\<open>outcome\<close>.\<close>

datatype decision_result =
    Decision_attention string
  | Decision_applied pyval pyval pyval pyval
  | Decision_advance stage status string pyval pyval

definition apply_approval_decision ::
    "pyval \<Rightarrow> string \<Rightarrow> string \<Rightarrow> string \<Rightarrow> string \<Rightarrow> string \<Rightarrow> decision_result res" where
  "apply_approval_decision plan decision action resource_kind resource_id params_digest =
    andThen (validate_plan plan) (\<lambda>verified.
    if decision \<notin> {''approved'', ''rejected''}
    then Inr (Decision_attention ''approval_decision_unknown'')
    else case APPROVAL_TARGET (the (stage_of (the_str (fld verified ''stage'')))) of
      None \<Rightarrow> Inr (Decision_attention ''approval_action_not_applicable'')
    | Some target \<Rightarrow>
      let pending = fld verified ''approval'' in
      if \<not> is_dict pending
         \<or> \<not> (action = at_action target \<and> resource_kind = at_kind target
              \<and> py_eq (fld pending ''resource_id'') (PStr resource_id))
         \<or> \<not> py_eq (fld pending ''action'') (PStr (at_action target))
         \<or> \<not> py_eq (fld pending ''resource_kind'') (PStr (at_kind target))
      then Inr (Decision_attention ''approval_binding_mismatch'')
      else if fld pending ''params_digest'' \<noteq> PNone
         \<and> \<not> py_eq (fld pending ''params_digest'') (PStr params_digest)
      then Inr (Decision_attention ''approval_params_digest_mismatch'')
      else case plan_command_digest verified (PStr action) (PStr resource_kind) (PStr resource_id) of
        Inl (ValueError _) \<Rightarrow> Inr (Decision_attention ''approval_command_invalid'')
      | Inl e \<Rightarrow> Inl e
      | Inr derived \<Rightarrow>
        if derived \<noteq> params_digest
        then Inr (Decision_attention ''approval_params_digest_mismatch'')
        else let references = (if truthy (fld verified ''references'') then fld verified ''references''
                               else PDict []);
                 reference = fld references (at_next_kind target);
                 target_resource_id = (if is_dict reference then fld reference (at_next_kind target)
                                       else PNone) in
          if \<not> is_str target_resource_id
          then Inr (Decision_attention ''approval_resource_reference_missing'')
          else if decision = ''rejected''
          then Inr (Decision_applied (fld verified ''stage'') (fld verified ''status'')
                 (fld verified ''references'') (fld verified ''approval''))
          else Inr (Decision_advance (at_next_stage target) (at_status target)
                 (STAGE_POSTCONDITION (at_next_stage target)) (fld verified ''references'')
                 (bound_approval (at_next_action target) (at_next_kind target) target_resource_id
                   (the_int (fld verified ''plan_version'') + 1)
                   (the_int (fld verified ''task_version'')) PNone)))"

text \<open>The dictionary the code returns for each result.\<close>

fun decision_value :: "decision_result \<Rightarrow> pyval" where
  "decision_value (Decision_attention reason) =
     PDict [(''outcome'', PStr ''needs_attention''), (''reason'', PStr reason)]"
| "decision_value (Decision_applied stage status references approval) =
     PDict [(''outcome'', PStr ''applied''), (''reason'', PStr ''approval_rejected''),
       (''next_stage'', stage), (''status'', status), (''references'', references),
       (''approval'', approval)]"
| "decision_value (Decision_advance stage status postcondition references approval) =
     PDict [(''outcome'', PStr ''advance''), (''reason'', PStr ''approval_approved''),
       (''next_stage'', PStr (stage_str stage)), (''status'', PStr (status_str status)),
       (''expected_postcondition'', PStr postcondition), (''references'', references),
       (''approval'', approval)]"

section \<open>Digests bind\<close>

lemma approval_hash_digest: "re_digest (approval_hash v)"
  unfolding re_digest_def approval_hash_def by (simp only: re_prefix_hex_append sha256_hex_digest)

lemma plan_command_digest_returns:
  assumes "valid_plan p"
  shows "\<exists>d. plan_command_digest p a k r = Inr d \<and> re_digest d"
  using plan_checker.accepted [OF assms]
  by (simp add: plan_command_digest_def paper_account_execution_parameters_def approval_hash_digest)

text \<open>The digest reads the identity, the versions and the references of the plan, nothing else.\<close>

lemma plan_command_digest_cong:
  assumes "valid_plan p" "valid_plan q"
    "\<And>f. f \<in> {''task_id'', ''plan_version'', ''task_version'', ''references''} \<Longrightarrow> fld q f = fld p f"
  shows "plan_command_digest q a k r = plan_command_digest p a k r"
  using plan_checker.accepted [OF assms(1)] plan_checker.accepted [OF assms(2)] assms(3)
  by (simp add: plan_command_digest_def paper_account_execution_parameters_def)

definition with_digest :: "pyval \<Rightarrow> string \<Rightarrow> pyval" where
  "with_digest p d = dict_merge p [(''approval'', dict_merge (fld p ''approval'') [(''params_digest'', PStr d)])]"

lemma with_digest_fld:
  "fld (with_digest p d) k = (if k = ''approval''
     then dict_merge (fld p ''approval'') [(''params_digest'', PStr d)] else fld p k)"
  by (simp add: with_digest_def fld_dict_merge)

lemma with_digest_ok:
  assumes "plan_ok p st s" "ss_approval (STAGE_SPEC st) = Some r" "re_digest d"
  shows "plan_ok (with_digest p d) st s"
proof -
  have keys: "set (keys_of (with_digest p d)) = set PLAN_REQUIRED_FIELDS"
    using plan_ok_fields(2) [OF assms(1)] by (auto simp: with_digest_def PLAN_REQUIRED_FIELDS_def)
  have "approval_bound (fld p ''approval'') p r"
    using plan_ok_fields(7) [OF assms(1)] assms(2) by (simp add: approval_ok_def)
  then have "approval_bound (dict_merge (fld p ''approval'') [(''params_digest'', PStr d)]) (with_digest p d) r"
    using assms(3) by (auto simp: approval_bound_def with_digest_fld fld_dict_merge)
  then have "approval_ok (with_digest p d) st"
    using assms(2) by (simp add: approval_ok_def with_digest_fld)
  with assms(1) keys show ?thesis
    unfolding plan_ok_def with_digest_fld by (simp add: with_digest_def)
qed

lemma abs_with_digest: "abs_plan (with_digest p d) = abs_plan p"
  by (simp add: abs_plan_def with_digest_fld)

lemma with_digest_command:
  assumes "plan_ok p st s" "plan_ok (with_digest p d) st s"
  shows "plan_command_digest (with_digest p d) a k r = plan_command_digest p a k r"
  by (rule plan_command_digest_cong) (use assms in \<open>auto simp: valid_plan_def with_digest_fld\<close>)

lemma bind_at:
  assumes p: "plan_ok p st s"
  obtains (none) "ss_approval (STAGE_SPEC st) = None" "bind_command_digest p = Inr p"
    | (bound) r rid d where "ss_approval (STAGE_SPEC st) = Some r"
        "fld (fld p ''approval'') ''resource_id'' = PStr rid"
        "plan_command_digest p (PStr (fst r)) (PStr (snd r)) (PStr rid) = Inr d" "re_digest d"
        "bind_command_digest p = Inr (with_digest p d)" "plan_ok (with_digest p d) st s"
proof (cases "ss_approval (STAGE_SPEC st)")
  case None
  have v: "validate_plan p = Inr p" using p validate_plan_iff by blast
  have "fld p ''approval'' = PNone"
    using plan_ok_fields(7) [OF p] None by (simp add: approval_ok_def)
  then have "bind_command_digest p = Inr p"
    by (simp add: bind_command_digest_def v)
  with None show ?thesis by (rule none)
next
  case (Some r)
  have v: "validate_plan p = Inr p" "valid_plan p" using p validate_plan_iff by (auto simp: valid_plan_def)
  have b: "approval_bound (fld p ''approval'') p r"
    using plan_ok_fields(7) [OF p] Some by (simp add: approval_ok_def)
  then obtain rid where rid: "fld (fld p ''approval'') ''resource_id'' = PStr rid"
    by (auto simp: approval_bound_def)
  obtain d where d: "plan_command_digest p (PStr (fst r)) (PStr (snd r)) (PStr rid) = Inr d" "re_digest d"
    using plan_command_digest_returns [OF v(2)] by blast
  have ok: "plan_ok (with_digest p d) st s" using with_digest_ok p Some d(2) by blast
  have "bind_command_digest p = validate_plan (with_digest p d)"
    using b rid d(1) by (simp add: bind_command_digest_def v(1) approval_bound_def with_digest_def)
  then have "bind_command_digest p = Inr (with_digest p d)"
    using ok validate_plan_iff by metis
  with Some rid d ok show ?thesis using bound by blast
qed

lemma merge_again: "is_dict v \<Longrightarrow> fld v k = x \<Longrightarrow> has_key v k \<Longrightarrow> dict_merge v [(k, x)] = v"
  by (cases v) (auto simp: dict_merge_def fld_def has_key_def update_triv split: option.splits)

lemma with_digest_again:
  assumes "is_dict p" "is_dict (fld p ''approval'')"
  shows "with_digest (with_digest p d) d = with_digest p d"
proof -
  let ?q = "with_digest p d"
  have a: "fld ?q ''approval'' = dict_merge (fld p ''approval'') [(''params_digest'', PStr d)]"
    by (simp add: with_digest_fld)
  have "dict_merge (fld ?q ''approval'') [(''params_digest'', PStr d)] = fld ?q ''approval''"
    unfolding a by (rule merge_again) (simp_all add: fld_dict_merge has_key_iff)
  then show ?thesis
    unfolding with_digest_def [of "with_digest p d" d]
    by (intro merge_again) (simp_all add: with_digest_def has_key_iff)
qed

section \<open>Decisions\<close>

lemma approval_target_spec:
  "APPROVAL_TARGET st = Some t \<Longrightarrow> ss_approval (STAGE_SPEC st) = Some (at_action t, at_kind t)
     \<and> at_next_stage t \<in> set (TRANSITIONS st) \<and> at_next_stage t \<notin> {Completed, Iteration_comparison, Final_selection}
     \<and> st \<noteq> Iteration_comparison \<and> ss_statuses (STAGE_SPEC (at_next_stage t)) = [at_status t]
     \<and> ss_approval (STAGE_SPEC (at_next_stage t)) = Some (at_next_action t, at_next_kind t)
     \<and> at_next_kind t = at_kind t"
  by (cases st) (auto simp: spec_of_def PAPER_ACCOUNT_CREATE_ACTION_def)

lemma approval_target_gate: "APPROVAL_TARGET st \<noteq> None \<longleftrightarrow> st \<in> set APPROVAL_WAIT_STAGES"
  by (cases st) (auto simp: APPROVAL_WAIT_STAGES_def)

text \<open>The arguments with which the workflow applies an advancing decision; the last progress identity is the
  digest of the action row.\<close>

definition decision_args :: "pyval \<Rightarrow> stage \<Rightarrow> status \<Rightarrow> string \<Rightarrow> pyval \<Rightarrow> pyval \<Rightarrow> string \<Rightarrow> pyval \<Rightarrow> advance_args" where
  "decision_args p st s post refs app key action_digest = \<lparr>
     aa_expected_plan_version = the_int (fld p ''plan_version''),
     aa_expected_task_version = the_int (fld p ''task_version''), aa_next_stage = stage_str st,
     aa_iteration = fld p ''iteration'', aa_status = status_str s, aa_expected_postcondition = post,
     aa_idempotency_key = PStr key, aa_references = refs, aa_prerequisites = PNone,
     aa_approval = app, aa_last_progress_identity = action_digest\<rparr>"

lemma decision_advanceD:
  assumes p: "plan_ok p st s"
    and d: "apply_approval_decision p decision act kind rid dig = Inr (Decision_advance st' s' post refs app)"
  obtains t where "decision = ''approved''" "APPROVAL_TARGET st = Some t"
    "act = at_action t" "kind = at_kind t" "fld (fld p ''approval'') ''resource_id'' = PStr rid"
    "fld (fld p ''approval'') ''params_digest'' = PNone \<or> fld (fld p ''approval'') ''params_digest'' = PStr dig"
    "plan_command_digest p (PStr act) (PStr kind) (PStr rid) = Inr dig"
    "st' = at_next_stage t" "s' = at_status t" "post = STAGE_POSTCONDITION st'"
    "refs = fld p ''references''"
    "app = bound_approval (at_next_action t) (at_next_kind t) (fld (fld refs (at_next_kind t)) (at_next_kind t))
       (the_int (fld p ''plan_version'') + 1) (the_int (fld p ''task_version'')) PNone"
proof -
  have v: "validate_plan p = Inr p" using p validate_plan_iff by blast
  have st: "stage_of (the_str (fld p ''stage'')) = Some st" using plan_ok_fields(3) [OF p] by simp
  have refs: "is_dict (fld p ''references'')"
    using plan_ok_fields(8) [OF p] references_ok_is_dict by blast
  from d show ?thesis
    by (auto simp: apply_approval_decision_def v st Let_def intro!: that split: option.splits
        if_splits sum.splits pyerr.splits)
qed

lemma decision_round:
  assumes "plan_ok p st s" "st \<noteq> Iteration_comparison" "st' \<notin> {Iteration_comparison, Final_selection}"
    "aa_next_stage a = stage_str st'" "aa_iteration a = fld p ''iteration''"
  shows "advance_round_rules p a = Inr ()"
  unfolding round_rules_returns [OF plan_ok_fields(3) [OF assms(1)] abs_plan_at(5) [OF assms(1)] assms(4)]
  using assms(2,3) by (auto simp: round_rules_ok_def)

lemma keeps_iteration_ok:
  assumes p: "plan_ok p st s" and s': "s' \<in> set (ss_statuses (STAGE_SPEC st'))"
    and st': "st' \<notin> {Completed, Final_selection}"
    and a: "aa_iteration a = fld p ''iteration''" "aa_references a = fld p ''references''"
      "aa_idempotency_key a = PStr key" "key \<noteq> []"
      "aa_last_progress_identity a = PNone \<or> (\<exists>d. aa_last_progress_identity a = PStr d \<and> re_digest d)"
    and app: "approval_ok (advance_target p a st' s') st'"
  shows "plan_ok (advance_target p a st' s') st' s'"
proof -
  obtain n where v: "fld p ''plan_version'' = PInt n" "1 \<le> n" using plan_ok_fields(9) [OF p] by blast
  have refs: "fld p ''references'' \<noteq> PNone"
    using references_ok_is_dict [OF plan_ok_fields(8) [OF p]] by auto
  obtain m where it: "num_of (fld p ''iteration'') = Some (rat_of_int m)" "m \<in> {1, 2, 3}"
    using plan_ok_fields(11) [OF p] by blast
  have iter: "\<exists>n \<in> {1, 2, 3}. num_of (fld (advance_target p a st' s') ''iteration'') = Some (of_int n)
      \<and> (st' = Final_selection \<longrightarrow> n = 3)"
    using st' it by (auto simp: advance_target_fld a)
  show ?thesis
    unfolding plan_ok_def
  proof (intro conjI iter app)
    show "\<forall>f\<in>{''task_id'', ''owner_principal'', ''workspace_id'', ''conversation_id''}.
        \<exists>i. fld (advance_target p a st' s') f = PStr i \<and> re_identity i"
      using p by (simp add: plan_ok_def advance_target_fld)
    show "\<forall>f\<in>{''plan_version'', ''task_version''}. \<exists>n. fld (advance_target p a st' s') f = PInt n \<and> 1 \<le> n"
      using p v by (simp add: plan_ok_def advance_target_fld)
  qed (use p [unfolded plan_ok_def] s' refs st' a in \<open>simp_all add: advance_target_def
        advanced_plan_shape advanced_plan_fld plan_action_def plan_postcondition_def\<close>)
qed

lemma decision_advances:
  assumes p: "plan_ok p st s"
    and d: "apply_approval_decision p decision act kind rid dig = Inr (Decision_advance st' s' post refs app)"
    and key: "key \<noteq> []" and digest: "digest = PNone \<or> (\<exists>d. digest = PStr d \<and> re_digest d)"
  shows "advance p (decision_args p st' s' post refs app key digest)
     = Inr (advance_target p (decision_args p st' s' post refs app key digest) st' s')"
    "plan_ok (advance_target p (decision_args p st' s' post refs app key digest) st' s') st' s'"
    "fld (advance_target p (decision_args p st' s' post refs app key digest) st' s') ''approval'' = app"
proof -
  let ?a = "decision_args p st' s' post refs app key digest"
  let ?q = "advance_target p ?a st' s'"
  obtain t where t: "APPROVAL_TARGET st = Some t" "act = at_action t" "kind = at_kind t"
    "fld (fld p ''approval'') ''resource_id'' = PStr rid"
    "st' = at_next_stage t" "s' = at_status t" "post = STAGE_POSTCONDITION st'"
    "refs = fld p ''references''"
    "app = bound_approval (at_next_action t) (at_next_kind t) (fld (fld refs (at_next_kind t)) (at_next_kind t))
       (the_int (fld p ''plan_version'') + 1) (the_int (fld p ''task_version'')) PNone"
    using decision_advanceD [OF p d] by metis
  note spec = approval_target_spec [OF t(1)]
  have next': "aa_next_stage ?a = stage_str st'" by (simp add: decision_args_def)
  obtain n m where v: "fld p ''plan_version'' = PInt n" "fld p ''task_version'' = PInt m"
    using plan_ok_fields(9,10) [OF p] by blast
  have "approval_bound (fld p ''approval'') p (at_action t, at_kind t)"
    using plan_ok_fields(7) [OF p] spec by (simp add: approval_ok_def)
  then have rid: "re_identity rid" "fld (fld (fld p ''references'') (at_kind t)) (at_kind t) = PStr rid"
    using t(4) by (auto simp: approval_bound_def)
  have refs: "fld p ''references'' \<noteq> PNone"
    using references_ok_is_dict [OF plan_ok_fields(8) [OF p]] by auto
  show app: "fld ?q ''approval'' = app"
    using spec t(5) by (auto simp: advance_target_def advanced_plan_fld decision_args_def)
  have "approval_ok ?q st'"
    using spec t rid v refs
    by (auto simp: approval_ok_def app approval_bound_def bound_approval_def APPROVAL_BASE_FIELDS_def
        advance_target_fld advance_target_def advanced_plan_fld decision_args_def)
  then show ok: "plan_ok ?q st' s'"
    using spec t(5,6,8) key digest
    by (intro keeps_iteration_ok [OF p]) (auto simp: decision_args_def)
  have "advance_round_rules p ?a = Inr ()"
    using decision_round [OF p _ _ next'] spec t(5) by (auto simp: decision_args_def)
  then show "advance p ?a = Inr ?q"
    unfolding advance_returns_at [OF p next']
    using ok v spec t(5-7) by (auto simp: decision_args_def prerequisites_given_def STAGE_POSTCONDITION_def)
qed

lemma truthy_fld: "is_dict v \<Longrightarrow> fld v k \<noteq> PNone \<Longrightarrow> truthy v"
  by (cases v) auto

lemma bound_decision:
  assumes p: "plan_ok p st s" and t: "APPROVAL_TARGET st = Some t"
    and rid: "fld (fld p ''approval'') ''resource_id'' = PStr rid"
    and d: "plan_command_digest p (PStr (at_action t)) (PStr (at_kind t)) (PStr rid) = Inr d"
      "re_digest d"
  shows "apply_approval_decision (with_digest p d) ''approved'' (at_action t) (at_kind t) rid d
    = Inr (Decision_advance (at_next_stage t) (at_status t) (STAGE_POSTCONDITION (at_next_stage t))
        (fld p ''references'') (bound_approval (at_next_action t) (at_next_kind t) (PStr rid)
          (the_int (fld p ''plan_version'') + 1) (the_int (fld p ''task_version'')) PNone))"
proof -
  let ?q = "with_digest p d"
  note spec = approval_target_spec [OF t]
  have q: "plan_ok ?q st s" using with_digest_ok p spec d(2) by blast
  have v: "validate_plan ?q = Inr ?q" using q validate_plan_iff by blast
  have dq: "plan_command_digest ?q (PStr (at_action t)) (PStr (at_kind t)) (PStr rid) = Inr d"
    using with_digest_command [OF p q] d(1) by simp
  have b: "approval_bound (fld p ''approval'') p (at_action t, at_kind t)"
    using plan_ok_fields(7) [OF p] spec by (simp add: approval_ok_def)
  have refs: "references_ok (fld p ''references'')" using plan_ok_fields(8) [OF p] .
  have "fld (fld (fld p ''references'') (at_kind t)) (at_kind t) = PStr rid"
    using b rid by (auto simp: approval_bound_def)
  moreover from this have "is_dict (fld (fld p ''references'') (at_kind t))"
    using references_ok_fld(1) [OF refs] by (cases "fld (fld p ''references'') (at_kind t) = PNone") auto
  moreover from this have "truthy (fld p ''references'')"
    using references_ok_is_dict [OF refs] truthy_fld by (metis fld_PNone pyval.distinct(7) is_dict.simps(2))
  ultimately show ?thesis
    using b rid plan_ok_fields(3) [OF q] spec t dq
    by (simp add: apply_approval_decision_def v with_digest_fld fld_dict_merge approval_bound_def Let_def)
qed

definition sample_gate :: pyval where
  "sample_gate = plan_value sample_ids 1 (stage_str Waiting_for_task_create_approval) (PInt 2)
     (status_str Waiting) (ss_action (STAGE_SPEC Waiting_for_task_create_approval)) any_references
     (ss_prerequisites (STAGE_SPEC Waiting_for_task_create_approval))
     (ss_postcondition (STAGE_SPEC Waiting_for_task_create_approval)) sample_approval (PStr ''key'') PNone"

lemma sample_gate_ok: "plan_ok sample_gate Waiting_for_task_create_approval Waiting"
proof -
  have "plan_args_ok sample_ids 1 (PStr ''key'') any_references PNone"
    using sample_args_ok any_references_ok by (simp add: plan_args_ok_def)
  moreover have "any_references \<noteq> PNone" by (simp add: any_references_def)
  moreover have "fld (fld any_references ''strategy_version'') ''strategy_version'' = PStr ''x''"
    by (rule any_references_fld) (simp add: RESOURCE_KINDS_def)
  moreover note re_identity_x
  ultimately show ?thesis
    unfolding sample_gate_def
    by (subst plan_value_ok [OF _ _ refl])
      (simp_all add: approval_ok_def plan_value_fld spec_of_def approval_bound_def sample_approval_def
        APPROVAL_BASE_FIELDS_def)
qed

lemma sample_gate_state:
  "valid_plan sample_gate" "ps_stage (abs_plan sample_gate) = Waiting_for_task_create_approval"
  using sample_gate_ok abs_plan_at(1) by (auto simp: valid_plan_def)

section \<open>Properties\<close>

text \<open>Binding the command digest returns on every valid plan; the bound plan is valid, has the
  same state, carries a digest wherever its stage requires an approval, and binding it again
  changes nothing.\<close>

theorem bind_command_digest_stable:
  assumes "valid_plan p"
  shows "\<exists>q. bind_command_digest p = Inr q \<and> valid_plan q \<and> abs_plan q = abs_plan p
    \<and> bind_command_digest q = Inr q
    \<and> (STAGE_APPROVAL_REQUIREMENT (ps_stage (abs_plan p)) \<noteq> None
         \<longrightarrow> (\<exists>d. fld (fld q ''approval'') ''params_digest'' = PStr d \<and> re_digest d))"
proof -
  obtain st s where p: "plan_ok p st s" using assms by (auto simp: valid_plan_def)
  show ?thesis
    using p
  proof (cases rule: bind_at)
    case none
    with assms abs_plan_at(1) [OF p] show ?thesis by (auto simp: STAGE_APPROVAL_REQUIREMENT_def)
  next
    case (bound r rid d)
    have ap: "is_dict p" "is_dict (fld p ''approval'')"
      using plan_ok_fields(1,7) [OF p] bound(1) by (simp_all add: approval_ok_def approval_bound_def)
    have rid': "fld (fld (with_digest p d) ''approval'') ''resource_id'' = PStr rid"
      using bound(2) by (simp add: with_digest_fld fld_dict_merge)
    have dd: "plan_command_digest (with_digest p d) (PStr (fst r)) (PStr (snd r)) (PStr rid) = Inr d"
      using with_digest_command [OF p bound(6)] bound(3) by simp
    have again: "bind_command_digest (with_digest p d) = Inr (with_digest p d)"
      using bound(6)
    proof (cases rule: bind_at)
      case none
      show ?thesis by (rule none(2))
    next
      case (bound r' rid'' d')
      with \<open>ss_approval (STAGE_SPEC st) = Some r\<close> rid' dd have "d' = d" by simp
      with bound with_digest_again [OF ap] show ?thesis by simp
    qed
    have "fld (fld (with_digest p d) ''approval'') ''params_digest'' = PStr d"
      by (simp add: with_digest_fld fld_dict_merge)
    with again bound(4-6) show ?thesis by (auto simp: valid_plan_def abs_with_digest)
  qed
qed

theorem bind_command_digest_stable_witness:
  "\<exists>q d. bind_command_digest sample_gate = Inr q \<and> bind_command_digest q = Inr q
     \<and> fld (fld q ''approval'') ''params_digest'' = PStr d \<and> re_digest d"
  using bind_command_digest_stable [OF sample_gate_state(1)] sample_gate_state(2)
  by (auto simp: STAGE_APPROVAL_REQUIREMENT_def spec_of_def)

text \<open>C12. A human gate can be passed exactly with its own command: for a valid plan at a gate, the
  decision \<^verbatim>\<open>approved\<close> with the action, kind and resource of the pending approval and the digest
  bound into the plan yields an advance, and \<open>advance\<close> accepts it, whatever digest the workflow
  records as the progress.\<close>

theorem bound_gate_is_approvable:
  assumes "valid_plan p" "ps_stage (abs_plan p) \<in> set APPROVAL_WAIT_STAGES"
    "digest = PNone \<or> (\<exists>d. digest = PStr d \<and> re_digest d)"
  shows "\<exists>q act kind rid d st s post refs app.
    bind_command_digest p = Inr q \<and> fld (fld q ''approval'') ''params_digest'' = PStr d
    \<and> STAGE_APPROVAL_REQUIREMENT (ps_stage (abs_plan p)) = Some (act, kind)
    \<and> apply_approval_decision q ''approved'' act kind rid d = Inr (Decision_advance st s post refs app)
    \<and> (\<exists>r. advance q (decision_args q st s post refs app ''k'' digest) = Inr r
         \<and> valid_plan r \<and> ps_stage (abs_plan r) = st \<and> fld r ''approval'' = app)"
proof -
  obtain st s where p: "plan_ok p st s" using assms(1) by (auto simp: valid_plan_def)
  obtain t where t: "APPROVAL_TARGET st = Some t"
    using assms(2) approval_target_gate abs_plan_at(1) [OF p] by fastforce
  note spec = approval_target_spec [OF t]
  show ?thesis
    using p
  proof (cases rule: bind_at)
    case none
    with spec show ?thesis by simp
  next
    case (bound r rid d)
    then have r: "r = (at_action t, at_kind t)" using spec by simp
    note dec = bound_decision [OF p t bound(2) bound(3) [unfolded r fst_conv snd_conv] bound(4)]
    note adv = decision_advances [OF bound(6) dec _ assms(3), of "''k''"]
    have "fld (fld (with_digest p d) ''approval'') ''params_digest'' = PStr d"
      by (simp add: with_digest_fld fld_dict_merge)
    moreover have "STAGE_APPROVAL_REQUIREMENT (ps_stage (abs_plan p)) = Some (at_action t, at_kind t)"
      using spec abs_plan_at(1) [OF p] by (simp add: STAGE_APPROVAL_REQUIREMENT_def)
    moreover have "valid_plan r" "ps_stage (abs_plan r) = at_next_stage t"
      if "plan_ok r (at_next_stage t) (at_status t)" for r
      using that abs_plan_at(1) by (auto simp: valid_plan_def)
    ultimately show ?thesis using bound(5) dec adv by blast
  qed
qed

theorem bound_gate_is_approvable_witness:
  "\<exists>q rid d st s post refs app digest. bind_command_digest sample_gate = Inr q
     \<and> apply_approval_decision q ''approved'' ''backtest_task_create'' ''strategy_version'' rid d
        = Inr (Decision_advance st s post refs app)
     \<and> (\<exists>r. advance q (decision_args q st s post refs app ''k'' digest) = Inr r \<and> ps_stage (abs_plan r) = st)"
proof -
  have "ps_stage (abs_plan sample_gate) \<in> set APPROVAL_WAIT_STAGES"
    by (simp add: sample_gate_state APPROVAL_WAIT_STAGES_def)
  moreover have "STAGE_APPROVAL_REQUIREMENT (ps_stage (abs_plan sample_gate))
      = Some (''backtest_task_create'', ''strategy_version'')"
    by (simp add: sample_gate_state STAGE_APPROVAL_REQUIREMENT_def spec_of_def)
  ultimately show ?thesis
    using bound_gate_is_approvable [OF sample_gate_state(1), of PNone] by (metis option.inject prod.inject)
qed

text \<open>C11. Nothing but an approval advances: an advancing decision means that the decision was
  \<^verbatim>\<open>approved\<close>, that the plan waits at a gate for exactly this action, kind and resource, and that
  the presented digest is the digest of the plan's current command; whatever \<open>advance\<close> then
  returns is a valid plan at the target stage whose approval is bound to the next version.\<close>

theorem approved_decision_advances:
  assumes "valid_plan p" "key \<noteq> []" "digest = PNone \<or> (\<exists>d. digest = PStr d \<and> re_digest d)"
    "apply_approval_decision p decision act kind rid dig = Inr (Decision_advance st s post refs app)"
  shows "decision = ''approved'' \<and> ps_stage (abs_plan p) \<in> set APPROVAL_WAIT_STAGES
    \<and> STAGE_APPROVAL_REQUIREMENT (ps_stage (abs_plan p)) = Some (act, kind)
    \<and> fld (fld p ''approval'') ''resource_id'' = PStr rid
    \<and> plan_command_digest p (PStr act) (PStr kind) (PStr rid) = Inr dig
    \<and> (\<exists>q. advance p (decision_args p st s post refs app key digest) = Inr q \<and> valid_plan q
         \<and> ps_stage (abs_plan q) = st \<and> fld q ''approval'' = app
         \<and> fld app ''plan_version'' = PInt (ps_plan_version (abs_plan p) + 1))"
proof -
  obtain st0 s0 where p: "plan_ok p st0 s0" using assms(1) by (auto simp: valid_plan_def)
  obtain t where t: "decision = ''approved''" "APPROVAL_TARGET st0 = Some t" "act = at_action t"
    "kind = at_kind t" "fld (fld p ''approval'') ''resource_id'' = PStr rid"
    "plan_command_digest p (PStr act) (PStr kind) (PStr rid) = Inr dig"
    "app = bound_approval (at_next_action t) (at_next_kind t) (fld (fld refs (at_next_kind t)) (at_next_kind t))
       (the_int (fld p ''plan_version'') + 1) (the_int (fld p ''task_version'')) PNone"
    using decision_advanceD [OF p assms(4)] by metis
  note adv = decision_advances [OF p assms(4,2,3)]
  have "fld app ''plan_version'' = PInt (ps_plan_version (abs_plan p) + 1)"
    using t(7) abs_plan_at(3) [OF p] by (simp add: bound_approval_def)
  then show ?thesis
    using t approval_target_spec [OF t(2)] approval_target_gate [of st0] abs_plan_at(1) [OF p]
      abs_plan_at(1) [OF adv(2)] adv
    by (auto simp: STAGE_APPROVAL_REQUIREMENT_def valid_plan_def)
qed

theorem approved_decision_advances_witness:
  "\<exists>q rid d st s post refs app. apply_approval_decision q ''approved'' ''backtest_task_create'' ''strategy_version'' rid d
      = Inr (Decision_advance st s post refs app)
    \<and> plan_command_digest q (PStr ''backtest_task_create'') (PStr ''strategy_version'') (PStr rid) = Inr d"
proof (rule bind_at [OF sample_gate_ok])
  assume "ss_approval (STAGE_SPEC Waiting_for_task_create_approval) = None"
  then show ?thesis by (simp add: spec_of_def)
next
  fix r rid d
  assume b: "ss_approval (STAGE_SPEC Waiting_for_task_create_approval) = Some r"
    "fld (fld sample_gate ''approval'') ''resource_id'' = PStr rid"
    "plan_command_digest sample_gate (PStr (fst r)) (PStr (snd r)) (PStr rid) = Inr d" "re_digest d"
    and ok: "plan_ok (with_digest sample_gate d) Waiting_for_task_create_approval Waiting"
  obtain t where t: "APPROVAL_TARGET Waiting_for_task_create_approval = Some t" by simp
  then have r: "r = (at_action t, at_kind t)" "at_action t = ''backtest_task_create''"
      "at_kind t = ''strategy_version''"
    using approval_target_spec [OF t] b(1) by auto
  note dec = bound_decision [OF sample_gate_ok t b(2) b(3) [unfolded r(1) fst_conv snd_conv] b(4)]
  have "valid_plan (with_digest sample_gate d)" using ok by (auto simp: valid_plan_def)
  from approved_decision_advances [OF this _ _ dec, of "''k''" PNone]
  have "plan_command_digest (with_digest sample_gate d) (PStr (at_action t)) (PStr (at_kind t)) (PStr rid) = Inr d"
    by blast
  with dec show ?thesis unfolding r(2,3) by blast
qed

text \<open>A rejection never moves the plan: the result is a reason for attention or the plan's own
  stage, status, references and approval.\<close>

theorem rejection_keeps_the_plan:
  assumes "valid_plan p" "apply_approval_decision p ''rejected'' act kind rid dig = Inr r"
  shows "(\<exists>reason. r = Decision_attention reason)
    \<or> r = Decision_applied (fld p ''stage'') (fld p ''status'') (fld p ''references'') (fld p ''approval'')"
  using assms(2) plan_checker.accepted [OF assms(1)]
  by (auto simp: apply_approval_decision_def Let_def split: option.splits if_splits sum.splits pyerr.splits)

theorem rejection_keeps_the_plan_witness:
  "\<exists>r. apply_approval_decision sample_gate ''rejected'' ''x'' ''y'' ''z'' ''d'' = Inr r
     \<and> ((\<exists>reason. r = Decision_attention reason)
        \<or> r = Decision_applied (fld sample_gate ''stage'') (fld sample_gate ''status'')
            (fld sample_gate ''references'') (fld sample_gate ''approval''))"
proof -
  have "stage_of (the_str (fld sample_gate ''stage'')) = Some Waiting_for_task_create_approval"
    using plan_ok_fields(3) [OF sample_gate_ok] by (simp del: stage_str.simps)
  then have "\<exists>r. apply_approval_decision sample_gate ''rejected'' ''x'' ''y'' ''z'' ''d'' = Inr r"
    using plan_checker.accepted [OF sample_gate_state(1)]
    by (simp add: apply_approval_decision_def Let_def)
  then show ?thesis using rejection_keeps_the_plan [OF sample_gate_state(1)] by blast
qed

end
