(* ===== verification/Execution_Options.thy ===== *)
theory Execution_Options
  imports Py_Value Contract_Specs
begin

text \<open>
  \<^verbatim>\<open>packages/contracts/agent_execution_options.py\<close>: the user's execution options, where an
  absent or null numeric option means that the dimension is unbounded. The validator returns
  the normal form: every option present, in a fixed order.
\<close>

definition OPTIONS_SCHEMA_VERSION :: string where
  "OPTIONS_SCHEMA_VERSION = ''agent-execution-options.v1''"

text \<open>In text order, the order of \<open>sorted(NUMERIC_OPTION_FIELDS)\<close>.\<close>

definition NUMERIC_OPTION_FIELDS :: "string list" where
  "NUMERIC_OPTION_FIELDS = [''max_child_no_progress_seconds'', ''max_child_runtime_seconds'',
     ''max_concurrent_provider_calls'', ''max_continuations'', ''max_input_bytes_per_call'',
     ''max_input_bytes_total'', ''max_no_progress_seconds'', ''max_output_tokens_per_call'',
     ''max_output_tokens_total'', ''max_provider_attempts'', ''max_provider_calls'',
     ''max_runtime_seconds'', ''max_tool_calls'', ''max_tool_payload_bytes_per_call'',
     ''max_tool_payload_bytes_total'']"

definition OPTION_FIELDS :: "string list" where
  "OPTION_FIELDS = ''auto_continue'' # NUMERIC_OPTION_FIELDS"

definition default_agent_execution_options :: pyval where
  "default_agent_execution_options =
     PDict ((''auto_continue'', PBool True) # map (\<lambda>f. (f, PNone)) NUMERIC_OPTION_FIELDS)"

definition validate_agent_execution_options :: "pyval \<Rightarrow> pyval res" where
  "validate_agent_execution_options value =
    (if \<not> is_dict value \<or> \<not> keys_within value OPTION_FIELDS
     then Inl (ValueError ''execution options contain unsupported fields'')
     else if has_key value ''auto_continue'' \<and> \<not> is_bool (fld value ''auto_continue'')
     then Inl (ValueError ''auto_continue must be boolean'')
     else andThen (forEach (\<lambda>field. let item = fld value field in
         if item \<noteq> PNone \<and> \<not> int_at_least 1 item
         then Inl (ValueError (field @ '' must be a positive integer or null''))
         else Inr ()) NUMERIC_OPTION_FIELDS) (\<lambda>_.
       Inr (PDict ((''auto_continue'', fld_or value ''auto_continue'' (PBool True))
         # map (\<lambda>field. (field, fld value field)) NUMERIC_OPTION_FIELDS))))"

definition validate_execution_options_update :: "pyval \<Rightarrow> (int \<times> pyval) res" where
  "validate_execution_options_update value =
    (if \<not> is_dict value \<or> \<not> keys_are value [''schema_version'', ''expected_revision'', ''options'']
        \<or> \<not> py_eq (fld value ''schema_version'') (PStr OPTIONS_SCHEMA_VERSION)
     then Inl (ValueError ''invalid execution options update'')
     else let revision = fld value ''expected_revision'' in
       if \<not> int_at_least 0 revision
       then Inl (ValueError ''expected_revision must be a non-negative integer'')
       else andThen (validate_agent_execution_options (fld value ''options'')) (\<lambda>options.
         Inr (the_int revision, options)))"

definition execution_options_projection :: "pyval \<Rightarrow> pyval res" where
  "execution_options_projection value = validate_agent_execution_options value"

section \<open>The normal form\<close>

definition options_ok :: "pyval \<Rightarrow> bool" where
  "options_ok v \<longleftrightarrow> is_dict v \<and> set (keys_of v) \<subseteq> set OPTION_FIELDS
     \<and> (has_key v ''auto_continue'' \<longrightarrow> is_bool (fld v ''auto_continue''))
     \<and> (\<forall>f \<in> set NUMERIC_OPTION_FIELDS. fld v f = PNone \<or> (\<exists>n. fld v f = PInt n \<and> 1 \<le> n))"

definition normal_options :: "pyval \<Rightarrow> pyval" where
  "normal_options v = PDict ((''auto_continue'', fld_or v ''auto_continue'' (PBool True))
     # map (\<lambda>f. (f, fld v f)) NUMERIC_OPTION_FIELDS)"

lemma validate_options_iff:
  "validate_agent_execution_options v = Inr w \<longleftrightarrow> options_ok v \<and> w = normal_options v"
  unfolding validate_agent_execution_options_def options_ok_def normal_options_def
  by (auto simp: res_simps Let_def keys_within_iff int_at_least_conv)

lemma auto_continue_not_numeric: "''auto_continue'' \<notin> set NUMERIC_OPTION_FIELDS"
  by (simp add: NUMERIC_OPTION_FIELDS_def)

lemma distinct_NUMERIC_OPTION_FIELDS: "distinct NUMERIC_OPTION_FIELDS"
  by (simp add: NUMERIC_OPTION_FIELDS_def)

lemma normal_options_fld:
  "fld (normal_options v) k = (if k = ''auto_continue'' then fld_or v ''auto_continue'' (PBool True)
     else if k \<in> set NUMERIC_OPTION_FIELDS then fld v k else PNone)"
  by (simp add: normal_options_def fld_PDict_map)

lemma normal_options_keys: "keys_of (normal_options v) = OPTION_FIELDS"
  by (simp add: normal_options_def OPTION_FIELDS_def comp_def)

lemma is_dict_normal_options [simp]: "is_dict (normal_options v)"
  by (simp add: normal_options_def)

lemma normal_options_again: "normal_options (normal_options v) = normal_options v"
proof -
  have "fld_or (normal_options v) ''auto_continue'' x = fld_or v ''auto_continue'' (PBool True)" for x
    by (simp add: fld_or_def [of "normal_options v"] normal_options_fld has_key_iff normal_options_keys
        OPTION_FIELDS_def)
  moreover have "map (\<lambda>f. (f, fld (normal_options v) f)) NUMERIC_OPTION_FIELDS
      = map (\<lambda>f. (f, fld v f)) NUMERIC_OPTION_FIELDS"
    using auto_continue_not_numeric by (auto simp: normal_options_fld)
  ultimately show ?thesis unfolding normal_options_def [of "normal_options v"]
    by (simp only: normal_options_def [of v])
qed

lemma normal_options_ok: "options_ok v \<Longrightarrow> options_ok (normal_options v)"
  unfolding options_ok_def
  using auto_continue_not_numeric
  by (auto simp: normal_options_fld normal_options_keys has_key_iff fld_or_def)

interpretation options: normaliser validate_agent_execution_options options_ok normal_options
  by unfold_locales (auto simp: validate_options_iff normal_options_ok normal_options_again)

end
