(* ===== verification/Digest.thy ===== *)
theory Digest
  imports Py_Json Sha256
begin

text \<open>
  What the contracts hash: the SHA-256 of the canonical JSON of a value, and what a joined
  key of texts and numbers determines.
\<close>

definition sha256_json :: "pyval \<Rightarrow> string" where
  "sha256_json v = sha256_hex (canonical_ascii v)"

definition sha256_json_utf8 :: "pyval \<Rightarrow> string" where
  "sha256_json_utf8 v = sha256_hex (canonical_utf8 v)"

lemma sha256_json_hex: "re_hex 64 (sha256_json v)"
  by (simp add: sha256_json_def sha256_hex_digest)

section \<open>Decimal texts\<close>

lemma nat_digits_no_sep:
  "c \<in> set (nat_digits n) \<Longrightarrow> is_digit c"
proof (induction n rule: nat_digits.induct)
  case (1 n)
  then show ?case
    by (subst (asm) nat_digits.simps) (auto simp: is_digit_def code_def split: if_splits)
qed

lemma last_nat_digits: "last (nat_digits n) = char_of (48 + n mod 10)"
  by (subst nat_digits.simps) simp

lemma nat_digits_butlast: "butlast (nat_digits n) = (if n < 10 then [] else nat_digits (n div 10))"
  by (subst nat_digits.simps) simp

lemma digit_inj: "char_of (48 + n mod 10) = (char_of (48 + m mod 10) :: char) \<Longrightarrow> n mod 10 = m mod (10 :: nat)"
proof -
  assume e: "char_of (48 + n mod 10) = (char_of (48 + m mod 10) :: char)"
  have "of_char (char_of (48 + k mod 10) :: char) = 48 + k mod (10 :: nat)" for k
    using mod_less_divisor [of 10 k] by simp
  then have "48 + n mod 10 = 48 + m mod 10" by (metis e)
  then show ?thesis by simp
qed

lemma nat_digits_inj: "nat_digits n = nat_digits m \<Longrightarrow> n = m"
proof (induction n arbitrary: m rule: less_induct)
  case (less n)
  have l: "n mod 10 = m mod 10"
    using less.prems last_nat_digits digit_inj by metis
  have ne: "nat_digits k \<noteq> []" for k by (rule int_str_inj_nat)
  have b: "butlast (nat_digits n) = butlast (nat_digits m)" using less.prems by simp
  show ?case
  proof (cases "n < 10")
    case True
    with b have "m < 10" using ne unfolding nat_digits_butlast by (metis)
    with True l show ?thesis by simp
  next
    case False
    with b have "\<not> m < 10" using ne unfolding nat_digits_butlast by metis
    with b False have "nat_digits (n div 10) = nat_digits (m div 10)" unfolding nat_digits_butlast by simp
    moreover have "n div 10 < n" using False by simp
    ultimately have "n div 10 = m div 10" using less.IH by blast
    with l show ?thesis by (metis div_mult_mod_eq)
  qed
qed

lemma int_str_inj: "0 \<le> n \<Longrightarrow> 0 \<le> m \<Longrightarrow> int_str n = int_str m \<Longrightarrow> n = m"
  using nat_digits_inj by (fastforce simp: int_str_def)

lemma int_str_no_colon: "0 \<le> n \<Longrightarrow> CHR '':'' \<notin> set (int_str n)"
  using nat_digits_no_sep [of "CHR '':''"] by (auto simp: int_str_def is_digit_def code_def)

text \<open>The last field of a joined key is what follows the last separator.\<close>

lemma split_last_field:
  assumes "p @ c # s = q @ c # t" "c \<notin> set s" "c \<notin> set t"
  shows "p = q \<and> s = t"
proof -
  have "rev s @ c # rev p = rev t @ c # rev q"
    using arg_cong [OF assms(1), of rev] by simp
  moreover have "takeWhile (\<lambda>x. x \<noteq> c) (rev u @ c # r) = rev u" if "c \<notin> set u" for u r
    using that by (subst takeWhile_append2) auto
  ultimately have "rev s = rev t" using assms(2,3) by metis
  with assms(1) show ?thesis by simp
qed

end
