(* ===== verification/Product_Turn.thy ===== *)
theory Product_Turn
  imports Execution_Options Digest
begin

text \<open>
  \<^verbatim>\<open>packages/contracts/product_turn_request.py\<close>: the execution profiles of an ordinary product
  turn. A profile binds the normalised options, their revision and the provider route under
  a digest; its validator rebuilds the profile from the fields of the presented value.
\<close>

section \<open>The archived fixed profile\<close>

definition PRODUCT_TURN_PROFILE_ID :: string where "PRODUCT_TURN_PROFILE_ID = ''product-turn.v1''"
definition PRODUCT_TURN_PROFILE_VERSION :: int where "PRODUCT_TURN_PROFILE_VERSION = 1"
definition PRODUCT_TURN_PROVIDER :: string where "PRODUCT_TURN_PROVIDER = ''opencode-go-chat''"
definition PRODUCT_TURN_MODEL :: string where "PRODUCT_TURN_MODEL = ''deepseek-v4.1-flash''"
definition PRODUCT_TURN_UPSTREAM_BASE_URL :: string where
  "PRODUCT_TURN_UPSTREAM_BASE_URL = ''https://opencode.ai/zen/go/v1''"
definition PRODUCT_TURN_UPSTREAM_REQUEST_TARGET :: string where
  "PRODUCT_TURN_UPSTREAM_REQUEST_TARGET = ''/chat/completions''"

definition PRODUCT_TURN_LIMITS :: "(string \<times> int) list" where
  "PRODUCT_TURN_LIMITS = [(''max_provider_calls'', 16), (''max_attempts'', 16), (''max_concurrent'', 1),
     (''max_input_bytes'', 262144), (''max_total_input_bytes'', 4194304),
     (''max_output_tokens'', 8192), (''max_total_output_tokens'', 131072),
     (''max_tool_payload_bytes'', 131072), (''max_total_tool_payload_bytes'', 1048576),
     (''max_tool_calls'', 16), (''deadline_ms'', 180000)]"

definition product_turn_limits :: pyval where
  "product_turn_limits = PDict (map (\<lambda>(k, n). (k, PInt n)) PRODUCT_TURN_LIMITS)"

definition PRODUCT_TURN_PROFILE :: pyval where
  "PRODUCT_TURN_PROFILE = PDict [(''profile_id'', PStr PRODUCT_TURN_PROFILE_ID),
     (''profile_version'', PInt PRODUCT_TURN_PROFILE_VERSION),
     (''provider'', PStr PRODUCT_TURN_PROVIDER), (''model'', PStr PRODUCT_TURN_MODEL),
     (''upstream_base_url'', PStr PRODUCT_TURN_UPSTREAM_BASE_URL),
     (''upstream_request_target'', PStr PRODUCT_TURN_UPSTREAM_REQUEST_TARGET),
     (''request_limits'', product_turn_limits)]"

definition PRODUCT_TURN_PROFILE_SHA256 :: string where
  "PRODUCT_TURN_PROFILE_SHA256 = sha256_json PRODUCT_TURN_PROFILE"

definition product_turn_profile :: pyval where
  "product_turn_profile = PDict [(''profile_id'', PStr PRODUCT_TURN_PROFILE_ID),
     (''profile_version'', PInt PRODUCT_TURN_PROFILE_VERSION),
     (''profile_sha256'', PStr PRODUCT_TURN_PROFILE_SHA256),
     (''provider'', PStr PRODUCT_TURN_PROVIDER), (''model'', PStr PRODUCT_TURN_MODEL),
     (''upstream_base_url'', PStr PRODUCT_TURN_UPSTREAM_BASE_URL),
     (''upstream_request_target'', PStr PRODUCT_TURN_UPSTREAM_REQUEST_TARGET)]"

definition validate_product_turn_profile :: "pyval \<Rightarrow> pyval res" where
  "validate_product_turn_profile value =
    (if \<not> is_dict value \<or> \<not> py_eq value product_turn_profile
        \<or> \<not> type_is_int (fld value ''profile_version'')
     then Inl (ValueError ''unqualified ordinary product-turn execution profile'')
     else Inr value)"

definition validate_product_turn_limits :: "pyval \<Rightarrow> pyval res" where
  "validate_product_turn_limits value =
    (if \<not> is_dict value \<or> \<not> py_eq value product_turn_limits
        \<or> list_ex (\<lambda>(key, _). \<not> type_is_int (fld value key)) PRODUCT_TURN_LIMITS
     then Inl (ValueError ''ordinary product-turn request limits cannot be overridden'')
     else Inr value)"

section \<open>Limits from options\<close>

definition PRODUCT_EXECUTION_PROFILE_ID :: string where
  "PRODUCT_EXECUTION_PROFILE_ID = ''product-turn.v2''"
definition PRODUCT_EXECUTION_PROFILE_VERSION :: int where "PRODUCT_EXECUTION_PROFILE_VERSION = 2"
definition OFFICIAL_PRODUCT_EXECUTION_PROFILE_ID :: string where
  "OFFICIAL_PRODUCT_EXECUTION_PROFILE_ID = ''product-turn.deepseek-official.v1''"
definition OFFICIAL_PRODUCT_EXECUTION_PROFILE_VERSION :: int where
  "OFFICIAL_PRODUCT_EXECUTION_PROFILE_VERSION = 1"
definition OFFICIAL_PRODUCT_TURN_PROVIDER :: string where
  "OFFICIAL_PRODUCT_TURN_PROVIDER = ''deepseek-official''"
definition OFFICIAL_PRODUCT_TURN_MODEL :: string where
  "OFFICIAL_PRODUCT_TURN_MODEL = ''deepseek-flash''"
definition OFFICIAL_PRODUCT_TURN_UPSTREAM_BASE_URL :: string where
  "OFFICIAL_PRODUCT_TURN_UPSTREAM_BASE_URL = ''https://api.deepseek.com/anthropic''"
definition OFFICIAL_PRODUCT_TURN_UPSTREAM_REQUEST_TARGET :: string where
  "OFFICIAL_PRODUCT_TURN_UPSTREAM_REQUEST_TARGET = ''/v1/messages''"
definition PRODUCT_EXECUTION_COMPOSITION_SHA256 :: string where
  "PRODUCT_EXECUTION_COMPOSITION_SHA256 =
     ''10396c708651b24e3012df51e13cbb0e1eaf8178cda9547c91d682c189eacd45''"

definition OPTION_TO_LIMIT :: "(string \<times> string) list" where
  "OPTION_TO_LIMIT = [(''max_provider_calls'', ''max_provider_calls''),
     (''max_provider_attempts'', ''max_attempts''),
     (''max_concurrent_provider_calls'', ''max_concurrent''),
     (''max_input_bytes_per_call'', ''max_input_bytes''),
     (''max_input_bytes_total'', ''max_total_input_bytes''),
     (''max_output_tokens_per_call'', ''max_output_tokens''),
     (''max_output_tokens_total'', ''max_total_output_tokens''),
     (''max_tool_payload_bytes_per_call'', ''max_tool_payload_bytes''),
     (''max_tool_payload_bytes_total'', ''max_total_tool_payload_bytes''),
     (''max_tool_calls'', ''max_tool_calls''), (''max_runtime_seconds'', ''max_runtime_seconds'')]"

definition LIMIT_NAMES :: "string list" where
  "LIMIT_NAMES = [''max_provider_calls'', ''max_attempts'', ''max_concurrent'', ''max_input_bytes'',
     ''max_total_input_bytes'', ''max_output_tokens'', ''max_total_output_tokens'',
     ''max_tool_payload_bytes'', ''max_total_tool_payload_bytes'', ''max_tool_calls'',
     ''max_runtime_seconds'']"

definition limits_of_options :: "pyval \<Rightarrow> pyval" where
  "limits_of_options normalized = dict_merge (PDict (map (\<lambda>name. (name, PNone)) LIMIT_NAMES))
     (map (\<lambda>(option_name, limit_name). (limit_name, fld normalized option_name)) OPTION_TO_LIMIT)"

definition product_turn_execution_limits :: "pyval \<Rightarrow> pyval res" where
  "product_turn_execution_limits options =
     andThen (validate_agent_execution_options options) (\<lambda>normalized.
       Inr (limits_of_options normalized))"

definition output_caps :: "pyval \<Rightarrow> int list" where
  "output_caps normalized = map (\<lambda>name. the_int (fld normalized name))
     (filter (\<lambda>name. fld normalized name \<noteq> PNone)
        [''max_output_tokens_per_call'', ''max_output_tokens_total''])"

definition product_turn_execution_output_cap :: "pyval \<Rightarrow> int option res" where
  "product_turn_execution_output_cap options =
     andThen (validate_agent_execution_options options) (\<lambda>normalized.
       Inr (case output_caps normalized of [] \<Rightarrow> None | c # cs \<Rightarrow> Some (foldl min c cs)))"

section \<open>The profiles\<close>

definition product_binding :: "pyval \<Rightarrow> pyval \<Rightarrow> pydict" where
  "product_binding normalized revision =
     [(''profile_id'', PStr PRODUCT_EXECUTION_PROFILE_ID),
      (''profile_version'', PInt PRODUCT_EXECUTION_PROFILE_VERSION),
      (''composition_source_sha256'', PStr PRODUCT_EXECUTION_COMPOSITION_SHA256),
      (''options_schema_version'', PStr OPTIONS_SCHEMA_VERSION),
      (''options_revision'', revision), (''options'', normalized),
      (''provider'', PStr PRODUCT_TURN_PROVIDER), (''model'', PStr PRODUCT_TURN_MODEL),
      (''upstream_base_url'', PStr PRODUCT_TURN_UPSTREAM_BASE_URL),
      (''upstream_request_target'', PStr PRODUCT_TURN_UPSTREAM_REQUEST_TARGET)]"

definition product_turn_execution_profile :: "pyval \<Rightarrow> pyval \<Rightarrow> pyval res" where
  "product_turn_execution_profile options revision =
     andThen (validate_agent_execution_options options) (\<lambda>normalized.
     if \<not> int_at_least 0 revision
     then Inl (ValueError ''execution options revision is invalid'')
     else let binding = product_binding normalized revision in
       Inr (PDict (binding @ [(''profile_sha256'', PStr (sha256_json (PDict binding)))])))"

definition validate_product_turn_execution_profile :: "pyval \<Rightarrow> pyval res" where
  "validate_product_turn_execution_profile value =
    (if \<not> is_dict value then Inl (ValueError ''ordinary product execution profile is invalid'')
     else andThen (validate_agent_execution_options (fld value ''options'')) (\<lambda>options.
     andThen (product_turn_execution_profile options (fld value ''options_revision'')) (\<lambda>expected.
     if \<not> py_eq value expected
     then Inl (ValueError ''ordinary product execution profile is unqualified'')
     else Inr expected)))"

text \<open>\<open>unicodedata.category(c) == 'Cc'\<close>; the modelled texts hold no surrogates.\<close>

definition is_control :: "char \<Rightarrow> bool" where
  "is_control c \<longleftrightarrow> code c < 32 \<or> (127 \<le> code c \<and> code c < 160)"

definition official_scope_ok ::
    "pyval \<Rightarrow> pyval \<Rightarrow> pyval \<Rightarrow> pyval \<Rightarrow> pyval \<Rightarrow> pyval \<Rightarrow> pyval \<Rightarrow> bool" where
  "official_scope_ok revision owner session trace root_run boot generation \<longleftrightarrow>
     int_between 0 (2 ^ 53 - 1) revision
     \<and> is_str owner \<and> strip (the_str owner) \<noteq> [] \<and> length (the_str owner) \<le> 256
     \<and> \<not> list_ex is_control (the_str owner)
     \<and> str_matches re_identity session \<and> str_matches re_identity trace
     \<and> str_matches (re_hex 32) root_run \<and> str_matches (re_hex 32) boot
     \<and> str_matches (re_prefix_hex ''generation-'' 32) generation"

definition official_binding ::
    "pyval \<Rightarrow> pyval \<Rightarrow> pyval \<Rightarrow> pyval \<Rightarrow> pyval \<Rightarrow> pyval \<Rightarrow> pyval \<Rightarrow> pyval \<Rightarrow> pydict" where
  "official_binding normalized revision owner session trace root_run boot generation =
     [(''profile_id'', PStr OFFICIAL_PRODUCT_EXECUTION_PROFILE_ID),
      (''profile_version'', PInt OFFICIAL_PRODUCT_EXECUTION_PROFILE_VERSION),
      (''composition_source_sha256'', PStr PRODUCT_EXECUTION_COMPOSITION_SHA256),
      (''options_schema_version'', PStr OPTIONS_SCHEMA_VERSION),
      (''options_revision'', revision), (''options'', normalized),
      (''options_sha256'', PStr (sha256_json_utf8 normalized)),
      (''owner_principal'', owner), (''session_id'', session), (''trace_id'', trace),
      (''root_run_id'', root_run), (''runtime_boot_id'', boot),
      (''runtime_generation'', generation),
      (''provider'', PStr OFFICIAL_PRODUCT_TURN_PROVIDER), (''model'', PStr OFFICIAL_PRODUCT_TURN_MODEL),
      (''upstream_base_url'', PStr OFFICIAL_PRODUCT_TURN_UPSTREAM_BASE_URL),
      (''upstream_request_target'', PStr OFFICIAL_PRODUCT_TURN_UPSTREAM_REQUEST_TARGET)]"

definition official_product_turn_execution_profile ::
    "pyval \<Rightarrow> pyval \<Rightarrow> pyval \<Rightarrow> pyval \<Rightarrow> pyval \<Rightarrow> pyval \<Rightarrow> pyval \<Rightarrow> pyval \<Rightarrow> pyval res" where
  "official_product_turn_execution_profile options revision owner session trace root_run boot generation =
     andThen (validate_agent_execution_options options) (\<lambda>normalized.
     if \<not> official_scope_ok revision owner session trace root_run boot generation
     then Inl (ValueError ''official ordinary execution scope is invalid'')
     else let binding = official_binding normalized revision owner session trace root_run boot generation in
       Inr (PDict (binding @ [(''profile_sha256'', PStr (sha256_json_utf8 (PDict binding)))])))"

definition validate_official_product_turn_execution_profile :: "pyval \<Rightarrow> pyval res" where
  "validate_official_product_turn_execution_profile value =
    (if \<not> is_dict value then Inl (ValueError ''official ordinary execution profile is invalid'')
     else andThen (official_product_turn_execution_profile (fld value ''options'')
         (fld value ''options_revision'') (fld value ''owner_principal'') (fld value ''session_id'')
         (fld value ''trace_id'') (fld value ''root_run_id'') (fld value ''runtime_boot_id'')
         (fld value ''runtime_generation'')) (\<lambda>expected.
     if \<not> py_eq value expected
     then Inl (ValueError ''official ordinary execution profile is unqualified'')
     else Inr expected))"

definition validate_ordinary_product_execution_profile :: "pyval \<Rightarrow> pyval res" where
  "validate_ordinary_product_execution_profile value =
    (if is_dict value
        \<and> py_eq (fld value ''profile_id'') (PStr OFFICIAL_PRODUCT_EXECUTION_PROFILE_ID)
     then validate_official_product_turn_execution_profile value
     else validate_product_turn_execution_profile value)"

definition validate_product_turn_execution_limits :: "pyval \<Rightarrow> pyval \<Rightarrow> pyval res" where
  "validate_product_turn_execution_limits value profile =
     andThen (item profile ''options'') (\<lambda>options.
     andThen (product_turn_execution_limits options) (\<lambda>expected.
     if \<not> is_dict value \<or> \<not> py_eq value expected
     then Inl (ValueError ''ordinary product execution limits do not match the profile'')
     else Inr expected))"

section \<open>Profiles rebuild themselves\<close>

lemma plain_normal_options: "options_ok v \<Longrightarrow> plain (normal_options v)"
  using distinct_NUMERIC_OPTION_FIELDS auto_continue_not_numeric
  by (auto simp: normal_options_def list_all_iff options_ok_def fld_or_def is_bool_conv comp_def)

definition rebuild_product :: "pyval \<Rightarrow> pyval res" where
  "rebuild_product v = (if \<not> is_dict v then Inl (ValueError ''ordinary product execution profile is invalid'')
     else product_turn_execution_profile (fld v ''options'') (fld v ''options_revision''))"

lemma product_profile_returns:
  "product_turn_execution_profile options revision = Inr p \<longleftrightarrow>
     options_ok options \<and> (\<exists>n \<ge> 0. revision = PInt n)
     \<and> p = PDict (product_binding (normal_options options) revision
         @ [(''profile_sha256'', PStr (sha256_json (PDict (product_binding (normal_options options) revision))))])"
  by (auto simp: product_turn_execution_profile_def res_simps validate_options_iff int_at_least_conv Let_def)

lemma validate_product_iff:
  "validate_product_turn_execution_profile v = Inr p \<longleftrightarrow> rebuild_product v = Inr p \<and> py_eq v p"
  unfolding validate_product_turn_execution_profile_def rebuild_product_def res_simps
    product_profile_returns validate_options_iff
  by (auto simp: normal_options_ok normal_options_again)

lemma product_binding_fld:
  "fld (PDict (product_binding o' r @ t)) ''options'' = o'"
  "fld (PDict (product_binding o' r @ t)) ''options_revision'' = r"
  by (simp_all add: product_binding_def)

interpretation product_profile: rebuilt_carrier validate_product_turn_execution_profile rebuild_product py_eq
proof unfold_locales
  fix v p
  show "validate_product_turn_execution_profile v = Inr p \<longleftrightarrow> rebuild_product v = Inr p \<and> py_eq v p"
    by (rule validate_product_iff)
  assume "rebuild_product v = Inr p"
  then obtain n where p: "options_ok (fld v ''options'')" "fld v ''options_revision'' = PInt n" "0 \<le> n"
    "p = PDict (product_binding (normal_options (fld v ''options'')) (PInt n)
         @ [(''profile_sha256'', PStr (sha256_json (PDict (product_binding (normal_options (fld v ''options'')) (PInt n)))))])"
    by (auto simp: rebuild_product_def product_profile_returns res_simps)
  show "rebuild_product p = Inr p"
    using p by (simp add: rebuild_product_def product_profile_returns product_binding_fld
        normal_options_ok normal_options_again)
  show "py_eq p p"
    using p plain_normal_options [OF p(1)] by (intro py_eq_refl) (simp add: product_binding_def)
qed

definition rebuild_official :: "pyval \<Rightarrow> pyval res" where
  "rebuild_official v = (if \<not> is_dict v then Inl (ValueError ''official ordinary execution profile is invalid'')
     else official_product_turn_execution_profile (fld v ''options'') (fld v ''options_revision'')
       (fld v ''owner_principal'') (fld v ''session_id'') (fld v ''trace_id'') (fld v ''root_run_id'')
       (fld v ''runtime_boot_id'') (fld v ''runtime_generation''))"

lemma official_profile_returns:
  "official_product_turn_execution_profile options revision ow se tr ro bo ge = Inr p \<longleftrightarrow>
     options_ok options \<and> official_scope_ok revision ow se tr ro bo ge
     \<and> p = PDict (official_binding (normal_options options) revision ow se tr ro bo ge
         @ [(''profile_sha256'', PStr (sha256_json_utf8 (PDict
              (official_binding (normal_options options) revision ow se tr ro bo ge))))])"
  by (auto simp: official_product_turn_execution_profile_def res_simps validate_options_iff Let_def)

lemma official_scope_plain:
  "official_scope_ok revision ow se tr ro bo ge
     \<Longrightarrow> plain revision \<and> plain ow \<and> plain se \<and> plain tr \<and> plain ro \<and> plain bo \<and> plain ge"
  by (auto simp: official_scope_ok_def int_between_conv str_matches_conv is_str_conv)

lemma validate_official_iff:
  "validate_official_product_turn_execution_profile v = Inr p \<longleftrightarrow> rebuild_official v = Inr p \<and> py_eq v p"
  unfolding validate_official_product_turn_execution_profile_def rebuild_official_def res_simps by auto

lemma official_binding_fld:
  "fld (PDict (official_binding o' r ow se tr ro bo ge @ t)) ''options'' = o'"
  "fld (PDict (official_binding o' r ow se tr ro bo ge @ t)) ''options_revision'' = r"
  "fld (PDict (official_binding o' r ow se tr ro bo ge @ t)) ''owner_principal'' = ow"
  "fld (PDict (official_binding o' r ow se tr ro bo ge @ t)) ''session_id'' = se"
  "fld (PDict (official_binding o' r ow se tr ro bo ge @ t)) ''trace_id'' = tr"
  "fld (PDict (official_binding o' r ow se tr ro bo ge @ t)) ''root_run_id'' = ro"
  "fld (PDict (official_binding o' r ow se tr ro bo ge @ t)) ''runtime_boot_id'' = bo"
  "fld (PDict (official_binding o' r ow se tr ro bo ge @ t)) ''runtime_generation'' = ge"
  by (simp_all add: official_binding_def)

interpretation official_profile:
  rebuilt_carrier validate_official_product_turn_execution_profile rebuild_official py_eq
proof unfold_locales
  fix v p
  show "validate_official_product_turn_execution_profile v = Inr p \<longleftrightarrow> rebuild_official v = Inr p \<and> py_eq v p"
    by (rule validate_official_iff)
  assume "rebuild_official v = Inr p"
  then have ok: "options_ok (fld v ''options'')"
    and sc: "official_scope_ok (fld v ''options_revision'') (fld v ''owner_principal'')
      (fld v ''session_id'') (fld v ''trace_id'') (fld v ''root_run_id'') (fld v ''runtime_boot_id'')
      (fld v ''runtime_generation'')"
    and p: "p = PDict (official_binding (normal_options (fld v ''options'')) (fld v ''options_revision'')
       (fld v ''owner_principal'') (fld v ''session_id'') (fld v ''trace_id'') (fld v ''root_run_id'')
       (fld v ''runtime_boot_id'') (fld v ''runtime_generation'')
         @ [(''profile_sha256'', PStr (sha256_json_utf8 (PDict
              (official_binding (normal_options (fld v ''options'')) (fld v ''options_revision'')
       (fld v ''owner_principal'') (fld v ''session_id'') (fld v ''trace_id'') (fld v ''root_run_id'')
       (fld v ''runtime_boot_id'') (fld v ''runtime_generation'')))))])"
    by (auto simp: rebuild_official_def official_profile_returns res_simps)
  show "rebuild_official p = Inr p"
    unfolding rebuild_official_def p official_binding_fld is_dict.simps official_profile_returns
      not_True_eq_False if_False normal_options_again
    using ok sc normal_options_ok by simp
  show "py_eq p p"
    using plain_normal_options [OF ok] official_scope_plain [OF sc]
    by (intro py_eq_refl) (simp add: p official_binding_def)
qed

section \<open>Limits and caps\<close>

lemma limits_returns:
  "product_turn_execution_limits v = Inr l \<longleftrightarrow> options_ok v \<and> l = limits_of_options (normal_options v)"
  by (auto simp: product_turn_execution_limits_def res_simps validate_options_iff)

lemma limits_of_options_keys: "set (keys_of (limits_of_options n)) = set LIMIT_NAMES"
  by (auto simp: limits_of_options_def LIMIT_NAMES_def OPTION_TO_LIMIT_def)

lemma limits_of_options_fld:
  assumes "(opt, lm) \<in> set OPTION_TO_LIMIT"
  shows "fld (limits_of_options n) lm = fld n opt"
proof -
  let ?b = "map (\<lambda>(option_name, limit_name). (limit_name, fld n option_name)) OPTION_TO_LIMIT"
  have "map fst (rev ?b) = rev (map snd OPTION_TO_LIMIT)" by (simp add: rev_map case_prod_beta comp_def)
  moreover have "distinct (map snd OPTION_TO_LIMIT)" by (simp add: OPTION_TO_LIMIT_def)
  ultimately have "distinct (map fst (rev ?b))" by (metis distinct_rev)
  moreover have "(lm, fld n opt) \<in> set (rev ?b)" using assms by force
  ultimately have "map_of (rev ?b) lm = Some (fld n opt)" by (rule map_of_is_SomeI)
  then show ?thesis by (simp add: limits_of_options_def fld_dict_merge)
qed

lemma limit_option: "lm \<in> set LIMIT_NAMES \<Longrightarrow> \<exists>opt \<in> set NUMERIC_OPTION_FIELDS. (opt, lm) \<in> set OPTION_TO_LIMIT"
  by (auto simp: LIMIT_NAMES_def OPTION_TO_LIMIT_def NUMERIC_OPTION_FIELDS_def)

lemma limits_value:
  assumes "options_ok v" "lm \<in> set LIMIT_NAMES"
  shows "fld (limits_of_options (normal_options v)) lm = PNone
    \<or> (\<exists>n \<ge> 1. fld (limits_of_options (normal_options v)) lm = PInt n)"
proof -
  obtain opt where o: "opt \<in> set NUMERIC_OPTION_FIELDS" "(opt, lm) \<in> set OPTION_TO_LIMIT"
    using limit_option [OF assms(2)] by blast
  then have "fld (limits_of_options (normal_options v)) lm = fld v opt"
    using auto_continue_not_numeric by (auto simp: limits_of_options_fld normal_options_fld)
  with assms(1) o(1) show ?thesis by (auto simp: options_ok_def)
qed

section \<open>Properties\<close>

definition sample_options :: pyval where
  "sample_options = PDict [(''max_output_tokens_total'', PInt 500), (''max_output_tokens_per_call'', PInt 900),
     (''max_provider_calls'', PInt 3)]"

lemma sample_options_ok: "options_ok sample_options"
  by (simp add: options_ok_def sample_options_def OPTION_FIELDS_def NUMERIC_OPTION_FIELDS_def)

text \<open>The options validator returns exactly on the closed shape and then the normal form, with
  every option present and nothing bounded by default; validating the result changes
  nothing.\<close>

theorem options_normal_form:
  "(validate_agent_execution_options v = Inr w \<longleftrightarrow> options_ok v \<and> w = normal_options v)
   \<and> andThen (validate_agent_execution_options v) validate_agent_execution_options
      = validate_agent_execution_options v
   \<and> validate_agent_execution_options (PDict []) = Inr default_agent_execution_options"
proof (intro conjI)
  show "andThen (validate_agent_execution_options v) validate_agent_execution_options
      = validate_agent_execution_options v"
    by (rule options.norm_norm)
  have "default_agent_execution_options = normal_options (PDict [])" "options_ok (PDict [])"
    by (simp_all add: default_agent_execution_options_def normal_options_def fld_or_def options_ok_def)
  then show "validate_agent_execution_options (PDict []) = Inr default_agent_execution_options"
    by (simp add: validate_options_iff)
qed (rule validate_options_iff)

text \<open>The output cap of a provider route is the tightest of the two declared ceilings, and
  absent only when neither is set.\<close>

theorem output_cap_tightest:
  assumes "product_turn_execution_output_cap v = Inr cap"
  shows "case cap of
      None \<Rightarrow> fld v ''max_output_tokens_per_call'' = PNone \<and> fld v ''max_output_tokens_total'' = PNone
    | Some c \<Rightarrow> 1 \<le> c
        \<and> (fld v ''max_output_tokens_per_call'' = PInt c \<or> fld v ''max_output_tokens_total'' = PInt c)
        \<and> (\<forall>n. fld v ''max_output_tokens_per_call'' = PInt n \<or> fld v ''max_output_tokens_total'' = PInt n
             \<longrightarrow> c \<le> n)"
proof -
  let ?a = "''max_output_tokens_per_call''" and ?b = "''max_output_tokens_total''"
  have ok: "options_ok v" using assms
    by (auto simp: product_turn_execution_output_cap_def res_simps validate_options_iff)
  have ab: "?a \<in> set NUMERIC_OPTION_FIELDS" "?b \<in> set NUMERIC_OPTION_FIELDS"
    by (simp_all add: NUMERIC_OPTION_FIELDS_def)
  have "fld (normal_options v) ?a = fld v ?a" "fld (normal_options v) ?b = fld v ?b"
    using ab by (simp_all add: normal_options_fld)
  moreover have "fld v ?a = PNone \<or> (\<exists>n \<ge> 1. fld v ?a = PInt n)" "fld v ?b = PNone \<or> (\<exists>n \<ge> 1. fld v ?b = PInt n)"
    using ok ab by (auto simp: options_ok_def)
  ultimately show ?thesis
    using assms
    by (auto simp: product_turn_execution_output_cap_def res_simps validate_options_iff output_caps_def
        min_def)
qed

theorem output_cap_tightest_witness:
  "product_turn_execution_output_cap sample_options = Inr (Some 500)"
proof -
  obtain cap where cap: "product_turn_execution_output_cap sample_options = Inr cap"
  proof -
    have "validate_agent_execution_options sample_options = Inr (normal_options sample_options)"
      using sample_options_ok by (simp add: validate_options_iff)
    then show ?thesis using that by (simp add: product_turn_execution_output_cap_def)
  qed
  from output_cap_tightest [OF this] have "cap = Some 500"
    by (auto simp: sample_options_def split: option.splits)
  with cap show ?thesis by simp
qed

definition ordinary_free_fields :: "string list" where
  "ordinary_free_fields = [''profile_id'', ''options'', ''options_revision'', ''owner_principal'',
     ''session_id'', ''trace_id'', ''root_run_id'', ''runtime_boot_id'', ''runtime_generation'']"

definition carries_digest :: "(pyval \<Rightarrow> string) \<Rightarrow> pyval \<Rightarrow> bool" where
  "carries_digest h p \<longleftrightarrow> (\<exists>b. p = PDict (b @ [(''profile_sha256'', PStr (h (PDict b)))]))"

lemma product_profile_at:
  assumes "rebuild_product v = Inr p"
  shows "is_dict p" "fld p ''options'' = normal_options (fld v ''options'')" "carries_digest sha256_json p"
    "fld p ''profile_id'' = PStr PRODUCT_EXECUTION_PROFILE_ID"
proof -
  obtain b where b: "b = product_binding (normal_options (fld v ''options'')) (fld v ''options_revision'')"
    "p = PDict (b @ [(''profile_sha256'', PStr (sha256_json (PDict b)))])"
    using assms by (auto simp: rebuild_product_def res_simps product_profile_returns)
  then show "carries_digest sha256_json p" by (auto simp: carries_digest_def)
  show "fld p ''options'' = normal_options (fld v ''options'')" "is_dict p"
    "fld p ''profile_id'' = PStr PRODUCT_EXECUTION_PROFILE_ID"
    by (simp_all add: b product_binding_fld) (simp add: product_binding_def)
qed

lemma official_profile_at:
  assumes "rebuild_official v = Inr p"
  shows "is_dict p" "fld p ''options'' = normal_options (fld v ''options'')" "carries_digest sha256_json_utf8 p"
    "fld p ''profile_id'' = PStr OFFICIAL_PRODUCT_EXECUTION_PROFILE_ID"
proof -
  obtain b where b: "b = official_binding (normal_options (fld v ''options'')) (fld v ''options_revision'')
      (fld v ''owner_principal'') (fld v ''session_id'') (fld v ''trace_id'') (fld v ''root_run_id'')
      (fld v ''runtime_boot_id'') (fld v ''runtime_generation'')"
    "p = PDict (b @ [(''profile_sha256'', PStr (sha256_json_utf8 (PDict b)))])"
    using assms by (auto simp: rebuild_official_def res_simps official_profile_returns)
  then show "carries_digest sha256_json_utf8 p" by (auto simp: carries_digest_def)
  show "fld p ''options'' = normal_options (fld v ''options'')" "is_dict p"
    "fld p ''profile_id'' = PStr OFFICIAL_PRODUCT_EXECUTION_PROFILE_ID"
    by (simp_all add: b official_binding_fld) (simp add: official_binding_def)
qed

text \<open>The provider, the model and the endpoint a profile names.\<close>

definition routed_to :: "pyval \<Rightarrow> string list \<Rightarrow> bool" where
  "routed_to p route \<longleftrightarrow> map (fld p) [''provider'', ''model'', ''upstream_base_url'', ''upstream_request_target''] = map PStr route"

lemma product_profile_route:
  assumes "rebuild_product v = Inr p"
  shows "routed_to p [''opencode-go-chat'', ''deepseek-v4.1-flash'', ''https://opencode.ai/zen/go/v1'', ''/chat/completions'']"
    "fld p ''options_revision'' = fld v ''options_revision''"
  using assms
  by (auto simp: rebuild_product_def res_simps product_profile_returns routed_to_def product_binding_def PRODUCT_TURN_PROVIDER_def
      PRODUCT_TURN_MODEL_def PRODUCT_TURN_UPSTREAM_BASE_URL_def PRODUCT_TURN_UPSTREAM_REQUEST_TARGET_def)

lemma official_profile_route:
  assumes "rebuild_official v = Inr p"
  shows "routed_to p [''deepseek-official'', ''deepseek-flash'', ''https://api.deepseek.com/anthropic'', ''/v1/messages'']"
    "fld p ''options_revision'' = fld v ''options_revision''"
    "\<forall>f \<in> {''owner_principal'', ''session_id'', ''trace_id'', ''root_run_id'', ''runtime_boot_id'', ''runtime_generation''}. fld p f = fld v f"
    "official_scope_ok (fld v ''options_revision'') (fld v ''owner_principal'') (fld v ''session_id'') (fld v ''trace_id'')
       (fld v ''root_run_id'') (fld v ''runtime_boot_id'') (fld v ''runtime_generation'')"
  using assms
  by (auto simp: rebuild_official_def res_simps official_profile_returns routed_to_def official_binding_def OFFICIAL_PRODUCT_TURN_PROVIDER_def
      OFFICIAL_PRODUCT_TURN_MODEL_def OFFICIAL_PRODUCT_TURN_UPSTREAM_BASE_URL_def OFFICIAL_PRODUCT_TURN_UPSTREAM_REQUEST_TARGET_def)

lemma profile_ids_differ: "PRODUCT_EXECUTION_PROFILE_ID \<noteq> OFFICIAL_PRODUCT_EXECUTION_PROFILE_ID"
  by (simp add: PRODUCT_EXECUTION_PROFILE_ID_def OFFICIAL_PRODUCT_EXECUTION_PROFILE_ID_def)

lemma ordinary_cases:
  assumes "validate_ordinary_product_execution_profile v = Inr p"
  obtains (official) "fld v ''profile_id'' = PStr OFFICIAL_PRODUCT_EXECUTION_PROFILE_ID" "is_dict v"
      "validate_official_product_turn_execution_profile v = Inr p"
    | (product) "fld v ''profile_id'' \<noteq> PStr OFFICIAL_PRODUCT_EXECUTION_PROFILE_ID"
      "validate_product_turn_execution_profile v = Inr p"
  using assms
  by (auto simp: validate_ordinary_product_execution_profile_def
      validate_product_turn_execution_profile_def split: if_splits)

lemma rebuild_cong:
  assumes "\<forall>f \<in> set ordinary_free_fields. fld w f = fld v f"
  shows "rebuild_product v = Inr p \<Longrightarrow> rebuild_product w = Inr q \<Longrightarrow> q = p"
    "rebuild_official v = Inr p \<Longrightarrow> rebuild_official w = Inr q \<Longrightarrow> q = p"
proof -
  have same: "fld w ''options'' = fld v ''options''" "fld w ''options_revision'' = fld v ''options_revision''"
    "fld w ''owner_principal'' = fld v ''owner_principal''" "fld w ''session_id'' = fld v ''session_id''"
    "fld w ''trace_id'' = fld v ''trace_id''" "fld w ''root_run_id'' = fld v ''root_run_id''"
    "fld w ''runtime_boot_id'' = fld v ''runtime_boot_id''"
    "fld w ''runtime_generation'' = fld v ''runtime_generation''"
    using assms by (simp_all add: ordinary_free_fields_def)
  show "rebuild_product v = Inr p \<Longrightarrow> rebuild_product w = Inr q \<Longrightarrow> q = p"
    unfolding rebuild_product_def product_profile_returns if_raise_returns same by blast
  show "rebuild_official v = Inr p \<Longrightarrow> rebuild_official w = Inr q \<Longrightarrow> q = p"
    unfolding rebuild_official_def official_profile_returns if_raise_returns same by blast
qed

text \<open>C13. An ordinary execution profile cannot be forged: an accepted value equals, under Python's equality, the
  returned profile; that profile is the one built from the options, the revision and, for the official route,
  the scope of the value, with the provider, model and endpoint of its route, the normalised options and the
  digest of all its other fields. It validates again, and every accepted value with the same profile id and
  free fields gives the same profile.\<close>

theorem ordinary_profile_unforgeable:
  assumes "validate_ordinary_product_execution_profile v = Inr p"
  shows "py_eq v p \<and> validate_ordinary_product_execution_profile p = Inr p
    \<and> fld p ''options'' = normal_options (fld v ''options'') \<and> fld p ''options_revision'' = fld v ''options_revision''
    \<and> (if fld v ''profile_id'' = PStr ''product-turn.deepseek-official.v1''
       then official_product_turn_execution_profile (fld v ''options'') (fld v ''options_revision'') (fld v ''owner_principal'')
           (fld v ''session_id'') (fld v ''trace_id'') (fld v ''root_run_id'') (fld v ''runtime_boot_id'') (fld v ''runtime_generation'') = Inr p
         \<and> fld p ''profile_id'' = PStr ''product-turn.deepseek-official.v1''
         \<and> routed_to p [''deepseek-official'', ''deepseek-flash'', ''https://api.deepseek.com/anthropic'', ''/v1/messages'']
         \<and> (\<forall>f \<in> {''owner_principal'', ''session_id'', ''trace_id'', ''root_run_id'', ''runtime_boot_id'', ''runtime_generation''}.
              fld p f = fld v f)
         \<and> carries_digest sha256_json_utf8 p
       else product_turn_execution_profile (fld v ''options'') (fld v ''options_revision'') = Inr p
         \<and> fld p ''profile_id'' = PStr ''product-turn.v2''
         \<and> routed_to p [''opencode-go-chat'', ''deepseek-v4.1-flash'', ''https://opencode.ai/zen/go/v1'', ''/chat/completions'']
         \<and> carries_digest sha256_json p)
    \<and> (\<forall>w q. validate_ordinary_product_execution_profile w = Inr q
         \<and> (\<forall>f \<in> set ordinary_free_fields. fld w f = fld v f) \<longrightarrow> q = p)"
  using assms
proof (cases rule: ordinary_cases)
  case official
  have r: "rebuild_official v = Inr p" and e: "py_eq v p" using official(3) validate_official_iff by blast+
  note at = official_profile_at [OF r] official_profile_route [OF r]
  have "validate_ordinary_product_execution_profile p = Inr p"
    using official_profile.check_again [OF official(3)] at(1,4)
    by (simp add: validate_ordinary_product_execution_profile_def)
  moreover have "q = p" if "validate_ordinary_product_execution_profile w = Inr q"
      "\<forall>f \<in> set ordinary_free_fields. fld w f = fld v f" for w q
    using that(1)
  proof (cases rule: ordinary_cases)
    case 1: official
    then show ?thesis using rebuild_cong(2) [OF that(2) r] validate_official_iff by blast
  next
    case product
    with that(2) official(1) show ?thesis by (simp add: ordinary_free_fields_def)
  qed
  moreover have "official_product_turn_execution_profile (fld v ''options'') (fld v ''options_revision'') (fld v ''owner_principal'')
      (fld v ''session_id'') (fld v ''trace_id'') (fld v ''root_run_id'') (fld v ''runtime_boot_id'') (fld v ''runtime_generation'') = Inr p"
    using r official(2) by (simp add: rebuild_official_def)
  ultimately show ?thesis using e at official(1) by (simp add: OFFICIAL_PRODUCT_EXECUTION_PROFILE_ID_def) blast
next
  case product
  have r: "rebuild_product v = Inr p" and e: "py_eq v p" using product(2) validate_product_iff by blast+
  note at = product_profile_at [OF r] product_profile_route [OF r]
  have "validate_ordinary_product_execution_profile p = Inr p"
    using product_profile.check_again [OF product(2)] at(1,4) profile_ids_differ
    by (simp add: validate_ordinary_product_execution_profile_def)
  moreover have "q = p" if "validate_ordinary_product_execution_profile w = Inr q"
      "\<forall>f \<in> set ordinary_free_fields. fld w f = fld v f" for w q
    using that(1)
  proof (cases rule: ordinary_cases)
    case official
    with that(2) product(1) show ?thesis by (simp add: ordinary_free_fields_def)
  next
    case 2: product
    then show ?thesis using rebuild_cong(1) [OF that(2) r] validate_product_iff by blast
  qed
  moreover have "product_turn_execution_profile (fld v ''options'') (fld v ''options_revision'') = Inr p"
    using r by (simp add: rebuild_product_def if_raise_returns)
  ultimately show ?thesis
    using e at product(1) by (simp add: OFFICIAL_PRODUCT_EXECUTION_PROFILE_ID_def PRODUCT_EXECUTION_PROFILE_ID_def) blast
qed

theorem ordinary_profile_unforgeable_witness:
  "\<exists>p. validate_ordinary_product_execution_profile p = Inr p
     \<and> fld p ''options'' = normal_options (normal_options sample_options)"
proof -
  obtain p where p: "rebuild_product (PDict [(''options'', sample_options), (''options_revision'', PInt 1)]) = Inr p"
    using sample_options_ok by (simp add: rebuild_product_def product_profile_returns)
  note at = product_profile_at [OF p]
  have "validate_ordinary_product_execution_profile p = Inr p"
    using product_profile.built_accepted [OF p] at(1,4) profile_ids_differ
    by (simp add: validate_ordinary_product_execution_profile_def)
  from ordinary_profile_unforgeable [OF this] this at(2) show ?thesis by auto
qed

end
