(* ===== verification/Continuation_Request.thy ===== *)
theory Continuation_Request
  imports Product_Turn
begin

text \<open>
  \<^verbatim>\<open>packages/contracts/continuation_request.py\<close>: the background continuation request. The first
  part is the archived fixed profile with its usage receipts, the second the profile, the
  reservation and the usage receipt that bind the user's options. \<open>json.loads(json.dumps(v))\<close>
  of a JSON value is that value, and is modelled as such.
\<close>

section \<open>The fixed profile\<close>

definition PROFILE_ID :: string where "PROFILE_ID = ''task-ready-read.v1''"
definition PROFILE_VERSION :: int where "PROFILE_VERSION = 1"
definition USAGE_SCHEMA_VERSION :: string where "USAGE_SCHEMA_VERSION = ''continuation-request-usage.v1''"
definition ALLOWED_PROVIDER :: string where "ALLOWED_PROVIDER = ''opencode-go-chat''"
definition ALLOWED_MODEL :: string where "ALLOWED_MODEL = ''deepseek-v4.1-flash''"
definition UPSTREAM_BASE_URL :: string where "UPSTREAM_BASE_URL = ''https://opencode.ai/zen/go/v1''"
definition UPSTREAM_REQUEST_TARGET :: string where "UPSTREAM_REQUEST_TARGET = ''/chat/completions''"

text \<open>Both in text order.\<close>

definition ALLOWED_DOMAIN_TOOLS :: "string list" where
  "ALLOWED_DOMAIN_TOOLS = [''byq_backtest_task_get'', ''byq_research_get'']"
definition ALLOWED_HARNESS_TOOLS :: "string list" where
  "ALLOWED_HARNESS_TOOLS = [''byq_agent_audit'', ''byq_agent_authorize'', ''byq_agent_run_start'']"

definition CONTINUATION_LIMITS :: "(string \<times> int) list" where
  "CONTINUATION_LIMITS = [(''max_provider_calls'', 16), (''max_attempts'', 16), (''max_concurrent'', 1),
     (''max_input_bytes'', 262144), (''max_total_input_bytes'', 4194304),
     (''max_output_tokens'', 8192), (''max_total_output_tokens'', 131072),
     (''max_tool_payload_bytes'', 131072), (''max_total_tool_payload_bytes'', 1048576),
     (''max_tool_calls'', 16), (''deadline_ms'', 180000)]"

definition request_limits :: pyval where
  "request_limits = PDict (map (\<lambda>(k, n). (k, PInt n)) CONTINUATION_LIMITS)"

definition CONTINUATION_PROFILE :: pyval where
  "CONTINUATION_PROFILE = PDict [(''profile_id'', PStr PROFILE_ID),
     (''profile_version'', PInt PROFILE_VERSION), (''provider'', PStr ALLOWED_PROVIDER),
     (''model'', PStr ALLOWED_MODEL), (''request_limits'', request_limits),
     (''upstream_base_url'', PStr UPSTREAM_BASE_URL),
     (''upstream_request_target'', PStr UPSTREAM_REQUEST_TARGET),
     (''allowed_tools'', strs (sort (remdups (ALLOWED_DOMAIN_TOOLS @ ALLOWED_HARNESS_TOOLS))))]"

definition PROFILE_SHA256 :: string where
  "PROFILE_SHA256 = sha256_json CONTINUATION_PROFILE"

definition profile_binding :: pyval where
  "profile_binding = PDict [(''profile_id'', PStr PROFILE_ID), (''profile_version'', PInt PROFILE_VERSION),
     (''profile_sha256'', PStr PROFILE_SHA256)]"

definition validate_profile_binding :: "pyval \<Rightarrow> pyval res" where
  "validate_profile_binding value =
    (if \<not> is_dict value \<or> \<not> py_eq value profile_binding \<or> \<not> type_is_int (fld value ''profile_version'')
     then Inl (ValueError ''unqualified continuation execution profile'') else Inr value)"

definition validate_limits :: "pyval \<Rightarrow> pyval res" where
  "validate_limits value =
    (if \<not> is_dict value \<or> \<not> py_eq value request_limits
        \<or> list_ex (\<lambda>(key, _). \<not> type_is_int (fld value key)) CONTINUATION_LIMITS
     then Inl (ValueError ''continuation request limits cannot be overridden'') else Inr value)"

definition ADMISSION_FIELDS :: "string list" where
  "ADMISSION_FIELDS = [''provider_calls'', ''provider_attempts'', ''input_bytes'',
     ''declared_output_tokens'', ''tool_payload_bytes'', ''max_input_bytes'',
     ''max_declared_output_tokens'', ''max_tool_payload_bytes'', ''tool_calls'', ''max_concurrent'',
     ''elapsed_ms'']"

definition ACTUAL_FIELDS :: "string list" where
  "ACTUAL_FIELDS = [''input_tokens'', ''cache_read_tokens'', ''output_tokens'', ''provider_attempts'',
     ''usage_source'', ''completeness'']"

definition COUNT_FIELDS :: "string list" where
  "COUNT_FIELDS = [''input_tokens'', ''cache_read_tokens'', ''output_tokens'', ''provider_attempts'']"

definition unknown_actual_usage :: pyval where
  "unknown_actual_usage = PDict (map (\<lambda>f. (f, PStr ''unknown'')) ACTUAL_FIELDS)"

section \<open>Usage receipts of the fixed profile\<close>

definition PEAK_TOTAL_PAIRS :: "(string \<times> string) list" where
  "PEAK_TOTAL_PAIRS = [(''max_input_bytes'', ''input_bytes''),
     (''max_declared_output_tokens'', ''declared_output_tokens''),
     (''max_tool_payload_bytes'', ''tool_payload_bytes'')]"

definition check_violations :: "pyval \<Rightarrow> string list \<Rightarrow> unit res" where
  "check_violations violations allowed =
    (if \<not> is_list violations
        \<or> list_ex (\<lambda>item. \<not> is_str item \<or> the_str item \<notin> set allowed) (the_list violations)
        \<or> \<not> distinct (the_list violations)
     then Inl (ValueError ''invalid observed continuation limit violations'') else Inr ())"

definition check_admission :: "pyval \<Rightarrow> unit res" where
  "check_admission admission =
    (if \<not> is_dict admission \<or> \<not> keys_are admission ADMISSION_FIELDS
        \<or> list_ex (\<lambda>(_, n). \<not> int_at_least 0 n) (the_dict admission)
     then Inl (ValueError ''invalid continuation admission measurements'')
     else if \<not> py_eq (fld admission ''provider_calls'') (fld admission ''provider_attempts'')
     then Inl (ValueError ''provider calls are actual HTTP attempts, including retries and compaction'')
     else forEach (\<lambda>(peak, total). if the_int (fld admission total) < the_int (fld admission peak)
       then Inl (ValueError ''continuation peak exceeds cumulative measurement'') else Inr ())
       PEAK_TOTAL_PAIRS)"

definition check_actual :: "pyval \<Rightarrow> pyval \<Rightarrow> unit res" where
  "check_actual actual admission =
    (if \<not> is_dict actual \<or> \<not> keys_are actual ACTUAL_FIELDS
     then Inl (ValueError ''invalid continuation actual usage'')
     else andThen (forEach (\<lambda>key. let n = fld actual key in
         if n \<noteq> PStr ''unknown'' \<and> \<not> int_at_least 0 n
         then Inl (ValueError ''invalid continuation actual usage count'') else Inr ()) COUNT_FIELDS) (\<lambda>_.
     andThen (in_strs (fld actual ''usage_source'')
         [''provider_response'', ''unknown'', ''no_provider_calls'']) (\<lambda>known.
     if \<not> known then Inl (ValueError ''invalid continuation usage source'')
     else andThen (in_strs (fld actual ''completeness'') [''known'', ''partial'', ''unknown'']) (\<lambda>known.
     if \<not> known then Inl (ValueError ''invalid continuation usage completeness'')
     else let counts = map (fld actual) COUNT_FIELDS; src = fld actual ''usage_source'';
              completeness = fld actual ''completeness'' in
     if completeness = PStr ''known'' \<and> list_ex (\<lambda>n. n = PStr ''unknown'') counts
     then Inl (ValueError ''unknown continuation usage cannot be complete'')
     else if src = PStr ''unknown'' \<and> list_ex (\<lambda>n. n \<noteq> PStr ''unknown'') counts
     then Inl (ValueError ''continuation usage lacks a factual source'')
     else if src = PStr ''no_provider_calls''
       \<and> (list_ex (\<lambda>n. \<not> py_eq n (PInt 0)) counts \<or> completeness \<noteq> PStr ''known''
          \<or> \<not> py_eq (fld admission ''provider_attempts'') (PInt 0))
     then Inl (ValueError ''no-provider usage requires proven zero attempts and counts'')
     else if fld actual ''provider_attempts'' \<noteq> PStr ''unknown''
       \<and> \<not> py_eq (fld actual ''provider_attempts'') (fld admission ''provider_attempts'')
     then Inl (ValueError ''continuation attempt measurement conflicts'')
     else Inr ()))))"

definition USAGE_FIELDS :: "string list" where
  "USAGE_FIELDS = [''schema_version'', ''execution_profile'', ''request_limits'', ''admission_usage'',
     ''actual_usage'', ''limit_violations'']"

definition validate_request_usage :: "pyval \<Rightarrow> pyval res" where
  "validate_request_usage value =
    (if \<not> is_dict value \<or> \<not> keys_are value USAGE_FIELDS
        \<or> \<not> py_eq (fld value ''schema_version'') (PStr USAGE_SCHEMA_VERSION)
     then Inl (ValueError ''invalid continuation request usage'')
     else andThen (validate_profile_binding (fld value ''execution_profile'')) (\<lambda>_.
     andThen (validate_limits (fld value ''request_limits'')) (\<lambda>_.
     andThen (check_violations (fld value ''limit_violations'')
         (map fst CONTINUATION_LIMITS @ [''provider_declared_output_exceeded''])) (\<lambda>_.
     andThen (check_admission (fld value ''admission_usage'')) (\<lambda>_.
     andThen (check_actual (fld value ''actual_usage'') (fld value ''admission_usage'')) (\<lambda>_.
     Inr value))))))"

definition LIMIT_MEASURES :: "(string \<times> string) list" where
  "LIMIT_MEASURES = [(''provider_calls'', ''max_provider_calls''),
     (''max_input_bytes'', ''max_input_bytes''), (''max_declared_output_tokens'', ''max_output_tokens''),
     (''max_tool_payload_bytes'', ''max_tool_payload_bytes''), (''provider_attempts'', ''max_attempts''),
     (''input_bytes'', ''max_total_input_bytes''),
     (''declared_output_tokens'', ''max_total_output_tokens''),
     (''tool_payload_bytes'', ''max_total_tool_payload_bytes''), (''tool_calls'', ''max_tool_calls''),
     (''max_concurrent'', ''max_concurrent''), (''elapsed_ms'', ''deadline_ms'')]"

definition exceeded_request_limits :: "pyval \<Rightarrow> string list res" where
  "exceeded_request_limits value = andThen (validate_request_usage value) (\<lambda>receipt.
     let usage = fld receipt ''admission_usage'' in
     Inr (sort (remdups (map the_str (the_list (fld receipt ''limit_violations''))
       @ map snd (filter (\<lambda>(key, bound).
           the (map_of CONTINUATION_LIMITS bound) < the_int (fld usage key)) LIMIT_MEASURES)))))"

section \<open>The option-bound profile\<close>

definition PROFILE_ID_V2 :: string where "PROFILE_ID_V2 = ''task-ready-read.v2''"
definition PROFILE_VERSION_V2 :: int where "PROFILE_VERSION_V2 = 2"
definition RESERVATION_SCHEMA_VERSION_V3 :: string where
  "RESERVATION_SCHEMA_VERSION_V3 = ''task-continuation-reservation.v3''"
definition USAGE_SCHEMA_VERSION_V2 :: string where
  "USAGE_SCHEMA_VERSION_V2 = ''continuation-request-usage.v2''"
definition SOURCE_FACTS_SCHEMA_VERSION_V1 :: string where
  "SOURCE_FACTS_SCHEMA_VERSION_V1 = ''task-ready-source-facts.v1''"
definition EVENT_IDEMPOTENCY_SCHEMA_VERSION :: string where
  "EVENT_IDEMPOTENCY_SCHEMA_VERSION = ''task-ready-event-idempotency.v1''"
definition OFFICIAL_PROFILE_ID :: string where
  "OFFICIAL_PROFILE_ID = ''task-ready-read.official-deepseek.v1''"
definition OFFICIAL_PROFILE_VERSION :: int where "OFFICIAL_PROFILE_VERSION = 1"
definition OFFICIAL_PROVIDER :: string where "OFFICIAL_PROVIDER = ''deepseek-official''"
definition OFFICIAL_MODEL :: string where "OFFICIAL_MODEL = ''deepseek-flash''"
definition OFFICIAL_UPSTREAM_BASE_URL :: string where
  "OFFICIAL_UPSTREAM_BASE_URL = ''https://api.deepseek.com/anthropic''"
definition OFFICIAL_UPSTREAM_REQUEST_TARGET :: string where
  "OFFICIAL_UPSTREAM_REQUEST_TARGET = ''/v1/messages''"

record execution_route =
  er_profile_id :: string
  er_profile_version :: int
  er_upstream_base_url :: string
  er_upstream_request_target :: string

definition EXECUTION_ROUTES_V2 :: "((string \<times> string) \<times> execution_route) list" where
  "EXECUTION_ROUTES_V2 =
    [((ALLOWED_PROVIDER, ALLOWED_MODEL), \<lparr>er_profile_id = PROFILE_ID_V2,
       er_profile_version = PROFILE_VERSION_V2, er_upstream_base_url = UPSTREAM_BASE_URL,
       er_upstream_request_target = UPSTREAM_REQUEST_TARGET\<rparr>),
     ((OFFICIAL_PROVIDER, OFFICIAL_MODEL), \<lparr>er_profile_id = OFFICIAL_PROFILE_ID,
       er_profile_version = OFFICIAL_PROFILE_VERSION,
       er_upstream_base_url = OFFICIAL_UPSTREAM_BASE_URL,
       er_upstream_request_target = OFFICIAL_UPSTREAM_REQUEST_TARGET\<rparr>)]"

definition PROFILE_V2_FIELDS :: "string list" where
  "PROFILE_V2_FIELDS = [''profile_id'', ''profile_version'', ''options_schema_version'',
     ''options_revision'', ''options'', ''provider'', ''model'', ''upstream_base_url'',
     ''upstream_request_target'', ''allowed_domain_tools'', ''allowed_harness_tools'',
     ''profile_sha256'']"

definition continuation_binding :: "pyval \<Rightarrow> pyval \<Rightarrow> string \<Rightarrow> string \<Rightarrow> execution_route \<Rightarrow> pydict" where
  "continuation_binding normalized revision provider model route =
     [(''profile_id'', PStr (er_profile_id route)),
      (''profile_version'', PInt (er_profile_version route)),
      (''options_schema_version'', PStr OPTIONS_SCHEMA_VERSION),
      (''options_revision'', revision), (''options'', normalized),
      (''provider'', PStr provider), (''model'', PStr model),
      (''upstream_base_url'', PStr (er_upstream_base_url route)),
      (''upstream_request_target'', PStr (er_upstream_request_target route)),
      (''allowed_domain_tools'', strs ALLOWED_DOMAIN_TOOLS),
      (''allowed_harness_tools'', strs ALLOWED_HARNESS_TOOLS)]"

definition execution_profile_v2 :: "pyval \<Rightarrow> pyval \<Rightarrow> pyval \<Rightarrow> pyval \<Rightarrow> pyval res" where
  "execution_profile_v2 options revision provider model =
     andThen (validate_agent_execution_options options) (\<lambda>normalized.
     if \<not> int_at_least 0 revision
     then Inl (ValueError ''execution options revision is invalid'')
     else if \<not> is_str provider \<or> \<not> is_str model
     then Inl (ValueError ''continuation execution route is not qualified'')
     else case map_of EXECUTION_ROUTES_V2 (the_str provider, the_str model) of
       None \<Rightarrow> Inl (ValueError ''continuation execution route is not qualified'')
     | Some route \<Rightarrow>
       let binding = continuation_binding normalized revision (the_str provider) (the_str model) route in
       Inr (PDict (binding @ [(''profile_sha256'', PStr (sha256_json (PDict binding)))])))"

definition validate_execution_profile_v2 :: "pyval \<Rightarrow> pyval res" where
  "validate_execution_profile_v2 value =
    (if \<not> is_dict value \<or> \<not> keys_are value PROFILE_V2_FIELDS
     then Inl (ValueError ''continuation execution profile v2 is invalid'')
     else andThen (validate_agent_execution_options (fld value ''options'')) (\<lambda>options.
     andThen (execution_profile_v2 options (fld value ''options_revision'') (fld value ''provider'')
         (fld value ''model'')) (\<lambda>expected.
     if \<not> py_eq value expected
     then Inl (ValueError ''continuation execution profile v2 is unqualified'')
     else Inr expected)))"

definition request_limits_v2 :: "pyval \<Rightarrow> pyval res" where
  "request_limits_v2 options = product_turn_execution_limits options"

definition validate_request_limits_v2 :: "pyval \<Rightarrow> pyval \<Rightarrow> pyval res" where
  "validate_request_limits_v2 value profile =
     andThen (validate_execution_profile_v2 profile) (\<lambda>validated_profile.
     andThen (request_limits_v2 (fld validated_profile ''options'')) (\<lambda>expected.
     if \<not> is_dict value \<or> \<not> keys_are value (keys_of expected)
     then Inl (ValueError ''continuation request limits v2 are invalid'')
     else if list_ex (\<lambda>(_, item). item \<noteq> PNone \<and> \<not> int_at_least 1 item) (the_dict value)
     then Inl (ValueError ''continuation request limits v2 require positive integers or null'')
     else if \<not> py_eq value expected
     then Inl (ValueError ''continuation request limits v2 do not match the profile'')
     else Inr expected))"

definition JAVASCRIPT_MAX_SAFE_INTEGER :: int where
  "JAVASCRIPT_MAX_SAFE_INTEGER = 9007199254740991"

definition javascript_numbers :: "pyval \<Rightarrow> pyval \<Rightarrow> int list" where
  "javascript_numbers profile limits =
     the_int (fld profile ''options_revision'')
     # map (\<lambda>f. the_int (fld (fld profile ''options'') f))
         (filter (\<lambda>f. fld (fld profile ''options'') f \<noteq> PNone) NUMERIC_OPTION_FIELDS)
     @ map (\<lambda>(_, v). the_int v) (filter (\<lambda>(_, v). v \<noteq> PNone) (the_dict limits))"

definition validate_task_ready_javascript_values_v2 :: "pyval \<Rightarrow> pyval \<Rightarrow> (pyval \<times> pyval) res" where
  "validate_task_ready_javascript_values_v2 execution_profile limits_value =
     andThen (validate_execution_profile_v2 execution_profile) (\<lambda>profile.
     andThen (validate_request_limits_v2 limits_value profile) (\<lambda>limits.
     if list_ex (\<lambda>n. JAVASCRIPT_MAX_SAFE_INTEGER < n) (javascript_numbers profile limits)
     then Inl (ValueError ''task-ready execution values exceed JavaScript integer precision'')
     else case output_caps (fld profile ''options'') of
       [] \<Rightarrow> Inr (profile, limits)
     | c # cs \<Rightarrow> if JAVASCRIPT_MAX_SAFE_INTEGER < foldl min c cs
         then Inl (ValueError ''task-ready output cap exceeds JavaScript integer precision'')
         else Inr (profile, limits)))"

section \<open>Reservations\<close>

definition V3_RESERVATION_FIELDS :: "string list" where
  "V3_RESERVATION_FIELDS = [''schema_version'', ''owner_principal'', ''workspace_id'',
     ''conversation_id'', ''task_id'', ''event_key'', ''signal_job_id'', ''signal_job_status'',
     ''result_artifact_id'', ''result_artifact_kind'', ''result_artifact_status'',
     ''result_artifact_content_sha256'', ''source_fact_sha256'', ''idempotency_key'',
     ''execution_profile'', ''request_limits'']"

definition nonempty_text :: "pyval \<Rightarrow> bool" where
  "nonempty_text v \<longleftrightarrow> is_str v \<and> the_str v \<noteq> [] \<and> strip (the_str v) = the_str v"

definition require_nonempty_text :: "pyval \<Rightarrow> string \<Rightarrow> unit res" where
  "require_nonempty_text value field =
    (if \<not> nonempty_text value then Inl (ValueError (''invalid continuation '' @ field)) else Inr ())"

definition require_pattern :: "(string \<Rightarrow> bool) \<Rightarrow> pyval \<Rightarrow> string \<Rightarrow> unit res" where
  "require_pattern re value field = andThen (require_nonempty_text value field) (\<lambda>_.
     if \<not> re (the_str value) then Inl (ValueError (''invalid continuation '' @ field)) else Inr ())"

definition SOURCE_FACT_FIELDS :: "string list" where
  "SOURCE_FACT_FIELDS = [''owner_principal'', ''workspace_id'', ''conversation_id'', ''task_id'',
     ''event_key'', ''signal_job_id'', ''signal_job_status'', ''result_artifact_id'',
     ''result_artifact_kind'', ''result_artifact_status'', ''result_artifact_content_sha256'']"

definition source_facts_v1 :: "pyval \<Rightarrow> pyval" where
  "source_facts_v1 value = PDict ((''schema_version'', PStr SOURCE_FACTS_SCHEMA_VERSION_V1)
     # map (\<lambda>f. (f, fld value f)) SOURCE_FACT_FIELDS)"

definition EVENT_IDENTITY_FIELDS :: "string list" where
  "EVENT_IDENTITY_FIELDS = [''owner_principal'', ''workspace_id'', ''conversation_id'', ''task_id'',
     ''signal_job_id'']"

definition event_idempotency_key_v1 :: "pyval \<Rightarrow> string" where
  "event_idempotency_key_v1 value = ''task-ready-event:'' @ sha256_json
     (PDict ((''schema_version'', PStr EVENT_IDEMPOTENCY_SCHEMA_VERSION)
       # map (\<lambda>f. (f, fld value f)) EVENT_IDENTITY_FIELDS))"

record source_identity =
  si_owner_principal :: pyval
  si_workspace_id :: pyval
  si_conversation_id :: pyval
  si_task_id :: pyval
  si_signal_job_id :: pyval
  si_result_artifact_id :: pyval
  si_result_artifact_content_sha256 :: pyval

definition identity_value :: "source_identity \<Rightarrow> pyval \<Rightarrow> pyval" where
  "identity_value i event_key = PDict [(''schema_version'', PStr RESERVATION_SCHEMA_VERSION_V3),
     (''owner_principal'', si_owner_principal i), (''workspace_id'', si_workspace_id i),
     (''conversation_id'', si_conversation_id i), (''task_id'', si_task_id i),
     (''event_key'', event_key), (''signal_job_id'', si_signal_job_id i),
     (''signal_job_status'', PStr ''completed''), (''result_artifact_id'', si_result_artifact_id i),
     (''result_artifact_kind'', PStr ''signal_snapshot''),
     (''result_artifact_status'', PStr ''validated''),
     (''result_artifact_content_sha256'', si_result_artifact_content_sha256 i)]"

definition ready_event :: "string \<Rightarrow> bool" where "ready_event = re_prefix_hex ''ready-v1:'' 64"

definition SOURCE_PATTERNS :: "(string \<times> (string \<Rightarrow> bool)) list" where
  "SOURCE_PATTERNS = [(''task_id'', re_prefix_hex ''task_'' 32),
     (''signal_job_id'', re_prefix_hex ''signaljob_'' 32),
     (''result_artifact_id'', re_prefix_hex ''artifact_'' 32),
     (''result_artifact_content_sha256'', re_hex 64)]"

definition continuation_reservation_identity_v3 :: "source_identity \<Rightarrow> pyval \<Rightarrow> pyval res" where
  "continuation_reservation_identity_v3 i event_key =
    (let value = identity_value i (if truthy event_key then event_key
           else PStr (''ready-v1:'' @ replicate 64 CHR ''0'')) in
     andThen (forEach (\<lambda>field. require_nonempty_text (fld value field) field)
         [''owner_principal'', ''workspace_id'', ''conversation_id'']) (\<lambda>_.
     andThen (forEach (\<lambda>(field, pattern). require_pattern pattern (fld value field) field)
         SOURCE_PATTERNS) (\<lambda>_.
     let idempotency_key = event_idempotency_key_v1 value in
     andThen (if event_key = PNone
         then Inr (dict_set ''event_key''
           (PStr (''ready-v1:'' @ removeprefix ''task-ready-event:'' idempotency_key)) value)
         else andThen (require_pattern ready_event event_key ''event_key'') (\<lambda>_. Inr value)) (\<lambda>value.
     Inr (dict_set ''idempotency_key'' (PStr idempotency_key)
       (dict_set ''source_fact_sha256'' (PStr (sha256_json (source_facts_v1 value))) value))))))"

definition validate_reservation_v3 :: "pyval \<Rightarrow> pyval res" where
  "validate_reservation_v3 value =
    (if \<not> is_dict value \<or> \<not> keys_are value V3_RESERVATION_FIELDS
        \<or> \<not> py_eq (fld value ''schema_version'') (PStr RESERVATION_SCHEMA_VERSION_V3)
     then Inl (ValueError ''continuation reservation v3 is invalid'')
     else andThen (forEach (\<lambda>field. require_nonempty_text (fld value field) field)
         [''owner_principal'', ''workspace_id'', ''conversation_id'']) (\<lambda>_.
     andThen (forEach (\<lambda>(field, pattern). require_pattern pattern (fld value field) field)
         [(''task_id'', re_prefix_hex ''task_'' 32), (''signal_job_id'', re_prefix_hex ''signaljob_'' 32),
          (''result_artifact_id'', re_prefix_hex ''artifact_'' 32), (''event_key'', ready_event),
          (''result_artifact_content_sha256'', re_hex 64), (''source_fact_sha256'', re_hex 64)]) (\<lambda>_.
     if \<not> py_eq (fld value ''signal_job_status'') (PStr ''completed'')
        \<or> \<not> py_eq (fld value ''result_artifact_kind'') (PStr ''signal_snapshot'')
        \<or> \<not> py_eq (fld value ''result_artifact_status'') (PStr ''validated'')
     then Inl (ValueError ''continuation source facts are not terminal and validated'')
     else if \<not> py_eq (fld value ''source_fact_sha256'') (PStr (sha256_json (source_facts_v1 value)))
     then Inl (ValueError ''continuation source fact digest changed'')
     else if \<not> py_eq (fld value ''idempotency_key'') (PStr (event_idempotency_key_v1 value))
     then Inl (ValueError ''continuation event idempotency key changed'')
     else andThen (validate_execution_profile_v2 (fld value ''execution_profile'')) (\<lambda>profile.
     andThen (validate_request_limits_v2 (fld value ''request_limits'') profile) (\<lambda>_.
     Inr value)))))"

definition continuation_reservation_v3 ::
    "source_identity \<Rightarrow> pyval \<Rightarrow> pyval \<Rightarrow> pyval \<Rightarrow> pyval \<Rightarrow> pyval \<Rightarrow> pyval res" where
  "continuation_reservation_v3 i event_key options options_revision provider model =
     andThen (continuation_reservation_identity_v3 i event_key) (\<lambda>value.
     andThen (execution_profile_v2 options options_revision provider model) (\<lambda>profile.
     andThen (request_limits_v2 (fld profile ''options'')) (\<lambda>limits.
     validate_reservation_v3 (dict_set ''request_limits'' limits
       (dict_set ''execution_profile'' profile value)))))"

section \<open>Usage receipts of the option-bound profile\<close>

definition LIMIT_MEASURES_V2 :: "(string \<times> string) list" where
  "LIMIT_MEASURES_V2 = [(''provider_calls'', ''max_provider_calls''),
     (''provider_attempts'', ''max_attempts''), (''max_input_bytes'', ''max_input_bytes''),
     (''input_bytes'', ''max_total_input_bytes''),
     (''max_declared_output_tokens'', ''max_output_tokens''),
     (''declared_output_tokens'', ''max_total_output_tokens''),
     (''max_tool_payload_bytes'', ''max_tool_payload_bytes''),
     (''tool_payload_bytes'', ''max_total_tool_payload_bytes''),
     (''tool_calls'', ''max_tool_calls''), (''max_concurrent'', ''max_concurrent'')]"

definition unknown_admission_usage_v2 :: pyval where
  "unknown_admission_usage_v2 = PDict (map (\<lambda>f. (f, PNone)) (sort ADMISSION_FIELDS))"

definition unknown_actual_usage_v2 :: pyval where
  "unknown_actual_usage_v2 = PDict (map (\<lambda>f. (f, PNone)) COUNT_FIELDS
     @ [(''usage_source'', PStr ''unknown''), (''completeness'', PStr ''unknown'')])"

text \<open>\<open>a is not None and b is not None and a > b\<close> on nullable integers.\<close>

definition known_above :: "pyval \<Rightarrow> pyval \<Rightarrow> bool" where
  "known_above a b \<longleftrightarrow> a \<noteq> PNone \<and> b \<noteq> PNone \<and> the_int b < the_int a"

definition known_limit_overruns_v2 :: "pyval \<Rightarrow> pyval \<Rightarrow> string list" where
  "known_limit_overruns_v2 admission limits =
    (let overruns = map snd (filter (\<lambda>(measurement, limit_name).
           known_above (fld admission measurement) (fld limits limit_name)) LIMIT_MEASURES_V2);
         elapsed = fld admission ''elapsed_ms''; runtime_seconds = fld limits ''max_runtime_seconds'' in
     sort (remdups (overruns
       @ (if elapsed \<noteq> PNone \<and> runtime_seconds \<noteq> PNone
              \<and> the_int runtime_seconds * 1000 < the_int elapsed
          then [''max_runtime_seconds''] else []))))"

definition validate_admission_usage_v2 :: "pyval \<Rightarrow> unit res" where
  "validate_admission_usage_v2 value =
    (if \<not> is_dict value \<or> \<not> keys_are value ADMISSION_FIELDS
        \<or> list_ex (\<lambda>(_, item). item \<noteq> PNone \<and> \<not> int_at_least 0 item) (the_dict value)
     then Inl (ValueError ''invalid continuation admission measurements v2'')
     else if fld value ''provider_calls'' \<noteq> PNone \<and> fld value ''provider_attempts'' \<noteq> PNone
        \<and> \<not> py_eq (fld value ''provider_calls'') (fld value ''provider_attempts'')
     then Inl (ValueError ''provider calls are actual HTTP attempts, including retries and compaction'')
     else forEach (\<lambda>(peak, total). if known_above (fld value peak) (fld value total)
       then Inl (ValueError ''continuation peak exceeds cumulative measurement'') else Inr ())
       PEAK_TOTAL_PAIRS)"

definition check_actual_v2 :: "pyval \<Rightarrow> pyval \<Rightarrow> unit res" where
  "check_actual_v2 actual admission =
    (if \<not> is_dict actual \<or> \<not> keys_are actual ACTUAL_FIELDS
     then Inl (ValueError ''invalid continuation actual usage v2'')
     else andThen (forEach (\<lambda>key. let item = fld actual key in
         if item \<noteq> PNone \<and> \<not> int_at_least 0 item
         then Inl (ValueError ''invalid continuation actual usage count'') else Inr ()) COUNT_FIELDS) (\<lambda>_.
     if fld actual ''usage_source'' \<notin> set (map PStr [''provider_response'', ''unknown'', ''no_provider_calls''])
     then Inl (ValueError ''invalid continuation usage source'')
     else if fld actual ''completeness'' \<notin> set (map PStr [''known'', ''partial'', ''unknown''])
     then Inl (ValueError ''invalid continuation usage completeness'')
     else let counts = map (fld actual) COUNT_FIELDS; src = fld actual ''usage_source'';
              completeness = fld actual ''completeness'';
              known_count = length (filter (\<lambda>item. item \<noteq> PNone) counts) in
     if (completeness = PStr ''known'' \<and> known_count \<noteq> length counts)
        \<or> (completeness = PStr ''partial'' \<and> \<not> (0 < known_count \<and> known_count < length counts))
        \<or> (completeness = PStr ''unknown'' \<and> known_count \<noteq> 0)
     then Inl (ValueError ''continuation usage completeness does not match its counts'')
     else if src = PStr ''unknown'' \<and> completeness \<noteq> PStr ''unknown''
     then Inl (ValueError ''unknown continuation usage source cannot establish counts'')
     else if src = PStr ''no_provider_calls''
       \<and> (list_ex (\<lambda>item. \<not> py_eq item (PInt 0)) counts \<or> completeness \<noteq> PStr ''known''
          \<or> \<not> py_eq (fld admission ''provider_attempts'') (PInt 0))
     then Inl (ValueError ''no-provider usage requires proven zero attempts and counts'')
     else if fld actual ''provider_attempts'' \<noteq> PNone \<and> fld admission ''provider_attempts'' \<noteq> PNone
       \<and> \<not> py_eq (fld actual ''provider_attempts'') (fld admission ''provider_attempts'')
     then Inl (ValueError ''continuation attempt measurement conflicts'')
     else Inr ()))"

definition validate_request_usage_v2 :: "pyval \<Rightarrow> pyval res" where
  "validate_request_usage_v2 value =
    (if \<not> is_dict value \<or> \<not> keys_are value USAGE_FIELDS
        \<or> \<not> py_eq (fld value ''schema_version'') (PStr USAGE_SCHEMA_VERSION_V2)
     then Inl (ValueError ''invalid continuation request usage v2'')
     else andThen (validate_execution_profile_v2 (fld value ''execution_profile'')) (\<lambda>profile.
     andThen (validate_request_limits_v2 (fld value ''request_limits'') profile) (\<lambda>limits.
     andThen (validate_admission_usage_v2 (fld value ''admission_usage'')) (\<lambda>_.
     andThen (check_actual_v2 (fld value ''actual_usage'') (fld value ''admission_usage'')) (\<lambda>_.
     let violations = fld value ''limit_violations'';
         allowed = keys_of limits @ [''provider_declared_output_exceeded''] in
     if \<not> is_list violations
        \<or> list_ex (\<lambda>item. \<not> is_str item \<or> the_str item \<notin> set allowed) (the_list violations)
        \<or> \<not> py_eq violations (strs (sort (remdups (map the_str (the_list violations)))))
     then Inl (ValueError ''invalid observed continuation limit violations v2'')
     else if \<not> set (known_limit_overruns_v2 (fld value ''admission_usage'') limits)
            \<subseteq> set (map the_str (the_list violations))
     then Inl (ValueError ''known continuation overrun was omitted from the receipt'')
     else Inr value)))))"

definition continuation_request_usage_v2 :: "pyval \<Rightarrow> pyval \<Rightarrow> pyval \<Rightarrow> pyval \<Rightarrow> pyval res" where
  "continuation_request_usage_v2 execution_profile admission_usage actual_usage limit_violations =
     andThen (validate_execution_profile_v2 execution_profile) (\<lambda>profile.
     andThen (request_limits_v2 (fld profile ''options'')) (\<lambda>limits.
     if \<not> is_list limit_violations \<or> list_ex (\<lambda>item. \<not> is_str item) (the_list limit_violations)
     then Inl (ValueError ''invalid continuation limit violations'')
     else andThen (validate_admission_usage_v2 admission_usage) (\<lambda>_.
     validate_request_usage_v2 (PDict [(''schema_version'', PStr USAGE_SCHEMA_VERSION_V2),
       (''execution_profile'', profile), (''request_limits'', limits),
       (''admission_usage'', admission_usage), (''actual_usage'', actual_usage),
       (''limit_violations'', strs (sort (remdups (map the_str (the_list limit_violations)
          @ known_limit_overruns_v2 admission_usage limits))))]))))"

definition exceeded_request_limits_v2 :: "pyval \<Rightarrow> string list res" where
  "exceeded_request_limits_v2 value = andThen (validate_request_usage_v2 value) (\<lambda>receipt.
     Inr (sort (remdups (map the_str (the_list (fld receipt ''limit_violations''))
       @ known_limit_overruns_v2 (fld receipt ''admission_usage'') (fld receipt ''request_limits'')))))"

section \<open>The option-bound profile rebuilds itself\<close>

lemma continuation_profile_returns:
  "execution_profile_v2 options revision provider model = Inr p \<longleftrightarrow>
     options_ok options \<and> (\<exists>n \<ge> 0. revision = PInt n)
     \<and> (\<exists>pr mo route. provider = PStr pr \<and> model = PStr mo
         \<and> map_of EXECUTION_ROUTES_V2 (pr, mo) = Some route
         \<and> p = PDict (continuation_binding (normal_options options) revision pr mo route
             @ [(''profile_sha256'', PStr (sha256_json (PDict
                 (continuation_binding (normal_options options) revision pr mo route))))]))"
  by (cases provider; cases model)
    (auto simp: execution_profile_v2_def res_simps validate_options_iff int_at_least_conv Let_def
      split: option.splits)

definition rebuild_continuation :: "pyval \<Rightarrow> pyval res" where
  "rebuild_continuation v = (if \<not> is_dict v \<or> \<not> keys_are v PROFILE_V2_FIELDS
     then Inl (ValueError ''continuation execution profile v2 is invalid'')
     else execution_profile_v2 (fld v ''options'') (fld v ''options_revision'') (fld v ''provider'')
       (fld v ''model''))"

lemma validate_continuation_iff:
  "validate_execution_profile_v2 v = Inr p \<longleftrightarrow> rebuild_continuation v = Inr p \<and> py_eq v p"
  unfolding validate_execution_profile_v2_def rebuild_continuation_def res_simps
    continuation_profile_returns validate_options_iff
  by (auto simp: normal_options_ok normal_options_again)

lemma continuation_binding_fld:
  "fld (PDict (continuation_binding o' r pr mo ro @ t)) ''options'' = o'"
  "fld (PDict (continuation_binding o' r pr mo ro @ t)) ''options_revision'' = r"
  "fld (PDict (continuation_binding o' r pr mo ro @ t)) ''provider'' = PStr pr"
  "fld (PDict (continuation_binding o' r pr mo ro @ t)) ''model'' = PStr mo"
  "fld (PDict (continuation_binding o' r pr mo ro @ t)) ''allowed_domain_tools'' = strs ALLOWED_DOMAIN_TOOLS"
  "fld (PDict (continuation_binding o' r pr mo ro @ t)) ''allowed_harness_tools'' = strs ALLOWED_HARNESS_TOOLS"
  by (simp_all add: continuation_binding_def)

lemma continuation_binding_keys:
  "set (keys_of (PDict (continuation_binding o' r pr mo ro @ [(''profile_sha256'', x)]))) = set PROFILE_V2_FIELDS"
  by (simp add: continuation_binding_def PROFILE_V2_FIELDS_def)

lemma continuation_profile_built:
  assumes "execution_profile_v2 options revision provider model = Inr p"
  shows "rebuild_continuation p = Inr p" "py_eq p p"
proof -
  obtain n pr mo ro x where ok: "options_ok options" and n: "revision = PInt n" "0 \<le> n"
    and route: "map_of EXECUTION_ROUTES_V2 (pr, mo) = Some ro"
    and p: "p = PDict (continuation_binding (normal_options options) (PInt n) pr mo ro
       @ [(''profile_sha256'', PStr x)])"
      "x = sha256_json (PDict (continuation_binding (normal_options options) (PInt n) pr mo ro))"
    using assms unfolding continuation_profile_returns by auto
  show "rebuild_continuation p = Inr p"
    unfolding rebuild_continuation_def p(1) continuation_binding_fld if_raise_returns
      continuation_profile_returns keys_are_iff continuation_binding_keys normal_options_again
    using ok n route normal_options_ok p(2) by simp
  show "py_eq p p"
    using plain_normal_options [OF ok]
    by (intro py_eq_refl) (simp add: p(1) continuation_binding_def)
qed

lemma rebuild_continuationD:
  "rebuild_continuation v = Inr p \<Longrightarrow> execution_profile_v2 (fld v ''options'')
     (fld v ''options_revision'') (fld v ''provider'') (fld v ''model'') = Inr p"
  by (simp add: rebuild_continuation_def if_raise_returns)

interpretation continuation_profile:
  rebuilt_carrier validate_execution_profile_v2 rebuild_continuation py_eq
  by unfold_locales
    (auto simp: validate_continuation_iff dest!: rebuild_continuationD intro: continuation_profile_built)

lemma built_profile_accepted:
  "execution_profile_v2 options revision provider model = Inr p \<Longrightarrow> validate_execution_profile_v2 p = Inr p"
  using continuation_profile_built validate_continuation_iff by blast

lemma continuation_routes:
  assumes "rebuild_continuation v = Inr p"
  shows "fld p ''profile_id'' = PStr PROFILE_ID_V2
      \<and> routed_to p [''opencode-go-chat'', ''deepseek-v4.1-flash'', ''https://opencode.ai/zen/go/v1'', ''/chat/completions'']
    \<or> fld p ''profile_id'' = PStr OFFICIAL_PROFILE_ID
      \<and> routed_to p [''deepseek-official'', ''deepseek-flash'', ''https://api.deepseek.com/anthropic'', ''/v1/messages'']"
  using rebuild_continuationD [OF assms]
  by (auto simp: continuation_profile_returns EXECUTION_ROUTES_V2_def continuation_binding_def routed_to_def ALLOWED_PROVIDER_def
      ALLOWED_MODEL_def UPSTREAM_BASE_URL_def UPSTREAM_REQUEST_TARGET_def OFFICIAL_PROVIDER_def OFFICIAL_MODEL_def
      OFFICIAL_UPSTREAM_BASE_URL_def OFFICIAL_UPSTREAM_REQUEST_TARGET_def split: if_splits)

lemma continuation_profile_at:
  assumes "rebuild_continuation v = Inr p"
  shows "fld p ''options'' = normal_options (fld v ''options'')" "options_ok (fld p ''options'')"
    "carries_digest sha256_json p" "is_dict p"
    "fld p ''allowed_domain_tools'' = strs ALLOWED_DOMAIN_TOOLS"
    "fld p ''allowed_harness_tools'' = strs ALLOWED_HARNESS_TOOLS"
    "\<exists>pr mo. fld p ''provider'' = PStr pr \<and> fld p ''model'' = PStr mo
       \<and> (pr, mo) \<in> {(ALLOWED_PROVIDER, ALLOWED_MODEL), (OFFICIAL_PROVIDER, OFFICIAL_MODEL)}"
proof -
  obtain b n pr mo ro where ok: "options_ok (fld v ''options'')"
    and route: "map_of EXECUTION_ROUTES_V2 (pr, mo) = Some ro"
    and b: "b = continuation_binding (normal_options (fld v ''options'')) (PInt n) pr mo ro"
    and p: "p = PDict (b @ [(''profile_sha256'', PStr (sha256_json (PDict b)))])"
    using assms unfolding rebuild_continuation_def if_raise_returns continuation_profile_returns by auto
  show "carries_digest sha256_json p" using p by (auto simp: carries_digest_def)
  show "is_dict p" by (simp add: p)
  show "fld p ''options'' = normal_options (fld v ''options'')" "options_ok (fld p ''options'')"
    "fld p ''allowed_domain_tools'' = strs ALLOWED_DOMAIN_TOOLS"
    "fld p ''allowed_harness_tools'' = strs ALLOWED_HARNESS_TOOLS"
    using ok normal_options_ok by (simp_all add: p b continuation_binding_fld)
  have "(pr, mo) \<in> {(ALLOWED_PROVIDER, ALLOWED_MODEL), (OFFICIAL_PROVIDER, OFFICIAL_MODEL)}"
    using map_of_SomeD [OF route] by (auto simp: EXECUTION_ROUTES_V2_def)
  then show "\<exists>pr mo. fld p ''provider'' = PStr pr \<and> fld p ''model'' = PStr mo
       \<and> (pr, mo) \<in> {(ALLOWED_PROVIDER, ALLOWED_MODEL), (OFFICIAL_PROVIDER, OFFICIAL_MODEL)}"
    by (simp add: p b continuation_binding_fld)
qed

section \<open>Limits rebuild themselves\<close>

lemma distinct_keys_dict_merge: "distinct (keys_of a) \<Longrightarrow> distinct (keys_of (dict_merge a b))"
  unfolding keys_of_def dict_merge_def
  by (induction b arbitrary: a rule: rev_induct) (auto simp: distinct_update)

lemma plainI:
  assumes "is_dict v" "distinct (keys_of v)" "\<And>k. k \<in> set (keys_of v) \<Longrightarrow> plain (fld v k)"
  shows "plain v"
proof -
  obtain d where v: "v = PDict d" using assms(1) by (auto simp: is_dict_conv)
  have "plain x" if "(k, x) \<in> set d" for k x
    using that assms(2) assms(3) [of k] by (force simp: v fld_def)
  with assms(2) show ?thesis by (auto simp: v list_all_iff)
qed

lemma is_dict_limits [simp]: "is_dict (limits_of_options n)"
  by (simp add: limits_of_options_def)

lemma plain_limits:
  assumes "options_ok v"
  shows "plain (limits_of_options (normal_options v))"
proof (rule plainI)
  show "distinct (keys_of (limits_of_options (normal_options v)))"
    unfolding limits_of_options_def
    by (rule distinct_keys_dict_merge) (simp add: LIMIT_NAMES_def)
  show "plain (fld (limits_of_options (normal_options v)) k)"
    if "k \<in> set (keys_of (limits_of_options (normal_options v)))" for k
    using limits_value [OF assms, of k] that limits_of_options_keys by auto
qed simp

lemma validate_limits_iff:
  assumes "validate_execution_profile_v2 p = Inr p'"
  shows "validate_request_limits_v2 v p = Inr l \<longleftrightarrow>
    l = limits_of_options (fld p' ''options'') \<and> is_dict v \<and> set (keys_of v) = set LIMIT_NAMES
    \<and> (\<forall>(_, item) \<in> set (the_dict v). item = PNone \<or> (\<exists>n \<ge> 1. item = PInt n)) \<and> py_eq v l"
proof -
  have r: "rebuild_continuation p = Inr p'" using assms validate_continuation_iff by blast
  note at = continuation_profile_at(1,2) [OF r]
  have n: "normal_options (fld p' ''options'') = fld p' ''options''"
    using at(1) normal_options_again by simp
  show ?thesis
    unfolding validate_request_limits_v2_def assms andThen_Inr request_limits_v2_def res_simps limits_returns n
    using at(2) limits_of_options_keys [of "fld p' ''options''"]
    by (auto simp: keys_are_iff list_ex_iff int_at_least_conv)
qed

lemma built_limits_accepted:
  assumes "validate_execution_profile_v2 p = Inr p'"
  shows "validate_request_limits_v2 (limits_of_options (fld p' ''options'')) p
    = Inr (limits_of_options (fld p' ''options''))"
proof -
  have r: "rebuild_continuation p = Inr p'" using assms validate_continuation_iff by blast
  note at = continuation_profile_at(1,2) [OF r]
  have ok: "options_ok (fld p' ''options'')" by (rule at(2))
  have n: "fld p' ''options'' = normal_options (fld p' ''options'')"
    using at(1) normal_options_again by simp
  have pl: "plain (limits_of_options (fld p' ''options''))" using plain_limits [OF ok] n by simp
  have item: "x = PNone \<or> (\<exists>n \<ge> 1. x = PInt n)"
    if "(k, x) \<in> set (the_dict (limits_of_options (fld p' ''options'')))" for k x
  proof -
    have d: "distinct (keys_of (limits_of_options (fld p' ''options'')))"
      unfolding limits_of_options_def
      by (rule distinct_keys_dict_merge) (simp add: LIMIT_NAMES_def)
    then have "fld (limits_of_options (fld p' ''options'')) k = x"
      using that by (simp add: fld_def keys_of_def)
    moreover have "k \<in> set LIMIT_NAMES"
      using that limits_of_options_keys by (force simp: keys_of_def)
    ultimately show ?thesis using limits_value [OF ok, of k] n by auto
  qed
  then show ?thesis
    unfolding validate_limits_iff [OF assms] using py_eq_refl [OF pl] limits_of_options_keys by auto
qed

section \<open>Reservations\<close>

lemma nonempty_hex: "list_all (\<lambda>c. \<not> is_space c) p \<Longrightarrow> re_hex n s \<Longrightarrow> 0 < n \<Longrightarrow> nonempty_text (PStr (p @ s))"
  by (auto simp: nonempty_text_def re_hex_def list_all_iff hex_no_space intro!: strip_no_space)

lemma require_returns [res_simps]:
  "require_nonempty_text v f = Inr u \<longleftrightarrow> nonempty_text v"
  "require_pattern re v f = Inr u \<longleftrightarrow> nonempty_text v \<and> re (the_str v)"
  by (auto simp: require_nonempty_text_def require_pattern_def res_simps)

definition source_ok :: "source_identity \<Rightarrow> bool" where
  "source_ok i \<longleftrightarrow> nonempty_text (si_owner_principal i) \<and> nonempty_text (si_workspace_id i)
     \<and> nonempty_text (si_conversation_id i)
     \<and> nonempty_text (si_task_id i) \<and> re_prefix_hex ''task_'' 32 (the_str (si_task_id i))
     \<and> nonempty_text (si_signal_job_id i) \<and> re_prefix_hex ''signaljob_'' 32 (the_str (si_signal_job_id i))
     \<and> nonempty_text (si_result_artifact_id i)
     \<and> re_prefix_hex ''artifact_'' 32 (the_str (si_result_artifact_id i))
     \<and> nonempty_text (si_result_artifact_content_sha256 i)
     \<and> re_hex 64 (the_str (si_result_artifact_content_sha256 i))"

text \<open>The idempotency key reads the owner, workspace, conversation, task and job only.\<close>

definition source_key :: "source_identity \<Rightarrow> string" where
  "source_key i = event_idempotency_key_v1 (identity_value i PNone)"

lemma identity_value_fld:
  "fld (identity_value i ek) ''schema_version'' = PStr RESERVATION_SCHEMA_VERSION_V3"
  "fld (identity_value i ek) ''owner_principal'' = si_owner_principal i"
  "fld (identity_value i ek) ''workspace_id'' = si_workspace_id i"
  "fld (identity_value i ek) ''conversation_id'' = si_conversation_id i"
  "fld (identity_value i ek) ''task_id'' = si_task_id i"
  "fld (identity_value i ek) ''event_key'' = ek"
  "fld (identity_value i ek) ''signal_job_id'' = si_signal_job_id i"
  "fld (identity_value i ek) ''signal_job_status'' = PStr ''completed''"
  "fld (identity_value i ek) ''result_artifact_id'' = si_result_artifact_id i"
  "fld (identity_value i ek) ''result_artifact_kind'' = PStr ''signal_snapshot''"
  "fld (identity_value i ek) ''result_artifact_status'' = PStr ''validated''"
  "fld (identity_value i ek) ''result_artifact_content_sha256'' = si_result_artifact_content_sha256 i"
  by (simp_all add: identity_value_def)

lemma source_key_any: "event_idempotency_key_v1 (identity_value i ek) = source_key i"
  by (simp add: source_key_def event_idempotency_key_v1_def EVENT_IDENTITY_FIELDS_def identity_value_fld)

lemma set_event_key: "dict_set ''event_key'' x (identity_value i ek) = identity_value i x"
  by (simp add: identity_value_def dict_set_def)

definition event_key_ok :: "pyval \<Rightarrow> bool" where
  "event_key_ok ek \<longleftrightarrow> nonempty_text ek \<and> ready_event (the_str ek)"

definition identity_event_key :: "source_identity \<Rightarrow> pyval \<Rightarrow> pyval" where
  "identity_event_key i ek = (if ek = PNone
     then PStr (''ready-v1:'' @ removeprefix ''task-ready-event:'' (source_key i)) else ek)"

lemma derived_event_key_ok: "event_key_ok (identity_event_key i PNone)"
proof -
  obtain v where k: "source_key i = ''task-ready-event:'' @ sha256_json v"
    unfolding source_key_def event_idempotency_key_v1_def by blast
  have "list_all (\<lambda>c. \<not> is_space c) ''ready-v1:''" by (simp add: is_space_def code_def)
  from nonempty_hex [OF this sha256_json_hex] show ?thesis
    unfolding event_key_ok_def identity_event_key_def k removeprefix_append ready_event_def
    using sha256_json_hex re_prefix_hex_append by (simp only: the_str.simps if_True simp_thms zero_less_numeral)
qed

definition reservation_identity :: "source_identity \<Rightarrow> pyval \<Rightarrow> pyval" where
  "reservation_identity i ek = dict_set ''idempotency_key'' (PStr (source_key i))
     (dict_set ''source_fact_sha256'' (PStr (sha256_json (source_facts_v1 (identity_value i ek))))
       (identity_value i ek))"

lemma identity_returns:
  "continuation_reservation_identity_v3 i ek = Inr v \<longleftrightarrow>
     source_ok i \<and> (ek = PNone \<or> event_key_ok ek) \<and> v = reservation_identity i (identity_event_key i ek)"
proof (cases "ek = PNone")
  case True
  then show ?thesis
    by (simp add: continuation_reservation_identity_v3_def Let_def res_simps SOURCE_PATTERNS_def
        identity_value_fld source_key_any set_event_key source_ok_def reservation_identity_def
        identity_event_key_def) blast
next
  case False
  have t: "nonempty_text ek \<Longrightarrow> truthy ek" by (cases ek) (auto simp: nonempty_text_def)
  show ?thesis
    using False t
    by (auto simp: continuation_reservation_identity_v3_def Let_def res_simps SOURCE_PATTERNS_def
        identity_value_fld source_key_any source_ok_def reservation_identity_def event_key_ok_def
        identity_event_key_def)
qed

lemma reservation_identity_fld:
  "fld (reservation_identity i ek) k = (if k = ''idempotency_key'' then PStr (source_key i)
     else if k = ''source_fact_sha256'' then PStr (sha256_json (source_facts_v1 (identity_value i ek)))
     else fld (identity_value i ek) k)"
  by (simp add: reservation_identity_def)

text \<open>The reservation the constructor hands to the validator.\<close>

definition reservation_value :: "source_identity \<Rightarrow> pyval \<Rightarrow> pyval \<Rightarrow> pyval" where
  "reservation_value i ek profile = dict_set ''request_limits'' (limits_of_options (fld profile ''options''))
     (dict_set ''execution_profile'' profile (reservation_identity i ek))"

lemma reservation_value_facts:
  "source_facts_v1 (reservation_value i ek p) = source_facts_v1 (identity_value i ek)"
  "event_idempotency_key_v1 (reservation_value i ek p) = source_key i"
  "set (keys_of (reservation_value i ek p)) = set V3_RESERVATION_FIELDS"
  by (simp_all add: source_facts_v1_def SOURCE_FACT_FIELDS_def reservation_value_def reservation_identity_fld
      event_idempotency_key_v1_def EVENT_IDENTITY_FIELDS_def source_key_def identity_value_fld
      reservation_identity_def)
    (simp add: identity_value_def V3_RESERVATION_FIELDS_def insert_commute)

lemma reservation_value_valid:
  assumes "source_ok i" "event_key_ok ek" "validate_execution_profile_v2 p = Inr p"
  shows "validate_reservation_v3 (reservation_value i ek p) = Inr (reservation_value i ek p)"
proof -
  let ?v = "reservation_value i ek p"
  have digest: "nonempty_text (PStr (sha256_json x))" for x
    using nonempty_hex [of "[]"] sha256_json_hex by fastforce
  have f: "fld ?v ''execution_profile'' = p" "fld ?v ''request_limits'' = limits_of_options (fld p ''options'')"
    "fld ?v ''idempotency_key'' = PStr (source_key i)"
    "fld ?v ''source_fact_sha256'' = PStr (sha256_json (source_facts_v1 (identity_value i ek)))"
    by (simp_all add: reservation_value_def reservation_identity_fld)
  have g: "fld ?v k = fld (identity_value i ek) k"
    if "k \<in> {''schema_version'', ''owner_principal'', ''workspace_id'', ''conversation_id'', ''task_id'',
      ''event_key'', ''signal_job_id'', ''signal_job_status'', ''result_artifact_id'',
      ''result_artifact_kind'', ''result_artifact_status'', ''result_artifact_content_sha256''}" for k
    using that by (auto simp: reservation_value_def reservation_identity_fld)
  show ?thesis
    using assms built_limits_accepted [OF assms(3)] digest sha256_json_hex
    by (simp add: validate_reservation_v3_def res_simps keys_are_iff reservation_value_facts f g
        identity_value_fld source_ok_def event_key_ok_def) (simp add: reservation_value_def)
qed
lemma reservation_returns:
  "continuation_reservation_v3 i ek options revision provider model = Inr v \<longleftrightarrow>
     source_ok i \<and> (ek = PNone \<or> event_key_ok ek)
     \<and> (\<exists>p. execution_profile_v2 options revision provider model = Inr p
          \<and> v = reservation_value i (identity_event_key i ek) p)" (is "?L \<longleftrightarrow> ?R")
proof -
  have key: "event_key_ok (identity_event_key i ek)" if "ek = PNone \<or> event_key_ok ek"
    using that derived_event_key_ok by (auto simp: identity_event_key_def)
  have lim': "request_limits_v2 (fld p ''options'') = Inr (limits_of_options (fld p ''options''))"
    if "execution_profile_v2 options revision provider model = Inr p" for p
    using continuation_profile_at(1,2) [OF continuation_profile_built(1) [OF that]]
    by (simp add: request_limits_v2_def limits_returns)
  have tail: "continuation_reservation_v3 i ek options revision provider model
      = Inr (reservation_value i (identity_event_key i ek) p)"
    if "source_ok i" "ek = PNone \<or> event_key_ok ek"
      "execution_profile_v2 options revision provider model = Inr p" for p
  proof -
    have "continuation_reservation_identity_v3 i ek = Inr (reservation_identity i (identity_event_key i ek))"
      using that by (simp add: identity_returns)
    then show ?thesis
      using that(3) lim' [OF that(3)]
        reservation_value_valid [OF that(1) key [OF that(2)] built_profile_accepted [OF that(3)]]
      by (simp add: continuation_reservation_v3_def reservation_value_def)
  qed
  show ?thesis
  proof
    assume ?L
    then obtain w p where "continuation_reservation_identity_v3 i ek = Inr w"
        "execution_profile_v2 options revision provider model = Inr p"
      by (auto simp: continuation_reservation_v3_def res_simps)
    then show ?R using tail \<open>?L\<close> by (auto simp: identity_returns)
  qed (use tail in blast)
qed

section \<open>Receipts\<close>

lemma py_eq_limits_fld:
  assumes "py_eq v l" "is_dict v" "set (keys_of v) = set LIMIT_NAMES"
    "\<forall>(_, item) \<in> set (the_dict v). item = PNone \<or> (\<exists>n \<ge> 1. item = PInt n)"
    "l = limits_of_options (normal_options o')" "options_ok o'" "k \<in> set LIMIT_NAMES"
  shows "fld v k = fld l k"
proof -
  obtain d where d: "v = PDict d" using assms(2) by (auto simp: is_dict_conv)
  obtain d' where d': "l = PDict d'" using assms(5) by (auto simp: limits_of_options_def dict_merge_def)
  have "k \<in> fst ` set d" using assms(3,7) d by (auto simp: keys_of_def)
  then obtain x where x: "map_of d k = Some x"
    by (cases "map_of d k") (auto simp: map_of_eq_None_iff)
  then obtain y where y: "map_of d' k = Some y" "py_eq x y"
    using assms(1) map_of_SomeD [OF x] by (fastforce simp: d d' py_dict_sub_iff)
  have "y = PNone \<or> (\<exists>n \<ge> 1. y = PInt n)"
    using limits_value [OF assms(6,7)] y(1) by (simp add: assms(5) [symmetric] d' fld_def)
  moreover have "x = PNone \<or> (\<exists>n \<ge> 1. x = PInt n)"
    using assms(4) map_of_SomeD [OF x] by (auto simp: d)
  ultimately have "x = y" using y(2) by auto
  then show ?thesis using x y(1) by (simp add: d d' fld_def)
qed

lemma overruns_cong:
  assumes "\<And>k. k \<in> set LIMIT_NAMES \<Longrightarrow> fld v k = fld l k"
  shows "known_limit_overruns_v2 a v = known_limit_overruns_v2 a l"
proof -
  have "(m, k) \<in> set LIMIT_MEASURES_V2 \<Longrightarrow> k \<in> set LIMIT_NAMES" for m k
    by (auto simp: LIMIT_MEASURES_V2_def LIMIT_NAMES_def)
  then have "filter (\<lambda>(m, k). known_above (fld a m) (fld v k)) LIMIT_MEASURES_V2
      = filter (\<lambda>(m, k). known_above (fld a m) (fld l k)) LIMIT_MEASURES_V2"
    using assms by (intro filter_cong) auto
  moreover have "fld v ''max_runtime_seconds'' = fld l ''max_runtime_seconds''"
    by (rule assms) (simp add: LIMIT_NAMES_def)
  ultimately show ?thesis by (simp add: known_limit_overruns_v2_def)
qed

lemma known_overruns_set:
  "set (known_limit_overruns_v2 a l) = {k. \<exists>m. (m, k) \<in> set LIMIT_MEASURES_V2 \<and> known_above (fld a m) (fld l k)}
     \<union> (if fld a ''elapsed_ms'' \<noteq> PNone \<and> fld l ''max_runtime_seconds'' \<noteq> PNone
            \<and> the_int (fld l ''max_runtime_seconds'') * 1000 < the_int (fld a ''elapsed_ms'')
        then {''max_runtime_seconds''} else {})"
  by (force simp: known_limit_overruns_v2_def Let_def)

lemma usage_v2D:
  assumes "validate_request_usage_v2 v = Inr r"
  obtains p l o' where "r = v" "validate_execution_profile_v2 (fld v ''execution_profile'') = Inr p"
    "options_ok o'" "fld p ''options'' = normal_options o'" "l = limits_of_options (normal_options o')"
    "is_dict (fld v ''request_limits'')"
    "set (keys_of (fld v ''request_limits'')) = set LIMIT_NAMES"
    "\<forall>(_, item) \<in> set (the_dict (fld v ''request_limits'')). item = PNone \<or> (\<exists>n \<ge> 1. item = PInt n)"
    "py_eq (fld v ''request_limits'') l"
    "set (known_limit_overruns_v2 (fld v ''admission_usage'') l)
       \<subseteq> set (map the_str (the_list (fld v ''limit_violations'')))"
proof -
  obtain p l where h: "r = v" "validate_execution_profile_v2 (fld v ''execution_profile'') = Inr p"
    "validate_request_limits_v2 (fld v ''request_limits'') p = Inr l"
    "set (known_limit_overruns_v2 (fld v ''admission_usage'') l)
       \<subseteq> set (map the_str (the_list (fld v ''limit_violations'')))"
    using assms unfolding validate_request_usage_v2_def andThen_returns if_raise_returns Let_def by auto
  have r: "rebuild_continuation (fld v ''execution_profile'') = Inr p"
    using h(2) validate_continuation_iff by blast
  have "validate_execution_profile_v2 p = Inr p"
    using continuation_profile.check_again [OF h(2)] .
  note lm = h(3) [unfolded validate_limits_iff [OF this]]
  have "options_ok (fld (fld v ''execution_profile'') ''options'')"
    using r unfolding rebuild_continuation_def if_raise_returns continuation_profile_returns by blast
  then show ?thesis
    using that h lm continuation_profile_at(1) [OF r] by auto
qed


lemma usage_v2_receipt:
  assumes "validate_request_usage_v2 v = Inr r"
  shows "r = v" "exceeded_request_limits_v2 v
      = Inr (sort (remdups (map the_str (the_list (fld v ''limit_violations'')))))"
    "set (known_limit_overruns_v2 (fld v ''admission_usage'') (fld v ''request_limits''))
       \<subseteq> set (map the_str (the_list (fld v ''limit_violations'')))"
proof -
  from assms obtain p l o' where h: "r = v" "options_ok o'" "l = limits_of_options (normal_options o')"
    "is_dict (fld v ''request_limits'')"
    "set (keys_of (fld v ''request_limits'')) = set LIMIT_NAMES"
    "\<forall>(_, item) \<in> set (the_dict (fld v ''request_limits'')). item = PNone \<or> (\<exists>n \<ge> 1. item = PInt n)"
    "py_eq (fld v ''request_limits'') l"
    "set (known_limit_overruns_v2 (fld v ''admission_usage'') l)
       \<subseteq> set (map the_str (the_list (fld v ''limit_violations'')))"
    by (rule usage_v2D)
  have same: "known_limit_overruns_v2 (fld v ''admission_usage'') (fld v ''request_limits'')
      = known_limit_overruns_v2 (fld v ''admission_usage'') l"
    by (rule overruns_cong) (rule py_eq_limits_fld [OF h(7,4,5,6,3,2)])
  show "r = v" by (rule h(1))
  show sub: "set (known_limit_overruns_v2 (fld v ''admission_usage'') (fld v ''request_limits''))
       \<subseteq> set (map the_str (the_list (fld v ''limit_violations'')))"
    using h(8) same by simp
  have "set (map the_str (the_list (fld v ''limit_violations''))
       @ known_limit_overruns_v2 (fld v ''admission_usage'') (fld v ''request_limits''))
     = set (map the_str (the_list (fld v ''limit_violations'')))"
    using sub by auto
  then have "sort (remdups (map the_str (the_list (fld v ''limit_violations''))
       @ known_limit_overruns_v2 (fld v ''admission_usage'') (fld v ''request_limits'')))
     = sort (remdups (map the_str (the_list (fld v ''limit_violations''))))"
    by (simp add: sorted_list_of_set_sort_remdups [symmetric] del: set_append set_map)
  then show "exceeded_request_limits_v2 v
      = Inr (sort (remdups (map the_str (the_list (fld v ''limit_violations'')))))"
    using assms h(1) by (simp add: exceeded_request_limits_v2_def)
qed

section \<open>What the contract promises\<close>

text \<open>C14. A continuation profile cannot be forged: an accepted value equals, under Python's equality, the profile
  that \<open>execution_profile_v2\<close> builds from its options, revision and route, which validates again, carries the
  read-only tools only and the digest of all its other fields, and names the profile, provider, model and endpoint
  of one of the two qualified routes.\<close>

theorem continuation_profile_unforgeable:
  assumes "validate_execution_profile_v2 v = Inr p"
  shows "py_eq v p \<and> validate_execution_profile_v2 p = Inr p
    \<and> execution_profile_v2 (fld v ''options'') (fld v ''options_revision'') (fld v ''provider'') (fld v ''model'') = Inr p
    \<and> fld p ''options'' = normal_options (fld v ''options'')
    \<and> carries_digest sha256_json p
    \<and> fld p ''allowed_domain_tools'' = strs ALLOWED_DOMAIN_TOOLS
    \<and> fld p ''allowed_harness_tools'' = strs ALLOWED_HARNESS_TOOLS
    \<and> (fld p ''profile_id'' = PStr PROFILE_ID_V2
         \<and> routed_to p [''opencode-go-chat'', ''deepseek-v4.1-flash'', ''https://opencode.ai/zen/go/v1'', ''/chat/completions'']
       \<or> fld p ''profile_id'' = PStr OFFICIAL_PROFILE_ID
         \<and> routed_to p [''deepseek-official'', ''deepseek-flash'', ''https://api.deepseek.com/anthropic'', ''/v1/messages''])"
proof -
  have r: "rebuild_continuation v = Inr p" and e: "py_eq v p"
    using assms validate_continuation_iff by blast+
  show ?thesis
    using e continuation_profile.check_again [OF assms] continuation_profile_at [OF r] rebuild_continuationD [OF r] continuation_routes [OF r]
    by simp
qed

lemma sample_continuation_profile:
  obtains p where "execution_profile_v2 sample_options (PInt 3) (PStr ALLOWED_PROVIDER) (PStr ALLOWED_MODEL) = Inr p"
    "validate_execution_profile_v2 p = Inr p"
proof -
  have "map_of EXECUTION_ROUTES_V2 (ALLOWED_PROVIDER, ALLOWED_MODEL) \<noteq> None"
    by (simp add: EXECUTION_ROUTES_V2_def)
  then obtain p where "execution_profile_v2 sample_options (PInt 3) (PStr ALLOWED_PROVIDER) (PStr ALLOWED_MODEL) = Inr p"
    using sample_options_ok unfolding continuation_profile_returns by auto
  then show ?thesis using that built_profile_accepted by blast
qed

theorem continuation_profile_unforgeable_witness:
  "\<exists>p. validate_execution_profile_v2 p = Inr p \<and> carries_digest sha256_json p"
proof -
  obtain p where p: "validate_execution_profile_v2 p = Inr p" by (rule sample_continuation_profile)
  from continuation_profile_unforgeable [OF this] p show ?thesis by blast
qed

text \<open>C15. A reservation exists exactly for well-formed source facts, an absent or well-formed event key and
  a qualified execution profile; the constructor never fails its own validation, and the
  idempotency key is a function of the owner, workspace, conversation, task and job alone, so
  repeating the event under other options, routes or event keys reserves the same key.\<close>

theorem reservation_exact:
  "(returns (continuation_reservation_v3 i ek options revision provider model) \<longleftrightarrow>
      source_ok i \<and> (ek = PNone \<or> event_key_ok ek)
      \<and> returns (execution_profile_v2 options revision provider model))
   \<and> (\<forall>v. continuation_reservation_v3 i ek options revision provider model = Inr v \<longrightarrow>
      validate_reservation_v3 v = Inr v \<and> fld v ''idempotency_key'' = PStr (source_key i)
      \<and> fld v ''event_key'' = identity_event_key i ek
      \<and> fld v ''request_limits'' = limits_of_options (normal_options options))"
proof -
  have "validate_reservation_v3 v = Inr v \<and> fld v ''idempotency_key'' = PStr (source_key i)
      \<and> fld v ''event_key'' = identity_event_key i ek
      \<and> fld v ''request_limits'' = limits_of_options (normal_options options)"
    if built: "continuation_reservation_v3 i ek options revision provider model = Inr v" for v
  proof -
    obtain p where h: "source_ok i" "ek = PNone \<or> event_key_ok ek"
      "execution_profile_v2 options revision provider model = Inr p"
      "v = reservation_value i (identity_event_key i ek) p"
      using built unfolding reservation_returns by blast
    have "event_key_ok (identity_event_key i ek)"
      using h(2) derived_event_key_ok by (auto simp: identity_event_key_def)
    from reservation_value_valid [OF h(1) this built_profile_accepted [OF h(3)]]
    have ok: "validate_reservation_v3 v = Inr v" by (simp add: h(4))
    have "fld p ''options'' = normal_options options"
      using h(3) unfolding continuation_profile_returns by (auto simp: continuation_binding_fld)
    with ok show ?thesis
      by (simp add: h(4) reservation_value_def reservation_identity_fld identity_value_fld)
  qed
  then show ?thesis by (auto simp: returns_iff reservation_returns)
qed

definition sample_source :: source_identity where
  "sample_source = \<lparr>si_owner_principal = PStr ''owner'', si_workspace_id = PStr ''ws'',
     si_conversation_id = PStr ''conv'', si_task_id = PStr (''task_'' @ replicate 32 CHR ''1''),
     si_signal_job_id = PStr (''signaljob_'' @ replicate 32 CHR ''2''),
     si_result_artifact_id = PStr (''artifact_'' @ replicate 32 CHR ''3''),
     si_result_artifact_content_sha256 = PStr (replicate 64 CHR ''4'')\<rparr>"

lemma replicate_hex: "is_hex c \<Longrightarrow> re_hex n (replicate n c)"
  by (simp add: re_hex_def list_all_iff)

lemma sample_source_ok: "source_ok sample_source"
proof -
  have h: "is_hex CHR ''1''" "is_hex CHR ''2''" "is_hex CHR ''3''" "is_hex CHR ''4''"
    by (simp_all add: is_hex_def is_digit_def code_def)
  have t: "nonempty_text (PStr (p @ replicate n c))"
    if "list_all (\<lambda>c. \<not> is_space c) p" "is_hex c" "0 < n" for p n c
    using nonempty_hex that replicate_hex by blast
  have "nonempty_text (PStr ''owner'')" "nonempty_text (PStr ''ws'')" "nonempty_text (PStr ''conv'')"
    by (simp_all add: nonempty_text_def strip_def is_space_def code_def)
  moreover have "nonempty_text (PStr (''task_'' @ replicate 32 CHR ''1''))"
    "nonempty_text (PStr (''signaljob_'' @ replicate 32 CHR ''2''))"
    "nonempty_text (PStr (''artifact_'' @ replicate 32 CHR ''3''))" 
    using t [OF _ h(1)] t [OF _ h(2)] t [OF _ h(3)]
    by (simp_all add: is_space_def code_def del: append.simps)
  moreover have "nonempty_text (PStr (replicate 64 CHR ''4''))"
    using t [of "[]" "CHR ''4''" 64] h(4) by simp
  ultimately show ?thesis
    unfolding source_ok_def sample_source_def
    by (simp only: source_identity.simps the_str.simps re_prefix_hex_append replicate_hex h simp_thms)
qed

theorem reservation_exact_witness:
  "\<exists>v. continuation_reservation_v3 sample_source PNone sample_options (PInt 3) (PStr ALLOWED_PROVIDER)
      (PStr ALLOWED_MODEL) = Inr v \<and> validate_reservation_v3 v = Inr v
     \<and> fld v ''idempotency_key'' = PStr (source_key sample_source)"
proof -
  have "returns (execution_profile_v2 sample_options (PInt 3) (PStr ALLOWED_PROVIDER) (PStr ALLOWED_MODEL))"
    by (rule sample_continuation_profile) simp
  with reservation_exact [of sample_source PNone sample_options "PInt 3" "PStr ALLOWED_PROVIDER"
      "PStr ALLOWED_MODEL"] sample_source_ok
  show ?thesis by (auto simp: returns_iff)
qed

text \<open>C16. An accepted usage receipt is complete: it is returned as it is, every known measurement above its known
  limit, each of the ten pairs and the elapsed time against the runtime, puts the limit among its violations, and
  the exceeded limits reported from it are exactly its violations.\<close>

theorem usage_receipt_names_overruns:
  assumes "validate_request_usage_v2 v = Inr r"
  shows "r = v
    \<and> (\<forall>(m, k) \<in> {(''provider_calls'', ''max_provider_calls''), (''provider_attempts'', ''max_attempts''),
          (''max_input_bytes'', ''max_input_bytes''), (''input_bytes'', ''max_total_input_bytes''),
          (''max_declared_output_tokens'', ''max_output_tokens''), (''declared_output_tokens'', ''max_total_output_tokens''),
          (''max_tool_payload_bytes'', ''max_tool_payload_bytes''), (''tool_payload_bytes'', ''max_total_tool_payload_bytes''),
          (''tool_calls'', ''max_tool_calls''), (''max_concurrent'', ''max_concurrent'')}.
        \<forall>n b. fld (fld v ''admission_usage'') m = PInt n \<and> fld (fld v ''request_limits'') k = PInt b \<and> b < n
          \<longrightarrow> PStr k \<in> set (the_list (fld v ''limit_violations'')))
    \<and> (\<forall>n b. fld (fld v ''admission_usage'') ''elapsed_ms'' = PInt n
          \<and> fld (fld v ''request_limits'') ''max_runtime_seconds'' = PInt b \<and> b * 1000 < n
          \<longrightarrow> PStr ''max_runtime_seconds'' \<in> set (the_list (fld v ''limit_violations'')))
    \<and> exceeded_request_limits_v2 v = Inr (sort (remdups (map the_str (the_list (fld v ''limit_violations'')))))"
proof -
  note f = usage_v2_receipt [OF assms]
  have listed: "PStr k \<in> set (the_list (fld v ''limit_violations''))"
    if "k \<in> set (known_limit_overruns_v2 (fld v ''admission_usage'') (fld v ''request_limits''))" for k
  proof -
    have "k \<in> set (map the_str (the_list (fld v ''limit_violations'')))" using that f(3) by blast
    moreover have "list_all is_str (the_list (fld v ''limit_violations''))"
      using assms unfolding validate_request_usage_v2_def andThen_returns if_raise_returns Let_def
      by (auto simp: list_all_iff list_ex_iff)
    ultimately show ?thesis by (auto simp: list_all_iff is_str_conv)
  qed
  have "PStr k \<in> set (the_list (fld v ''limit_violations''))"
    if "(m, k) \<in> set LIMIT_MEASURES_V2" "fld (fld v ''admission_usage'') m = PInt n" "fld (fld v ''request_limits'') k = PInt b" "b < n"
    for m k n b
    using that by (intro listed) (auto simp: known_overruns_set known_above_def)
  moreover have "PStr ''max_runtime_seconds'' \<in> set (the_list (fld v ''limit_violations''))"
    if "fld (fld v ''admission_usage'') ''elapsed_ms'' = PInt n" "fld (fld v ''request_limits'') ''max_runtime_seconds'' = PInt b" "b * 1000 < n"
    for n b
    using that by (intro listed) (auto simp: known_overruns_set)
  ultimately show ?thesis using f(1,2) by (simp add: LIMIT_MEASURES_V2_def) metis
qed

definition sample_usage_profile_receipt :: "pyval \<Rightarrow> pyval" where
  "sample_usage_profile_receipt p = PDict [(''schema_version'', PStr USAGE_SCHEMA_VERSION_V2),
     (''execution_profile'', p), (''request_limits'', limits_of_options (fld p ''options'')),
     (''admission_usage'', PDict (map (\<lambda>f. (f, if f = ''provider_calls'' then PInt 5 else PNone)) ADMISSION_FIELDS)),
     (''actual_usage'', unknown_actual_usage_v2), (''limit_violations'', strs [''max_provider_calls''])]"

theorem usage_receipt_names_overruns_witness:
  "\<exists>v. validate_request_usage_v2 v = Inr v
     \<and> exceeded_request_limits_v2 v = Inr [''max_provider_calls'']"
proof -
  obtain p where b: "execution_profile_v2 sample_options (PInt 3) (PStr ALLOWED_PROVIDER) (PStr ALLOWED_MODEL) = Inr p"
    and p: "validate_execution_profile_v2 p = Inr p" by (rule sample_continuation_profile)
  let ?l = "limits_of_options (fld p ''options'')" and ?v = "sample_usage_profile_receipt p"
  have l: "validate_request_limits_v2 ?l p = Inr ?l" by (rule built_limits_accepted [OF p])
  have o': "fld p ''options'' = normal_options sample_options"
    using b unfolding continuation_profile_returns by (auto simp: continuation_binding_fld)
  have cap: "fld ?l ''max_provider_calls'' = PInt 3"
    unfolding o' by (simp add: limits_of_options_fld LIMIT_NAMES_def OPTION_TO_LIMIT_def normal_options_fld sample_options_def
        NUMERIC_OPTION_FIELDS_def)
  have over: "set (known_limit_overruns_v2 (fld ?v ''admission_usage'') ?l) \<subseteq> {''max_provider_calls''}"
    unfolding known_overruns_set
    by (auto simp: sample_usage_profile_receipt_def fld_PDict_map known_above_def LIMIT_MEASURES_V2_def)
  have fields: "fld ?v ''schema_version'' = PStr USAGE_SCHEMA_VERSION_V2" "fld ?v ''execution_profile'' = p"
    "fld ?v ''request_limits'' = ?l" "fld ?v ''actual_usage'' = unknown_actual_usage_v2"
    "fld ?v ''limit_violations'' = strs [''max_provider_calls'']" "keys_are ?v USAGE_FIELDS" "is_dict ?v"
    by (simp_all add: sample_usage_profile_receipt_def USAGE_FIELDS_def keys_are_iff)
  have adm: "validate_admission_usage_v2 (fld ?v ''admission_usage'') = Inr ()"
    by (simp add: validate_admission_usage_v2_def sample_usage_profile_receipt_def ADMISSION_FIELDS_def
        keys_are_iff PEAK_TOTAL_PAIRS_def known_above_def int_at_least_conv)
  have act: "check_actual_v2 (fld ?v ''actual_usage'') (fld ?v ''admission_usage'') = Inr ()"
    unfolding fields
    by (simp add: check_actual_v2_def unknown_actual_usage_v2_def COUNT_FIELDS_def ACTUAL_FIELDS_def
        keys_are_iff)
  have keys: "''max_provider_calls'' \<in> set (keys_of ?l)"
    by (simp add: limits_of_options_keys LIMIT_NAMES_def)
  have "validate_request_usage_v2 ?v = Inr ?v"
    unfolding validate_request_usage_v2_def andThen_returns if_raise_returns Let_def
    using p l adm act over keys fields by (auto simp: strs_def)
  from usage_receipt_names_overruns [OF this] this show ?thesis
    unfolding fields by (auto simp: strs_def)
qed

end
