(* ===== verification/Request_Budget.thy ===== *)
theory Request_Budget
  imports Py_Value Contract_Specs
begin

text \<open>
  \<^verbatim>\<open>packages/contracts/research_request_budget.py\<close>: the request-scoped budget of a research
  judgment. A closed registry binds each judgment stage to a profile of limits; a budget is
  validated against the registry and one provider request is admitted or refused with the
  first dimension it exceeds.
\<close>

section \<open>The registry\<close>

definition SCHEMA_VERSION_BUDGET :: string where
  "SCHEMA_VERSION_BUDGET = ''research-request-budget.v1''"

text \<open>In text order.\<close>

definition JUDGMENT_STAGES :: "string list" where
  "JUDGMENT_STAGES = [''backtest_analysis'', ''final_selection'', ''iteration_comparison'', ''strategy_draft'']"

definition bounded_profile :: "string \<Rightarrow> string \<Rightarrow> string \<Rightarrow> pyval" where
  "bounded_profile profile_id stage evidence = PDict [(''profile_id'', PStr profile_id),
     (''stage'', PStr stage), (''max_provider_calls'', PInt 3), (''max_attempts'', PInt 3),
     (''max_input_bytes'', PInt 131072), (''max_output_tokens'', PInt 8192),
     (''max_tool_payload_bytes'', PInt 65536), (''max_concurrent'', PInt 1),
     (''deadline_ms'', PInt 180000), (''evidence'', PStr evidence)]"

text \<open>The evidence texts cite a section of the decision record; its sign is code point 167.\<close>

definition observed_path :: "string \<Rightarrow> string" where
  "observed_path stage = ''ADR-0086 '' @ [char_of (167::nat)] @ ''1: the observed '' @ stage
     @ '' path is root tool_call -> child closed_result -> root final_text (3 provider calls)''"

definition strategy_draft_evidence :: string where
  "strategy_draft_evidence = observed_path ''strategy_draft'' @ ''. Each call re-sends at most the 64 KiB bounded stage projection plus the five read-only tool definitions; output is capped at 8192 by the dedicated composition; one in-flight call.''"

definition backtest_analysis_evidence :: string where
  "backtest_analysis_evidence = observed_path ''backtest_analysis'' @ '' over the same bounded stage projection and read-only tool set; the bounded backtest summary is an evidence descriptor, never raw rows.''"

definition same_projection_evidence :: "string \<Rightarrow> string" where
  "same_projection_evidence stage =
     observed_path stage @ '' over the same bounded stage projection and read-only tool set.''"

text \<open>Profile id, stage and evidence of the four entries, which have the same limits.\<close>

definition REGISTRY :: "(string \<times> string \<times> string) list" where
  "REGISTRY = [(''strategy-draft-bounded.v1'', ''strategy_draft'', strategy_draft_evidence),
     (''backtest-analysis-bounded.v1'', ''backtest_analysis'', backtest_analysis_evidence),
     (''iteration-comparison-bounded.v1'', ''iteration_comparison'',
       same_projection_evidence ''iteration_comparison''),
     (''final-selection-bounded.v1'', ''final_selection'', same_projection_evidence ''final_selection'')]"

definition REQUEST_PROFILES :: "(string \<times> pyval) list" where
  "REQUEST_PROFILES = map (\<lambda>(profile_id, stage, evidence).
     (profile_id, bounded_profile profile_id stage evidence)) REGISTRY"

definition STAGE_PROFILES :: "(string \<times> string) list" where
  "STAGE_PROFILES = map (\<lambda>(profile_id, profile). (the_str (fld profile ''stage''), profile_id)) REQUEST_PROFILES"

definition PROFILE_LIMIT_FIELDS :: "string list" where
  "PROFILE_LIMIT_FIELDS = [''max_provider_calls'', ''max_attempts'', ''max_input_bytes'',
     ''max_output_tokens'', ''max_tool_payload_bytes'', ''max_concurrent'']"

definition BUDGET_FIELDS :: "string list" where
  "BUDGET_FIELDS = [''schema_version'', ''request_id'', ''profile_id'', ''stage'', ''evidence'',
     ''max_provider_calls'', ''max_input_bytes'', ''max_output_tokens'', ''max_tool_payload_bytes'',
     ''max_attempts'', ''max_concurrent'', ''deadline_at_ms'']"

definition BUDGET_USAGE_FIELDS :: "string list" where
  "BUDGET_USAGE_FIELDS = [''provider_calls'', ''input_bytes'', ''declared_max_output_tokens'',
     ''tool_payload_bytes'', ''attempts'', ''concurrent'', ''now_ms'', ''cancelled'']"

section \<open>Validation\<close>

definition profile_for_stage :: "pyval \<Rightarrow> pyval \<Rightarrow> pyval res" where
  "profile_for_stage stage profile =
    (if \<not> is_str stage \<or> the_str stage \<notin> set JUDGMENT_STAGES
     then Inl (ValueError ''a deterministic research stage must not open a request budget'')
     else case map_of STAGE_PROFILES (the_str stage) of
       None \<Rightarrow> Inl (ValueError ''research judgment stage has no registered request profile'')
     | Some registered \<Rightarrow>
       if profile \<noteq> PNone \<and> \<not> py_eq profile (PStr registered)
       then Inl (ValueError ''caller may not override the stage request profile'')
       else case map_of REQUEST_PROFILES registered of
         None \<Rightarrow> Inl (KeyError registered) | Some resolved \<Rightarrow> Inr resolved)"

definition closed_fields :: "string \<Rightarrow> pyval \<Rightarrow> string list \<Rightarrow> unit res" where
  "closed_fields what value fields =
    (if \<not> is_dict value \<or> \<not> keys_are value fields
     then Inl (ValueError (what @ '' has invalid fields (unknown=''
       @ repr_strs (if is_dict value then unknown_keys value fields else []) @ '', missing=''
       @ repr_strs (if is_dict value then missing_keys value fields else []) @ '')''))
     else Inr ())"

definition validate_request_budget :: "pyval \<Rightarrow> pyval res" where
  "validate_request_budget value =
     andThen (closed_fields ''research request budget'' value BUDGET_FIELDS) (\<lambda>_.
     if \<not> py_eq (fld value ''schema_version'') (PStr SCHEMA_VERSION_BUDGET)
     then Inl (ValueError ''research request budget schema is invalid'')
     else let profile_id = fld value ''profile_id'' in
     case (if is_str profile_id then map_of REQUEST_PROFILES (the_str profile_id) else None) of
       None \<Rightarrow> Inl (ValueError ''research request budget profile is unknown'')
     | Some profile \<Rightarrow>
     if \<not> py_eq (fld value ''stage'') (fld profile ''stage'')
     then Inl (ValueError ''research request budget stage does not match its profile'')
     else if \<not> is_str (fld value ''evidence'') \<or> strip (the_str (fld value ''evidence'')) = []
     then Inl (ValueError ''research request budget evidence is required'')
     else if \<not> py_eq (fld value ''evidence'') (fld profile ''evidence'')
     then Inl (ValueError ''research request budget evidence does not match its profile'')
     else if \<not> str_matches re_identity (fld value ''request_id'')
     then Inl (ValueError ''research request budget identity is invalid'')
     else andThen (forEach (\<lambda>field.
       if \<not> int_at_least 1 (fld value field)
       then Inl (ValueError (''research request budget '' @ field @ '' is invalid''))
       else if field \<noteq> ''deadline_at_ms'' \<and> \<not> py_eq (fld value field) (fld profile field)
       then Inl (ValueError (''research request budget '' @ field @ '' does not match its registered profile''))
       else Inr ()) PROFILE_LIMIT_FIELDS) (\<lambda>_.
     if \<not> int_at_least 1 (fld value ''deadline_at_ms'')
     then Inl (ValueError ''research request budget deadline is invalid'')
     else Inr value))"

definition budget_of_profile :: "pyval \<Rightarrow> string \<Rightarrow> int \<Rightarrow> pyval" where
  "budget_of_profile resolved request_id deadline = PDict
    [(''schema_version'', PStr SCHEMA_VERSION_BUDGET), (''request_id'', PStr request_id),
     (''profile_id'', fld resolved ''profile_id''), (''stage'', fld resolved ''stage''),
     (''evidence'', fld resolved ''evidence''),
     (''max_provider_calls'', fld resolved ''max_provider_calls''),
     (''max_input_bytes'', fld resolved ''max_input_bytes''),
     (''max_output_tokens'', fld resolved ''max_output_tokens''),
     (''max_tool_payload_bytes'', fld resolved ''max_tool_payload_bytes''),
     (''max_attempts'', fld resolved ''max_attempts''),
     (''max_concurrent'', fld resolved ''max_concurrent''), (''deadline_at_ms'', PInt deadline)]"

definition stage_request_limits :: "pyval \<Rightarrow> pyval \<Rightarrow> pyval \<Rightarrow> pyval \<Rightarrow> pyval res" where
  "stage_request_limits stage request_id started_at_ms profile =
     andThen (profile_for_stage stage profile) (\<lambda>resolved.
     if \<not> str_matches re_identity request_id
     then Inl (ValueError ''research request identity is invalid'')
     else if \<not> int_at_least 0 started_at_ms
     then Inl (ValueError ''research request start time is invalid'')
     else validate_request_budget (budget_of_profile resolved (the_str request_id)
       (the_int started_at_ms + the_int (fld resolved ''deadline_ms''))))"

definition COUNTED_USAGE :: "string list" where
  "COUNTED_USAGE = [''provider_calls'', ''input_bytes'', ''declared_max_output_tokens'',
     ''tool_payload_bytes'', ''attempts'', ''concurrent'']"

definition validate_budget_usage :: "pyval \<Rightarrow> pyval res" where
  "validate_budget_usage value =
     andThen (closed_fields ''research request usage'' value BUDGET_USAGE_FIELDS) (\<lambda>_.
     andThen (forEach (\<lambda>field. if \<not> int_at_least 0 (fld value field)
       then Inl (ValueError (''research request usage '' @ field @ '' is invalid'')) else Inr ())
       COUNTED_USAGE) (\<lambda>_.
     if \<not> int_at_least 0 (fld value ''now_ms'')
     then Inl (ValueError ''research request usage clock is invalid'')
     else if \<not> is_bool (fld value ''cancelled'')
     then Inl (ValueError ''research request usage cancellation flag is invalid'')
     else Inr value))"

section \<open>The decision\<close>

text \<open>What a request can be refused for. The constructors are in the order of the checks,
  which is the order of the type.\<close>

datatype budget_dim = Cancelled | Deadline | Concurrent | Attempts | Provider_calls
  | Input_bytes | Output_tokens | Tool_payload

fun dim_reason :: "budget_dim \<Rightarrow> string" where
  "dim_reason Cancelled = ''cancelled''"
| "dim_reason Deadline = ''deadline_exceeded''"
| "dim_reason Concurrent = ''concurrency_limit''"
| "dim_reason Attempts = ''attempt_limit''"
| "dim_reason Provider_calls = ''provider_call_limit''"
| "dim_reason Input_bytes = ''input_bytes_limit''"
| "dim_reason Output_tokens = ''output_tokens_limit''"
| "dim_reason Tool_payload = ''tool_payload_limit''"

definition exceeded_dimension :: "pyval \<Rightarrow> pyval \<Rightarrow> budget_dim option" where
  "exceeded_dimension verified used =
    (if the_bool (fld used ''cancelled'') then Some Cancelled
     else if the_int (fld verified ''deadline_at_ms'') \<le> the_int (fld used ''now_ms'') then Some Deadline
     else if the_int (fld verified ''max_concurrent'') < the_int (fld used ''concurrent'') then Some Concurrent
     else if the_int (fld verified ''max_attempts'') < the_int (fld used ''attempts'') then Some Attempts
     else if the_int (fld verified ''max_provider_calls'') < the_int (fld used ''provider_calls'')
     then Some Provider_calls
     else if the_int (fld verified ''max_input_bytes'') < the_int (fld used ''input_bytes'')
     then Some Input_bytes
     else if the_int (fld verified ''max_output_tokens'') < the_int (fld used ''declared_max_output_tokens'')
     then Some Output_tokens
     else if the_int (fld verified ''max_tool_payload_bytes'') < the_int (fld used ''tool_payload_bytes'')
     then Some Tool_payload
     else None)"

definition REASONS :: "string list" where
  "REASONS = [''budget_invalid'', ''stage_not_a_judgment_stage'', ''unknown_profile'',
     ''deadline_exceeded'', ''cancelled'', ''concurrency_limit'', ''provider_call_limit'',
     ''attempt_limit'', ''input_bytes_limit'', ''output_tokens_limit'', ''tool_payload_limit'']"

definition budget_blocked :: "string \<Rightarrow> pyval res" where
  "budget_blocked reason =
    (if reason \<notin> set REASONS then Inl (ValueError ''research request budget reason is unknown'')
     else Inr (PDict [(''admit'', PBool False), (''reason'', PStr reason)]))"

definition request_budget_decision :: "pyval \<Rightarrow> pyval \<Rightarrow> pyval res" where
  "request_budget_decision limits usage =
     andThen (validate_request_budget limits) (\<lambda>verified.
     andThen (validate_budget_usage usage) (\<lambda>used.
     case exceeded_dimension verified used of
       Some d \<Rightarrow> budget_blocked (dim_reason d)
     | None \<Rightarrow> Inr (PDict [(''admit'', PBool True), (''reason'', PStr ''within_request_budget''),
         (''request_id'', fld verified ''request_id''), (''profile_id'', fld verified ''profile_id''),
         (''stage'', fld verified ''stage''),
         (''remaining_provider_calls'', PInt (the_int (fld verified ''max_provider_calls'')
            - the_int (fld used ''provider_calls'')))])))"

section \<open>What is accepted\<close>

definition budget_ok :: "pyval \<Rightarrow> bool" where
  "budget_ok v \<longleftrightarrow> is_dict v \<and> set (keys_of v) = set BUDGET_FIELDS
     \<and> fld v ''schema_version'' = PStr SCHEMA_VERSION_BUDGET
     \<and> (\<exists>pid profile. map_of REQUEST_PROFILES pid = Some profile \<and> fld v ''profile_id'' = PStr pid
          \<and> fld v ''stage'' = fld profile ''stage'' \<and> fld v ''evidence'' = fld profile ''evidence''
          \<and> (\<forall>f \<in> set PROFILE_LIMIT_FIELDS. fld v f = fld profile f))
     \<and> str_matches re_identity (fld v ''request_id'') \<and> int_at_least 1 (fld v ''deadline_at_ms'')"

lemma bounded_profile_fld:
  "fld (bounded_profile pid st ev) ''profile_id'' = PStr pid"
  "fld (bounded_profile pid st ev) ''stage'' = PStr st"
  "fld (bounded_profile pid st ev) ''evidence'' = PStr ev"
  "fld (bounded_profile pid st ev) ''deadline_ms'' = PInt 180000"
  "fld (bounded_profile pid st ev) ''max_provider_calls'' = PInt 3"
  "fld (bounded_profile pid st ev) ''max_attempts'' = PInt 3"
  "fld (bounded_profile pid st ev) ''max_input_bytes'' = PInt 131072"
  "fld (bounded_profile pid st ev) ''max_output_tokens'' = PInt 8192"
  "fld (bounded_profile pid st ev) ''max_tool_payload_bytes'' = PInt 65536"
  "fld (bounded_profile pid st ev) ''max_concurrent'' = PInt 1"
  by (simp_all add: bounded_profile_def)

lemma stage_profiles: "STAGE_PROFILES = map (\<lambda>(pid, st, ev). (st, pid)) REGISTRY"
  by (simp add: STAGE_PROFILES_def REQUEST_PROFILES_def REGISTRY_def bounded_profile_fld)

lemma registry_keys:
  "distinct (map fst REGISTRY)" "distinct (map (fst \<circ> snd) REGISTRY)"
  "set (map (fst \<circ> snd) REGISTRY) = set JUDGMENT_STAGES"
  by (auto simp: REGISTRY_def JUDGMENT_STAGES_def)

lemma registered_iff:
  "map_of REQUEST_PROFILES pid = Some profile
     \<longleftrightarrow> (\<exists>st ev. (pid, st, ev) \<in> set REGISTRY \<and> profile = bounded_profile pid st ev)"
proof -
  have "distinct (map fst REQUEST_PROFILES)"
    using registry_keys(1) by (simp add: REQUEST_PROFILES_def case_prod_unfold comp_def)
  then have "map_of REQUEST_PROFILES pid = Some profile \<longleftrightarrow> (pid, profile) \<in> set REQUEST_PROFILES"
    by simp
  then show ?thesis by (force simp: REQUEST_PROFILES_def)
qed

lemma stage_profile_iff: "map_of STAGE_PROFILES st = Some pid \<longleftrightarrow> (\<exists>ev. (pid, st, ev) \<in> set REGISTRY)"
proof -
  have "distinct (map fst STAGE_PROFILES)"
    using registry_keys(2) by (simp add: stage_profiles case_prod_unfold comp_def)
  then have "map_of STAGE_PROFILES st = Some pid \<longleftrightarrow> (st, pid) \<in> set STAGE_PROFILES"
    by simp
  then show ?thesis by (force simp: stage_profiles)
qed

lemma registry_stage: "(pid, st, ev) \<in> set REGISTRY \<Longrightarrow> st \<in> set JUDGMENT_STAGES"
  using registry_keys(3) by force

lemma stage_registered: "st \<in> set JUDGMENT_STAGES \<Longrightarrow> \<exists>pid ev. (pid, st, ev) \<in> set REGISTRY"
  using registry_keys(3) by force

lemma registry_one_profile:
  "(pid, st, ev) \<in> set REGISTRY \<Longrightarrow> (pid', st, ev') \<in> set REGISTRY \<Longrightarrow> pid' = pid \<and> ev' = ev"
  by (auto simp: REGISTRY_def)

lemma observed_nonblank: "strip (observed_path st @ s) \<noteq> []"
proof -
  have "observed_path st = CHR ''A'' # tl (observed_path st)" by (simp add: observed_path_def)
  then obtain t where "observed_path st @ s = CHR ''A'' # t" by (metis append_Cons)
  moreover have "\<not> is_space CHR ''A''" by (simp add: is_space_def code_def)
  ultimately show ?thesis by (auto simp: strip_def dropWhile_eq_Nil_conv)
qed

lemma registry_evidence: "(pid, st, ev) \<in> set REGISTRY \<Longrightarrow> strip ev \<noteq> []"
  unfolding REGISTRY_def strategy_draft_evidence_def backtest_analysis_evidence_def
    same_projection_evidence_def
  using observed_nonblank by auto

text \<open>The validator accepts exactly the budgets of the registry.\<close>

lemma bounded_positive: "f \<in> set PROFILE_LIMIT_FIELDS \<Longrightarrow> int_at_least 1 (fld (bounded_profile pid st ev) f)"
  by (auto simp: PROFILE_LIMIT_FIELDS_def bounded_profile_fld int_at_least_conv)

lemma validate_budget_iff: "validate_request_budget v = Inr r \<longleftrightarrow> r = v \<and> budget_ok v"
proof -
  have lims: "(int_at_least 1 x \<and> py_eq x (fld (bounded_profile pid st ev) f)) = (x = fld (bounded_profile pid st ev) f)"
    if "f \<in> set PROFILE_LIMIT_FIELDS" for x pid st ev f
    using bounded_positive [OF that, of pid st ev] by (auto simp: int_at_least_conv)
  have nd: "f \<noteq> ''deadline_at_ms''" if "f \<in> set PROFILE_LIMIT_FIELDS" for f
    using that by (auto simp: PROFILE_LIMIT_FIELDS_def)
  have checks: "(forEach (\<lambda>field. if \<not> int_at_least 1 (fld v field) then Inl (e field)
       else if field \<noteq> ''deadline_at_ms'' \<and> \<not> py_eq (fld v field) (fld (bounded_profile pid st ev) field)
       then Inl (e' field) else Inr ()) PROFILE_LIMIT_FIELDS = Inr (u :: unit))
     = (\<forall>f \<in> set PROFILE_LIMIT_FIELDS. fld v f = fld (bounded_profile pid st ev) f)" for e e' pid st ev u
    unfolding forEach_returns if_raise_returns using lims nd by (intro ball_cong refl) blast
  show ?thesis
  proof (cases "\<exists>pid profile. fld v ''profile_id'' = PStr pid \<and> map_of REQUEST_PROFILES pid = Some profile")
    case True
    then obtain pid st ev where p: "fld v ''profile_id'' = PStr pid"
      "map_of REQUEST_PROFILES pid = Some (bounded_profile pid st ev)" "strip ev \<noteq> []"
      using registered_iff registry_evidence by blast
    show ?thesis
      unfolding validate_request_budget_def budget_ok_def closed_fields_def andThen_returns if_raise_returns
        keys_are_iff Let_def p is_str.simps the_str.simps if_True option.simps checks py_eq_PStr bounded_profile_fld
      using p(2,3) by (auto simp: bounded_profile_fld)
  next
    case False
    then have "(if is_str (fld v ''profile_id'') then map_of REQUEST_PROFILES (the_str (fld v ''profile_id'')) else None) = None"
      by (auto simp: is_str_conv)
    with False show ?thesis
      by (auto simp: validate_request_budget_def budget_ok_def andThen_returns Let_def)
  qed
qed

interpretation budget: checker validate_request_budget budget_ok
  by unfold_locales (rule validate_budget_iff)

definition usage_ok :: "pyval \<Rightarrow> bool" where
  "usage_ok v \<longleftrightarrow> is_dict v \<and> set (keys_of v) = set BUDGET_USAGE_FIELDS
     \<and> (\<forall>f \<in> set (''now_ms'' # COUNTED_USAGE). int_at_least 0 (fld v f)) \<and> is_bool (fld v ''cancelled'')"

interpretation budget_usage: checker validate_budget_usage usage_ok
  by unfold_locales
    (auto simp: validate_budget_usage_def usage_ok_def closed_fields_def res_simps keys_are_iff)

section \<open>The first exceeded dimension\<close>

text \<open>The dimensions are ordered by the position of their check.\<close>

fun dim_rank :: "budget_dim \<Rightarrow> nat" where
  "dim_rank Cancelled = 0" | "dim_rank Deadline = 1" | "dim_rank Concurrent = 2"
| "dim_rank Attempts = 3" | "dim_rank Provider_calls = 4" | "dim_rank Input_bytes = 5"
| "dim_rank Output_tokens = 6" | "dim_rank Tool_payload = 7"

lemma dim_rank_inj [simp]: "dim_rank d = dim_rank e \<longleftrightarrow> d = e"
  by (cases d; cases e) auto

instantiation budget_dim :: linorder
begin

definition less_eq_budget_dim :: "budget_dim \<Rightarrow> budget_dim \<Rightarrow> bool" where
  "less_eq_budget_dim d e \<longleftrightarrow> dim_rank d \<le> dim_rank e"

definition less_budget_dim :: "budget_dim \<Rightarrow> budget_dim \<Rightarrow> bool" where
  "less_budget_dim d e \<longleftrightarrow> dim_rank d < dim_rank e"

instance
  by intro_classes (auto simp: less_eq_budget_dim_def less_budget_dim_def simp flip: dim_rank_inj)

end

definition BUDGET_DIMS :: "budget_dim list" where
  "BUDGET_DIMS = [Cancelled, Deadline, Concurrent, Attempts, Provider_calls, Input_bytes, Output_tokens, Tool_payload]"

text \<open>What a request uses of a dimension and what the budget allows. The deadline is strict.\<close>

fun dim_used :: "pyval \<times> pyval \<Rightarrow> budget_dim \<Rightarrow> int" where
  "dim_used (l, u) Cancelled = (if the_bool (fld u ''cancelled'') then 1 else 0)"
| "dim_used (l, u) Deadline = the_int (fld u ''now_ms'') + 1"
| "dim_used (l, u) Concurrent = the_int (fld u ''concurrent'')"
| "dim_used (l, u) Attempts = the_int (fld u ''attempts'')"
| "dim_used (l, u) Provider_calls = the_int (fld u ''provider_calls'')"
| "dim_used (l, u) Input_bytes = the_int (fld u ''input_bytes'')"
| "dim_used (l, u) Output_tokens = the_int (fld u ''declared_max_output_tokens'')"
| "dim_used (l, u) Tool_payload = the_int (fld u ''tool_payload_bytes'')"

fun dim_limit :: "pyval \<times> pyval \<Rightarrow> budget_dim \<Rightarrow> int" where
  "dim_limit (l, u) Cancelled = 0"
| "dim_limit (l, u) Deadline = the_int (fld l ''deadline_at_ms'')"
| "dim_limit (l, u) Concurrent = the_int (fld l ''max_concurrent'')"
| "dim_limit (l, u) Attempts = the_int (fld l ''max_attempts'')"
| "dim_limit (l, u) Provider_calls = the_int (fld l ''max_provider_calls'')"
| "dim_limit (l, u) Input_bytes = the_int (fld l ''max_input_bytes'')"
| "dim_limit (l, u) Output_tokens = the_int (fld l ''max_output_tokens'')"
| "dim_limit (l, u) Tool_payload = the_int (fld l ''max_tool_payload_bytes'')"

lemma all_dims: "set BUDGET_DIMS = UNIV"
proof -
  have "d \<in> set BUDGET_DIMS" for d by (cases d) (simp_all add: BUDGET_DIMS_def)
  then show ?thesis by blast
qed

interpretation budget_gate: upper_bounds_gate BUDGET_DIMS dim_used dim_limit "\<lambda>(l, u). exceeded_dimension l u"
proof
  fix q
  show "(case q of (l, u) \<Rightarrow> exceeded_dimension l u)
      = find (\<lambda>d. dim_limit q d < dim_used q d) BUDGET_DIMS"
    by (cases q) (simp add: exceeded_dimension_def BUDGET_DIMS_def)
qed

lemma exceeded_least:
  assumes "exceeded_dimension l u = Some d"
  shows "dim_limit (l, u) d < dim_used (l, u) d"
    "e < d \<Longrightarrow> dim_used (l, u) e \<le> dim_limit (l, u) e"
proof -
  have g: "(\<lambda>(l, u). exceeded_dimension l u) (l, u) = Some d" using assms by simp
  show "dim_limit (l, u) d < dim_used (l, u) d" by (rule budget_gate.names_first(2) [OF g])
  obtain i where i: "i < length BUDGET_DIMS" "BUDGET_DIMS ! i = d"
    "\<forall>j < i. dim_used (l, u) (BUDGET_DIMS ! j) \<le> dim_limit (l, u) (BUDGET_DIMS ! j)"
    using budget_gate.names_first(3) [OF g] by blast
  have rank: "dim_rank (BUDGET_DIMS ! j) = j" if "j < 8" for j
    using that by (auto simp: BUDGET_DIMS_def less_Suc_eq numeral_eq_Suc)
  have pos: "BUDGET_DIMS ! dim_rank e = e" by (cases e) (simp_all add: BUDGET_DIMS_def)
  have "dim_rank d = i" using i(1,2) rank [of i] by (simp add: BUDGET_DIMS_def)
  moreover assume "e < d"
  ultimately show "dim_used (l, u) e \<le> dim_limit (l, u) e"
    using i(3) pos by (metis less_budget_dim_def)
qed

section \<open>What the budget promises\<close>

lemma reasons_closed: "dim_reason d \<in> set REASONS"
  by (cases d) (simp_all add: REASONS_def)

lemma decision_returns:
  "request_budget_decision l u = Inr r \<longleftrightarrow> budget_ok l \<and> usage_ok u
     \<and> r = (case exceeded_dimension l u of
         Some d \<Rightarrow> PDict [(''admit'', PBool False), (''reason'', PStr (dim_reason d))]
       | None \<Rightarrow> PDict [(''admit'', PBool True), (''reason'', PStr ''within_request_budget''),
           (''request_id'', fld l ''request_id''), (''profile_id'', fld l ''profile_id''),
           (''stage'', fld l ''stage''),
           (''remaining_provider_calls'', PInt (the_int (fld l ''max_provider_calls'') - the_int (fld u ''provider_calls'')))])"
  by (cases "exceeded_dimension l u")
    (auto simp: request_budget_decision_def andThen_returns budget.check_iff budget_usage.check_iff
      budget_blocked_def reasons_closed)

lemma decision_admits:
  assumes "request_budget_decision l u = Inr r"
  shows "fld r ''admit'' = PBool True \<longleftrightarrow> exceeded_dimension l u = None"
  using assms by (auto simp: decision_returns split: option.splits)

text \<open>C17. One provider request is admitted exactly when no dimension of the request exceeds the
  budget, a refusal names the first exceeded dimension in the order of the checks, and a
  request that uses no more of any dimension than an admitted one is admitted too.\<close>

theorem budget_decision_exact:
  assumes "request_budget_decision l u = Inr r"
  shows "(fld r ''admit'' = PBool True \<longleftrightarrow> (\<forall>d. dim_used (l, u) d \<le> dim_limit (l, u) d))
    \<and> (fld r ''admit'' = PBool True \<or>
        fld r ''reason'' = PStr (dim_reason (LEAST d. dim_limit (l, u) d < dim_used (l, u) d)))
    \<and> (\<forall>u' r'. fld r ''admit'' = PBool True \<and> request_budget_decision l u' = Inr r'
         \<and> (\<forall>d. dim_used (l, u') d \<le> dim_used (l, u) d) \<longrightarrow> fld r' ''admit'' = PBool True)"
proof -
  have admits: "fld r' ''admit'' = PBool True \<longleftrightarrow> (\<forall>d. dim_used (l, u') d \<le> dim_limit (l, u') d)"
    if "request_budget_decision l u' = Inr r'" for u' r'
    using decision_admits [OF that] budget_gate.admits_iff [of "(l, u')"] by (simp add: all_dims)
  have limit_fixed: "dim_limit (l, u') d = dim_limit (l, u) d" for u' d by (cases d) simp_all
  have refused: "fld r ''reason'' = PStr (dim_reason (LEAST d. dim_limit (l, u) d < dim_used (l, u) d))"
    if no: "fld r ''admit'' \<noteq> PBool True"
  proof -
    obtain d where d: "exceeded_dimension l u = Some d"
      using no decision_admits [OF assms] by blast
    have "(LEAST d. dim_limit (l, u) d < dim_used (l, u) d) = d"
    proof (rule Least_equality)
      show "dim_limit (l, u) d < dim_used (l, u) d" by (rule exceeded_least(1) [OF d])
      show "d \<le> y" if "dim_limit (l, u) y < dim_used (l, u) y" for y
        using exceeded_least(2) [OF d, of y] that by (meson not_le)
    qed
    with d show ?thesis using assms by (simp add: decision_returns)
  qed
  have "fld r' ''admit'' = PBool True"
    if "fld r ''admit'' = PBool True" "request_budget_decision l u' = Inr r'"
      "\<forall>d. dim_used (l, u') d \<le> dim_used (l, u) d" for u' r'
    using that admits [OF assms] admits [OF that(2)] limit_fixed by (metis order.trans)
  with admits [OF assms] refused show ?thesis by blast
qed

definition sample_budget :: pyval where
  "sample_budget = budget_of_profile
     (bounded_profile ''final-selection-bounded.v1'' ''final_selection'' (same_projection_evidence ''final_selection''))
     ''r'' 180005"

lemma sample_registered:
  "(''final-selection-bounded.v1'', ''final_selection'', same_projection_evidence ''final_selection'') \<in> set REGISTRY"
  by (simp add: REGISTRY_def)

lemma budget_of_profile_ok:
  assumes "(pid, st, ev) \<in> set REGISTRY" "re_identity rid" "1 \<le> n"
  shows "budget_ok (budget_of_profile (bounded_profile pid st ev) rid n)"
proof -
  have "map_of REQUEST_PROFILES pid = Some (bounded_profile pid st ev)"
    using assms(1) registered_iff by blast
  then show ?thesis
    using assms(2,3) by (auto simp: budget_ok_def budget_of_profile_def BUDGET_FIELDS_def bounded_profile_fld
      PROFILE_LIMIT_FIELDS_def value_convs)
qed

lemma sample_budget_ok: "budget_ok sample_budget"
  unfolding sample_budget_def
  by (rule budget_of_profile_ok [OF sample_registered])
    (simp_all add: re_identity_def ident_char_def is_alnum_def is_lower_def code_def)

definition sample_usage :: "int \<Rightarrow> pyval" where
  "sample_usage calls = PDict [(''provider_calls'', PInt calls), (''input_bytes'', PInt 10),
     (''declared_max_output_tokens'', PInt 9000), (''tool_payload_bytes'', PInt 0), (''attempts'', PInt 1),
     (''concurrent'', PInt 1), (''now_ms'', PInt 7), (''cancelled'', PBool False)]"

theorem budget_decision_exact_witness:
  "\<exists>r. request_budget_decision sample_budget (sample_usage 4) = Inr r
     \<and> fld r ''reason'' = PStr (dim_reason (LEAST d. dim_limit (sample_budget, sample_usage 4) d
          < dim_used (sample_budget, sample_usage 4) d))"
proof -
  have u: "usage_ok (sample_usage 4)"
    by (simp add: usage_ok_def sample_usage_def BUDGET_USAGE_FIELDS_def COUNTED_USAGE_def int_at_least_conv)
  obtain r where r: "request_budget_decision sample_budget (sample_usage 4) = Inr r"
    using sample_budget_ok u decision_returns by blast
  have "dim_limit (sample_budget, sample_usage 4) Provider_calls < dim_used (sample_budget, sample_usage 4) Provider_calls"
    by (simp add: sample_budget_def budget_of_profile_def bounded_profile_fld sample_usage_def)
  then have "fld r ''admit'' \<noteq> PBool True"
    using budget_decision_exact [OF r] by (meson not_le)
  with budget_decision_exact [OF r] r show ?thesis by blast
qed

lemma profile_for_stage_returns:
  "profile_for_stage stage profile = Inr p \<longleftrightarrow> (\<exists>st pid ev. stage = PStr st \<and> (pid, st, ev) \<in> set REGISTRY
     \<and> (profile = PNone \<or> profile = PStr pid) \<and> p = bounded_profile pid st ev)"
proof (cases "is_str stage \<and> the_str stage \<in> set JUDGMENT_STAGES")
  case True
  then obtain st where st: "stage = PStr st" "st \<in> set JUDGMENT_STAGES" by (auto simp: is_str_conv)
  then obtain pid ev where s: "stage = PStr st" "(pid, st, ev) \<in> set REGISTRY"
    using stage_registered by blast
  then have m: "map_of STAGE_PROFILES st = Some pid" "map_of REQUEST_PROFILES pid = Some (bounded_profile pid st ev)"
    using stage_profile_iff registered_iff by blast+
  have one: "pid' = pid \<and> ev' = ev" if "(pid', st, ev') \<in> set REGISTRY" for pid' ev'
    using registry_one_profile [OF s(2) that] .
  have "profile_for_stage stage profile = Inr p \<longleftrightarrow>
      (profile = PNone \<or> profile = PStr pid) \<and> p = bounded_profile pid st ev"
    using True by (auto simp: profile_for_stage_def s(1) m)
  then show ?thesis using s one by (metis pyval.inject(4))
next
  case False
  then show ?thesis using registry_stage by (auto simp: profile_for_stage_def)
qed

text \<open>Only the registry opens a budget: the constructor returns exactly for a judgment stage with
  no or its own profile, a closed request id and a start time, and then a budget the
  validator accepts, which ends three minutes after the start; an accepted budget carries the
  stage, the evidence and the limits of the registered profile it names. Its deadline is the
  one limit the validator does not compare with the profile.\<close>

theorem budget_limits_registered:
  "(stage_request_limits stage rid started profile = Inr b \<longleftrightarrow>
      (\<exists>st pid ev s n. stage = PStr st \<and> (pid, st, ev) \<in> set REGISTRY \<and> (profile = PNone \<or> profile = PStr pid)
         \<and> rid = PStr s \<and> re_identity s \<and> started = PInt n \<and> 0 \<le> n
         \<and> b = budget_of_profile (bounded_profile pid st ev) s (n + 180000)))
   \<and> (\<forall>v. returns (validate_request_budget v) = budget_ok v)
   \<and> (\<forall>v n. budget_ok v \<and> 1 \<le> n \<longrightarrow> budget_ok (dict_set ''deadline_at_ms'' (PInt n) v))"
proof -
  have "stage_request_limits stage rid started profile = Inr b \<longleftrightarrow>
      (\<exists>st pid ev s n. stage = PStr st \<and> (pid, st, ev) \<in> set REGISTRY \<and> (profile = PNone \<or> profile = PStr pid)
         \<and> rid = PStr s \<and> re_identity s \<and> started = PInt n \<and> 0 \<le> n
         \<and> b = budget_of_profile (bounded_profile pid st ev) s (n + 180000))" (is "?L \<longleftrightarrow> ?R")
  proof
    assume ?L
    then obtain p where p: "profile_for_stage stage profile = Inr p" "str_matches re_identity rid"
      "int_at_least 0 started"
      "b = budget_of_profile p (the_str rid) (the_int started + the_int (fld p ''deadline_ms''))"
      unfolding stage_request_limits_def andThen_returns if_raise_returns budget.check_iff by blast
    then obtain st pid ev where h: "stage = PStr st" "(pid, st, ev) \<in> set REGISTRY"
      "profile = PNone \<or> profile = PStr pid" "p = bounded_profile pid st ev"
      unfolding profile_for_stage_returns by blast
    obtain s n where "rid = PStr s" "re_identity s" "started = PInt n" "0 \<le> n"
      using p(2,3) unfolding value_convs by blast
    with h p(4) show ?R by (intro exI conjI) (simp_all add: bounded_profile_fld)
  next
    assume ?R
    then obtain st pid ev s n where h: "stage = PStr st" "(pid, st, ev) \<in> set REGISTRY"
      "profile = PNone \<or> profile = PStr pid" "rid = PStr s" "re_identity s" "started = PInt n" "0 \<le> n"
      "b = budget_of_profile (bounded_profile pid st ev) s (n + 180000)" by blast
    have "profile_for_stage stage profile = Inr (bounded_profile pid st ev)"
      unfolding profile_for_stage_returns using h(1-3) by blast
    moreover have "budget_ok b" unfolding h(8) using h(2,5,7) by (intro budget_of_profile_ok) simp_all
    ultimately show ?L
      using h(4-8) by (simp add: stage_request_limits_def value_convs bounded_profile_fld budget.accepted)
  qed
  moreover have "budget_ok (dict_set ''deadline_at_ms'' (PInt n) v)" if "budget_ok v" "1 \<le> n" for v n
  proof -
    have "set (keys_of (dict_set ''deadline_at_ms'' (PInt n) v)) = set BUDGET_FIELDS"
      using that(1) by (auto simp: budget_ok_def BUDGET_FIELDS_def)
    moreover have "\<forall>f \<in> set PROFILE_LIMIT_FIELDS. f \<noteq> ''deadline_at_ms''"
      by (simp add: PROFILE_LIMIT_FIELDS_def)
    ultimately show ?thesis using that unfolding budget_ok_def
      by (auto simp: int_at_least_conv)
  qed
  ultimately show ?thesis using budget.rejected by blast
qed

theorem budget_limits_registered_witness:
  "budget_ok sample_budget
     \<and> stage_request_limits (PStr ''final_selection'') (PStr ''r'') (PInt 5) PNone = Inr sample_budget
     \<and> budget_ok (dict_set ''deadline_at_ms'' (PInt 999999999) sample_budget)"
proof -
  have "re_identity ''r''" by (simp add: re_identity_def ident_char_def is_alnum_def is_lower_def code_def)
  with budget_limits_registered [of "PStr ''final_selection''" "PStr ''r''" "PInt 5" PNone sample_budget]
    sample_budget_ok sample_registered
  show ?thesis by (force simp: sample_budget_def)
qed

end
