(* ===== verification/Session_Containment.thy ===== *)
theory Session_Containment
  imports Py_Value Contract_Specs
begin

text \<open>
  \<^verbatim>\<open>packages/contracts/session_failure_containment.py\<close>: the closed facts of a lost execution,
  the fence every state-mutating writer passes, the settlement of terminals and the
  classification of a recovery. A dictionary of settled attempts has integers as keys; it is
  an association list of values here.
\<close>

section \<open>Vocabulary\<close>

definition CONTAINMENT_VERSION :: string where
  "CONTAINMENT_VERSION = ''session-failure-containment.v1''"
definition PRESERVATION_SCHEMA_VERSION :: string where
  "PRESERVATION_SCHEMA_VERSION = ''session-containment-preservation.v1''"

definition LOSS_CAUSES :: "string list" where
  "LOSS_CAUSES = [''parent-loss'', ''runtime-loss'', ''executor-loss'', ''lease-expired'',
     ''heartbeat-expired'', ''process-restart'']"

definition TERMINAL_KINDS :: "string list" where
  "TERMINAL_KINDS = [''completed'', ''failed'', ''cancelled'', ''interrupted'', ''discarded'', ''closed'']"

definition RECOVERY_STATUSES :: "string list" where
  "RECOVERY_STATUSES = [''eligible'', ''settled'', ''paused'', ''blocked'']"

definition RECOVERY_REASONS :: "string list" where
  "RECOVERY_REASONS = [''idempotent_result_verifiable'', ''existing_success_receipt'', ''cancelled'',
     ''owner_workspace_mismatch'', ''authorization_revoked'', ''budget_exhausted'',
     ''authority_unavailable'', ''step_safety_unavailable'', ''non_idempotent_step'',
     ''unknown_side_effect'', ''receipt_absent'', ''receipt_unknown'']"

definition BOUNDARY_INVARIANT :: string where
  "BOUNDARY_INVARIANT = ''execution-boundary-does-not-modify-business-state.v1''"

definition PRESERVED_FIELDS :: "string list" where
  "PRESERVED_FIELDS = [''conversation'', ''durable_job'', ''authorization'', ''approval'', ''artifact'',
     ''workflow_trace'', ''idempotency_keys'', ''budget'', ''cancel_state'', ''audit_chain'']"

definition PRESERVATION_STATES :: "string list" where
  "PRESERVATION_STATES = [''preserved'', ''unknown'', ''unavailable'']"

definition RUN :: "string \<Rightarrow> bool" where "RUN = re_hex 32"
definition GENERATION :: "string \<Rightarrow> bool" where "GENERATION = re_identifier"

section \<open>Closed facts\<close>

definition check_identity :: "pyval \<Rightarrow> string \<Rightarrow> unit res" where
  "check_identity value field_name =
    (if \<not> str_matches re_identifier value then Inl (ValueError (''invalid '' @ field_name)) else Inr ())"

definition validate_loss_cause :: "pyval \<Rightarrow> pyval res" where
  "validate_loss_cause value =
    (if \<not> is_str value \<or> the_str value \<notin> set LOSS_CAUSES
     then Inl (ValueError ''invalid loss cause'') else Inr value)"

definition CONTAINMENT_FIELDS :: "string list" where
  "CONTAINMENT_FIELDS = [''schema_version'', ''conversation_id'', ''session_id'', ''trace_id'',
     ''owner_principal'', ''workspace_id'', ''loss_cause'', ''interrupted_run_id'',
     ''interrupted_generation'', ''executor_epoch'', ''attempt'', ''boundary_invariant'', ''recorded_at'']"

definition validate_containment_record :: "pyval \<Rightarrow> pyval res" where
  "validate_containment_record value =
    (if \<not> is_dict value \<or> \<not> keys_are value CONTAINMENT_FIELDS
     then Inl (ValueError ''invalid containment record'')
     else if \<not> py_eq (fld value ''schema_version'') (PStr CONTAINMENT_VERSION)
     then Inl (ValueError ''unsupported containment schema'')
     else andThen (if fld value ''conversation_id'' \<noteq> PNone
         then check_identity (fld value ''conversation_id'') ''conversation_id'' else Inr ()) (\<lambda>_.
     andThen (forEach (\<lambda>name. check_identity (fld value name) name) [''session_id'', ''trace_id'']) (\<lambda>_.
     andThen (forEach (\<lambda>name. if \<not> is_str (fld value name)
           \<or> \<not> (1 \<le> length (the_str (fld value name)) \<and> length (the_str (fld value name)) \<le> 128)
         then Inl (ValueError ''invalid containment owner/workspace'') else Inr ())
         [''owner_principal'', ''workspace_id'']) (\<lambda>_.
     andThen (validate_loss_cause (fld value ''loss_cause'')) (\<lambda>_.
     if fld value ''interrupted_run_id'' \<noteq> PNone \<and> \<not> str_matches RUN (fld value ''interrupted_run_id'')
     then Inl (ValueError ''invalid interrupted run identity'')
     else if \<not> is_str (fld value ''interrupted_generation'') \<or> \<not> truthy (fld value ''interrupted_generation'')
     then Inl (ValueError ''invalid interrupted generation'')
     else if \<not> int_between 1 (2 ^ 63 - 1) (fld value ''executor_epoch'')
     then Inl (ValueError ''invalid containment executor epoch'')
     else if \<not> int_between 1 (2 ^ 63 - 1) (fld value ''attempt'')
     then Inl (ValueError ''invalid containment attempt'')
     else if \<not> py_eq (fld value ''boundary_invariant'') (PStr BOUNDARY_INVARIANT)
     then Inl (ValueError ''invalid containment boundary invariant'')
     else if \<not> type_is_int (fld value ''recorded_at'') \<and> \<not> is_float (fld value ''recorded_at'')
     then Inl (ValueError ''invalid containment timestamp'')
     else Inr value)))))"

definition PRESERVATION_FIELDS :: "string list" where
  "PRESERVATION_FIELDS = [''schema_version'', ''states'', ''boundary_invariant'', ''boundary_verified'', ''sources'']"

definition validate_preservation :: "pyval \<Rightarrow> pyval res" where
  "validate_preservation value =
    (if \<not> is_dict value \<or> \<not> keys_are value PRESERVATION_FIELDS
     then Inl (ValueError ''invalid preservation projection'')
     else if \<not> py_eq (fld value ''schema_version'') (PStr PRESERVATION_SCHEMA_VERSION)
     then Inl (ValueError ''unsupported preservation schema'')
     else let states = fld value ''states''; sources = fld value ''sources'' in
     if \<not> is_dict states \<or> \<not> keys_are states PRESERVED_FIELDS
     then Inl (ValueError ''invalid preservation shape'')
     else andThen (anyRes (\<lambda>(_, state). andThen (in_strs state PRESERVATION_STATES) (\<lambda>b. Inr (\<not> b)))
         (the_dict states)) (\<lambda>bad.
     if bad then Inl (ValueError ''invalid preservation state'')
     else if \<not> py_eq (fld value ''boundary_invariant'') (PStr BOUNDARY_INVARIANT)
     then Inl (ValueError ''invalid preservation boundary invariant'')
     else if fld value ''boundary_verified'' \<noteq> PBool False
     then Inl (ValueError ''boundary invariant cannot be self-verified'')
     else if \<not> is_dict sources \<or> \<not> truthy sources
     then Inl (ValueError ''preservation projection requires authoritative sources'')
     else andThen (forEach (\<lambda>(field_name, state).
         if py_eq state (PStr ''preserved'') \<and> \<not> has_key sources field_name
         then Inl (ValueError ''a preserved field requires an authoritative source'') else Inr ())
         (the_dict states)) (\<lambda>_.
     Inr value)))"

section \<open>Fences\<close>

record writer =
  wr_epoch :: pyval
  wr_generation :: pyval
  wr_attempt :: pyval

definition assert_generation_fenced :: "writer \<Rightarrow> writer \<Rightarrow> unit res" where
  "assert_generation_fenced authoritative write =
    (if \<not> type_is_int (wr_epoch authoritative) \<or> \<not> type_is_int (wr_epoch write)
     then Inl (ValueError ''generation fence requires integer epochs'')
     else if \<not> str_matches GENERATION (wr_generation authoritative)
     then Inl (ValueError ''invalid authoritative generation'')
     else if \<not> str_matches GENERATION (wr_generation write)
     then Inl (ValueError ''invalid write generation'')
     else if \<not> py_eq (wr_epoch write) (wr_epoch authoritative)
     then Inl (FencedWrite ''executor epoch changed; writer is fenced'')
     else if \<not> py_eq (wr_generation write) (wr_generation authoritative)
     then Inl (FencedWrite ''stale generation; writer is fenced'')
     else Inr ())"

definition assert_fenced :: "writer \<Rightarrow> writer \<Rightarrow> unit res" where
  "assert_fenced authoritative write =
    (if \<not> type_is_int (wr_attempt authoritative) \<or> \<not> type_is_int (wr_attempt write)
     then Inl (ValueError ''generation fence requires integer attempt'')
     else andThen (assert_generation_fenced authoritative write) (\<lambda>_.
     if \<not> py_eq (wr_attempt write) (wr_attempt authoritative)
     then Inl (FencedWrite ''stale or duplicate attempt; writer is fenced'')
     else Inr ()))"

text \<open>\<open>max(settled)\<close> is read only when every key is an integer.\<close>

definition assert_terminal_settlement ::
    "(pyval \<times> pyval) list \<Rightarrow> pyval \<Rightarrow> pyval \<Rightarrow> unit res" where
  "assert_terminal_settlement settled write_attempt write_terminal =
    (if \<not> int_at_least 1 write_attempt
     then Inl (ValueError ''invalid terminal settlement state'')
     else andThen (in_strs write_terminal TERMINAL_KINDS) (\<lambda>known.
     if \<not> known then Inl (ValueError ''invalid terminal kind'')
     else andThen (forEach (\<lambda>(attempt, terminal).
         if \<not> int_at_least 1 attempt then Inl (ValueError ''invalid settled terminal state'')
         else andThen (in_strs terminal TERMINAL_KINDS) (\<lambda>known.
         if \<not> known then Inl (ValueError ''invalid settled terminal state'')
         else if py_eq attempt write_attempt
         then Inl (FencedWrite ''attempt already has a terminal settlement'')
         else Inr ())) settled) (\<lambda>_.
     if settled \<noteq> [] \<and> the_int write_attempt < Max (set (map (\<lambda>(a, _). the_int a) settled))
     then Inl (FencedWrite ''late settlement behind the authoritative attempt'')
     else Inr ())))"

section \<open>Recovery decisions\<close>

record recovery_decision =
  rd_status :: string
  rd_reason :: string
  rd_auto_retry :: bool
  rd_requires_confirmation :: bool
  rd_lineage :: pydict

text \<open>The frozen dataclass checks itself after construction.\<close>

definition make_decision :: "string \<Rightarrow> string \<Rightarrow> bool \<Rightarrow> bool \<Rightarrow> pydict \<Rightarrow> recovery_decision res" where
  "make_decision status reason auto_retry requires_confirmation lineage =
    (if status \<notin> set RECOVERY_STATUSES then Inl (ValueError ''invalid recovery status'')
     else if reason \<notin> set RECOVERY_REASONS then Inl (ValueError ''invalid recovery reason'')
     else if auto_retry \<and> status \<noteq> ''eligible''
     then Inl (ValueError ''auto retry only applies to an eligible recovery'')
     else if requires_confirmation \<and> status \<noteq> ''paused''
     then Inl (ValueError ''confirmation pause only applies to a paused recovery'')
     else Inr \<lparr>rd_status = status, rd_reason = reason, rd_auto_retry = auto_retry,
       rd_requires_confirmation = requires_confirmation, rd_lineage = lineage\<rparr>)"

definition decision_view :: "recovery_decision \<Rightarrow> pyval" where
  "decision_view d = PDict [(''schema_version'', PStr CONTAINMENT_VERSION),
     (''status'', PStr (rd_status d)), (''reason'', PStr (rd_reason d)),
     (''auto_retry'', PBool (rd_auto_retry d)),
     (''requires_confirmation'', PBool (rd_requires_confirmation d)),
     (''lineage'', PDict (rd_lineage d))]"

definition blocked :: "string \<Rightarrow> recovery_decision res" where
  "blocked reason = make_decision ''blocked'' reason False False []"

definition paused :: "string \<Rightarrow> recovery_decision res" where
  "paused reason = make_decision ''paused'' reason False True []"

record recovery_facts =
  rf_cancelled :: pyval
  rf_authorization_current :: pyval
  rf_owner_matches :: pyval
  rf_workspace_matches :: pyval
  rf_budget_available :: pyval
  rf_success_receipt_present :: pyval
  rf_receipt_queryable :: pyval
  rf_step_declared_idempotent :: pyval
  rf_step_result_verifiable :: pyval
  rf_previous_run_id :: pyval

definition check_facts :: "recovery_facts \<Rightarrow> unit res" where
  "check_facts f = andThen (forEach (\<lambda>(value, name). if \<not> is_bool value
       then Inl (ValueError (name @ '' must be a bool'')) else Inr ())
       [(rf_cancelled f, ''cancelled''), (rf_success_receipt_present f, ''success_receipt_present''),
        (rf_receipt_queryable f, ''receipt_queryable''),
        (rf_step_declared_idempotent f, ''step_declared_idempotent''),
        (rf_step_result_verifiable f, ''step_result_verifiable'')]) (\<lambda>_.
     forEach (\<lambda>(value, name). if value \<noteq> PNone \<and> \<not> is_bool value
       then Inl (ValueError (name @ '' must be a bool or None'')) else Inr ())
       [(rf_authorization_current f, ''authorization_current''), (rf_owner_matches f, ''owner_matches''),
        (rf_workspace_matches f, ''workspace_matches''), (rf_budget_available f, ''budget_available'')])"

definition classify_recovery :: "recovery_facts \<Rightarrow> recovery_decision res" where
  "classify_recovery f = andThen (check_facts f) (\<lambda>_.
     if the_bool (rf_cancelled f) then blocked ''cancelled''
     else if rf_owner_matches f = PBool False \<or> rf_workspace_matches f = PBool False
     then blocked ''owner_workspace_mismatch''
     else if rf_authorization_current f = PBool False then blocked ''authorization_revoked''
     else if rf_budget_available f = PBool False then blocked ''budget_exhausted''
     else if rf_authorization_current f = PNone \<or> rf_owner_matches f = PNone
       \<or> rf_workspace_matches f = PNone \<or> rf_budget_available f = PNone
     then paused ''authority_unavailable''
     else if the_bool (rf_success_receipt_present f)
     then make_decision ''settled'' ''existing_success_receipt'' False False []
     else if \<not> the_bool (rf_step_declared_idempotent f) \<or> \<not> the_bool (rf_step_result_verifiable f)
     then if \<not> the_bool (rf_step_declared_idempotent f) then paused ''non_idempotent_step''
       else paused (if the_bool (rf_receipt_queryable f) then ''receipt_absent'' else ''receipt_unknown'')
     else if rf_previous_run_id f \<noteq> PNone \<and> \<not> str_matches RUN (rf_previous_run_id f)
     then Inl (ValueError ''invalid previous run identity'')
     else make_decision ''eligible'' ''idempotent_result_verifiable'' True False
       (if rf_previous_run_id f \<noteq> PNone then [(''previous_run_id'', rf_previous_run_id f)] else []))"

section \<open>What the classification promises\<close>

definition tri :: "pyval \<Rightarrow> bool" where
  "tri v \<longleftrightarrow> v = PNone \<or> is_bool v"

definition facts_ok :: "recovery_facts \<Rightarrow> bool" where
  "facts_ok f \<longleftrightarrow> is_bool (rf_cancelled f) \<and> is_bool (rf_success_receipt_present f)
     \<and> is_bool (rf_receipt_queryable f) \<and> is_bool (rf_step_declared_idempotent f)
     \<and> is_bool (rf_step_result_verifiable f) \<and> tri (rf_authorization_current f)
     \<and> tri (rf_owner_matches f) \<and> tri (rf_workspace_matches f) \<and> tri (rf_budget_available f)"

lemma check_facts_returns: "check_facts f = Inr u \<longleftrightarrow> facts_ok f"
  by (auto simp: check_facts_def facts_ok_def tri_def res_simps)

definition authorities :: "recovery_facts \<Rightarrow> pyval set" where
  "authorities f = {rf_authorization_current f, rf_owner_matches f, rf_workspace_matches f, rf_budget_available f}"

lemma make_decision_returns [res_simps]:
  "make_decision s r a c l = Inr d \<longleftrightarrow> s \<in> set RECOVERY_STATUSES \<and> r \<in> set RECOVERY_REASONS
     \<and> (a \<longrightarrow> s = ''eligible'') \<and> (c \<longrightarrow> s = ''paused'')
     \<and> d = \<lparr>rd_status = s, rd_reason = r, rd_auto_retry = a, rd_requires_confirmation = c, rd_lineage = l\<rparr>"
  by (auto simp: make_decision_def)

text \<open>The four outcomes, by the facts alone.\<close>

fun outcome :: "recovery_facts \<Rightarrow> string" where
  "outcome f = (if rf_cancelled f = PBool True \<or> PBool False \<in> authorities f then ''blocked''
     else if PNone \<in> authorities f then ''paused''
     else if rf_success_receipt_present f = PBool True then ''settled''
     else if rf_step_declared_idempotent f = PBool False \<or> rf_step_result_verifiable f = PBool False
     then ''paused'' else ''eligible'')"

declare outcome.simps [simp del]

definition run_id_ok :: "pyval \<Rightarrow> bool" where
  "run_id_ok v \<longleftrightarrow> v = PNone \<or> str_matches RUN v"

lemma reasons: "x \<in> {''cancelled'', ''owner_workspace_mismatch'', ''authorization_revoked'', ''budget_exhausted'',
    ''authority_unavailable'', ''existing_success_receipt'', ''non_idempotent_step'', ''receipt_absent'',
    ''receipt_unknown'', ''idempotent_result_verifiable''} \<Longrightarrow> x \<in> set RECOVERY_REASONS"
  by (auto simp: RECOVERY_REASONS_def)

lemma bool_cases: "is_bool v \<Longrightarrow> the_bool v = (v = PBool True)"
  "is_bool v \<Longrightarrow> v = PBool False \<longleftrightarrow> v \<noteq> PBool True"
  by (auto simp: is_bool_conv)

lemma classifyD:
  assumes "classify_recovery f = Inr d"
  shows "facts_ok f" "rd_status d = outcome f" "rd_auto_retry d = (outcome f = ''eligible'')"
    "rd_requires_confirmation d = (outcome f = ''paused'')"
    "outcome f = ''eligible'' \<Longrightarrow> run_id_ok (rf_previous_run_id f)"
  using assms
  unfolding classify_recovery_def andThen_returns check_facts_returns
  by (auto simp: blocked_def paused_def res_simps outcome.simps authorities_def facts_ok_def bool_cases run_id_ok_def
      split: if_splits)

lemma classify_total:
  assumes "facts_ok f" "outcome f = ''eligible'' \<longrightarrow> run_id_ok (rf_previous_run_id f)"
  shows "returns (classify_recovery f)"
proof -
  have "check_facts f = Inr ()" using assms(1) check_facts_returns by blast
  moreover have "returns (make_decision s r a c l)" if "s \<in> set RECOVERY_STATUSES" "r \<in> set RECOVERY_REASONS"
      "a \<longrightarrow> s = ''eligible''" "c \<longrightarrow> s = ''paused''" for s r a c l
    using that by (simp add: returns_iff make_decision_returns)
  ultimately show ?thesis
    using assms(2)
      assms(1) [unfolded facts_ok_def]
    unfolding outcome.simps authorities_def run_id_ok_def classify_recovery_def blocked_def paused_def
    by (simp add: reasons RECOVERY_STATUSES_def bool_cases split: if_splits) (metis | auto)+
qed

text \<open>C18. The recovery classification fails closed. It returns exactly on well-typed facts with a
  well-formed previous run when it would retry; only a decision whose authority is verified in
  all four respects, for an idempotent and verifiable step without a receipt, is eligible;
  only an eligible recovery is retried, and exactly the paused ones ask for confirmation.\<close>

theorem recovery_fails_closed:
  "(returns (classify_recovery f) \<longleftrightarrow>
      facts_ok f \<and> (outcome f = ''eligible'' \<longrightarrow> run_id_ok (rf_previous_run_id f)))
   \<and> (\<forall>d. classify_recovery f = Inr d \<longrightarrow> rd_status d = outcome f
      \<and> rd_auto_retry d = (rd_status d = ''eligible'') \<and> rd_requires_confirmation d = (rd_status d = ''paused'')
      \<and> (rd_status d = ''eligible'' \<longleftrightarrow> authorities f = {PBool True} \<and> rf_cancelled f = PBool False
           \<and> rf_success_receipt_present f = PBool False \<and> rf_step_declared_idempotent f = PBool True
           \<and> rf_step_result_verifiable f = PBool True))"
proof -
  have "outcome f = ''eligible'' \<longleftrightarrow> authorities f = {PBool True} \<and> rf_cancelled f = PBool False
           \<and> rf_success_receipt_present f = PBool False \<and> rf_step_declared_idempotent f = PBool True
           \<and> rf_step_result_verifiable f = PBool True" if "facts_ok f"
    using that by (auto simp: outcome.simps facts_ok_def tri_def authorities_def bool_cases is_bool_conv
        split: if_splits)
  then show ?thesis using classifyD classify_total by (auto simp: returns_iff)
qed

definition sample_facts :: "pyval \<Rightarrow> recovery_facts" where
  "sample_facts budget = \<lparr>rf_cancelled = PBool False, rf_authorization_current = PBool True,
     rf_owner_matches = PBool True, rf_workspace_matches = PBool True, rf_budget_available = budget,
     rf_success_receipt_present = PBool False, rf_receipt_queryable = PBool True,
     rf_step_declared_idempotent = PBool True, rf_step_result_verifiable = PBool True,
     rf_previous_run_id = PNone\<rparr>"

theorem recovery_fails_closed_witness:
  "(\<exists>d. classify_recovery (sample_facts (PBool True)) = Inr d \<and> rd_status d = ''eligible'')
   \<and> (\<exists>d. classify_recovery (sample_facts PNone) = Inr d \<and> rd_status d = ''paused'')"
  using recovery_fails_closed [of "sample_facts (PBool True)"] recovery_fails_closed [of "sample_facts PNone"]
  by (auto simp: returns_iff sample_facts_def facts_ok_def tri_def outcome.simps authorities_def run_id_ok_def)

section \<open>What the fence and the settlement promise\<close>

lemma fenced_returns:
  "assert_fenced A W = Inr u \<longleftrightarrow> W = A \<and> type_is_int (wr_epoch A) \<and> type_is_int (wr_attempt A)
     \<and> str_matches GENERATION (wr_generation A)"
  by (cases A; cases W)
    (auto simp: assert_fenced_def assert_generation_fenced_def res_simps value_convs)

definition settlement_ok :: "(pyval \<times> pyval) list \<Rightarrow> pyval \<Rightarrow> pyval \<Rightarrow> bool" where
  "settlement_ok settled a t \<longleftrightarrow> int_at_least 1 a \<and> t \<in> set (map PStr TERMINAL_KINDS)
     \<and> (\<forall>(b, u) \<in> set settled. int_at_least 1 b \<and> u \<in> set (map PStr TERMINAL_KINDS) \<and> the_int b < the_int a)"

lemma settlement_returns: "assert_terminal_settlement settled a t = Inr u \<longleftrightarrow> settlement_ok settled a t"
proof (cases "int_at_least 1 a")
  case True
  then obtain n where n: "a = PInt n" by (auto simp: int_at_least_conv)
  have order: "(settled \<noteq> [] \<longrightarrow> \<not> n < Max (set (map (\<lambda>(b, _). the_int b) settled)))
      \<longleftrightarrow> (\<forall>(b, _) \<in> set settled. the_int b \<le> n)"
    by (cases "settled = []") (auto simp: not_less)
  show ?thesis
    using True order
    unfolding assert_terminal_settlement_def settlement_ok_def n the_int.simps
    by (fastforce simp: res_simps int_at_least_conv case_prod_unfold)
next
  case False
  then show ?thesis by (simp add: assert_terminal_settlement_def settlement_ok_def)
qed

text \<open>A caller that records what the contract lets it settle. It is not code of the repository, which leaves
  the record to the callers of \<open>assert_terminal_settlement\<close>.\<close>

definition settle :: "(pyval \<times> pyval) list \<Rightarrow> pyval \<times> pyval \<Rightarrow> (pyval \<times> pyval) list res" where
  "settle settled w = andThen (assert_terminal_settlement settled (fst w) (snd w)) (\<lambda>_. Inr (settled @ [w]))"

definition settled_inv :: "(pyval \<times> pyval) list \<Rightarrow> bool" where
  "settled_inv settled \<longleftrightarrow> sorted_wrt (<) (map (\<lambda>(a, _). the_int a) settled)
     \<and> (\<forall>(a, t) \<in> set settled. int_at_least 1 a \<and> t \<in> set (map PStr TERMINAL_KINDS))"

interpretation settlements: machine settle settled_inv
proof
  fix s a t
  assume "settled_inv s" "settle s a = Inr t"
  then show "settled_inv t"
    by (fastforce simp: settle_def res_simps settlement_returns settlement_ok_def settled_inv_def
        sorted_wrt_append case_prod_unfold)
qed


lemma runOps_length: "runOps settle s ws = Inr t \<Longrightarrow> t = s @ ws"
  by (induction ws arbitrary: s) (fastforce simp: res_simps settle_def)+

text \<open>C19. A settlement is accepted exactly for a known terminal kind and an attempt above every settled
  one, so a ledger that records only accepted settlements has strictly increasing attempts: no
  attempt is settled twice, reopened or settled late, in any order of calls.\<close>

theorem settlement_ledger:
  "(assert_terminal_settlement settled a t = Inr () \<longleftrightarrow> settlement_ok settled a t)
   \<and> (\<forall>ws ledger. runOps settle [] ws = Inr ledger \<longrightarrow> ledger = ws
        \<and> sorted_wrt (<) (map (\<lambda>(a, _). the_int a) ledger))
   \<and> (\<forall>t'. (a, t) \<in> set settled \<longrightarrow> \<not> returns (assert_terminal_settlement settled a t'))"
proof -
  have "sorted_wrt (<) (map (\<lambda>(a, _). the_int a) ledger)" if "runOps settle [] ws = Inr ledger" for ws ledger
    using settlements.run_inv [OF _ that] by (simp add: settled_inv_def)
  moreover have "\<not> returns (assert_terminal_settlement settled a t')" if "(a, t) \<in> set settled" for t'
    using that by (auto simp: returns_iff settlement_returns settlement_ok_def)
  moreover have "ledger = ws" if "runOps settle [] ws = Inr ledger" for ws ledger
    using runOps_length [OF that] by simp
  ultimately show ?thesis using settlement_returns by blast
qed

theorem settlement_ledger_witness:
  "runOps settle [] [(PInt 1, PStr ''failed''), (PInt 3, PStr ''completed'')]
     = Inr [(PInt 1, PStr ''failed''), (PInt 3, PStr ''completed'')]
   \<and> \<not> returns (assert_terminal_settlement [(PInt 1, PStr ''failed'')] (PInt 1) (PStr ''completed''))"
proof -
  have one: "assert_terminal_settlement [] (PInt 1) (PStr ''failed'') = Inr ()"
    "assert_terminal_settlement [(PInt 1, PStr ''failed'')] (PInt 3) (PStr ''completed'') = Inr ()"
    unfolding settlement_returns by (simp_all add: settlement_ok_def TERMINAL_KINDS_def int_at_least_conv)
  then show ?thesis
    using settlement_ledger [of "[(PInt 1, PStr ''failed'')]" "PInt 1" "PStr ''failed''"]
    by (simp add: settle_def)
qed

text \<open>Only one writer passes the fence of an authoritative epoch, generation and attempt: any two
  writers it lets through are the same, and every other well-formed writer is fenced.\<close>

theorem one_writer_per_fence:
  assumes "assert_fenced A W = Inr u"
  shows "W = A \<and> (\<forall>W'. type_is_int (wr_epoch W') \<and> type_is_int (wr_attempt W')
      \<and> str_matches GENERATION (wr_generation W') \<and> W' \<noteq> W
      \<longrightarrow> (\<exists>m. assert_fenced A W' = Inl (FencedWrite m)))"
proof -
  have A: "W = A" "type_is_int (wr_epoch A)" "type_is_int (wr_attempt A)" "str_matches GENERATION (wr_generation A)"
    using assms unfolding fenced_returns by blast+
  have "\<exists>m. assert_fenced A W' = Inl (FencedWrite m)"
    if "type_is_int (wr_epoch W')" "type_is_int (wr_attempt W')" "str_matches GENERATION (wr_generation W')" "W' \<noteq> A" for W'
    using that A(2-4)
    by (cases A; cases W') (auto simp: assert_fenced_def assert_generation_fenced_def value_convs)
  with A(1) show ?thesis by blast
qed

theorem one_writer_per_fence_witness:
  "\<exists>m. assert_fenced \<lparr>wr_epoch = PInt 2, wr_generation = PStr ''g'', wr_attempt = PInt 1\<rparr>
      \<lparr>wr_epoch = PInt 1, wr_generation = PStr ''g'', wr_attempt = PInt 1\<rparr> = Inl (FencedWrite m)"
proof -
  let ?A = "\<lparr>wr_epoch = PInt 2, wr_generation = PStr ''g'', wr_attempt = PInt 1\<rparr>"
  have g: "str_matches GENERATION (PStr ''g'')"
    by (simp add: str_matches_def GENERATION_def re_identifier_def is_alnum_def is_lower_def code_def)
  then have "assert_fenced ?A ?A = Inr ()" by (simp add: fenced_returns)
  from one_writer_per_fence [OF this] g show ?thesis by simp
qed

end
