(* ===== verification/Containment_Projection.thy ===== *)
theory Containment_Projection
  imports Session_Containment
begin

text \<open>
  \<^verbatim>\<open>services/gateway/app/session_containment.py\<close>: the read-only projection of a containment from
  the normalised trace events and the adapter's containment summary. The events are sorted by
  their sequence with a stable sort; comparing two incomparable sequences raises, as in Python.
  The session and the trace identity are texts, the arguments with defaults are explicit.
\<close>

section \<open>Events\<close>

definition SESSION_TERMINAL_KINDS :: "string list" where
  "SESSION_TERMINAL_KINDS = [''session.result'', ''session.failed'', ''session.cancelled'',
     ''session.result.discarded'', ''session.closed'']"

definition COMPLETED :: string where "COMPLETED = ''session.result''"
definition CANCELLED :: string where "CANCELLED = ''session.cancelled''"
definition INTERRUPTED :: string where "INTERRUPTED = ''interrupted''"

definition ORDINARY :: "(string \<times> string) list" where
  "ORDINARY = [(''session.failed'', ''failed''), (''session.result.discarded'', ''discarded''),
     (''session.closed'', ''closed'')]"

text \<open>\<open>[x for x in xs if p(x)]\<close> where the test may raise, and a stable \<open>sorted\<close> by a key.\<close>

fun filterRes :: "('a \<Rightarrow> bool res) \<Rightarrow> 'a list \<Rightarrow> 'a list res" where
  "filterRes p [] = Inr []"
| "filterRes p (x # xs) = andThen (p x) (\<lambda>b. andThen (filterRes p xs) (\<lambda>ys.
     Inr (if b then x # ys else ys)))"

fun insert_by :: "('a \<Rightarrow> pyval) \<Rightarrow> 'a \<Rightarrow> 'a list \<Rightarrow> 'a list res" where
  "insert_by k x [] = Inr [x]"
| "insert_by k x (y # ys) = andThen (py_lt (k y) (k x)) (\<lambda>b.
     if b then andThen (insert_by k x ys) (\<lambda>zs. Inr (y # zs)) else Inr (x # y # ys))"

fun sort_by :: "('a \<Rightarrow> pyval) \<Rightarrow> 'a list \<Rightarrow> 'a list res" where
  "sort_by k [] = Inr []"
| "sort_by k (x # xs) = andThen (sort_by k xs) (insert_by k x)"

definition event_sequence :: "pyval \<Rightarrow> pyval" where
  "event_sequence event = fld_or event ''sequence'' (PInt 0)"

definition is_owned :: "string \<Rightarrow> string \<Rightarrow> pyval \<Rightarrow> bool res" where
  "is_owned session_id trace_id event =
    (if \<not> is_dict event \<or> \<not> py_eq (fld event ''session_id'') (PStr session_id)
        \<or> \<not> py_eq (fld event ''trace_id'') (PStr trace_id)
     then Inr False else in_strs (fld event ''source'') [''runtime-adapter'', ''byq-domain''])"

definition owned :: "pyval \<Rightarrow> string \<Rightarrow> string \<Rightarrow> pyval list res" where
  "owned events session_id trace_id =
    (if \<not> is_list events then Inr []
     else andThen (filterRes (is_owned session_id trace_id) (the_list events)) (sort_by event_sequence))"

definition event_run :: "pyval \<Rightarrow> string option" where
  "event_run event = (let payload = fld event ''payload'';
       run = (if is_dict payload then fld payload ''run_id'' else PNone) in
     if str_matches RUN run then Some (the_str run) else None)"

section \<open>The loss\<close>

definition containment_match :: "pyval \<Rightarrow> string \<Rightarrow> string \<Rightarrow> pyval option res" where
  "containment_match adapter_containment session_id trace_id =
    (if \<not> is_dict adapter_containment \<or> \<not> truthy (fld adapter_containment ''contained'') then Inr None
     else if \<not> py_eq (fld adapter_containment ''session_id'') (PStr session_id) then Inr None
     else let latest = fld adapter_containment ''latest'' in
     if \<not> is_dict latest \<or> \<not> py_eq (fld latest ''trace_id'') (PStr trace_id) then Inr None
     else if \<not> str_matches RUN (fld latest ''interrupted_run_id'') then Inr None
     else andThen (in_strs (fld latest ''loss_cause'') LOSS_CAUSES) (\<lambda>known.
     if \<not> known then Inr None else Inr (Some latest)))"

record loss =
  ls_status :: string
  ls_interrupted :: bool
  ls_cancelled :: bool
  ls_interrupted_run_id :: pyval
  ls_loss_cause :: pyval
  ls_last_terminal_sequence :: pyval

definition loss_base :: loss where
  "loss_base = \<lparr>ls_status = ''active'', ls_interrupted = False, ls_cancelled = False,
     ls_interrupted_run_id = PNone, ls_loss_cause = PNone, ls_last_terminal_sequence = PNone\<rparr>"

definition interrupted_loss :: "pyval \<Rightarrow> loss" where
  "interrupted_loss m = loss_base\<lparr>ls_status := INTERRUPTED, ls_interrupted := True,
     ls_interrupted_run_id := fld m ''interrupted_run_id'', ls_loss_cause := fld m ''loss_cause''\<rparr>"

definition is_start :: "pyval \<Rightarrow> bool" where
  "is_start event \<longleftrightarrow> py_eq (fld event ''kind'') (PStr ''session.started'')
     \<and> int_at_least 1 (fld event ''sequence'') \<and> event_run event \<noteq> None"

definition sequence_after :: "int \<Rightarrow> pyval \<Rightarrow> bool" where
  "sequence_after n event \<longleftrightarrow> type_is_int (fld event ''sequence'') \<and> n < the_int (fld event ''sequence'')"

definition last_opt :: "'a list \<Rightarrow> 'a option" where
  "last_opt xs = (if xs = [] then None else Some (last xs))"

text \<open>The terminal that belongs to the run of the latest start: its own last one or, when there
  is one start and one terminal only, that terminal even without a run.\<close>

definition current_terminal :: "pyval list \<Rightarrow> pyval list \<Rightarrow> pyval \<Rightarrow> pyval option" where
  "current_terminal starts terminals latest_start =
    (let current_run = event_run latest_start; start_sequence = the_int (fld latest_start ''sequence'');
         current_terminals = filter (\<lambda>e. event_run e = current_run \<and> sequence_after start_sequence e) terminals in
     case last_opt current_terminals of Some e \<Rightarrow> Some e
     | None \<Rightarrow> (case terminals of
         [e] \<Rightarrow> if length starts = 1 \<and> event_run e = None \<and> sequence_after start_sequence e
           then Some e else None
       | _ \<Rightarrow> None))"

definition ambiguous_unbound :: "pyval list \<Rightarrow> pyval \<Rightarrow> bool" where
  "ambiguous_unbound terminals latest_start \<longleftrightarrow>
     list_ex (\<lambda>e. event_run e = None \<and> sequence_after (the_int (fld latest_start ''sequence'')) e) terminals"

definition settled_loss :: "pyval option \<Rightarrow> pyval \<Rightarrow> loss" where
  "settled_loss m lst =
    (let kind = the_str (fld lst ''kind''); sequence = fld lst ''sequence'' in
     if kind = COMPLETED then loss_base\<lparr>ls_status := ''completed'', ls_last_terminal_sequence := sequence\<rparr>
     else if kind = CANCELLED
     then loss_base\<lparr>ls_status := ''cancelled'', ls_cancelled := True, ls_last_terminal_sequence := sequence\<rparr>
     else if m \<noteq> None \<and> event_run lst \<noteq> None
        \<and> event_run lst = Some (the_str (fld (the m) ''interrupted_run_id''))
     then (interrupted_loss (the m))\<lparr>ls_last_terminal_sequence := sequence\<rparr>
     else loss_base\<lparr>ls_status := (case map_of ORDINARY kind of None \<Rightarrow> ''failed'' | Some s \<Rightarrow> s),
       ls_last_terminal_sequence := sequence\<rparr>)"

definition loss_from_evidence :: "pyval \<Rightarrow> string \<Rightarrow> string \<Rightarrow> pyval \<Rightarrow> loss res" where
  "loss_from_evidence events session_id trace_id adapter_containment =
     andThen (owned events session_id trace_id) (\<lambda>owned.
     andThen (filterRes (\<lambda>e. in_strs (fld e ''kind'') SESSION_TERMINAL_KINDS) owned) (\<lambda>terminals.
     andThen (containment_match adapter_containment session_id trace_id) (\<lambda>m.
     let starts = filter is_start owned in
     case last_opt starts of
       Some latest_start \<Rightarrow>
        (case current_terminal starts terminals latest_start of
           Some lst \<Rightarrow> Inr (settled_loss m lst)
         | None \<Rightarrow>
           if \<not> ambiguous_unbound terminals latest_start \<and> m \<noteq> None
              \<and> event_run latest_start = Some (the_str (fld (the m) ''interrupted_run_id''))
           then Inr (interrupted_loss (the m)) else Inr loss_base)
     | None \<Rightarrow>
        (case last_opt terminals of
           Some lst \<Rightarrow> Inr (settled_loss m lst)
         | None \<Rightarrow> (case m of Some m \<Rightarrow> Inr (interrupted_loss m) | None \<Rightarrow> Inr loss_base)))))"

section \<open>Preservation\<close>

definition state_updates :: "bool \<Rightarrow> bool \<Rightarrow> pyval \<Rightarrow> pydict" where
  "state_updates conversation_known trace_known auth =
     (if trace_known then [(''workflow_trace'', PStr ''preserved'')] else [])
     @ (if conversation_known then [(''conversation'', PStr ''preserved'')] else [])
     @ (if auth = PBool True then [(''authorization'', PStr ''preserved'')]
        else if auth = PBool False then [(''authorization'', PStr ''unavailable'')] else [])"

definition source_updates :: "bool \<Rightarrow> bool \<Rightarrow> pyval \<Rightarrow> pyval \<Rightarrow> string \<Rightarrow> string \<Rightarrow> pydict" where
  "source_updates conversation_known trace_known auth auth_source catalog_source trace_source =
     (if trace_known then [(''workflow_trace'', PStr trace_source)] else [])
     @ (if conversation_known then [(''conversation'', PStr catalog_source)] else [])
     @ (if auth = PBool True
        then [(''authorization'', if truthy auth_source then auth_source else PStr ''backend-auth-session'')]
        else [])"

definition preservation_projection :: "bool \<Rightarrow> bool \<Rightarrow> pyval \<Rightarrow> string \<Rightarrow> string \<Rightarrow> pyval res" where
  "preservation_projection conversation_known trace_known authority catalog_source trace_source =
    (let states = PDict (map (\<lambda>f. (f, PStr ''unknown'')) PRESERVED_FIELDS);
         auth = (if is_dict authority then fld authority ''authorization_current'' else PNone);
         sources = source_updates conversation_known trace_known auth (fld authority ''source'')
           catalog_source trace_source in
     validate_preservation (PDict [(''schema_version'', PStr PRESERVATION_SCHEMA_VERSION),
       (''states'', dict_merge states (state_updates conversation_known trace_known auth)),
       (''boundary_invariant'', PStr BOUNDARY_INVARIANT), (''boundary_verified'', PBool False),
       (''sources'', PDict (if sources = [] then [(''boundary'', PStr ''execution-boundary-assertion'')]
          else sources))]))"

definition tri_of :: "pyval \<Rightarrow> pyval" where
  "tri_of value = (if is_bool value then value else PNone)"

definition recovery_facts_of :: "loss \<Rightarrow> pyval \<Rightarrow> recovery_facts" where
  "recovery_facts_of l authority = \<lparr>rf_cancelled = PBool (ls_cancelled l),
     rf_authorization_current = tri_of (fld authority ''authorization_current''),
     rf_owner_matches = tri_of (fld authority ''owner_matches''),
     rf_workspace_matches = tri_of (fld authority ''workspace_matches''),
     rf_budget_available = tri_of (fld authority ''budget_available''),
     rf_success_receipt_present = PBool False, rf_receipt_queryable = PBool False,
     rf_step_declared_idempotent = PBool False, rf_step_result_verifiable = PBool False,
     rf_previous_run_id = ls_interrupted_run_id l\<rparr>"

definition project_containment ::
    "pyval \<Rightarrow> string \<Rightarrow> string \<Rightarrow> string option \<Rightarrow> pyval \<Rightarrow> pyval \<Rightarrow> pyval \<Rightarrow> pyval res" where
  "project_containment events session_id trace_id conversation_id adapter_containment authority preservation =
     andThen (loss_from_evidence events session_id trace_id adapter_containment) (\<lambda>loss.
     let authority = (if is_dict authority then authority else PDict []) in
     andThen (if ls_interrupted loss \<or> ls_cancelled loss
       then andThen (classify_recovery (recovery_facts_of loss authority)) (\<lambda>d. Inr (decision_view d))
       else Inr PNone) (\<lambda>recovery.
     andThen (if preservation = PNone
       then preservation_projection (conversation_id \<noteq> None) True authority ''backend-product-catalog''
         ''gateway-trace-store''
       else Inr preservation) (\<lambda>preservation.
     andThen (validate_preservation preservation) (\<lambda>preservation.
     let conversation = (case conversation_id of None \<Rightarrow> PNone | Some c \<Rightarrow> PStr c) in
     Inr (PDict [(''schema_version'', PStr CONTAINMENT_VERSION),
       (''session_id'', if truthy conversation then conversation else PStr session_id),
       (''conversation_id'', conversation), (''trace_id'', PStr trace_id),
       (''status'', PStr (ls_status loss)), (''loss_cause'', ls_loss_cause loss),
       (''interrupted_run_id'', ls_interrupted_run_id loss), (''recovery'', recovery),
       (''preservation'', preservation), (''submission'', PStr ''not_performed'')])))))"

section \<open>Interruption needs fenced evidence\<close>

lemma match_returns:
  "containment_match a s t = Inr (Some m) \<longleftrightarrow> is_dict a \<and> truthy (fld a ''contained'')
     \<and> fld a ''session_id'' = PStr s \<and> m = fld a ''latest'' \<and> is_dict m \<and> fld m ''trace_id'' = PStr t
     \<and> (\<exists>run. fld m ''interrupted_run_id'' = PStr run \<and> RUN run)
     \<and> (\<exists>c \<in> set LOSS_CAUSES. fld m ''loss_cause'' = PStr c)"
  by (auto simp: containment_match_def res_simps Let_def str_matches_conv split: if_splits)

lemma last_opt_Some: "last_opt xs = Some x \<longleftrightarrow> xs \<noteq> [] \<and> x = last xs"
  by (auto simp: last_opt_def)

lemma settled_loss_interrupted:
  assumes "ls_interrupted (settled_loss m lst)"
  shows "\<exists>e. m = Some e \<and> event_run lst = Some (the_str (fld e ''interrupted_run_id''))
    \<and> settled_loss m lst = (interrupted_loss e)\<lparr>ls_last_terminal_sequence := fld lst ''sequence''\<rparr>"
proof (cases "m \<noteq> None \<and> event_run lst \<noteq> None \<and> event_run lst = Some (the_str (fld (the m) ''interrupted_run_id''))
    \<and> the_str (fld lst ''kind'') \<notin> {COMPLETED, CANCELLED}")
  case True
  then show ?thesis by (auto simp: settled_loss_def)
next
  case False
  have "\<not> ls_interrupted (settled_loss m lst)"
    unfolding settled_loss_def Let_def using False
    by (auto simp: loss_base_def)
  with assms show ?thesis by blast
qed

lemma current_terminal_run:
  assumes "current_terminal starts terminals s0 = Some e" "event_run e \<noteq> None"
  shows "event_run e = event_run s0"
proof -
  let ?cur = "filter (\<lambda>e. event_run e = event_run s0 \<and> sequence_after (the_int (fld s0 ''sequence'')) e) terminals"
  show ?thesis
  proof (cases "last_opt ?cur")
    case (Some e')
    then have "e = e'" using assms(1) unfolding current_terminal_def Let_def
      by (simp only: option.case option.inject)
    have "?cur \<noteq> []" "e' = last ?cur" using Some unfolding last_opt_Some by blast+
    then have "e' \<in> set ?cur" by (simp only: last_in_set not_False_eq_True)
    with \<open>e = e'\<close> show ?thesis by (simp only: set_filter mem_Collect_eq)
  next
    case None
    then have fallback: "current_terminal starts terminals s0 = (case terminals of
         [e] \<Rightarrow> if length starts = 1 \<and> event_run e = None \<and> sequence_after (the_int (fld s0 ''sequence'')) e
           then Some e else None | _ \<Rightarrow> None)"
      unfolding current_terminal_def Let_def by (simp only: option.case)
    obtain x where "terminals = [x]"
      using assms(1) unfolding fallback by (cases terminals; cases "tl terminals") auto
    with assms(1) have "event_run e = None" unfolding fallback by (simp split: if_splits)
    with assms(2) show ?thesis by simp
  qed
qed

text \<open>How a loss is reached from the evidence: nothing lost, an interruption by the containment
  record alone, or the last terminal, which has the run of the latest start or none.\<close>

definition loss_reached :: "pyval list \<Rightarrow> pyval option \<Rightarrow> loss \<Rightarrow> bool" where
  "loss_reached starts m l \<longleftrightarrow> l = loss_base
     \<or> (\<exists>e. m = Some e \<and> l = interrupted_loss e
          \<and> (starts = [] \<or> event_run (last starts) = Some (the_str (fld e ''interrupted_run_id''))))
     \<or> (\<exists>lst. l = settled_loss m lst
          \<and> (event_run lst = None \<or> starts = [] \<or> event_run lst = event_run (last starts)))"

lemma loss_reachedI:
  assumes "loss_from_evidence events s t a = Inr l"
  obtains ow m where "owned events s t = Inr ow" "containment_match a s t = Inr m"
    "loss_reached (filter is_start ow) m l"
proof -
  obtain ow terminals m where h: "owned events s t = Inr ow"
    "filterRes (\<lambda>e. in_strs (fld e ''kind'') SESSION_TERMINAL_KINDS) ow = Inr terminals"
    "containment_match a s t = Inr m"
    using assms unfolding loss_from_evidence_def andThen_returns by blast
  note l = assms [unfolded loss_from_evidence_def h andThen_Inr Let_def]
  have "loss_reached (filter is_start ow) m l"
  proof (cases "last_opt (filter is_start ow)")
    case None
    then have "filter is_start ow = []" by (metis last_opt_def option.distinct(1))
    with l None show ?thesis
      by (auto simp: loss_reached_def split: option.splits)
  next
    case (Some s0)
    then have s0: "s0 = last (filter is_start ow)" by (simp add: last_opt_Some)
    show ?thesis
    proof (cases "current_terminal (filter is_start ow) terminals s0")
      case None
      with l Some show ?thesis unfolding loss_reached_def s0 by (auto split: if_splits)
    next
      case c: (Some lst)
      with l Some have "l = settled_loss m lst" by simp
      moreover have "event_run lst = None \<or> event_run lst = event_run (last (filter is_start ow))"
        using current_terminal_run [OF c] s0 by blast
      ultimately show ?thesis unfolding loss_reached_def by blast
    qed
  qed
  with that h show thesis by blast
qed

lemma loss_reached_interrupted:
  assumes "loss_reached starts m l" "ls_interrupted l"
  shows "\<exists>e. m = Some e \<and> ls_status l = INTERRUPTED \<and> \<not> ls_cancelled l
    \<and> ls_interrupted_run_id l = fld e ''interrupted_run_id'' \<and> ls_loss_cause l = fld e ''loss_cause''
    \<and> (starts = [] \<or> event_run (last starts) = Some (the_str (fld e ''interrupted_run_id'')))"
proof -
  consider "l = loss_base" | e where "m = Some e" "l = interrupted_loss e"
      "starts = [] \<or> event_run (last starts) = Some (the_str (fld e ''interrupted_run_id''))"
    | lst where "l = settled_loss m lst" "event_run lst = None \<or> starts = [] \<or> event_run lst = event_run (last starts)"
    using assms(1) unfolding loss_reached_def by blast
  then show ?thesis
  proof cases
    case 1
    with assms(2) show ?thesis by (simp add: loss_base_def)
  next
    case 2
    then show ?thesis by (auto simp: interrupted_loss_def loss_base_def)
  next
    case (3 lst)
    have "ls_interrupted (settled_loss m lst)" using assms(2) 3 by simp
    from settled_loss_interrupted [OF this] 3 show ?thesis
      by (auto simp: interrupted_loss_def loss_base_def)
  qed
qed

lemma settled_loss_status:
  "ls_status (settled_loss m lst) \<in> {''completed'', ''cancelled'', INTERRUPTED, ''failed'', ''discarded'', ''closed''}"
  "ls_interrupted (settled_loss m lst) = (ls_status (settled_loss m lst) = INTERRUPTED)"
  "ls_cancelled (settled_loss m lst) = (ls_status (settled_loss m lst) = ''cancelled'')"
  by (auto simp: settled_loss_def Let_def interrupted_loss_def loss_base_def ORDINARY_def INTERRUPTED_def)

lemma loss_flags:
  assumes "loss_reached starts m l"
  shows "ls_interrupted l = (ls_status l = INTERRUPTED)" "ls_cancelled l = (ls_status l = ''cancelled'')"
  using assms settled_loss_status unfolding loss_reached_def
  by (auto simp: interrupted_loss_def loss_base_def INTERRUPTED_def)


section \<open>The preservation projection\<close>

lemma preservation_returns:
  "validate_preservation v = Inr r \<longleftrightarrow> r = v \<and> is_dict v \<and> set (keys_of v) = set PRESERVATION_FIELDS
     \<and> fld v ''schema_version'' = PStr PRESERVATION_SCHEMA_VERSION \<and> is_dict (fld v ''states'')
     \<and> set (keys_of (fld v ''states'')) = set PRESERVED_FIELDS
     \<and> (\<forall>(_, state) \<in> set (the_dict (fld v ''states'')). state \<in> set (map PStr PRESERVATION_STATES))
     \<and> fld v ''boundary_invariant'' = PStr BOUNDARY_INVARIANT \<and> fld v ''boundary_verified'' = PBool False
     \<and> is_dict (fld v ''sources'') \<and> truthy (fld v ''sources'')
     \<and> (\<forall>(f, state) \<in> set (the_dict (fld v ''states'')). state = PStr ''preserved'' \<longrightarrow> has_key (fld v ''sources'') f)"
  by (auto simp: validate_preservation_def res_simps keys_are_iff Let_def case_prod_unfold)
    (metis is_str_conv)?

interpretation preservation: checker validate_preservation "\<lambda>v. returns (validate_preservation v)"
  by unfold_locales (auto simp: returns_iff preservation_returns)

lemma set_dict_merge: "set (the_dict (dict_merge v b)) \<subseteq> set (the_dict v) \<union> set b"
proof -
  have upd: "set (AList.update k x d) \<subseteq> insert (k, x) (set d)" for k :: string and x :: pyval and d
    by (induction d) auto
  have "set (fold (\<lambda>(k, x) d. AList.update k x d) b d) \<subseteq> set d \<union> set b" for d
  proof (induction b arbitrary: d)
    case (Cons kx b)
    then show ?case using upd [of "fst kx" "snd kx" d] by (cases kx) fastforce
  qed simp
  then show ?thesis by (simp add: dict_merge_def)
qed

lemma source_keys:
  "fst ` set (source_updates c t auth src cs ts)
     = (if t then {''workflow_trace''} else {}) \<union> (if c then {''conversation''} else {})
       \<union> (if auth = PBool True then {''authorization''} else {})"
  by (auto simp: source_updates_def)

lemma state_sources:
  assumes "(f, PStr ''preserved'') \<in> set (state_updates c t auth)"
  shows "f \<in> fst ` set (source_updates c t auth src cs ts)"
  using assms unfolding source_keys by (auto simp: state_updates_def split: if_splits)

lemma state_values: "(f, st) \<in> set (state_updates c t auth) \<Longrightarrow> st \<in> set (map PStr PRESERVATION_STATES)"
  "(f, st) \<in> set (state_updates c t auth) \<Longrightarrow> f \<in> set PRESERVED_FIELDS"
  by (auto simp: state_updates_def PRESERVATION_STATES_def PRESERVED_FIELDS_def split: if_splits)

text \<open>The projection is always valid: what it marks as preserved has a source.\<close>

lemma projection_valid: "\<exists>v. preservation_projection c t authority cs ts = Inr v
   \<and> validate_preservation v = Inr v
   \<and> (\<forall>f. fld (fld v ''states'') f = PStr ''preserved'' \<longrightarrow> has_key (fld v ''sources'') f)"
proof -
  define auth where "auth = (if is_dict authority then fld authority ''authorization_current'' else PNone)"
  define src where "src = source_updates c t auth (fld authority ''source'') cs ts"
  define states where "states = dict_merge (PDict (map (\<lambda>f. (f, PStr ''unknown'')) PRESERVED_FIELDS)) (state_updates c t auth)"
  define sources where "sources = PDict (if src = [] then [(''boundary'', PStr ''execution-boundary-assertion'')] else src)"
  define v where "v = PDict [(''schema_version'', PStr PRESERVATION_SCHEMA_VERSION), (''states'', states),
       (''boundary_invariant'', PStr BOUNDARY_INVARIANT), (''boundary_verified'', PBool False), (''sources'', sources)]"
  have p: "preservation_projection c t authority cs ts = validate_preservation v"
    by (simp add: preservation_projection_def v_def states_def sources_def src_def auth_def Let_def)
  have entry: "st \<in> set (map PStr PRESERVATION_STATES) \<and> (st = PStr ''preserved'' \<longrightarrow> has_key sources f)"
    if "(f, st) \<in> set (the_dict states)" for f st
  proof -
    from that set_dict_merge consider "st = PStr ''unknown''" | "(f, st) \<in> set (state_updates c t auth)"
      unfolding states_def by fastforce
    then show ?thesis
    proof cases
      case 2
      have "has_key sources f" if pre: "st = PStr ''preserved''"
      proof -
        have k: "f \<in> fst ` set src" unfolding src_def by (rule state_sources) (use 2 pre in simp)
        then have "src \<noteq> []" by auto
        with k show ?thesis by (simp add: sources_def has_key_iff)
      qed
      then show ?thesis using state_values(1) [OF 2] by blast
    qed (simp add: PRESERVATION_STATES_def)
  qed
  have keys: "set (keys_of states) = set PRESERVED_FIELDS"
    unfolding states_def using state_values(2) by (fastforce simp: comp_def)
  have flds: "fld v ''schema_version'' = PStr PRESERVATION_SCHEMA_VERSION" "fld v ''states'' = states"
    "fld v ''boundary_invariant'' = PStr BOUNDARY_INVARIANT" "fld v ''boundary_verified'' = PBool False"
    "fld v ''sources'' = sources" "is_dict v" "set (keys_of v) = set PRESERVATION_FIELDS"
    by (simp_all add: v_def PRESERVATION_FIELDS_def)
  have ok: "validate_preservation v = Inr v"
    unfolding preservation_returns flds keys
    using entry by (auto simp: states_def sources_def flds)
  have "has_key sources f" if "fld states f = PStr ''preserved''" for f
  proof -
    have "(f, PStr ''preserved'') \<in> set (the_dict states)"
      using that unfolding fld_def by (auto split: option.splits dest: map_of_SomeD)
    from entry [OF this] show ?thesis by blast
  qed
  with p ok show ?thesis by (auto simp: flds)
qed


section \<open>What the projection promises\<close>

text \<open>C21. A session is projected as interrupted only on fenced evidence: a containment record bound to
  exactly this session and trace, with a well-formed run and a known cause, which are the run
  and the cause shown; when the trace holds a start of the session, the run is that of its
  latest start. An interruption is never shown as completed or cancelled.\<close>

theorem interrupted_needs_fenced_evidence:
  assumes "loss_from_evidence events s t a = Inr l" "ls_interrupted l"
  shows "\<exists>m ow run cause. containment_match a s t = Inr (Some m) \<and> fld a ''session_id'' = PStr s
    \<and> fld m ''trace_id'' = PStr t \<and> fld m ''interrupted_run_id'' = PStr run \<and> RUN run
    \<and> fld m ''loss_cause'' = PStr cause \<and> cause \<in> set LOSS_CAUSES
    \<and> ls_interrupted_run_id l = PStr run \<and> ls_loss_cause l = PStr cause
    \<and> ls_status l = INTERRUPTED \<and> \<not> ls_cancelled l
    \<and> owned events s t = Inr ow
    \<and> (filter is_start ow = [] \<or> event_run (last (filter is_start ow)) = Some run)"
proof -
  from loss_reachedI [OF assms(1)] obtain ow m where h: "owned events s t = Inr ow" "containment_match a s t = Inr m"
    "loss_reached (filter is_start ow) m l" .
  from loss_reached_interrupted [OF h(3) assms(2)] obtain e where e: "m = Some e" "ls_status l = INTERRUPTED"
    "\<not> ls_cancelled l" "ls_interrupted_run_id l = fld e ''interrupted_run_id''" "ls_loss_cause l = fld e ''loss_cause''"
    "filter is_start ow = [] \<or> event_run (last (filter is_start ow)) = Some (the_str (fld e ''interrupted_run_id''))"
    by blast
  have mt: "containment_match a s t = Inr (Some e)" using h(2) e(1) by simp
  obtain run cause where "fld e ''interrupted_run_id'' = PStr run" "RUN run" "fld e ''loss_cause'' = PStr cause"
    "cause \<in> set LOSS_CAUSES" "fld a ''session_id'' = PStr s" "fld e ''trace_id'' = PStr t"
    using mt unfolding match_returns by blast
  with mt h(1) e show ?thesis by auto
qed

definition sample_run :: string where "sample_run = replicate 32 CHR ''a''"

definition sample_containment :: pyval where
  "sample_containment = PDict [(''contained'', PBool True), (''session_id'', PStr ''s''),
     (''latest'', PDict [(''trace_id'', PStr ''t''), (''interrupted_run_id'', PStr sample_run),
       (''loss_cause'', PStr ''runtime-loss'')])]"

definition sample_event :: "string \<Rightarrow> int \<Rightarrow> pyval" where
  "sample_event kind n = PDict [(''session_id'', PStr ''s''), (''trace_id'', PStr ''t''),
     (''source'', PStr ''byq-domain''), (''sequence'', PInt n), (''kind'', PStr kind),
     (''payload'', PDict [(''run_id'', PStr sample_run)])]"

lemma sample_event_run: "event_run (sample_event k n) = Some sample_run"
  by (simp add: event_run_def sample_event_def str_matches_def RUN_def sample_run_def re_hex_def list_all_iff
      is_hex_def code_def)

lemma sample_loss:
  "\<exists>l. loss_from_evidence (PList [sample_event ''session.failed'' 2, sample_event ''session.started'' 1]) ''s'' ''t''
     sample_containment = Inr l \<and> ls_interrupted l"
proof -
  let ?f = "sample_event ''session.failed'' 2" and ?s = "sample_event ''session.started'' 1"
  have ow: "owned (PList [?f, ?s]) ''s'' ''t'' = Inr [?s, ?f]"
    by (simp add: owned_def is_owned_def sample_event_def event_sequence_def fld_or_def num_cmp_def)
  have m: "containment_match sample_containment ''s'' ''t'' = Inr (Some (fld sample_containment ''latest''))"
    unfolding match_returns
    by (simp add: sample_containment_def RUN_def sample_run_def re_hex_def list_all_iff is_hex_def code_def LOSS_CAUSES_def)
  have k: "fld ?f ''kind'' = PStr ''session.failed''" "fld ?s ''kind'' = PStr ''session.started''"
    "fld ?f ''sequence'' = PInt 2" "fld ?s ''sequence'' = PInt 1"
    by (simp_all add: sample_event_def)
  have st: "is_start ?s" "\<not> is_start ?f" using sample_event_run by (simp_all add: is_start_def k int_at_least_conv)
  have c: "current_terminal [?s] [?f] ?s = Some ?f"
    by (simp add: current_terminal_def sample_event_run sequence_after_def k last_opt_def)
  have "ls_interrupted (settled_loss (Some (fld sample_containment ''latest'')) ?f)"
    by (simp add: settled_loss_def sample_event_run k COMPLETED_def CANCELLED_def sample_containment_def
        interrupted_loss_def)
  then show ?thesis
    unfolding loss_from_evidence_def ow andThen_Inr m
    by (simp add: k SESSION_TERMINAL_KINDS_def st c last_opt_def)
qed

theorem interrupted_needs_fenced_evidence_witness:
  "\<exists>l. loss_from_evidence (PList [sample_event ''session.failed'' 2, sample_event ''session.started'' 1]) ''s'' ''t''
     sample_containment = Inr l \<and> ls_interrupted_run_id l = PStr sample_run"
proof -
  obtain l where l: "loss_from_evidence (PList [sample_event ''session.failed'' 2, sample_event ''session.started'' 1])
      ''s'' ''t'' sample_containment = Inr l" "ls_interrupted l"
    using sample_loss by blast
  from interrupted_needs_fenced_evidence [OF l] obtain m run where
    "containment_match sample_containment ''s'' ''t'' = Inr (Some m)" "fld m ''interrupted_run_id'' = PStr run"
    "ls_interrupted_run_id l = PStr run" by blast
  moreover from this(1) have "m = fld sample_containment ''latest''" unfolding match_returns by blast
  ultimately show ?thesis using l(1) by (auto simp: sample_containment_def)
qed

lemma projected_facts:
  assumes "loss_from_evidence events s t a = Inr l"
  shows "returns (classify_recovery (recovery_facts_of l authority))"
    "classify_recovery (recovery_facts_of l authority) = Inr d \<Longrightarrow> rd_status d \<in> {''paused'', ''blocked''}"
proof -
  let ?f = "recovery_facts_of l authority"
  have tri: "tri (tri_of v)" for v by (simp add: tri_def tri_of_def)
  have out: "outcome ?f \<in> {''paused'', ''blocked''}"
    by (simp add: outcome.simps recovery_facts_of_def)
  have "facts_ok ?f" using tri by (simp add: facts_ok_def recovery_facts_of_def)
  then show "returns (classify_recovery ?f)" using out by (intro classify_total) auto
  show "rd_status d \<in> {''paused'', ''blocked''}" if "classify_recovery ?f = Inr d"
    using classifyD(2) [OF that] out by simp
qed

lemma project_returns:
  "project_containment events s t c a authority pre = Inr v \<longleftrightarrow>
    (\<exists>l rec p. loss_from_evidence events s t a = Inr l
       \<and> (if ls_interrupted l \<or> ls_cancelled l
          then \<exists>d. classify_recovery (recovery_facts_of l (if is_dict authority then authority else PDict [])) = Inr d
                 \<and> rec = decision_view d
          else rec = PNone)
       \<and> (if pre = PNone then preservation_projection (c \<noteq> None) True
             (if is_dict authority then authority else PDict []) ''backend-product-catalog'' ''gateway-trace-store'' = Inr p
          else p = pre) \<and> validate_preservation p = Inr p
       \<and> v = PDict [(''schema_version'', PStr CONTAINMENT_VERSION),
       (''session_id'', if truthy (case c of None \<Rightarrow> PNone | Some c \<Rightarrow> PStr c)
           then (case c of None \<Rightarrow> PNone | Some c \<Rightarrow> PStr c) else PStr s),
       (''conversation_id'', case c of None \<Rightarrow> PNone | Some c \<Rightarrow> PStr c), (''trace_id'', PStr t),
       (''status'', PStr (ls_status l)), (''loss_cause'', ls_loss_cause l),
       (''interrupted_run_id'', ls_interrupted_run_id l), (''recovery'', rec),
       (''preservation'', p), (''submission'', PStr ''not_performed'')])"
  unfolding project_containment_def andThen_returns Let_def
  using preservation_returns by (fastforce simp: andThen_returns split: if_splits)


text \<open>C20. The projection never promises a recovery: a recovery is shown exactly for an interrupted or
  cancelled session, it is paused or blocked and never retried by itself, a cancelled session
  is blocked, and no prompt is submitted.\<close>

theorem projection_never_eligible:
  assumes "project_containment events s t c a authority pre = Inr v"
  shows "fld v ''submission'' = PStr ''not_performed''
    \<and> (fld v ''recovery'' = PNone \<longleftrightarrow> fld v ''status'' \<notin> {PStr ''interrupted'', PStr ''cancelled''})
    \<and> (fld v ''recovery'' = PNone \<or>
        fld (fld v ''recovery'') ''status'' \<in> {PStr ''paused'', PStr ''blocked''}
        \<and> fld (fld v ''recovery'') ''auto_retry'' = PBool False)
    \<and> (fld v ''status'' = PStr ''cancelled'' \<longrightarrow> fld (fld v ''recovery'') ''status'' = PStr ''blocked'')"
proof -
  define au where "au = (if is_dict authority then authority else PDict [])"
  from assms obtain l rec where l: "loss_from_evidence events s t a = Inr l"
    and rec: "if ls_interrupted l \<or> ls_cancelled l
          then \<exists>d. classify_recovery (recovery_facts_of l au) = Inr d \<and> rec = decision_view d else rec = PNone"
    and v: "fld v ''submission'' = PStr ''not_performed''" "fld v ''recovery'' = rec" "fld v ''status'' = PStr (ls_status l)"
    unfolding project_returns au_def by auto
  obtain ow m where "loss_reached (filter is_start ow) m l" using loss_reachedI [OF l] by blast
  note flags = loss_flags [OF this]
  show ?thesis
  proof (cases "ls_interrupted l \<or> ls_cancelled l")
    case True
    then obtain d where d: "classify_recovery (recovery_facts_of l au) = Inr d" "rec = decision_view d"
      using rec by auto
    have "rd_status d \<in> {''paused'', ''blocked''}" by (rule projected_facts(2) [OF l d(1)])
    moreover have "rd_auto_retry d = (rd_status d = ''eligible'')" using classifyD [OF d(1)] by simp
    moreover have "rd_status d = ''blocked''" if "ls_cancelled l"
      using classifyD(2) [OF d(1)] that by (simp add: outcome.simps recovery_facts_of_def)
    ultimately show ?thesis
      using True flags by (auto simp: v d(2) decision_view_def INTERRUPTED_def)
  next
    case False
    then show ?thesis using rec flags by (auto simp: v INTERRUPTED_def)
  qed
qed

lemma project_raises_less:
  assumes "loss_from_evidence events s t a = Inr l" "pre = PNone \<or> returns (validate_preservation pre)"
  shows "returns (project_containment events s t c a authority pre)"
proof -
  let ?au = "if is_dict authority then authority else PDict []"
  let ?pp = "preservation_projection (c \<noteq> None) True ?au ''backend-product-catalog'' ''gateway-trace-store''"
  obtain d where d: "classify_recovery (recovery_facts_of l ?au) = Inr d"
    using projected_facts(1) [OF assms(1)] unfolding returns_iff by blast
  obtain q where q: "?pp = Inr q" "validate_preservation q = Inr q"
    using projection_valid by metis
  define p where "p = (if pre = PNone then q else pre)"
  have p: "if pre = PNone then ?pp = Inr p else p = pre" "validate_preservation p = Inr p"
    using q preservation.accepted [of pre] assms(2) by (cases "pre = PNone"; simp add: p_def)+
  define rec where "rec = (if ls_interrupted l \<or> ls_cancelled l then decision_view d else PNone)"
  have rec: "if ls_interrupted l \<or> ls_cancelled l
      then \<exists>d. classify_recovery (recovery_facts_of l ?au) = Inr d \<and> rec = decision_view d else rec = PNone"
    using d by (simp add: rec_def)
  show ?thesis
    unfolding returns_iff project_returns
    by (intro exI conjI, rule assms(1), rule rec, rule p(1), rule p(2), rule refl)
qed

lemma project_raises_more:
  assumes "returns (project_containment events s t c a authority pre)"
  shows "returns (loss_from_evidence events s t a) \<and> (pre = PNone \<or> returns (validate_preservation pre))"
proof -
  obtain l p where "loss_from_evidence events s t a = Inr l"
    "if pre = PNone then preservation_projection (c \<noteq> None) True (if is_dict authority then authority else PDict [])
       ''backend-product-catalog'' ''gateway-trace-store'' = Inr p else p = pre" "validate_preservation p = Inr p"
    using assms unfolding returns_iff project_returns by blast
  then show ?thesis by (cases "pre = PNone") simp_all
qed

text \<open>The projection raises only for events that cannot be read or ordered, a containment record that
  cannot be read, or a given preservation that is not valid: the preservation it computes
  itself is always valid, and what it marks as preserved has a named source.\<close>

theorem projection_total:
  "(returns (project_containment events s t c a authority pre) \<longleftrightarrow>
      returns (loss_from_evidence events s t a) \<and> (pre = PNone \<or> returns (validate_preservation pre)))
   \<and> (\<exists>v. preservation_projection ck tk authority cs ts = Inr v \<and> validate_preservation v = Inr v
        \<and> fld v ''boundary_verified'' = PBool False
        \<and> (\<forall>f. fld (fld v ''states'') f = PStr ''preserved'' \<longrightarrow> has_key (fld v ''sources'') f))"
proof -
  have "\<exists>v. preservation_projection ck tk authority cs ts = Inr v \<and> validate_preservation v = Inr v
        \<and> fld v ''boundary_verified'' = PBool False
        \<and> (\<forall>f. fld (fld v ''states'') f = PStr ''preserved'' \<longrightarrow> has_key (fld v ''sources'') f)"
    using projection_valid [of ck tk authority cs ts] preservation_returns by metis
  moreover have "returns (project_containment events s t c a authority pre) \<longleftrightarrow>
      returns (loss_from_evidence events s t a) \<and> (pre = PNone \<or> returns (validate_preservation pre))"
  proof
    show "returns (loss_from_evidence events s t a) \<and> (pre = PNone \<or> returns (validate_preservation pre))"
      if "returns (project_containment events s t c a authority pre)"
      using project_raises_more [OF that] .
    assume r: "returns (loss_from_evidence events s t a) \<and> (pre = PNone \<or> returns (validate_preservation pre))"
    then obtain l where "loss_from_evidence events s t a = Inr l" unfolding returns_iff by blast
    from project_raises_less [OF this] r show "returns (project_containment events s t c a authority pre)" by blast
  qed
  ultimately show ?thesis by blast
qed

theorem projection_never_eligible_witness:
  "\<exists>v. project_containment (PList [sample_event ''session.failed'' 2, sample_event ''session.started'' 1]) ''s'' ''t''
      None sample_containment PNone PNone = Inr v
     \<and> fld (fld v ''recovery'') ''status'' \<in> {PStr ''paused'', PStr ''blocked''}"
proof -
  let ?ev = "PList [sample_event ''session.failed'' 2, sample_event ''session.started'' 1]"
  obtain l where l: "loss_from_evidence ?ev ''s'' ''t'' sample_containment = Inr l" "ls_interrupted l"
    using sample_loss by blast
  obtain d where d: "classify_recovery (recovery_facts_of l (PDict [])) = Inr d"
    using projected_facts(1) [OF l(1)] by (auto simp: returns_iff)
  obtain q where q: "preservation_projection False True (PDict []) ''backend-product-catalog'' ''gateway-trace-store'' = Inr q"
    "validate_preservation q = Inr q"
    using projection_valid by metis
  obtain v where v: "project_containment ?ev ''s'' ''t'' None sample_containment PNone PNone = Inr v"
    "fld v ''recovery'' = decision_view d"
    using l d q unfolding project_returns by auto
  from projection_never_eligible [OF v(1)] v show ?thesis by (auto simp: decision_view_def)
qed

theorem projection_total_witness:
  "\<exists>v. project_containment (PList []) ''s'' ''t'' None PNone PNone PNone = Inr v"
proof -
  have "returns (loss_from_evidence (PList []) ''s'' ''t'' PNone)"
    by (simp add: loss_from_evidence_def owned_def containment_match_def last_opt_def)
  with projection_total [of "PList []" "''s''" "''t''" None PNone PNone PNone] show ?thesis
    by (auto simp: returns_iff)
qed

end
