(* ===== verification/Business_Recovery.thy ===== *)
theory Business_Recovery
  imports Digest Contract_Specs
begin

text \<open>
  \<^verbatim>\<open>packages/contracts/business_recovery.py\<close>: the identity of a lost execution, the carrier of a
  recovery attempt and its verification, the closed snapshot of calls, the admission envelope,
  the budget decision and the allocation of attempts. Arguments the code declares \<open>bool\<close> and
  tests by truth value are booleans here; stored attempts are dictionaries.
\<close>

section \<open>Vocabulary\<close>

definition SCHEMA_VERSION_RECOVERY :: string where "SCHEMA_VERSION_RECOVERY = ''business-recovery.v1''"
definition RECOVERY_SNAPSHOT_VERSION :: string where "RECOVERY_SNAPSHOT_VERSION = ''recovery-snapshot.v1''"
definition TRIGGER_DOMAIN :: string where "TRIGGER_DOMAIN = ''recovery-trigger.v1:''"
definition ATTEMPT_PREFIX :: string where "ATTEMPT_PREFIX = ''recovery_''"
definition RECOVERY_ATTEMPT_MAX :: int where "RECOVERY_ATTEMPT_MAX = 3"
definition MODEL_CALL_FLOOR :: int where "MODEL_CALL_FLOOR = 1048576 + 8192"

definition RECOVERY_CARRIER_FIELDS :: "string list" where
  "RECOVERY_CARRIER_FIELDS = [''attempt_key'', ''ordinal'', ''trigger_key'', ''interrupted_run_id'',
     ''interrupted_generation'', ''containment_attempt'', ''interrupted_executor_epoch'',
     ''snapshot_tail_sequence'', ''snapshot_digest'']"

definition RECOVERY_CALL_FIELDS :: "string list" where
  "RECOVERY_CALL_FIELDS = [''sequence'', ''root_run_id'', ''generation'', ''agent_run_id'',
     ''action'', ''idempotency_key'', ''request_sha256'', ''input_sha256'']"

abbreviation rejected :: "string \<Rightarrow> string \<Rightarrow> 'a res" where
  "rejected reason detail \<equiv> Inl (RecoveryRejected reason detail False)"

abbreviation rejected_paused :: "string \<Rightarrow> string \<Rightarrow> 'a res" where
  "rejected_paused reason detail \<equiv> Inl (RecoveryRejected reason detail True)"

definition require_hex :: "pyval \<Rightarrow> (string \<Rightarrow> bool) \<Rightarrow> string \<Rightarrow> unit res" where
  "require_hex value re name =
    (if \<not> str_matches re value then rejected (''invalid_'' @ name) (''invalid '' @ name) else Inr ())"

text \<open>\<open>type(v) is int and lo <= v < 2 ** 63\<close>.\<close>

definition int63 :: "int \<Rightarrow> pyval \<Rightarrow> bool" where
  "int63 lo v \<longleftrightarrow> int_between lo (2 ^ 63 - 1) v"

section \<open>Identities\<close>

record lost_execution =
  le_reservation_id :: pyval
  le_interrupted_run_id :: pyval
  le_interrupted_generation :: pyval
  le_containment_attempt :: pyval
  le_interrupted_executor_epoch :: pyval

definition check_loss :: "lost_execution \<Rightarrow> unit res" where
  "check_loss x = andThen (forEach (\<lambda>(name, value, re). if \<not> str_matches re value
       then rejected ''invalid_trigger_input'' (''invalid '' @ name) else Inr ())
       [(''reservation_id'', le_reservation_id x, re_prefix_hex ''continuation_'' 32),
        (''interrupted_run_id'', le_interrupted_run_id x, re_hex 32),
        (''interrupted_generation'', le_interrupted_generation x, re_identifier)]) (\<lambda>_.
     if \<not> int63 1 (le_containment_attempt x)
     then rejected ''invalid_trigger_input'' ''invalid containment_attempt''
     else if \<not> int63 1 (le_interrupted_executor_epoch x)
     then rejected ''invalid_trigger_input'' ''invalid interrupted_executor_epoch''
     else Inr ())"

definition trigger_material :: "lost_execution \<Rightarrow> string" where
  "trigger_material x = TRIGGER_DOMAIN @ the_str (le_reservation_id x) @ '':''
     @ the_str (le_interrupted_run_id x) @ '':'' @ the_str (le_interrupted_generation x) @ '':''
     @ int_str (the_int (le_containment_attempt x)) @ '':''
     @ int_str (the_int (le_interrupted_executor_epoch x))"

definition trigger_key :: "lost_execution \<Rightarrow> string res" where
  "trigger_key x = andThen (check_loss x) (\<lambda>_. Inr (sha256_hex (utf8 (trigger_material x))))"

definition attempt_key :: "pyval \<Rightarrow> pyval \<Rightarrow> string res" where
  "attempt_key trigger ordinal = andThen (require_hex trigger (re_hex 64) ''trigger_key'') (\<lambda>_.
     if \<not> int_between 1 RECOVERY_ATTEMPT_MAX ordinal
     then rejected ''invalid_ordinal'' ''invalid recovery ordinal''
     else Inr (ATTEMPT_PREFIX @ take 32 (sha256_hex (utf8 (the_str trigger @ '':'' @ int_str (the_int ordinal))))))"

definition validate_recovery_carrier :: "pyval \<Rightarrow> pyval res" where
  "validate_recovery_carrier value =
    (if \<not> is_dict value \<or> \<not> keys_are value RECOVERY_CARRIER_FIELDS
     then rejected ''invalid_carrier'' ''invalid recovery carrier''
     else andThen (require_hex (fld value ''attempt_key'') (re_prefix_hex ''recovery_'' 32) ''attempt_key'') (\<lambda>_.
     if \<not> int_between 1 RECOVERY_ATTEMPT_MAX (fld value ''ordinal'')
     then rejected ''invalid_ordinal'' ''invalid recovery ordinal''
     else andThen (require_hex (fld value ''trigger_key'') (re_hex 64) ''trigger_key'') (\<lambda>_.
     andThen (require_hex (fld value ''interrupted_run_id'') (re_hex 32) ''interrupted_run_id'') (\<lambda>_.
     if \<not> str_matches re_identifier (fld value ''interrupted_generation'')
     then rejected ''invalid_interrupted_generation'' ''invalid interrupted generation''
     else if \<not> int63 1 (fld value ''containment_attempt'')
     then rejected ''invalid_containment_attempt'' ''invalid containment attempt''
     else if \<not> int63 1 (fld value ''interrupted_executor_epoch'')
     then rejected ''invalid_interrupted_epoch'' ''invalid interrupted executor epoch''
     else if \<not> int63 0 (fld value ''snapshot_tail_sequence'')
     then rejected ''invalid_snapshot_tail'' ''invalid snapshot tail sequence''
     else andThen (require_hex (fld value ''snapshot_digest'') (re_hex 64) ''snapshot_digest'') (\<lambda>_.
     Inr value)))))"

definition loss_of_carrier :: "pyval \<Rightarrow> pyval \<Rightarrow> lost_execution" where
  "loss_of_carrier carrier reservation_id = \<lparr>le_reservation_id = reservation_id,
     le_interrupted_run_id = fld carrier ''interrupted_run_id'',
     le_interrupted_generation = fld carrier ''interrupted_generation'',
     le_containment_attempt = fld carrier ''containment_attempt'',
     le_interrupted_executor_epoch = fld carrier ''interrupted_executor_epoch''\<rparr>"

definition verify_carrier_identity :: "pyval \<Rightarrow> pyval \<Rightarrow> pyval res" where
  "verify_carrier_identity value reservation_id =
     andThen (validate_recovery_carrier value) (\<lambda>carrier.
     andThen (trigger_key (loss_of_carrier carrier reservation_id)) (\<lambda>recomputed_trigger.
     if PStr recomputed_trigger \<noteq> fld carrier ''trigger_key''
     then rejected ''trigger_key_mismatch'' ''recovery trigger does not match its source loss''
     else andThen (attempt_key (fld carrier ''trigger_key'') (fld carrier ''ordinal'')) (\<lambda>key.
     if PStr key \<noteq> fld carrier ''attempt_key''
     then rejected ''attempt_key_mismatch'' ''recovery attempt key is not derivable''
     else Inr carrier)))"

section \<open>Snapshots\<close>

definition check_call_field :: "pyval \<Rightarrow> string \<Rightarrow> unit res" where
  "check_call_field row name =
    (let value = fld row name in
     if name = ''sequence'' then if \<not> int63 1 value
       then rejected ''invalid_call_evidence'' ''invalid call sequence'' else Inr ()
     else if name \<in> {''request_sha256'', ''input_sha256''} then require_hex value (re_hex 64) name
     else if name = ''root_run_id'' then require_hex value (re_hex 32) name
     else if \<not> is_str value \<or> \<not> truthy value
     then rejected ''invalid_call_evidence'' (''invalid '' @ name) else Inr ())"

definition closed_call_row :: "pyval \<Rightarrow> pyval res" where
  "closed_call_row row =
    (if \<not> is_dict row \<or> \<not> keys_include row RECOVERY_CALL_FIELDS
     then rejected ''invalid_call_evidence'' ''invalid closed call row''
     else andThen (forEach (check_call_field row) RECOVERY_CALL_FIELDS) (\<lambda>_.
     Inr (PDict (map (\<lambda>name. (name, fld row name)) RECOVERY_CALL_FIELDS))))"

definition snapshot_payload :: "pyval \<Rightarrow> pyval \<Rightarrow> pyval \<Rightarrow> pyval list \<Rightarrow> pyval" where
  "snapshot_payload session_id trace_id tail_sequence rows = PDict
     [(''schema_version'', PStr RECOVERY_SNAPSHOT_VERSION), (''session_id'', session_id),
      (''trace_id'', trace_id), (''tail_sequence'', tail_sequence), (''calls'', PList rows)]"

definition canonical_snapshot_digest :: "pyval \<Rightarrow> pyval \<Rightarrow> pyval \<Rightarrow> pyval \<Rightarrow> string res" where
  "canonical_snapshot_digest session_id trace_id tail_sequence calls =
    (if \<not> is_str session_id \<or> \<not> truthy session_id
     then rejected ''invalid_snapshot_input'' ''invalid session''
     else if \<not> is_str trace_id \<or> \<not> truthy trace_id
     then rejected ''invalid_snapshot_input'' ''invalid trace''
     else if \<not> int63 0 tail_sequence
     then rejected ''invalid_snapshot_input'' ''invalid tail''
     else if \<not> is_list calls \<or> int (length (the_list calls)) \<noteq> the_int tail_sequence
     then rejected ''invalid_snapshot_input'' ''snapshot tail does not match its calls''
     else andThen (mapRes closed_call_row (the_list calls)) (\<lambda>rows.
     andThen (forEach (\<lambda>(index, row). if \<not> py_eq (fld row ''sequence'') (PInt index)
         then rejected ''invalid_snapshot_input'' ''session-global call sequence is not contiguous''
         else Inr ()) (zip (map int [1..<Suc (length rows)]) rows)) (\<lambda>_.
     Inr (sha256_json (snapshot_payload session_id trace_id tail_sequence rows)))))"

definition verify_snapshot_closure ::
    "pyval \<Rightarrow> pyval \<Rightarrow> pyval \<Rightarrow> pyval \<Rightarrow> pyval \<Rightarrow> pyval \<Rightarrow> pyval \<Rightarrow> pyval res" where
  "verify_snapshot_closure session_id trace_id expected_tail_sequence expected_digest calls more_pages idle =
    (if more_pages \<noteq> PBool False
     then rejected_paused ''snapshot_pagination_incomplete'' ''snapshot pagination is incomplete''
     else if idle \<noteq> PBool True
     then rejected_paused ''snapshot_not_idle'' ''a root turn is still open at the snapshot tail''
     else andThen (canonical_snapshot_digest session_id trace_id expected_tail_sequence calls) (\<lambda>digest.
     if PStr digest \<noteq> expected_digest
     then rejected_paused ''snapshot_digest_changed'' ''snapshot tail/digest changed''
     else Inr (PDict [(''tail_sequence'', expected_tail_sequence), (''digest'', PStr digest),
       (''idle'', PBool True)])))"

section \<open>The admission envelope\<close>

record step_safety =
  ss_idempotent :: bool
  ss_result_verifiable :: bool
  ss_may_produce_new_key :: bool

definition ACTIONS :: "string list" where
  "ACTIONS = [''byq_strategy_validate'', ''byq_ml_strategy_create'', ''byq_factor_compute'',
     ''byq_strategy_version_create'']"

definition STEP_SAFETY :: "(string \<times> step_safety) list" where
  "STEP_SAFETY =
    [(''byq_strategy_validate'',
       \<lparr>ss_idempotent = True, ss_result_verifiable = True, ss_may_produce_new_key = False\<rparr>),
     (''byq_factor_compute'',
       \<lparr>ss_idempotent = True, ss_result_verifiable = True, ss_may_produce_new_key = False\<rparr>),
     (''byq_ml_strategy_create'',
       \<lparr>ss_idempotent = True, ss_result_verifiable = True, ss_may_produce_new_key = True\<rparr>),
     (''byq_strategy_version_create'',
       \<lparr>ss_idempotent = True, ss_result_verifiable = True, ss_may_produce_new_key = True\<rparr>)]"

text \<open>\<open>list(v or [])\<close>.\<close>

fun list_or_empty :: "pyval \<Rightarrow> pyval list res" where
  "list_or_empty (PList xs) = Inr xs"
| "list_or_empty (PDict d) = Inr (map (\<lambda>(k, _). PStr k) d)"
| "list_or_empty (PStr s) = Inr (map (\<lambda>c. PStr [c]) s)"
| "list_or_empty v = (if truthy v then Inl (TypeError ''object is not iterable'') else Inr [])"

definition CALL_IDENTITY :: "string list" where
  "CALL_IDENTITY = [''action'', ''task_id'', ''idempotency_key'', ''request_sha256'', ''input_sha256'']"

text \<open>The set of the identities of the occurred calls: a missing key raises \<open>KeyError\<close>, a list or a
  dictionary in an identity \<open>TypeError\<close>.\<close>

definition hashed :: "pyval list \<Rightarrow> pyval list res" where
  "hashed identity = (if list_all hashable identity then Inr identity
     else Inl (TypeError ''unhashable type''))"

definition original_calls :: "pyval list \<Rightarrow> pyval list list res" where
  "original_calls occurred = mapRes (\<lambda>row. andThen (mapRes (item row) CALL_IDENTITY) hashed)
     (filter (\<lambda>row. is_dict row \<and> has_key row ''action'') occurred)"

definition replay_reason :: "pyval list list \<Rightarrow> pyval \<Rightarrow> string option res" where
  "replay_reason original call =
    (if \<not> is_dict call then Inr (Some ''invalid_call'')
     else let action = fld call ''action'' in
     if \<not> hashable action then Inl (TypeError ''unhashable type'')
     else case (if is_str action then map_of STEP_SAFETY (the_str action) else None) of
       None \<Rightarrow> Inr (Some ''unknown_action'')
     | Some safety \<Rightarrow>
       if ss_may_produce_new_key safety then Inr (Some (''new_key_action:'' @ the_str action))
       else if \<not> ss_idempotent safety then Inr (Some (''not_idempotent:'' @ the_str action))
       else if \<not> ss_result_verifiable safety then Inr (Some (''not_result_verifiable:'' @ the_str action))
       else andThen (hashed (map (fld call) CALL_IDENTITY)) (\<lambda>identity.
         if \<not> list_ex (py_list_eq identity) original
         then Inr (Some (''not_original_call:'' @ the_str action)) else Inr None))"

definition envelope :: "string \<Rightarrow> bool \<Rightarrow> string list \<Rightarrow> pyval" where
  "envelope mode eligible reasons = PDict [(''mode'', PStr mode), (''eligible'', PBool eligible),
     (''reasons'', strs reasons)]"

definition admission_envelope :: "pyval \<Rightarrow> pyval \<Rightarrow> pyval \<Rightarrow> pyval res" where
  "admission_envelope read_only replayed_calls occurred_calls =
    (if \<not> is_bool read_only then rejected ''invalid_envelope'' ''read_only must be a bool''
     else andThen (list_or_empty replayed_calls) (\<lambda>replayed.
     andThen (list_or_empty occurred_calls) (\<lambda>occurred.
     andThen (original_calls occurred) (\<lambda>original.
     andThen (mapRes (replay_reason original) replayed) (\<lambda>found.
     let reasons = map the (filter (\<lambda>r. r \<noteq> None) found) in
     Inr (if reasons \<noteq> [] then envelope ''blocked'' False (sort (remdups reasons))
       else if the_bool read_only then envelope ''read_only'' True []
       else if replayed \<noteq> [] then envelope ''exact_reuse'' True []
       else envelope ''blocked'' False [''no_replayable_work'']))))))"

section \<open>The budget decision\<close>

record recovery_budget =
  rb_permission_token_limit :: pyval
  rb_other_settled :: pyval
  rb_other_unresolved :: pyval
  rb_r_token_limit :: pyval
  rb_cum_exact :: pyval
  rb_model_call_floor :: pyval
  rb_revoked :: bool
  rb_expired :: bool
  rb_blocked_reason :: pyval
  rb_ordinal :: pyval
  rb_ordinal_max :: pyval
  rb_evidence_conflict :: bool

definition check_budget_input :: "recovery_budget \<Rightarrow> unit res" where
  "check_budget_input b = andThen (forEach (\<lambda>(value, name). if \<not> int_at_least 0 value
       then rejected ''invalid_budget_input'' (''invalid '' @ name) else Inr ())
       [(rb_permission_token_limit b, ''permission_token_limit''), (rb_other_settled b, ''other_settled''),
        (rb_other_unresolved b, ''other_unresolved''), (rb_r_token_limit b, ''r_token_limit''),
        (rb_model_call_floor b, ''model_call_floor''), (rb_ordinal b, ''ordinal''),
        (rb_ordinal_max b, ''ordinal_max'')]) (\<lambda>_.
     if rb_cum_exact b \<noteq> PNone \<and> \<not> int_at_least 0 (rb_cum_exact b)
     then rejected ''invalid_budget_input'' ''invalid cumulative charge'' else Inr ())"

definition recovery_decision_view :: "string \<Rightarrow> string \<Rightarrow> pyval \<Rightarrow> pyval" where
  "recovery_decision_view name reason available = PDict [(''decision'', PStr name),
     (''reason'', PStr reason), (''r_available'', available)]"

definition budget_decision :: "recovery_budget \<Rightarrow> pyval res" where
  "budget_decision b = andThen (check_budget_input b) (\<lambda>_. Inr (
     if rb_revoked b then recovery_decision_view ''blocked'' ''permission_revoked'' PNone
     else if rb_expired b then recovery_decision_view ''blocked'' ''permission_expired'' PNone
     else if truthy (rb_blocked_reason b)
     then recovery_decision_view ''blocked'' ''continuation_blocked_reason'' PNone
     else if the_int (rb_ordinal_max b) \<le> the_int (rb_ordinal b)
     then recovery_decision_view ''blocked'' ''ordinal_cap'' PNone
     else if rb_evidence_conflict b
     then recovery_decision_view ''blocked'' ''authoritative_evidence_conflict'' PNone
     else if the_int (rb_permission_token_limit b)
       < the_int (rb_other_settled b) + the_int (rb_other_unresolved b) + the_int (rb_r_token_limit b)
     then recovery_decision_view ''blocked'' ''grant_invariant_violated'' PNone
     else if rb_cum_exact b = PNone then recovery_decision_view ''paused'' ''unknown_attempt_charge'' PNone
     else let available = the_int (rb_r_token_limit b) - the_int (rb_cum_exact b) in
     if available < 0 then recovery_decision_view ''blocked'' ''settlement_exceeds_reservation'' PNone
     else if available < the_int (rb_model_call_floor b)
     then recovery_decision_view ''blocked'' ''below_model_call_floor'' PNone
     else recovery_decision_view ''eligible'' ''known_headroom'' (PInt available)))"

section \<open>Receipts and allocation\<close>

definition carrier_fields :: "pyval \<Rightarrow> pyval res" where
  "carrier_fields attempt = andThen (mapRes (\<lambda>name. andThen (item attempt name) (\<lambda>v. Inr (name, v)))
     RECOVERY_CARRIER_FIELDS) (\<lambda>d. Inr (PDict d))"

definition accepted_receipt :: "pyval \<Rightarrow> pyval \<Rightarrow> pyval \<Rightarrow> pyval \<Rightarrow> pyval \<Rightarrow> pyval res" where
  "accepted_receipt carrier reservation_id run_id target_executor_epoch target_generation =
    (if \<not> int_at_least 1 target_executor_epoch
     then rejected ''invalid_target_epoch'' ''invalid live target epoch''
     else if \<not> is_str target_generation \<or> \<not> truthy target_generation
     then rejected ''invalid_target_generation'' ''invalid live target generation''
     else if \<not> str_matches (re_hex 32) run_id
     then rejected ''invalid_target_run'' ''invalid target run identity''
     else andThen (item carrier ''attempt_key'') (\<lambda>attempt_key. andThen (item carrier ''ordinal'') (\<lambda>ordinal.
     andThen (item carrier ''snapshot_tail_sequence'') (\<lambda>tail. andThen (item carrier ''snapshot_digest'') (\<lambda>digest.
     Inr (PDict [(''schema_version'', PStr ''recovery-accepted-receipt.v1''), (''attempt_key'', attempt_key),
       (''reservation_id'', reservation_id), (''ordinal'', ordinal), (''run_id'', run_id),
       (''target_executor_epoch'', target_executor_epoch), (''target_generation'', target_generation),
       (''snapshot_tail_sequence'', tail), (''snapshot_digest'', digest)]))))))"

definition assert_target_current :: "pyval \<Rightarrow> pyval \<Rightarrow> pyval \<Rightarrow> unit res" where
  "assert_target_current receipt live_executor_epoch live_generation =
    (if \<not> is_dict receipt then rejected ''invalid_target_receipt'' ''invalid target receipt''
     else if \<not> py_eq (fld receipt ''target_executor_epoch'') live_executor_epoch
     then rejected ''stale_target_epoch'' ''target executor epoch is not the live epoch''
     else if \<not> py_eq (fld receipt ''target_generation'') live_generation
     then rejected ''stale_target_generation'' ''target generation is not the live generation''
     else Inr ())"

definition new_attempt :: "string \<Rightarrow> int \<Rightarrow> string \<Rightarrow> lost_execution \<Rightarrow> pyval \<Rightarrow> pyval \<Rightarrow> pyval" where
  "new_attempt key ordinal trigger x tail digest = PDict
    [(''attempt_key'', PStr key), (''ordinal'', PInt ordinal), (''trigger_key'', PStr trigger),
     (''interrupted_run_id'', le_interrupted_run_id x),
     (''interrupted_generation'', le_interrupted_generation x),
     (''containment_attempt'', le_containment_attempt x),
     (''interrupted_executor_epoch'', le_interrupted_executor_epoch x),
     (''snapshot_tail_sequence'', tail), (''snapshot_digest'', digest), (''status'', PStr ''reserved''),
     (''run_id'', PNone), (''target_executor_epoch'', PNone), (''target_generation'', PNone),
     (''charged_tokens'', PNone)]"

definition allocate_recovery_attempt ::
    "pyval list \<Rightarrow> lost_execution \<Rightarrow> pyval \<Rightarrow> pyval \<Rightarrow> int \<Rightarrow> (pyval \<times> bool) res" where
  "allocate_recovery_attempt attempts x tail digest ordinal_max =
     andThen (trigger_key x) (\<lambda>trigger.
     andThen (require_hex digest (re_hex 64) ''snapshot_digest'') (\<lambda>_.
     if \<not> int63 0 tail then rejected ''invalid_snapshot_tail'' ''invalid snapshot tail sequence''
     else case find (\<lambda>a. fld a ''trigger_key'' = PStr trigger) attempts of
       Some attempt \<Rightarrow>
         if \<not> py_eq (fld attempt ''snapshot_tail_sequence'') tail \<or> \<not> py_eq (fld attempt ''snapshot_digest'') digest
         then rejected ''snapshot_changed_for_existing_trigger''
           ''the same loss trigger cannot change its bound snapshot''
         else Inr (attempt, False)
     | None \<Rightarrow>
         let ordinal = int (length attempts) + 1 in
         if ordinal_max < ordinal then rejected ''ordinal_cap'' ''recovery attempt bound reached''
         else andThen (attempt_key (PStr trigger) (PInt ordinal)) (\<lambda>key.
         Inr (new_attempt key ordinal trigger x tail digest, True))))"

section \<open>A trigger determines its loss\<close>

definition loss_ok :: "lost_execution \<Rightarrow> bool" where
  "loss_ok x \<longleftrightarrow> str_matches (re_prefix_hex ''continuation_'' 32) (le_reservation_id x)
     \<and> str_matches (re_hex 32) (le_interrupted_run_id x)
     \<and> str_matches re_identifier (le_interrupted_generation x)
     \<and> int63 1 (le_containment_attempt x) \<and> int63 1 (le_interrupted_executor_epoch x)"

lemma check_loss_returns [res_simps]: "check_loss x = Inr u \<longleftrightarrow> loss_ok x"
  by (auto simp: check_loss_def loss_ok_def res_simps)

lemma trigger_returns [res_simps]:
  "trigger_key x = Inr k \<longleftrightarrow> loss_ok x \<and> k = sha256_hex (utf8 (trigger_material x))"
  by (auto simp: trigger_key_def res_simps)

lemma re_hex_no_colon: "re_hex n s \<Longrightarrow> CHR '':'' \<notin> set s"
  by (auto simp: re_hex_def list_all_iff is_hex_def is_digit_def code_def)

lemma utf8_ascii: "list_all (\<lambda>c. code c < 128) s \<Longrightarrow> utf8 s = s"
  by (induction s) (auto simp: utf8_def utf8_char_def)

lemma ascii_ident: "ident_char c \<Longrightarrow> code c < 128"
  by (auto simp: ident_char_def is_alnum_def is_digit_def is_lower_def is_upper_def code_def)

lemma ascii_digits: "list_all (\<lambda>c. code c < 128) (int_str n)"
proof -
  have "list_all (\<lambda>c. code c < 128) (nat_digits k)" for k
    using nat_digits_no_sep by (fastforce simp: list_all_iff is_digit_def)
  then show ?thesis by (simp add: int_str_def code_def)
qed

lemma ascii_identifier: "re_identifier s \<Longrightarrow> list_all (\<lambda>c. code c < 128) s"
  by (auto simp: re_identifier_def list_all_iff ascii_ident ident_char_def split: list.splits
      intro: ascii_ident)

lemma ascii_hex: "re_hex n s \<Longrightarrow> list_all (\<lambda>c. code c < 128) s"
  by (auto simp: re_hex_def list_all_iff intro: ascii_ident is_hex_ident)

lemma loss_okE:
  assumes "loss_ok x"
  obtains r run g a e where "x = \<lparr>le_reservation_id = PStr (''continuation_'' @ r), le_interrupted_run_id = PStr run,
      le_interrupted_generation = PStr g, le_containment_attempt = PInt a, le_interrupted_executor_epoch = PInt e\<rparr>"
    "re_hex 32 r" "re_hex 32 run" "re_identifier g" "1 \<le> a" "1 \<le> e"
proof -
  obtain s run g a e where x: "le_reservation_id x = PStr s" "re_prefix_hex ''continuation_'' 32 s"
    "le_interrupted_run_id x = PStr run" "re_hex 32 run" "le_interrupted_generation x = PStr g" "re_identifier g"
    "le_containment_attempt x = PInt a" "1 \<le> a" "le_interrupted_executor_epoch x = PInt e" "1 \<le> e"
    using assms unfolding loss_ok_def int63_def value_convs by blast
  obtain r where "s = ''continuation_'' @ r" "re_hex 32 r" using re_prefix_hexD [OF x(2)] by blast
  with x show thesis by (intro that [of r run g a e]) simp_all
qed

lemma utf8_material:
  assumes "loss_ok x"
  shows "utf8 (trigger_material x) = trigger_material x"
proof (rule utf8_ascii)
  from assms show "list_all (\<lambda>c. code c < 128) (trigger_material x)"
  proof (cases rule: loss_okE)
    case (1 r run g a e)
    then show ?thesis
      using ascii_hex ascii_identifier ascii_digits
      by (simp add: trigger_material_def TRIGGER_DOMAIN_def code_def)
  qed
qed

lemma material_inj:
  assumes "loss_ok x" "loss_ok y" "trigger_material x = trigger_material y"
  shows "x = y"
proof -
  obtain r run g a e where x: "x = \<lparr>le_reservation_id = PStr (''continuation_'' @ r), le_interrupted_run_id = PStr run,
      le_interrupted_generation = PStr g, le_containment_attempt = PInt a, le_interrupted_executor_epoch = PInt e\<rparr>"
    "re_hex 32 r" "re_hex 32 run" "1 \<le> a" "1 \<le> e"
    using assms(1) by (rule loss_okE)
  obtain r' run' g' a' e' where y: "y = \<lparr>le_reservation_id = PStr (''continuation_'' @ r'), le_interrupted_run_id = PStr run',
      le_interrupted_generation = PStr g', le_containment_attempt = PInt a', le_interrupted_executor_epoch = PInt e'\<rparr>"
    "re_hex 32 r'" "re_hex 32 run'" "1 \<le> a'" "1 \<le> e'"
    using assms(2) by (rule loss_okE)
  let ?p = "\<lambda>r run g a. TRIGGER_DOMAIN @ ''continuation_'' @ r @ '':'' @ run @ '':'' @ g @ '':'' @ int_str a"
  have "?p r run g a @ CHR '':'' # int_str e = ?p r' run' g' a' @ CHR '':'' # int_str e'"
    using assms(3) by (simp add: trigger_material_def x(1) y(1))
  from split_last_field [OF this int_str_no_colon int_str_no_colon] x y
  have 1: "?p r run g a = ?p r' run' g' a'" "int_str e = int_str e'" by simp_all
  from 1(1) have "(TRIGGER_DOMAIN @ ''continuation_'' @ r @ '':'' @ run @ '':'' @ g) @ CHR '':'' # int_str a
      = (TRIGGER_DOMAIN @ ''continuation_'' @ r' @ '':'' @ run' @ '':'' @ g') @ CHR '':'' # int_str a'" by simp
  from split_last_field [OF this int_str_no_colon int_str_no_colon] x y
  have 2: "r @ '':'' @ run @ '':'' @ g = r' @ '':'' @ run' @ '':'' @ g'" "int_str a = int_str a'" by simp_all
  have "length r = length r'" "length run = length run'" using x y by (simp_all add: re_hex_def)
  with 2(1) have "r = r' \<and> run = run' \<and> g = g'" by simp
  moreover have "a = a'" "e = e'" using 1(2) 2(2) x(4,5) y(4,5) int_str_inj by simp_all
  ultimately show ?thesis by (simp add: x(1) y(1))
qed


section \<open>Allocation\<close>

lemma require_hex_returns [res_simps]: "require_hex v re n = Inr u \<longleftrightarrow> str_matches re v"
  by (simp add: require_hex_def)

lemma attempt_key_returns [res_simps]:
  "attempt_key t n = Inr k \<longleftrightarrow> (\<exists>s m. t = PStr s \<and> re_hex 64 s \<and> n = PInt m \<and> 1 \<le> m \<and> m \<le> RECOVERY_ATTEMPT_MAX
     \<and> k = ATTEMPT_PREFIX @ take 32 (sha256_hex (utf8 (s @ '':'' @ int_str m))))"
  by (auto simp: attempt_key_def res_simps value_convs)

lemma attempt_key_shape: "attempt_key t n = Inr k \<Longrightarrow> re_prefix_hex ''recovery_'' 32 k"
  using re_hex_take [OF sha256_hex_digest, of 32]
  by (auto simp: attempt_key_returns ATTEMPT_PREFIX_def re_prefix_hex_def startswith_def)

lemma trigger_hex: "trigger_key x = Inr k \<Longrightarrow> re_hex 64 k"
  by (auto simp: trigger_returns sha256_hex_digest)

text \<open>The carrier of an attempt the allocation creates is verified.\<close>

definition carrier_of :: "pyval \<Rightarrow> pyval" where
  "carrier_of attempt = PDict (map (\<lambda>f. (f, fld attempt f)) RECOVERY_CARRIER_FIELDS)"

lemma carrier_fields_returns:
  assumes "set RECOVERY_CARRIER_FIELDS \<subseteq> set (keys_of a)"
  shows "carrier_fields a = Inr (carrier_of a)"
proof -
  have "mapRes (\<lambda>name. andThen (item a name) (\<lambda>v. Inr (name, v))) fs = Inr (map (\<lambda>f. (f, fld a f)) fs)"
    if "set fs \<subseteq> set (keys_of a)" for fs
    using that by (induction fs) (simp_all add: has_key_iff [symmetric] has_keyD)
  from this [OF assms] show ?thesis by (simp add: carrier_fields_def carrier_of_def)
qed

lemma carrier_of_fld: "f \<in> set RECOVERY_CARRIER_FIELDS \<Longrightarrow> fld (carrier_of a) f = fld a f"
  by (simp add: carrier_of_def fld_PDict_map)

lemma carrier_of_shape: "is_dict (carrier_of a)" "set (keys_of (carrier_of a)) = set RECOVERY_CARRIER_FIELDS"
  by (simp_all add: carrier_of_def comp_def)

lemmas carrier_of_flds = carrier_of_fld [of "''attempt_key''"] carrier_of_fld [of "''ordinal''"]
  carrier_of_fld [of "''trigger_key''"] carrier_of_fld [of "''interrupted_run_id''"]
  carrier_of_fld [of "''interrupted_generation''"] carrier_of_fld [of "''containment_attempt''"]
  carrier_of_fld [of "''interrupted_executor_epoch''"] carrier_of_fld [of "''snapshot_tail_sequence''"]
  carrier_of_fld [of "''snapshot_digest''"]

lemma new_attempt_fld:
  "fld (new_attempt key n trig x t d) ''attempt_key'' = PStr key"
  "fld (new_attempt key n trig x t d) ''ordinal'' = PInt n"
  "fld (new_attempt key n trig x t d) ''trigger_key'' = PStr trig"
  "fld (new_attempt key n trig x t d) ''interrupted_run_id'' = le_interrupted_run_id x"
  "fld (new_attempt key n trig x t d) ''interrupted_generation'' = le_interrupted_generation x"
  "fld (new_attempt key n trig x t d) ''containment_attempt'' = le_containment_attempt x"
  "fld (new_attempt key n trig x t d) ''interrupted_executor_epoch'' = le_interrupted_executor_epoch x"
  "fld (new_attempt key n trig x t d) ''snapshot_tail_sequence'' = t"
  "fld (new_attempt key n trig x t d) ''snapshot_digest'' = d"
  "set RECOVERY_CARRIER_FIELDS \<subseteq> set (keys_of (new_attempt key n trig x t d))"
  by (simp_all add: new_attempt_def RECOVERY_CARRIER_FIELDS_def)

lemma allocate_created:
  "allocate_recovery_attempt as x t d m = Inr (a, True) \<longleftrightarrow> (\<exists>trig key. trigger_key x = Inr trig
     \<and> str_matches (re_hex 64) d \<and> int63 0 t \<and> find (\<lambda>a. fld a ''trigger_key'' = PStr trig) as = None
     \<and> int (length as) + 1 \<le> m \<and> attempt_key (PStr trig) (PInt (int (length as) + 1)) = Inr key
     \<and> a = new_attempt key (int (length as) + 1) trig x t d)"
  unfolding allocate_recovery_attempt_def andThen_returns require_hex_returns if_raise_returns
  by (fastforce simp: Let_def andThen_returns if_raise_returns split: option.splits)

lemma allocate_replayed:
  "allocate_recovery_attempt as x t d m = Inr (a, False) \<longleftrightarrow> (\<exists>trig. trigger_key x = Inr trig
     \<and> str_matches (re_hex 64) d \<and> int63 0 t \<and> find (\<lambda>a. fld a ''trigger_key'' = PStr trig) as = Some a
     \<and> py_eq (fld a ''snapshot_tail_sequence'') t \<and> py_eq (fld a ''snapshot_digest'') d)"
  unfolding allocate_recovery_attempt_def andThen_returns require_hex_returns if_raise_returns
  by (fastforce simp: Let_def andThen_returns if_raise_returns split: option.splits if_splits)

lemma new_attempt_verified:
  assumes "trigger_key x = Inr trig" "attempt_key (PStr trig) (PInt n) = Inr key" "int63 0 t" "str_matches (re_hex 64) d"
  shows "verify_carrier_identity (carrier_of (new_attempt key n trig x t d)) (le_reservation_id x)
    = Inr (carrier_of (new_attempt key n trig x t d))"
proof -
  let ?c = "carrier_of (new_attempt key n trig x t d)"
  note cf = carrier_of_flds
  have same: "loss_of_carrier ?c (le_reservation_id x) = x"
    by (simp add: loss_of_carrier_def cf RECOVERY_CARRIER_FIELDS_def new_attempt_fld)
  have ok: "loss_ok x" using assms(1) trigger_returns by blast
  have "validate_recovery_carrier ?c = Inr ?c"
    using ok assms(2-4) trigger_hex [OF assms(1)] attempt_key_shape [OF assms(2)]
    unfolding validate_recovery_carrier_def andThen_returns if_raise_returns require_hex_returns keys_are_iff
    by (simp add: cf RECOVERY_CARRIER_FIELDS_def new_attempt_fld loss_ok_def str_matches_def int_between_def attempt_key_returns
        carrier_of_shape)
  then show ?thesis
    using assms(1,2) by (simp add: verify_carrier_identity_def same cf RECOVERY_CARRIER_FIELDS_def new_attempt_fld)
qed

text \<open>The attempts a reservation can hold: any interleaving of allocations, of which the ones that raise
  leave the attempts as they are.\<close>

inductive allocated :: "pyval \<Rightarrow> pyval list \<Rightarrow> bool" for rid where
  none: "allocated rid []"
| new: "allocated rid as \<Longrightarrow> le_reservation_id x = rid
    \<Longrightarrow> allocate_recovery_attempt as x t d RECOVERY_ATTEMPT_MAX = Inr (a, True) \<Longrightarrow> allocated rid (as @ [a])"
| replayed: "allocated rid as \<Longrightarrow> le_reservation_id x = rid
    \<Longrightarrow> allocate_recovery_attempt as x t d RECOVERY_ATTEMPT_MAX = Inr (a, False) \<Longrightarrow> allocated rid as"

definition attempts_inv :: "pyval \<Rightarrow> pyval list \<Rightarrow> bool" where
  "attempts_inv rid as \<longleftrightarrow> int (length as) \<le> RECOVERY_ATTEMPT_MAX
     \<and> distinct (map (\<lambda>a. fld a ''trigger_key'') as)
     \<and> map (\<lambda>a. fld a ''ordinal'') as = map (\<lambda>i. PInt (int i)) [1..<Suc (length as)]
     \<and> (\<forall>a \<in> set as. carrier_fields a = Inr (carrier_of a)
          \<and> verify_carrier_identity (carrier_of a) rid = Inr (carrier_of a))"

lemma allocated_inv: "allocated rid as \<Longrightarrow> attempts_inv rid as"
proof (induction rule: allocated.induct)
  case none
  then show ?case by (simp add: attempts_inv_def RECOVERY_ATTEMPT_MAX_def)
next
  case (new as x t d a)
  then obtain trig key where n: "trigger_key x = Inr trig" "str_matches (re_hex 64) d" "int63 0 t"
    "find (\<lambda>a. fld a ''trigger_key'' = PStr trig) as = None" "int (length as) + 1 \<le> RECOVERY_ATTEMPT_MAX"
    "attempt_key (PStr trig) (PInt (int (length as) + 1)) = Inr key"
    "a = new_attempt key (int (length as) + 1) trig x t d"
    unfolding allocate_created by blast
  have fresh: "PStr trig \<notin> (\<lambda>a. fld a ''trigger_key'') ` set as"
    using n(4) by (auto simp: find_None_iff)
  have "carrier_fields a = Inr (carrier_of a)"
    unfolding n(7) by (rule carrier_fields_returns) (rule new_attempt_fld)
  moreover have "verify_carrier_identity (carrier_of a) rid = Inr (carrier_of a)"
    unfolding n(7) using new_attempt_verified [OF n(1,6,3,2)] new(2) by simp
  ultimately show ?case
    using new.IH fresh n(5)
    by (auto simp: attempts_inv_def n(7) new_attempt_fld)
qed


lemma find_append: "find p (xs @ ys) = (case find p xs of None \<Rightarrow> find p ys | Some x \<Rightarrow> Some x)"
  by (induction xs) simp_all

section \<open>What the contract promises\<close>

text \<open>A trigger key is the digest of a text that determines the lost execution: two well-formed losses
  are written as the same text only if reservation, run, generation, attempt and epoch agree,
  although a generation may itself contain the separator.\<close>

theorem trigger_identifies_loss:
  assumes "trigger_key x = Inr k" "trigger_key y = Inr k'"
  shows "k = sha256_hex (trigger_material x) \<and> re_hex 64 k
    \<and> (trigger_material x = trigger_material y \<longleftrightarrow> x = y)"
  using assms utf8_material material_inj trigger_hex by (metis trigger_returns)

definition sample_lost :: "string \<Rightarrow> lost_execution" where
  "sample_lost g = \<lparr>le_reservation_id = PStr (''continuation_'' @ replicate 32 CHR ''1''),
     le_interrupted_run_id = PStr (replicate 32 CHR ''a''), le_interrupted_generation = PStr g,
     le_containment_attempt = PInt 1, le_interrupted_executor_epoch = PInt 2\<rparr>"

lemma sample_lost_ok: "re_identifier g \<Longrightarrow> loss_ok (sample_lost g)"
proof -
  have "re_hex 32 (replicate 32 CHR ''1'')" "re_hex 32 (replicate 32 CHR ''a'')"
    by (simp_all add: re_hex_def list_all_iff is_hex_def is_digit_def code_def)
  then show "re_identifier g \<Longrightarrow> loss_ok (sample_lost g)"
    unfolding loss_ok_def sample_lost_def
    by (simp only: lost_execution.simps str_matches_def is_str.simps the_str.simps re_prefix_hex_append)
      (simp add: int63_def int_between_def)
qed

lemma sample_generations: "re_identifier ''g''" "re_identifier ''g:1''"
  by (simp_all add: re_identifier_def is_alnum_def is_lower_def ident_char_def is_digit_def code_def)

theorem trigger_identifies_loss_witness:
  "\<exists>k k'. trigger_key (sample_lost ''g'') = Inr k \<and> trigger_key (sample_lost ''g:1'') = Inr k'
     \<and> trigger_material (sample_lost ''g'') \<noteq> trigger_material (sample_lost ''g:1'')"
proof -
  obtain k k' where k: "trigger_key (sample_lost ''g'') = Inr k" "trigger_key (sample_lost ''g:1'') = Inr k'"
    using sample_lost_ok sample_generations trigger_returns by blast
  have "sample_lost ''g'' \<noteq> sample_lost ''g:1''" by (simp add: sample_lost_def)
  with trigger_identifies_loss [OF k] k show ?thesis by blast
qed

text \<open>C22. However allocations interleave, a reservation never holds more than three attempts; they have
  the ordinals one to three in order and pairwise different triggers, and each carries a
  carrier that verifies against its source loss. Repeating an allocation returns the attempt
  it made and creates nothing; the same loss under another snapshot is refused.\<close>

theorem recovery_attempts_history:
  assumes "allocated rid as"
  shows "int (length as) \<le> RECOVERY_ATTEMPT_MAX \<and> distinct (map (\<lambda>a. fld a ''trigger_key'') as)
    \<and> map (\<lambda>a. fld a ''ordinal'') as = map (\<lambda>i. PInt (int i)) [1..<Suc (length as)]
    \<and> (\<forall>a \<in> set as. \<exists>c. carrier_fields a = Inr c \<and> verify_carrier_identity c rid = Inr c)
    \<and> (\<forall>x t d a. allocate_recovery_attempt as x t d RECOVERY_ATTEMPT_MAX = Inr (a, True)
         \<longrightarrow> allocate_recovery_attempt (as @ [a]) x t d RECOVERY_ATTEMPT_MAX = Inr (a, False)
           \<and> (\<forall>t' d'. (t', d') \<noteq> (t, d) \<longrightarrow>
                \<not> returns (allocate_recovery_attempt (as @ [a]) x t' d' RECOVERY_ATTEMPT_MAX)))"
proof -
  have again: "allocate_recovery_attempt (as @ [a]) x t d RECOVERY_ATTEMPT_MAX = Inr (a, False)
      \<and> (\<forall>t' d'. (t', d') \<noteq> (t, d) \<longrightarrow> \<not> returns (allocate_recovery_attempt (as @ [a]) x t' d' RECOVERY_ATTEMPT_MAX))"
    if created: "allocate_recovery_attempt as x t d RECOVERY_ATTEMPT_MAX = Inr (a, True)" for x t d a
  proof -
    obtain trig key where n: "trigger_key x = Inr trig" "str_matches (re_hex 64) d" "int63 0 t"
      "find (\<lambda>a. fld a ''trigger_key'' = PStr trig) as = None"
      "a = new_attempt key (int (length as) + 1) trig x t d"
      using created unfolding allocate_created by blast
    have f: "find (\<lambda>a. fld a ''trigger_key'' = PStr trig) (as @ [a]) = Some a"
      using n(4) by (simp add: find_append n(5) new_attempt_fld)
    have flds: "fld a ''snapshot_tail_sequence'' = t" "fld a ''snapshot_digest'' = d"
      by (simp_all add: n(5) new_attempt_fld)
    have eq: "py_eq t t' \<longleftrightarrow> t' = t" "py_eq d d' \<longleftrightarrow> d' = d"
      if "int63 0 t'" "str_matches (re_hex 64) d'" for t' d'
      using n(2,3) that by (auto simp: int63_def value_convs)
    have red: "allocate_recovery_attempt (as @ [a]) x t' d' RECOVERY_ATTEMPT_MAX
        = andThen (require_hex d' (re_hex 64) ''snapshot_digest'') (\<lambda>_.
          if \<not> int63 0 t' then rejected ''invalid_snapshot_tail'' ''invalid snapshot tail sequence''
          else if \<not> py_eq t t' \<or> \<not> py_eq d d' then rejected ''snapshot_changed_for_existing_trigger''
             ''the same loss trigger cannot change its bound snapshot'' else Inr (a, False))" for t' d'
      unfolding allocate_recovery_attempt_def n(1) andThen_Inr f option.case flds by (rule refl)
    have one: "t' = t \<and> d' = d" if "returns (allocate_recovery_attempt (as @ [a]) x t' d' RECOVERY_ATTEMPT_MAX)" for t' d'
      using that eq [of t' d'] unfolding red returns_iff andThen_returns if_raise_returns require_hex_returns by blast
    have "allocate_recovery_attempt (as @ [a]) x t d RECOVERY_ATTEMPT_MAX = Inr (a, False)"
      unfolding allocate_replayed using n(1-3) f eq [OF n(3,2)] by (auto simp: flds)
    with one show ?thesis by blast
  qed
  show ?thesis using allocated_inv [OF assms] again unfolding attempts_inv_def by blast
qed

theorem recovery_attempts_history_witness:
  "\<exists>a. allocated (le_reservation_id (sample_lost ''g'')) [a] \<and> fld a ''ordinal'' = PInt 1"
proof -
  let ?x = "sample_lost ''g''" and ?d = "PStr (replicate 64 CHR ''b'')"
  obtain trig where t: "trigger_key ?x = Inr trig"
    using sample_lost_ok [OF sample_generations(1)] trigger_returns by blast
  obtain key where k: "attempt_key (PStr trig) (PInt 1) = Inr key"
    using trigger_hex [OF t] attempt_key_returns RECOVERY_ATTEMPT_MAX_def by auto
  have d: "str_matches (re_hex 64) ?d" by (simp add: str_matches_def re_hex_def list_all_iff is_hex_def code_def)
  have "allocate_recovery_attempt [] ?x (PInt 4) ?d RECOVERY_ATTEMPT_MAX = Inr (new_attempt key 1 trig ?x (PInt 4) ?d, True)"
    unfolding allocate_created using t k d by (auto simp: int63_def int_between_def RECOVERY_ATTEMPT_MAX_def)
  from allocated.new [OF allocated.none refl this]
  have "allocated (le_reservation_id ?x) [new_attempt key 1 trig ?x (PInt 4) ?d]" by simp
  from recovery_attempts_history [OF this] this show ?thesis by auto
qed


text \<open>C23. A recovery may run exactly when nothing denies it, the grant still covers every commitment and
  the charge of the reservation is known and leaves room for a model call. What it may then
  use, together with what was charged, is the reservation's own limit and so stays within the
  grant; an unknown charge is never free.\<close>

theorem recovery_budget_exact:
  assumes "budget_decision b = Inr v"
  shows "(fld v ''decision'' = PStr ''eligible'' \<longleftrightarrow>
      \<not> rb_revoked b \<and> \<not> rb_expired b \<and> \<not> truthy (rb_blocked_reason b) \<and> \<not> rb_evidence_conflict b
      \<and> the_int (rb_ordinal b) < the_int (rb_ordinal_max b)
      \<and> the_int (rb_other_settled b) + the_int (rb_other_unresolved b) + the_int (rb_r_token_limit b)
          \<le> the_int (rb_permission_token_limit b)
      \<and> rb_cum_exact b \<noteq> PNone
      \<and> the_int (rb_cum_exact b) + the_int (rb_model_call_floor b) \<le> the_int (rb_r_token_limit b))
   \<and> (fld v ''decision'' = PStr ''eligible'' \<longrightarrow> (\<exists>n. fld v ''r_available'' = PInt n
        \<and> n + the_int (rb_cum_exact b) = the_int (rb_r_token_limit b) \<and> the_int (rb_model_call_floor b) \<le> n
        \<and> the_int (rb_other_settled b) + the_int (rb_other_unresolved b) + the_int (rb_cum_exact b) + n
            \<le> the_int (rb_permission_token_limit b)))
   \<and> (fld v ''decision'' \<noteq> PStr ''eligible'' \<longrightarrow> fld v ''r_available'' = PNone)"
proof -
  have floor: "0 \<le> the_int (rb_model_call_floor b)"
    using assms by (auto simp: budget_decision_def check_budget_input_def res_simps int_at_least_conv)
  have v: "fld (recovery_decision_view d r a) ''decision'' = PStr d"
    "fld (recovery_decision_view d r a) ''r_available'' = a" for d r a
    by (simp_all add: recovery_decision_view_def)
  from assms have "v = (
     if rb_revoked b then recovery_decision_view ''blocked'' ''permission_revoked'' PNone
     else if rb_expired b then recovery_decision_view ''blocked'' ''permission_expired'' PNone
     else if truthy (rb_blocked_reason b)
     then recovery_decision_view ''blocked'' ''continuation_blocked_reason'' PNone
     else if the_int (rb_ordinal_max b) \<le> the_int (rb_ordinal b)
     then recovery_decision_view ''blocked'' ''ordinal_cap'' PNone
     else if rb_evidence_conflict b
     then recovery_decision_view ''blocked'' ''authoritative_evidence_conflict'' PNone
     else if the_int (rb_permission_token_limit b)
       < the_int (rb_other_settled b) + the_int (rb_other_unresolved b) + the_int (rb_r_token_limit b)
     then recovery_decision_view ''blocked'' ''grant_invariant_violated'' PNone
     else if rb_cum_exact b = PNone then recovery_decision_view ''paused'' ''unknown_attempt_charge'' PNone
     else let available = the_int (rb_r_token_limit b) - the_int (rb_cum_exact b) in
     if available < 0 then recovery_decision_view ''blocked'' ''settlement_exceeds_reservation'' PNone
     else if available < the_int (rb_model_call_floor b)
     then recovery_decision_view ''blocked'' ''below_model_call_floor'' PNone
     else recovery_decision_view ''eligible'' ''known_headroom'' (PInt available))"
    by (auto simp: budget_decision_def andThen_returns)
  with floor show ?thesis by (simp add: v Let_def)
qed

definition sample_recovery_budget :: recovery_budget where
  "sample_recovery_budget = \<lparr>rb_permission_token_limit = PInt 5000000, rb_other_settled = PInt 1000,
     rb_other_unresolved = PInt 0, rb_r_token_limit = PInt 2000000, rb_cum_exact = PInt 500000,
     rb_model_call_floor = PInt MODEL_CALL_FLOOR, rb_revoked = False, rb_expired = False,
     rb_blocked_reason = PNone, rb_ordinal = PInt 1, rb_ordinal_max = PInt RECOVERY_ATTEMPT_MAX,
     rb_evidence_conflict = False\<rparr>"

theorem recovery_budget_exact_witness:
  "\<exists>v. budget_decision sample_recovery_budget = Inr v \<and> fld v ''decision'' = PStr ''eligible''
     \<and> fld v ''r_available'' = PInt 1500000"
proof -
  have "check_budget_input sample_recovery_budget = Inr ()"
    by (simp add: check_budget_input_def sample_recovery_budget_def res_simps int_at_least_conv
        MODEL_CALL_FLOOR_def RECOVERY_ATTEMPT_MAX_def)
  then obtain v where v: "budget_decision sample_recovery_budget = Inr v" by (simp add: budget_decision_def)
  from recovery_budget_exact [OF v] v show ?thesis
    by (simp add: sample_recovery_budget_def MODEL_CALL_FLOOR_def RECOVERY_ATTEMPT_MAX_def)
qed

section \<open>The envelope\<close>

text \<open>The registry covers the closed set of actions, which the module checks when it is loaded.\<close>

lemma registry_covers: "set (map fst STEP_SAFETY) = set ACTIONS"
  by (auto simp: STEP_SAFETY_def ACTIONS_def)

lemma registry_safe:
  "map_of STEP_SAFETY act = Some s \<Longrightarrow> ss_idempotent s \<and> ss_result_verifiable s
     \<and> (ss_may_produce_new_key s \<longleftrightarrow> act \<notin> {''byq_strategy_validate'', ''byq_factor_compute''})"
  by (auto simp: STEP_SAFETY_def split: if_splits)

lemma no_reason:
  "replay_reason original call = Inr None \<longleftrightarrow> is_dict call \<and> list_all hashable (map (fld call) CALL_IDENTITY)
     \<and> fld call ''action'' \<in> {PStr ''byq_strategy_validate'', PStr ''byq_factor_compute''}
     \<and> list_ex (py_list_eq (map (fld call) CALL_IDENTITY)) original"
proof (cases "fld call ''action''")
  case (PStr act)
  show ?thesis
  proof (cases "map_of STEP_SAFETY act")
    case None
    then have "act \<notin> {''byq_strategy_validate'', ''byq_factor_compute''}"
      by (auto simp: STEP_SAFETY_def split: if_splits)
    with PStr None show ?thesis by (simp add: replay_reason_def)
  next
    case (Some s)
    with PStr registry_safe [OF Some] show ?thesis
      by (auto simp: replay_reason_def hashed_def andThen_returns split: if_splits)
  qed
qed (auto simp: replay_reason_def)

lemma item_fields:
  "mapRes (item row) fs = Inr ys \<Longrightarrow> py_list_eq (map g fs) ys \<Longrightarrow> f \<in> set fs
     \<Longrightarrow> has_key row f \<and> py_eq (g f) (fld row f)"
  by (induction fs arbitrary: ys)
    (auto simp: andThen_returns item_def has_key_def fld_def split: option.splits)

lemma envelope_eligible:
  assumes "admission_envelope ro rep occ = Inr v" "fld v ''eligible'' = PBool True"
  obtains replayed occurred original found where "list_or_empty rep = Inr replayed"
    "list_or_empty occ = Inr occurred" "original_calls occurred = Inr original"
    "mapRes (replay_reason original) replayed = Inr found"
    "filter (\<lambda>r. r \<noteq> None) found = []" "ro = PBool True \<or> replayed \<noteq> []" "fld v ''reasons'' = strs []"
proof -
  have e: "fld (envelope m b r) ''eligible'' = PBool b" "fld (envelope m b r) ''reasons'' = strs r" for m b r
    by (simp_all add: envelope_def)
  have ro: "is_bool ro" using assms(1) by (simp add: admission_envelope_def if_raise_returns)
  obtain replayed where 1: "list_or_empty rep = Inr replayed"
    using assms(1) ro by (auto simp: admission_envelope_def andThen_returns)
  obtain occurred where 2: "list_or_empty occ = Inr occurred"
    using assms(1) ro by (auto simp: admission_envelope_def andThen_returns)
  obtain original where 3: "original_calls occurred = Inr original"
    using assms(1) ro by (auto simp: admission_envelope_def andThen_returns 1 2)
  obtain found where 4: "mapRes (replay_reason original) replayed = Inr found"
    using assms(1) ro by (auto simp: admission_envelope_def andThen_returns 1 2 3 simp del: mapRes_returns)
  have v: "v = (let reasons = map the (filter (\<lambda>r. r \<noteq> None) found) in
       if reasons \<noteq> [] then envelope ''blocked'' False (sort (remdups reasons))
       else if the_bool ro then envelope ''read_only'' True []
       else if replayed \<noteq> [] then envelope ''exact_reuse'' True []
       else envelope ''blocked'' False [''no_replayable_work''])"
    using assms(1) ro by (simp add: admission_envelope_def 1 2 3 4 Let_def)
  show thesis
    by (rule that [OF 1 2 3 4]; use assms(2) ro in \<open>simp add: v Let_def e is_bool_conv split: if_splits\<close>)
qed

lemma replayed_call:
  assumes "replay_reason original call = Inr None" "original_calls occurred = Inr original"
  shows "fld call ''action'' \<in> {PStr ''byq_strategy_validate'', PStr ''byq_factor_compute''}"
    "\<exists>row \<in> set occurred. is_dict row \<and> (\<forall>f \<in> set CALL_IDENTITY. has_key row f \<and> py_eq (fld call f) (fld row f))"
proof -
  show "fld call ''action'' \<in> {PStr ''byq_strategy_validate'', PStr ''byq_factor_compute''}"
    using assms(1) unfolding no_reason by (elim conjE)
  have "list_ex (py_list_eq (map (fld call) CALL_IDENTITY)) original"
    using assms(1) unfolding no_reason by (elim conjE)
  then obtain ident where i: "ident \<in> set original" "py_list_eq (map (fld call) CALL_IDENTITY) ident"
    unfolding list_ex_iff by (elim bexE)
  from mapRes_member(1) [OF assms(2) [unfolded original_calls_def] i(1)] obtain row
    where r: "row \<in> set (filter (\<lambda>row. is_dict row \<and> has_key row ''action'') occurred)"
      "andThen (mapRes (item row) CALL_IDENTITY) hashed = Inr ident" by (elim bexE)
  from r(2) obtain ys where ys: "mapRes (item row) CALL_IDENTITY = Inr ys" "hashed ys = Inr ident"
    unfolding andThen_returns by (elim exE conjE)
  have "ys = ident" using ys(2) by (simp add: hashed_def split: if_splits)
  with ys(1) have row: "mapRes (item row) CALL_IDENTITY = Inr ident" by (simp only:)
  have "\<forall>f \<in> set CALL_IDENTITY. has_key row f \<and> py_eq (fld call f) (fld row f)"
    using item_fields [OF row i(2)] by (intro ballI)
  moreover have "row \<in> set occurred" "is_dict row" using r(1) by simp_all
  ultimately show "\<exists>row \<in> set occurred. is_dict row
      \<and> (\<forall>f \<in> set CALL_IDENTITY. has_key row f \<and> py_eq (fld call f) (fld row f))"
    by (intro bexI [of _ row] conjI)
qed

text \<open>C24. A recovery may replay only what already happened: when the envelope is eligible every replayed
  call is one of the two actions that make no new key and repeats, in all five fields of its
  identity, a call of the lost execution; the set of reasons is empty exactly then.\<close>

theorem envelope_reuses_original_calls:
  assumes "admission_envelope ro rep occ = Inr v" "fld v ''eligible'' = PBool True"
  shows "\<exists>replayed occurred. list_or_empty rep = Inr replayed \<and> list_or_empty occ = Inr occurred
    \<and> fld v ''reasons'' = strs [] \<and> (ro = PBool True \<or> replayed \<noteq> [])
    \<and> (\<forall>call \<in> set replayed. fld call ''action'' \<in> {PStr ''byq_strategy_validate'', PStr ''byq_factor_compute''}
        \<and> (\<exists>row \<in> set occurred. is_dict row
             \<and> (\<forall>f \<in> set CALL_IDENTITY. has_key row f \<and> py_eq (fld call f) (fld row f))))"
proof -
  from envelope_eligible [OF assms] obtain replayed occurred original found where h: "list_or_empty rep = Inr replayed"
    "list_or_empty occ = Inr occurred" "original_calls occurred = Inr original"
    "mapRes (replay_reason original) replayed = Inr found"
    and none: "filter (\<lambda>r. r \<noteq> None) found = []" and mode: "ro = PBool True \<or> replayed \<noteq> []"
    and reasons: "fld v ''reasons'' = strs []" .
  have none': "replay_reason original call = Inr None" if c: "call \<in> set replayed" for call
  proof -
    obtain y where y: "y \<in> set found" "replay_reason original call = Inr y"
      using mapRes_member(2) [OF h(4) c] by (elim bexE)
    have "y = None" using none y(1) unfolding filter_empty_conv by (metis (full_types))
    with y(2) show ?thesis by simp
  qed
  show ?thesis
  proof (intro exI conjI ballI)
    fix call assume c: "call \<in> set replayed"
    show "fld call ''action'' \<in> {PStr ''byq_strategy_validate'', PStr ''byq_factor_compute''}"
      by (rule replayed_call(1) [OF none' [OF c] h(3)])
    show "\<exists>row \<in> set occurred. is_dict row
             \<and> (\<forall>f \<in> set CALL_IDENTITY. has_key row f \<and> py_eq (fld call f) (fld row f))"
      by (rule replayed_call(2) [OF none' [OF c] h(3)])
  qed (rule h(1,2) reasons mode)+
qed

definition sample_call :: pyval where
  "sample_call = PDict [(''action'', PStr ''byq_factor_compute''), (''task_id'', PStr ''t''),
     (''idempotency_key'', PStr ''k''), (''request_sha256'', PStr ''r''), (''input_sha256'', PStr ''i'')]"

theorem envelope_reuses_original_calls_witness:
  "\<exists>v. admission_envelope (PBool False) (PList [sample_call]) (PList [sample_call]) = Inr v
     \<and> fld v ''eligible'' = PBool True \<and> fld v ''reasons'' = strs []"
proof -
  have o: "original_calls [sample_call] = Inr [map (fld sample_call) CALL_IDENTITY]"
    by (simp add: original_calls_def sample_call_def CALL_IDENTITY_def item_def hashed_def)
  have "replay_reason [map (fld sample_call) CALL_IDENTITY] sample_call = Inr None"
    unfolding no_reason by (simp add: sample_call_def CALL_IDENTITY_def)
  then have e: "admission_envelope (PBool False) (PList [sample_call]) (PList [sample_call]) = Inr (envelope ''exact_reuse'' True [])"
    by (simp add: admission_envelope_def o)
  have "fld (envelope ''exact_reuse'' True []) ''eligible'' = PBool True" by (simp add: envelope_def)
  from envelope_reuses_original_calls [OF e this] e this show ?thesis by blast
qed

end
