(* ===== verification/Judgment_Input.thy ===== *)
theory Judgment_Input
  imports Plan_Machine Digest
begin

text \<open>
  \<^verbatim>\<open>packages/contracts/research_judgment.py\<close>, the data of a judgment turn: which stages may start
  a model turn, the closed stage input and proposal, and the fence on model calls.
  \<open>Judgment_Requests\<close> holds the requests of the judgment runner, \<open>Judgment_Commit\<close> derives the
  next plan state from a proposal. A check of the code that returns its argument returns
  nothing here; its callers ignore the value.
\<close>

section \<open>Vocabulary\<close>

definition STAGE_INPUT_SCHEMA_VERSION :: string where "STAGE_INPUT_SCHEMA_VERSION = ''research-stage-input.v1''"
definition PROPOSAL_SCHEMA_VERSION :: string where "PROPOSAL_SCHEMA_VERSION = ''research-proposal.v1''"

definition MODEL_STAGES :: "string list" where
  "MODEL_STAGES = [''strategy_draft'', ''backtest_analysis'', ''iteration_comparison'', ''final_selection'']"

definition JUDGMENT_ACTIONS :: "string list" where
  "JUDGMENT_ACTIONS = [''draft_strategy'', ''analyse_backtest_result'', ''compare_iterations'',
     ''select_best_iteration'']"

definition DEFAULT_MAX_MODEL_CALLS_PER_STAGE :: int where "DEFAULT_MAX_MODEL_CALLS_PER_STAGE = 2"

definition STAGE_MODEL_CALL_LIMITS :: "(string \<times> int) list" where
  "STAGE_MODEL_CALL_LIMITS = map (\<lambda>stage. (stage, DEFAULT_MAX_MODEL_CALLS_PER_STAGE)) MODEL_STAGES"

definition PROPOSAL_ESCALATE :: string where "PROPOSAL_ESCALATE = ''escalate''"

definition STAGE_PROPOSAL_KINDS :: "(string \<times> string list) list" where
  "STAGE_PROPOSAL_KINDS =
    [(''strategy_draft'', [''strategy_draft'', PROPOSAL_ESCALATE]),
     (''backtest_analysis'', [''backtest_analysis'', PROPOSAL_ESCALATE]),
     (''iteration_comparison'', [''select_iteration'', ''propose_revision'', PROPOSAL_ESCALATE]),
     (''final_selection'', [''select_iteration'', PROPOSAL_ESCALATE])]"

definition REVISION_DIRECTIONS :: "string list" where
  "REVISION_DIRECTIONS = [''tighten_risk'', ''reduce_turnover'', ''improve_robustness'',
     ''extend_evidence'', ''none'']"

definition STAGE_INPUT_MAX_BYTES :: nat where "STAGE_INPUT_MAX_BYTES = 65536"
definition STAGE_INPUT_MAX_ITEMS :: nat where "STAGE_INPUT_MAX_ITEMS = 64"
definition PROPOSAL_MAX_BYTES :: nat where "PROPOSAL_MAX_BYTES = 16384"
definition SHORT_TEXT_MAX :: nat where "SHORT_TEXT_MAX = 400"
definition TEXT_MAX :: nat where "TEXT_MAX = 2000"
definition RATIONALE_MAX :: nat where "RATIONALE_MAX = 4000"

definition EVIDENCE_KINDS :: "string list" where
  "EVIDENCE_KINDS = [''research_task'', ''conversation'', ''strategy_version'', ''strategy_approval'',
     ''stock_pool_snapshot'', ''signal_producer_job'', ''signal_snapshot'', ''backtest_task'',
     ''backtest_job'', ''backtest_result'', ''metric_summary'', ''plan_progress'']"

definition STAGE_ALLOWED_TOOLS :: "(string \<times> string list) list" where
  "STAGE_ALLOWED_TOOLS =
    [(''strategy_draft'', [''byq_agent_context'', ''byq_research_get'', ''byq_research_stage_input_get'']),
     (''backtest_analysis'', [''byq_agent_context'', ''byq_research_get'', ''byq_research_stage_input_get'',
        ''byq_backtest_task_get'', ''byq_backtest_analysis_get'']),
     (''iteration_comparison'', [''byq_agent_context'', ''byq_research_get'',
        ''byq_research_stage_input_get'', ''byq_backtest_task_get'', ''byq_backtest_analysis_get'']),
     (''final_selection'', [''byq_agent_context'', ''byq_research_get'', ''byq_research_stage_input_get'',
        ''byq_backtest_analysis_get''])]"

definition FORBIDDEN_RAW_KEYS :: "string list" where
  "FORBIDDEN_RAW_KEYS = [''raw_signal_snapshot'', ''signal_snapshot_rows'', ''signal_rows'', ''signals'',
     ''bars_frame'', ''bar_frame'', ''bars'', ''frame'', ''raw_bars'', ''daily_bars'',
     ''symbol_index'', ''date_index'', ''index'', ''benchmark_series'', ''benchmark_rows'',
     ''feature_rows'', ''raw_features'', ''daily_returns'', ''equity_curve'',
     ''positions'', ''trades_frame'', ''corporate_actions'', ''full_event_log'', ''event_log'']"

definition FORBIDDEN_PROPOSAL_FIELDS :: "string list" where
  "FORBIDDEN_PROPOSAL_FIELDS = [''next_stage'', ''target_stage'', ''next_action'', ''target_action'', ''status'',
     ''target_status'', ''route'', ''routing'', ''idempotency_key'', ''business_identity'',
     ''object_id'', ''new_object_id'', ''plan'', ''conversation_id'', ''capabilities'',
     ''allowed_capabilities'', ''approval'', ''proposal_id'', ''event_id'', ''resource_id'',
     ''resource_kind'', ''selected_stage'', ''task_id_override'']"

definition OUTCOMES :: "string list" where "OUTCOMES = [''advance'', ''stay'', ''needs_attention'']"
definition NO_DURABLE_PROGRESS :: string where "NO_DURABLE_PROGRESS = ''no_durable_progress''"
definition MODEL_CALL_LIMIT_EXCEEDED :: string where "MODEL_CALL_LIMIT_EXCEEDED = ''model_call_limit_exceeded''"
definition INSUFFICIENT_EVIDENCE :: string where "INSUFFICIENT_EVIDENCE = ''insufficient_evidence''"
definition ESCALATION_REQUESTED :: string where "ESCALATION_REQUESTED = ''escalation_requested''"

definition STAGE_INPUT_BASE_FIELDS :: "string list" where
  "STAGE_INPUT_BASE_FIELDS = [''schema_version'', ''task_id'', ''plan_version'', ''task_version'', ''stage'',
     ''iteration'', ''status'', ''objective'', ''stage_instruction'', ''proposal_kinds'', ''evidence'',
     ''allowed_tools'', ''model_call_limit'', ''escalation_allowed'']"

definition PROPOSAL_BASE_FIELDS :: "string list" where
  "PROPOSAL_BASE_FIELDS = [''schema_version'', ''task_id'', ''plan_version'', ''task_version'', ''stage'',
     ''iteration'', ''proposal_kind'', ''evidence_sufficient'', ''escalate'', ''summary'']"

definition PROPOSAL_OPTIONAL_FIELDS :: "string list" where
  "PROPOSAL_OPTIONAL_FIELDS = [''selected_iteration'', ''revision_direction'', ''rationale'']"

definition stage_requires_model :: "pyval \<Rightarrow> bool" where
  "stage_requires_model stage \<longleftrightarrow> is_str stage \<and> the_str stage \<in> set MODEL_STAGES"

definition action_requires_model :: "pyval \<Rightarrow> bool" where
  "action_requires_model action \<longleftrightarrow> is_str action \<and> the_str action \<in> set JUDGMENT_ACTIONS"

definition stage_model_call_limit :: "string \<Rightarrow> int res" where
  "stage_model_call_limit stage =
    (if stage \<notin> set MODEL_STAGES
     then Inl (ValueError ''a deterministic research stage requires zero model calls'')
     else case map_of STAGE_MODEL_CALL_LIMITS stage of None \<Rightarrow> Inl (KeyError stage) | Some n \<Rightarrow> Inr n)"

definition assert_model_turn_allowed :: "pyval \<Rightarrow> string res" where
  "assert_model_turn_allowed stage = (if \<not> stage_requires_model stage
     then Inl (ValueError ''a deterministic research stage must not start a model turn'') else Inr (the_str stage))"

section \<open>Bounds and raw payloads\<close>

definition check_text :: "pyval \<Rightarrow> string \<Rightarrow> nat \<Rightarrow> unit res" where
  "check_text value field maximum =
    (if \<not> is_str value then Inl (ValueError (''research judgment '' @ field @ '' must be a string''))
     else if maximum < length (the_str value)
     then Inl (ValueError (''research judgment '' @ field @ '' exceeds '' @ nat_digits maximum @ '' characters''))
     else Inr ())"

definition check_digest :: "pyval \<Rightarrow> string \<Rightarrow> unit res" where
  "check_digest value field = (if \<not> str_matches re_digest value
     then Inl (ValueError (''research judgment '' @ field @ '' is invalid'')) else Inr ())"

function (sequential) reject_raw_keys :: "string \<Rightarrow> pyval \<Rightarrow> unit res"
  and reject_raw_items :: "string \<Rightarrow> pydict \<Rightarrow> unit res"
  and reject_raw_list :: "string \<Rightarrow> nat \<Rightarrow> pyval list \<Rightarrow> unit res" where
  "reject_raw_keys path (PDict d) = reject_raw_items path d"
| "reject_raw_keys path (PList xs) = reject_raw_list path 0 xs"
| "reject_raw_keys path _ = Inr ()"
| "reject_raw_items path [] = Inr ()"
| "reject_raw_items path ((key, child) # d) =
    (if lower key \<in> set FORBIDDEN_RAW_KEYS
     then Inl (ValueError (''research judgment payload contains a raw execution key at '' @ path @ ''.'' @ key))
     else andThen (reject_raw_keys (path @ ''.'' @ key) child) (\<lambda>_. reject_raw_items path d))"
| "reject_raw_list path i [] = Inr ()"
| "reject_raw_list path i (child # xs) =
     andThen (reject_raw_keys (path @ ''['' @ nat_digits i @ '']'') child) (\<lambda>_. reject_raw_list path (Suc i) xs)"
  by pat_completeness auto
termination
  by (relation "measure (case_sum (\<lambda>(_, x). size x)
        (case_sum (\<lambda>(_, xs). size_list (size_prod (\<lambda>_. 0) size) xs)
           (\<lambda>(_, _, xs). size_list size xs)))") auto

definition check_bounded :: "pyval \<Rightarrow> nat \<Rightarrow> string \<Rightarrow> unit res" where
  "check_bounded value maximum field = (if maximum < length (canonical_utf8 value)
     then Inl (ValueError (''research judgment '' @ field @ '' exceeds '' @ nat_digits maximum @ '' bytes''))
     else Inr ())"

text \<open>A list of distinct allowed texts, as proposal kinds and tools are given.\<close>

definition check_choices :: "pyval \<Rightarrow> string list \<Rightarrow> string \<Rightarrow> unit res" where
  "check_choices value allowed message =
    (if \<not> is_list value \<or> the_list value = [] then Inl (ValueError message)
     else andThen (anyRes (\<lambda>x. andThen (in_strs x allowed) (\<lambda>b. Inr (\<not> b))) (the_list value)) (\<lambda>bad.
     if bad \<or> \<not> distinct (the_list value) then Inl (ValueError message) else Inr ()))"

definition for_stage :: "(string \<times> string list) list \<Rightarrow> string \<Rightarrow> string list" where
  "for_stage table stage = (case map_of table stage of None \<Rightarrow> [] | Some xs \<Rightarrow> xs)"

definition check_positive :: "pyval \<Rightarrow> string \<Rightarrow> string list \<Rightarrow> unit res" where
  "check_positive value what names = forEach (\<lambda>field. if \<not> int_at_least 1 (fld value field)
     then Inl (ValueError (what @ '' '' @ field @ '' is invalid'')) else Inr ()) names"

section \<open>The stage input\<close>

definition check_evidence_item :: "pyval \<Rightarrow> unit res" where
  "check_evidence_item x =
    (if \<not> is_dict x \<or> \<not> keys_are x [''kind'', ''id'', ''summary'']
     then Inl (ValueError ''research stage input evidence descriptor is invalid'')
     else andThen (in_strs (fld x ''kind'') EVIDENCE_KINDS) (\<lambda>known.
     if \<not> known then Inl (ValueError ''research stage input evidence kind is unknown'')
     else if \<not> str_matches re_identity (fld x ''id'')
     then Inl (ValueError ''research stage input evidence id is invalid'')
     else check_text (fld x ''summary'') ''evidence.summary'' SHORT_TEXT_MAX))"

definition validate_stage_input :: "pyval \<Rightarrow> pyval res" where
  "validate_stage_input value =
    (if \<not> is_dict value then Inl (ValueError ''research stage input must be an object'')
     else if \<not> keys_are value STAGE_INPUT_BASE_FIELDS
     then Inl (ValueError (''research stage input has invalid fields (unknown=''
       @ repr_strs (unknown_keys value STAGE_INPUT_BASE_FIELDS) @ '', missing=''
       @ repr_strs (missing_keys value STAGE_INPUT_BASE_FIELDS) @ '')''))
     else if \<not> py_eq (fld value ''schema_version'') (PStr STAGE_INPUT_SCHEMA_VERSION)
     then Inl (ValueError ''research stage input schema is invalid'')
     else andThen (reject_raw_keys ''stage_input'' value) (\<lambda>_.
     if \<not> stage_requires_model (fld value ''stage'')
     then Inl (ValueError ''research stage input is only permitted for a research-judgment stage'')
     else let stage = the_str (fld value ''stage'') in
     if \<not> str_matches re_identity (fld value ''task_id'')
     then Inl (ValueError ''research stage input task_id is invalid'')
     else andThen (check_positive value ''research stage input''
         [''plan_version'', ''task_version'', ''iteration'', ''model_call_limit'']) (\<lambda>_.
     andThen (in_strs (fld value ''status'') [''active'', ''waiting'', ''blocked'']) (\<lambda>known.
     if \<not> known then Inl (ValueError ''research stage input status is invalid'')
     else andThen (check_text (fld value ''objective'') ''objective'' TEXT_MAX) (\<lambda>_.
     andThen (check_text (fld value ''stage_instruction'') ''stage_instruction'' TEXT_MAX) (\<lambda>_.
     if \<not> is_bool (fld value ''escalation_allowed'')
     then Inl (ValueError ''research stage input escalation_allowed must be boolean'')
     else andThen (check_choices (fld value ''proposal_kinds'') (for_stage STAGE_PROPOSAL_KINDS stage)
         ''research stage input proposal_kinds are invalid'') (\<lambda>_.
     andThen (check_choices (fld value ''allowed_tools'') (for_stage STAGE_ALLOWED_TOOLS stage)
         ''research stage input allowed_tools are invalid'') (\<lambda>_.
     if \<not> is_list (fld value ''evidence'')
        \<or> STAGE_INPUT_MAX_ITEMS < length (the_list (fld value ''evidence''))
     then Inl (ValueError ''research stage input evidence exceeds its item bound'')
     else andThen (forEach check_evidence_item (the_list (fld value ''evidence''))) (\<lambda>_.
     andThen (stage_model_call_limit stage) (\<lambda>bound.
     if \<not> py_eq (fld value ''model_call_limit'') (PInt bound)
     then Inl (ValueError ''research stage input model_call_limit does not match the stage bound'')
     else andThen (check_bounded value STAGE_INPUT_MAX_BYTES ''stage_input'') (\<lambda>_.
     Inr value)))))))))))"

section \<open>The proposal\<close>

definition proposal_shape :: "pyval \<Rightarrow> unit res" where
  "proposal_shape value =
    (let forbidden = sort (remdups (filter (\<lambda>k. k \<in> set FORBIDDEN_PROPOSAL_FIELDS) (keys_of value)));
         allowed = PROPOSAL_BASE_FIELDS @ PROPOSAL_OPTIONAL_FIELDS in
     if \<not> is_dict value then Inl (ValueError ''research proposal must be an object'')
     else if forbidden \<noteq> []
     then Inl (ValueError (''research proposal has forbidden caller routing/identity fields: '' @ repr_strs forbidden))
     else if \<not> keys_include value PROPOSAL_BASE_FIELDS \<or> \<not> keys_within value allowed
     then Inl (ValueError (''research proposal has invalid fields (unknown='' @ repr_strs (unknown_keys value allowed)
       @ '', missing='' @ repr_strs (missing_keys value PROPOSAL_BASE_FIELDS) @ '')''))
     else if \<not> py_eq (fld value ''schema_version'') (PStr PROPOSAL_SCHEMA_VERSION)
     then Inl (ValueError ''research proposal schema is invalid'')
     else reject_raw_keys ''proposal'' value)"

definition proposal_body :: "pyval \<Rightarrow> unit res" where
  "proposal_body value =
     andThen (check_text (fld value ''summary'') ''summary'' TEXT_MAX) (\<lambda>_.
     andThen (if has_key value ''rationale'' then check_text (fld value ''rationale'') ''rationale'' RATIONALE_MAX
       else Inr ()) (\<lambda>_.
     if has_key value ''selected_iteration'' \<and> \<not> int_between 1 MAX_ROUNDS (fld value ''selected_iteration'')
     then Inl (ValueError ''research proposal selected_iteration is invalid'')
     else andThen (if has_key value ''revision_direction''
         then andThen (in_strs (fld value ''revision_direction'') REVISION_DIRECTIONS) (\<lambda>known.
           if \<not> known then Inl (ValueError ''research proposal revision_direction is unknown'') else Inr ())
         else Inr ()) (\<lambda>_.
     let kind = the_str (fld value ''proposal_kind'') in
     if kind = ''select_iteration'' \<and> \<not> has_key value ''selected_iteration''
     then Inl (ValueError ''a select_iteration proposal requires selected_iteration'')
     else if kind = ''propose_revision'' \<and> \<not> has_key value ''revision_direction''
     then Inl (ValueError ''a propose_revision proposal requires revision_direction'')
     else if kind = PROPOSAL_ESCALATE \<and> fld value ''escalate'' \<noteq> PBool True
     then Inl (ValueError ''an escalate proposal must set escalate=true'')
     else check_bounded value PROPOSAL_MAX_BYTES ''proposal'')))"

definition validate_proposal :: "pyval \<Rightarrow> pyval res" where
  "validate_proposal value = andThen (proposal_shape value) (\<lambda>_.
     if \<not> stage_requires_model (fld value ''stage'')
     then Inl (ValueError ''research proposal is only permitted for a research-judgment stage'')
     else if \<not> str_matches re_identity (fld value ''task_id'')
     then Inl (ValueError ''research proposal task_id is invalid'')
     else andThen (check_positive value ''research proposal'' [''plan_version'', ''task_version'', ''iteration'']) (\<lambda>_.
     andThen (in_strs (fld value ''proposal_kind'')
         (for_stage STAGE_PROPOSAL_KINDS (the_str (fld value ''stage'')))) (\<lambda>known.
     if \<not> known then Inl (ValueError ''research proposal kind is not valid for its stage'')
     else if \<not> is_bool (fld value ''evidence_sufficient'') \<or> \<not> is_bool (fld value ''escalate'')
     then Inl (ValueError ''research proposal evidence_sufficient/escalate must be boolean'')
     else andThen (proposal_body value) (\<lambda>_. Inr value))))"

definition proposal_identity :: "pyval \<Rightarrow> string res" where
  "proposal_identity proposal = andThen (validate_proposal proposal) (\<lambda>verified.
     Inr (''research_proposal_'' @ take 32 (sha256_json_utf8 verified)))"

definition proposal_request_hash :: "pyval \<Rightarrow> string res" where
  "proposal_request_hash proposal = andThen (validate_proposal proposal) (\<lambda>verified.
     Inr (''sha256:'' @ sha256_json_utf8 verified))"

section \<open>The fence on model calls\<close>

record call_outcome =
  co_status :: string
  co_outcome :: "string option"
  co_reason :: string
  co_model_calls_used :: int
  co_model_calls_remaining :: int
  co_continue :: bool

definition stage_model_call_outcome :: "pyval \<Rightarrow> pyval \<Rightarrow> pyval \<Rightarrow> call_outcome res" where
  "stage_model_call_outcome stage calls_used durable_progress_identity =
     andThen (assert_model_turn_allowed stage) (\<lambda>_.
     if \<not> int_at_least 1 calls_used
     then Inl (ValueError ''research stage model call count is invalid'')
     else andThen (if durable_progress_identity \<noteq> PNone
       then check_digest durable_progress_identity ''durable_progress_identity'' else Inr ()) (\<lambda>_.
     andThen (stage_model_call_limit (the_str stage)) (\<lambda>bound.
     let n = the_int calls_used; progressed = (durable_progress_identity \<noteq> PNone) in
     Inr (if bound < n then \<lparr>co_status = ''stop'', co_outcome = Some ''needs_attention'',
         co_reason = MODEL_CALL_LIMIT_EXCEEDED, co_model_calls_used = n, co_model_calls_remaining = 0,
         co_continue = False\<rparr>
       else if n = 1 \<and> \<not> progressed then \<lparr>co_status = ''stop'', co_outcome = Some ''needs_attention'',
         co_reason = NO_DURABLE_PROGRESS, co_model_calls_used = n, co_model_calls_remaining = bound - n,
         co_continue = False\<rparr>
       else if bound \<le> n then \<lparr>co_status = ''stop'', co_outcome = Some ''advance'',
         co_reason = ''stage_within_model_call_bound'', co_model_calls_used = n, co_model_calls_remaining = 0,
         co_continue = False\<rparr>
       else \<lparr>co_status = ''continue'', co_outcome = None, co_reason = ''durable_progress_observed'',
         co_model_calls_used = n, co_model_calls_remaining = bound - n, co_continue = True\<rparr>))))"

end
