(* ===== verification/Judgment_Requests.thy ===== *)
theory Judgment_Requests
  imports Judgment_Input
begin

text \<open>
  \<^verbatim>\<open>packages/contracts/research_judgment.py\<close>, the requests of the trusted judgment runner: the
  admission of a model call, the evidence of durable progress, the result of a call, and the
  begin, claim, registration, result and status requests of the ACP root that runs it.
\<close>

section \<open>Patterns\<close>

definition is_lower_or_underscore :: "char \<Rightarrow> bool" where
  "is_lower_or_underscore c \<longleftrightarrow> is_lower c \<or> c = CHR ''_''"

text \<open>\<^verbatim>\<open>[0-9]+:[a-z_]+:[0-9]+\<close>; the separator is in neither class, so the longest match decides.\<close>

definition ATTEMPT_BINDING :: "string \<Rightarrow> bool" where
  "ATTEMPT_BINDING s \<longleftrightarrow>
    (let rest = dropWhile is_digit s in takeWhile is_digit s \<noteq> [] \<and> startswith '':'' rest
     \<and> (let rest' = dropWhile is_lower_or_underscore (tl rest) in
        takeWhile is_lower_or_underscore (tl rest) \<noteq> [] \<and> startswith '':'' rest'
        \<and> tl rest' \<noteq> [] \<and> list_all is_digit (tl rest')))"

text \<open>\<^verbatim>\<open>[0-9a-f]{8}-[0-9a-f]{4}-4[0-9a-f]{3}-[89ab][0-9a-f]{3}-[0-9a-f]{12}\<close>\<close>

definition ACP_NATIVE_ROOT_SESSION_ID :: "string \<Rightarrow> bool" where
  "ACP_NATIVE_ROOT_SESSION_ID s \<longleftrightarrow> length s = 36
     \<and> re_hex 8 (take 8 s) \<and> startswith ''-'' (drop 8 s)
     \<and> re_hex 4 (take 4 (drop 9 s)) \<and> startswith ''-4'' (drop 13 s)
     \<and> re_hex 3 (take 3 (drop 15 s)) \<and> startswith ''-'' (drop 18 s)
     \<and> list_all (\<lambda>c. c \<in> set ''89ab'') (take 1 (drop 19 s))
     \<and> re_hex 3 (take 3 (drop 20 s)) \<and> startswith ''-'' (drop 23 s) \<and> re_hex 12 (drop 24 s)"

definition ACP_ROOT_ID :: "string \<Rightarrow> bool" where "ACP_ROOT_ID = re_hex 32"

definition ACP_JUDGMENT_CALL_IDENTITY :: "string \<Rightarrow> bool" where
  "ACP_JUDGMENT_CALL_IDENTITY = re_prefix_hex ''byq-judgment-'' 32"

definition CLAIM_OWNER :: "string \<Rightarrow> bool" where "CLAIM_OWNER = re_identifier"

definition ACP_JUDGMENT_ROOT_BEGIN_SCHEMA_VERSION :: string where
  "ACP_JUDGMENT_ROOT_BEGIN_SCHEMA_VERSION = ''byq-research-judgment-acp-root-begin.v1''"
definition ACP_JUDGMENT_AGENT_REGISTER_SCHEMA_VERSION :: string where
  "ACP_JUDGMENT_AGENT_REGISTER_SCHEMA_VERSION = ''byq-research-judgment-acp-agent-register.v1''"
definition ACP_JUDGMENT_RESULT_SCHEMA_VERSION :: string where
  "ACP_JUDGMENT_RESULT_SCHEMA_VERSION = ''byq-research-judgment-acp-result.v1''"
definition ACP_JUDGMENT_STATUS_SCHEMA_VERSION :: string where
  "ACP_JUDGMENT_STATUS_SCHEMA_VERSION = ''byq-research-judgment-acp-status.v1''"
definition JUDGMENT_STAGE_CLAIM_SCHEMA_VERSION :: string where
  "JUDGMENT_STAGE_CLAIM_SCHEMA_VERSION = ''byq-research-judgment-stage-claim.v1''"

definition check_match :: "(string \<Rightarrow> bool) \<Rightarrow> pyval \<Rightarrow> string \<Rightarrow> unit res" where
  "check_match pattern value message = (if \<not> str_matches pattern value then Inl (ValueError message) else Inr ())"

definition validate_call_identity :: "pyval \<Rightarrow> pyval res" where
  "validate_call_identity value = andThen (check_match re_identity value
     ''research stage call identity is invalid'') (\<lambda>_. Inr value)"

definition validate_attempt_binding :: "pyval \<Rightarrow> pyval res" where
  "validate_attempt_binding value = andThen (check_match ATTEMPT_BINDING value
     ''research stage attempt binding is invalid'') (\<lambda>_. Inr value)"

section \<open>Durable progress\<close>

definition PROGRESS_EVIDENCE_KINDS :: "string list" where
  "PROGRESS_EVIDENCE_KINDS = [''none'', ''plan_advance'', ''artifact'', ''experiment'', ''backtest_job'']"

definition EVIDENCE_ID_PATTERNS :: "(string \<times> (string \<Rightarrow> bool)) list" where
  "EVIDENCE_ID_PATTERNS = [(''artifact'', re_prefix_hex ''artifact_'' 32),
     (''experiment'', re_prefix_hex ''experiment_'' 32), (''backtest_job'', re_prefix_hex ''backtest_'' 32)]"

definition validate_progress_evidence :: "pyval \<Rightarrow> pyval res" where
  "validate_progress_evidence value =
    (if \<not> is_dict value \<or> \<not> has_key value ''kind''
     then Inl (ValueError ''research progress evidence must be an object with a kind'')
     else andThen (in_strs (fld value ''kind'') PROGRESS_EVIDENCE_KINDS) (\<lambda>known.
     if \<not> known then Inl (ValueError ''research progress evidence kind is unknown'')
     else let kind = the_str (fld value ''kind'') in
     andThen
       (if kind \<in> {''none'', ''plan_advance''}
        then (if \<not> keys_are value [''kind'']
          then Inl (ValueError ''research progress evidence must be a closed kind'') else Inr ())
        else if \<not> keys_are value [''kind'', ''id'']
        then Inl (ValueError ''research progress evidence must be a closed kind/id pair'')
        else case map_of EVIDENCE_ID_PATTERNS kind of
            None \<Rightarrow> Inl (if is_str (fld value ''id'') then KeyError kind
              else ValueError ''research progress evidence id is not a durable record identity'')
          | Some pattern \<Rightarrow> check_match pattern (fld value ''id'')
              ''research progress evidence id is not a durable record identity'') (\<lambda>_.
     andThen (check_bounded value 1024 ''progress_evidence'') (\<lambda>_. Inr value))))"

definition STAGE_ADMISSION_FIELDS :: "string list" where "STAGE_ADMISSION_FIELDS = [''call_identity'']"
definition STAGE_ADMISSION_OPTIONAL_FIELDS :: "string list" where
  "STAGE_ADMISSION_OPTIONAL_FIELDS = [''attempt_binding'']"
definition STAGE_PROGRESS_FIELDS :: "string list" where
  "STAGE_PROGRESS_FIELDS = [''call_identity'', ''durable_evidence'']"

definition validate_stage_admission_request :: "pyval \<Rightarrow> pyval res" where
  "validate_stage_admission_request value =
    (if \<not> is_dict value \<or> \<not> has_key value ''call_identity''
        \<or> \<not> keys_within value (STAGE_ADMISSION_FIELDS @ STAGE_ADMISSION_OPTIONAL_FIELDS)
     then Inl (ValueError ''research stage admission request has invalid fields'')
     else andThen (validate_call_identity (fld value ''call_identity'')) (\<lambda>_.
     andThen (if has_key value ''attempt_binding'' then validate_attempt_binding (fld value ''attempt_binding'')
       else Inr PNone) (\<lambda>_. Inr value)))"

definition validate_stage_progress_request :: "pyval \<Rightarrow> pyval res" where
  "validate_stage_progress_request value =
    (if \<not> is_dict value \<or> \<not> keys_are value STAGE_PROGRESS_FIELDS
     then Inl (ValueError ''research stage progress request has invalid fields'')
     else andThen (validate_call_identity (fld value ''call_identity'')) (\<lambda>_.
     andThen (validate_progress_evidence (fld value ''durable_evidence'')) (\<lambda>_. Inr value)))"

definition validate_judgment_result_request :: "pyval \<Rightarrow> pyval res" where
  "validate_judgment_result_request value =
    (let known = [''call_identity'', ''durable_evidence'', ''proposal''] in
     if \<not> is_dict value \<or> \<not> keys_include value [''call_identity'', ''durable_evidence'']
     then Inl (ValueError ''research judgment result must carry call identity and evidence'')
     else if \<not> keys_within value known
     then Inl (ValueError (''research judgment result has invalid fields (unknown=''
       @ repr_strs (unknown_keys value known) @ '')''))
     else andThen (validate_call_identity (fld value ''call_identity'')) (\<lambda>_.
     andThen (validate_progress_evidence (fld value ''durable_evidence'')) (\<lambda>_.
     andThen (if fld value ''proposal'' \<noteq> PNone then validate_proposal (fld value ''proposal'') else Inr PNone)
       (\<lambda>_. Inr value))))"

section \<open>The requests of the ACP root\<close>

definition exact_request :: "pyval \<Rightarrow> string list \<Rightarrow> string \<Rightarrow> string \<Rightarrow> unit res" where
  "exact_request value names schema message =
    (if \<not> is_dict value \<or> \<not> keys_are value names \<or> \<not> py_eq (fld value ''schema_version'') (PStr schema)
     then Inl (ValueError message) else Inr ())"

definition exact_call_identity :: "pyval \<Rightarrow> unit res" where
  "exact_call_identity value = check_match ACP_JUDGMENT_CALL_IDENTITY (fld value ''call_identity'')
     ''exact ACP judgment call identity required''"

definition validate_acp_judgment_root_begin_request :: "pyval \<Rightarrow> pyval res" where
  "validate_acp_judgment_root_begin_request value =
     andThen (exact_request value [''schema_version'', ''call_identity'', ''attempt_binding'']
       ACP_JUDGMENT_ROOT_BEGIN_SCHEMA_VERSION ''exact ACP judgment root begin request required'') (\<lambda>_.
     andThen (exact_call_identity value) (\<lambda>_.
     andThen (validate_attempt_binding (fld value ''attempt_binding'')) (\<lambda>_. Inr value)))"

definition validate_judgment_stage_claim_request :: "pyval \<Rightarrow> pyval res" where
  "validate_judgment_stage_claim_request value =
    (if \<not> is_dict value \<or> \<not> keys_are value [''schema_version'', ''claim_owner'', ''lease_seconds'']
        \<or> \<not> py_eq (fld value ''schema_version'') (PStr JUDGMENT_STAGE_CLAIM_SCHEMA_VERSION)
        \<or> \<not> str_matches CLAIM_OWNER (fld value ''claim_owner'')
        \<or> \<not> int_between 1 3600 (fld value ''lease_seconds'')
     then Inl (ValueError ''exact judgment stage claim request required'')
     else Inr value)"

definition validate_acp_judgment_agent_register_request :: "pyval \<Rightarrow> pyval res" where
  "validate_acp_judgment_agent_register_request value =
     andThen (exact_request value [''schema_version'', ''call_identity'', ''root_run_id'', ''runtime_boot_id'',
         ''native_root_session_id''] ACP_JUDGMENT_AGENT_REGISTER_SCHEMA_VERSION
       ''exact ACP judgment root Agent registration request required'') (\<lambda>_.
     andThen (exact_call_identity value) (\<lambda>_.
     andThen (check_match ACP_ROOT_ID (fld value ''root_run_id'')
       ''root_run_id must be a 32-character lowercase hexadecimal identity'') (\<lambda>_.
     andThen (check_match ACP_ROOT_ID (fld value ''runtime_boot_id'')
       ''runtime_boot_id must be a 32-character lowercase hexadecimal identity'') (\<lambda>_.
     andThen (check_match ACP_NATIVE_ROOT_SESSION_ID (fld value ''native_root_session_id'')
       ''native_root_session_id must be a lowercase UUIDv4'') (\<lambda>_. Inr value)))))"

definition ACP_JUDGMENT_RESULT_FIELDS :: "string list" where
  "ACP_JUDGMENT_RESULT_FIELDS = [''schema_version'', ''call_identity'', ''attempt_binding'', ''root_run_id'',
     ''runtime_boot_id'', ''authority_epoch'', ''dsh_run_id'', ''agent_run_id'',
     ''native_root_session_id'', ''durable_evidence'']"

definition result_of_acp_result :: "pyval \<Rightarrow> pyval" where
  "result_of_acp_result value = PDict ([(''call_identity'', fld value ''call_identity''),
     (''durable_evidence'', fld value ''durable_evidence'')]
     @ (if has_key value ''proposal'' then [(''proposal'', fld value ''proposal'')] else []))"

definition validate_acp_judgment_result_request :: "pyval \<Rightarrow> pyval res" where
  "validate_acp_judgment_result_request value =
    (if \<not> is_dict value \<or> \<not> keys_include value ACP_JUDGMENT_RESULT_FIELDS
        \<or> \<not> keys_within value (ACP_JUDGMENT_RESULT_FIELDS @ [''proposal''])
        \<or> \<not> py_eq (fld value ''schema_version'') (PStr ACP_JUDGMENT_RESULT_SCHEMA_VERSION)
     then Inl (ValueError ''exact ACP judgment result request required'')
     else andThen (exact_call_identity value) (\<lambda>_.
     andThen (validate_attempt_binding (fld value ''attempt_binding'')) (\<lambda>_.
     andThen (forEach (\<lambda>field. check_match ACP_ROOT_ID (fld value field)
       (''ACP judgment '' @ field @ '' is invalid'')) [''root_run_id'', ''runtime_boot_id'']) (\<lambda>_.
     andThen (check_match (re_prefix_hex ''agent_run_'' 32) (fld value ''agent_run_id'')
       ''ACP judgment AgentRun identity is invalid'') (\<lambda>_.
     if \<not> int_between 1 (2 ^ 63 - 1) (fld value ''authority_epoch'')
     then Inl (ValueError ''ACP judgment authority epoch is invalid'')
     else andThen (check_match (re_prefix_hex ''byqjudg-'' 32) (fld value ''dsh_run_id'')
       ''ACP judgment generation is invalid'') (\<lambda>_.
     andThen (check_match ACP_NATIVE_ROOT_SESSION_ID (fld value ''native_root_session_id'')
       ''ACP judgment native root session is invalid'') (\<lambda>_.
     andThen (validate_judgment_result_request (result_of_acp_result value)) (\<lambda>_. Inr value))))))))"

definition validate_acp_judgment_status_request :: "pyval \<Rightarrow> pyval res" where
  "validate_acp_judgment_status_request value =
     andThen (exact_request value [''schema_version'', ''call_identity'', ''attempt_binding'']
       ACP_JUDGMENT_STATUS_SCHEMA_VERSION ''exact ACP judgment status request required'') (\<lambda>_.
     andThen (exact_call_identity value) (\<lambda>_.
     andThen (validate_attempt_binding (fld value ''attempt_binding'')) (\<lambda>_. Inr value)))"

text \<open>The binding the backend derives from the persisted plan, over its typed fields (\<open>int()\<close>
  of an integer is that integer).\<close>

definition attempt_binding :: "int \<Rightarrow> string \<Rightarrow> int \<Rightarrow> string" where
  "attempt_binding plan_version stage iteration = int_str plan_version @ '':'' @ stage @ '':'' @ int_str iteration"

section \<open>The binding of an attempt\<close>

lemma int_str_digits: "0 \<le> n \<Longrightarrow> list_all is_digit (int_str n) \<and> int_str n \<noteq> []"
  using nat_digits_no_sep int_str_inj_nat by (auto simp: int_str_def list_all_iff)

lemma stage_str_letters: "list_all is_lower_or_underscore (stage_str st) \<and> stage_str st \<noteq> []"
  by (cases st) (simp_all add: is_lower_or_underscore_def is_lower_def code_def)

lemma span_class:
  assumes "list_all P xs" "\<not> P c"
  shows "takeWhile P (xs @ c # ys) = xs" "dropWhile P (xs @ c # ys) = c # ys"
  using assms by (induction xs) auto

lemma split_class:
  assumes "list_all P xs" "list_all P xs'" "\<not> P c" "xs @ c # ys = xs' @ c # ys'"
  shows "xs = xs' \<and> ys = ys'"
  using span_class [OF assms(1,3), of ys] span_class [OF assms(2,3), of ys'] assms(4) by auto

text \<open>The binding of a plan is accepted, and it names the revision, the stage and the round.\<close>

lemma attempt_binding_accepted:
  assumes "0 \<le> v" "0 \<le> i"
  shows "validate_attempt_binding (PStr (attempt_binding v (stage_str st) i)) = Inr (PStr (attempt_binding v (stage_str st) i))"
proof -
  have "\<not> is_digit CHR '':''" "\<not> is_lower_or_underscore CHR '':''"
    by (simp_all add: is_digit_def is_lower_or_underscore_def is_lower_def code_def)
  then have "ATTEMPT_BINDING (attempt_binding v (stage_str st) i)"
    using int_str_digits [OF assms(1)] int_str_digits [OF assms(2)] stage_str_letters [of st]
    by (simp add: ATTEMPT_BINDING_def attempt_binding_def span_class startswith_def del: stage_str.simps)
  then show ?thesis by (simp add: validate_attempt_binding_def check_match_def str_matches_def)
qed

lemma attempt_binding_inj:
  assumes "0 \<le> v" "0 \<le> i" "0 \<le> v'" "0 \<le> i'"
    and eq: "attempt_binding v (stage_str st) i = attempt_binding v' (stage_str st') i'"
  shows "v = v' \<and> st = st' \<and> i = i'"
proof -
  have colon: "\<not> is_digit CHR '':''" "\<not> is_lower_or_underscore CHR '':''"
    by (simp_all add: is_digit_def is_lower_or_underscore_def is_lower_def code_def)
  have e: "int_str v @ CHR '':'' # (stage_str st @ CHR '':'' # int_str i)
      = int_str v' @ CHR '':'' # (stage_str st' @ CHR '':'' # int_str i')"
    using eq by (simp add: attempt_binding_def del: stage_str.simps)
  have version: "int_str v = int_str v' \<and> stage_str st @ CHR '':'' # int_str i = stage_str st' @ CHR '':'' # int_str i'"
    using int_str_digits assms(1,3) by (intro split_class [where P = is_digit, OF _ _ colon(1) e]) blast+
  then have "stage_str st = stage_str st' \<and> int_str i = int_str i'"
    using stage_str_letters by (intro split_class [where P = is_lower_or_underscore, OF _ _ colon(2)]) blast+
  with version show ?thesis using int_str_inj assms(1-4) by auto
qed

end
