(* ===== verification/Json_Size.thy ===== *)
theory Json_Size
  imports Py_Json
begin

text \<open>
  How long the JSON text of a value can be: a bound that is computed from the value without writing the text, for
  the size limits of the code.
\<close>

section \<open>A bound on the canonical text\<close>

fun json_bound :: "pyval \<Rightarrow> nat" where
  "json_bound (PStr s) = 6 * length s + 2"
| "json_bound (PList xs) = 2 + sum_list (map (\<lambda>x. json_bound x + 1) xs)"
| "json_bound (PDict d) = 2 + sum_list (map (\<lambda>(k, x). 6 * length k + 4 + json_bound x) d)"
| "json_bound (PInt n) = length (int_str n)"
| "json_bound (PFloat x) = length (float_repr x)"
| "json_bound _ = 5"

lemma length_utf8: "length (utf8 s) \<le> 2 * length s"
  by (induction s) (auto simp: utf8_def utf8_char_def)

lemma length_json_str: "length (json_str a s) \<le> 6 * length s + 2"
proof -
  have "length (concat (map (json_char a) s)) \<le> 6 * length s"
    by (induction s) (auto simp: json_char_def)
  then show ?thesis by (simp add: json_str_def)
qed

lemma length_join: "length (join '','' ss) \<le> sum_list (map (\<lambda>t. length t + 1) ss)"
  by (induction "'',''" ss rule: join.induct) auto

lemma sum_insort: "sum_list (map f (insort_key g x xs)) = f x + sum_list (map f xs)" for f :: "'a \<Rightarrow> nat"
  by (induction xs) auto

lemma sum_sort: "sum_list (map f (sort_key g xs)) = sum_list (map f xs)" for f :: "'a \<Rightarrow> nat"
  by (induction xs) (simp_all add: sum_insort)

lemma length_json_dumps: "length (json_dumps a srt v) \<le> json_bound v"
proof (induction a srt v rule: json_dumps.induct)
  case (6 a srt xs)
  then have "sum_list (map (\<lambda>t. length t + 1) (map (json_dumps a srt) xs)) \<le> sum_list (map (\<lambda>x. json_bound x + 1) xs)"
    by (simp add: comp_def sum_list_mono)
  with length_join [of "map (json_dumps a srt) xs"] show ?case by simp
next
  case (7 a srt d)
  let ?txt = "\<lambda>(k, t). json_str a k @ '':'' @ t"
  let ?kvs = "map (\<lambda>(k, x). (k, json_dumps a srt x)) d"
  let ?sorted = "(if srt then sort_key fst else (\<lambda>x. x)) ?kvs"
  have "sum_list (map (\<lambda>t. length t + 1) (map ?txt ?sorted)) = sum_list (map ((\<lambda>t. length t + 1) \<circ> ?txt) ?kvs)"
    by (cases srt) (simp_all only: map_map o_assoc sum_sort if_True if_False)
  also have "\<dots> = sum_list (map (\<lambda>(k, x). length (json_str a k) + 2 + length (json_dumps a srt x)) d)"
    by (rule arg_cong [of _ _ sum_list]) (auto split: prod.splits)
  also have "\<dots> \<le> sum_list (map (\<lambda>(k, x). 6 * length k + 4 + json_bound x) d)"
  proof (rule sum_list_mono)
    fix kx
    assume h: "kx \<in> set d"
    obtain k x where kx: "kx = (k, x)" by (cases kx)
    have "length (json_dumps a srt x) \<le> json_bound x" using 7 [OF h kx [symmetric]] by simp
    then show "(case kx of (k, x) \<Rightarrow> length (json_str a k) + 2 + length (json_dumps a srt x))
        \<le> (case kx of (k, x) \<Rightarrow> 6 * length k + 4 + json_bound x)"
      using length_json_str [of a k] by (simp add: kx)
  qed
  finally show ?case using length_join [of "map ?txt ?sorted"] by simp
qed (use length_json_str in simp_all)

lemma canonical_bound: "length (canonical_utf8 v) \<le> 2 * json_bound v"
  using length_utf8 length_json_dumps unfolding canonical_utf8_def by (meson le_trans mult_le_mono2)

end
