(* ===== verification/Judgment_Commit.thy ===== *)
theory Judgment_Commit
  imports Judgment_Requests Json_Size
begin

text \<open>
  \<^verbatim>\<open>packages/contracts/research_judgment.py\<close>, the reducer: the next plan state is derived from
  the persisted plan and a closed proposal. The abstract specification is the step relation
  \<open>judgment_step\<close>, a part of the plan machine's \<open>plan_step\<close>.
\<close>

section \<open>The reducer\<close>

definition judgment_decision :: "string \<Rightarrow> string \<Rightarrow> pyval res" where
  "judgment_decision outcome reason =
    (if outcome \<notin> set OUTCOMES then Inl (ValueError ''research judgment outcome is unknown'')
     else Inr (PDict [(''outcome'', PStr outcome), (''reason'', PStr reason)]))"

definition advance_decision :: "string \<Rightarrow> string \<Rightarrow> string \<Rightarrow> pyval \<Rightarrow> pyval res" where
  "advance_decision stage status reason iteration =
    (case stage_of stage of None \<Rightarrow> Inl (KeyError stage)
     | Some st \<Rightarrow> Inr (PDict [(''outcome'', PStr ''advance''), (''reason'', PStr reason),
         (''next_stage'', PStr stage), (''status'', PStr status),
         (''expected_postcondition'', PStr (STAGE_POSTCONDITION st)), (''iteration'', iteration)]))"

text \<open>\<open>n + 1\<close>; the rounds of a plan may be given as \<open>True\<close> or as a whole float.\<close>

fun plus_one :: "pyval \<Rightarrow> pyval res" where
  "plus_one (PBool b) = Inr (PInt (if b then 2 else 1))"
| "plus_one (PInt n) = Inr (PInt (n + 1))"
| "plus_one (PFloat (FFin q)) = Inr (PFloat (FFin (q + 1)))"
| "plus_one (PFloat f) = Inr (PFloat f)"
| "plus_one _ = Inl (TypeError ''unsupported operand'')"

text \<open>\<open>isinstance(x, int) and 1 <= x <= top\<close>\<close>

definition selected_within :: "pyval \<Rightarrow> pyval \<Rightarrow> bool res" where
  "selected_within selected upper =
    (if \<not> (type_is_int selected \<or> is_bool selected) then Inr False
     else andThen (num_cmp (\<le>) (PInt 1) selected) (\<lambda>low.
     if \<not> low then Inr False else num_cmp (\<le>) selected upper))"

definition comparison_decision :: "pyval \<Rightarrow> pyval \<Rightarrow> pyval res" where
  "comparison_decision iteration proposal =
    (if py_eq (fld proposal ''proposal_kind'') (PStr ''propose_revision'') then
       andThen (num_cmp (\<ge>) iteration (PInt MAX_ROUNDS)) (\<lambda>beyond.
       if beyond then judgment_decision ''needs_attention'' ''revision_beyond_final_iteration''
       else andThen (plus_one iteration) (\<lambda>round.
       advance_decision ''waiting_for_task_create_approval'' ''waiting'' ''revision_round_requested'' round))
     else if py_eq (fld proposal ''proposal_kind'') (PStr ''select_iteration'') then
       andThen (selected_within (fld proposal ''selected_iteration'') iteration) (\<lambda>known.
       if \<not> known then judgment_decision ''needs_attention'' ''selected_iteration_out_of_range''
       else if \<not> py_eq iteration (PInt MAX_ROUNDS)
       then judgment_decision ''needs_attention'' ''selection_requires_final_iteration''
       else advance_decision ''final_selection'' ''active'' ''best_iteration_selected'' PNone)
     else judgment_decision ''needs_attention'' ''proposal_kind_not_applicable'')"

definition stage_decision :: "pyval \<Rightarrow> pyval \<Rightarrow> pyval \<Rightarrow> pyval res" where
  "stage_decision stage iteration proposal =
    (if py_eq stage (PStr ''strategy_draft'')
     then advance_decision ''waiting_for_strategy_approval'' ''waiting'' ''strategy_draft_committed'' PNone
     else if py_eq stage (PStr ''backtest_analysis'')
     then advance_decision ''iteration_comparison'' ''active'' ''backtest_analysis_committed'' PNone
     else if py_eq stage (PStr ''iteration_comparison'') then comparison_decision iteration proposal
     else if py_eq stage (PStr ''final_selection'') then
       andThen (selected_within (fld proposal ''selected_iteration'') (PInt MAX_ROUNDS)) (\<lambda>known.
       if \<not> known then judgment_decision ''needs_attention'' ''selected_iteration_out_of_range''
       else advance_decision ''waiting_for_paper_account_approval'' ''waiting'' ''final_selection_committed'' PNone)
     else judgment_decision ''needs_attention'' ''proposal_stage_not_applicable'')"

definition derive_proposal_commit :: "pyval \<Rightarrow> pyval \<Rightarrow> pyval res" where
  "derive_proposal_commit plan proposal =
     andThen (validate_plan plan) (\<lambda>p.
     andThen (validate_proposal proposal) (\<lambda>r.
     if \<not> py_eq (fld r ''task_id'') (fld p ''task_id'')
     then judgment_decision ''needs_attention'' ''proposal_task_mismatch''
     else if \<not> py_eq (fld r ''plan_version'') (fld p ''plan_version'')
     then judgment_decision ''needs_attention'' ''stale_plan_version''
     else if \<not> py_eq (fld r ''task_version'') (fld p ''task_version'')
     then judgment_decision ''needs_attention'' ''stale_task_version''
     else if \<not> py_eq (fld r ''stage'') (fld p ''stage'')
     then judgment_decision ''needs_attention'' ''proposal_stage_mismatch''
     else if \<not> py_eq (fld r ''iteration'') (fld p ''iteration'')
     then judgment_decision ''needs_attention'' ''proposal_iteration_mismatch''
     else if \<not> stage_requires_model (fld p ''stage'')
     then judgment_decision ''needs_attention'' ''proposal_for_deterministic_stage''
     else if truthy (fld r ''escalate'') \<or> py_eq (fld r ''proposal_kind'') (PStr PROPOSAL_ESCALATE)
     then judgment_decision ''needs_attention'' ESCALATION_REQUESTED
     else if \<not> truthy (fld r ''evidence_sufficient'')
     then judgment_decision ''needs_attention'' INSUFFICIENT_EVIDENCE
     else stage_decision (fld p ''stage'') (fld p ''iteration'') r))"

definition assert_commit_is_legal :: "pyval \<Rightarrow> pyval \<Rightarrow> unit res" where
  "assert_commit_is_legal plan decision =
    (if \<not> is_dict decision \<or> \<not> py_eq (fld decision ''outcome'') (PStr ''advance'') then Inr ()
     else andThen (validate_plan plan) (\<lambda>p.
     let target = fld decision ''next_stage'' in
     if \<not> is_str target \<or> \<not> can_transition (the_str (fld p ''stage'')) (the_str target)
     then Inl (ValueError ''research judgment decision targets an illegal plan transition'')
     else Inr ()))"

section \<open>The specification\<close>

text \<open>The proposal names the plan's own task, revision, stage and round, and asks to go on.\<close>

definition proposal_bound :: "plan_state \<Rightarrow> pyval \<Rightarrow> bool" where
  "proposal_bound s r \<longleftrightarrow> fld r ''task_id'' = PStr (ps_task_id s)
     \<and> fld r ''plan_version'' = PInt (ps_plan_version s) \<and> fld r ''task_version'' = PInt (ps_task_version s)
     \<and> fld r ''stage'' = PStr (stage_str (ps_stage s)) \<and> fld r ''iteration'' = PInt (ps_iteration s)
     \<and> fld r ''evidence_sufficient'' = PBool True \<and> fld r ''escalate'' = PBool False
     \<and> fld r ''proposal_kind'' \<noteq> PStr PROPOSAL_ESCALATE"

definition moved :: "plan_state \<Rightarrow> stage \<Rightarrow> int \<Rightarrow> status \<Rightarrow> plan_state" where
  "moved s st j stt = s\<lparr>ps_plan_version := ps_plan_version s + 1, ps_stage := st,
     ps_iteration := j, ps_status := stt\<rparr>"

inductive judgment_step :: "plan_state \<Rightarrow> pyval \<Rightarrow> plan_state \<Rightarrow> bool" where
  draft: "proposal_bound s r \<Longrightarrow> ps_stage s = Strategy_draft
    \<Longrightarrow> judgment_step s r (moved s Waiting_for_strategy_approval (ps_iteration s) Waiting)"
| analysis: "proposal_bound s r \<Longrightarrow> ps_stage s = Backtest_analysis
    \<Longrightarrow> judgment_step s r (moved s Iteration_comparison (ps_iteration s) Active)"
| revise: "proposal_bound s r \<Longrightarrow> ps_stage s = Iteration_comparison
    \<Longrightarrow> fld r ''proposal_kind'' = PStr ''propose_revision'' \<Longrightarrow> ps_iteration s < MAX_ROUNDS
    \<Longrightarrow> judgment_step s r (moved s Waiting_for_task_create_approval (ps_iteration s + 1) Waiting)"
| best: "proposal_bound s r \<Longrightarrow> ps_stage s = Iteration_comparison
    \<Longrightarrow> fld r ''proposal_kind'' = PStr ''select_iteration'' \<Longrightarrow> ps_iteration s = MAX_ROUNDS
    \<Longrightarrow> judgment_step s r (moved s Final_selection MAX_ROUNDS Active)"
| final: "proposal_bound s r \<Longrightarrow> ps_stage s = Final_selection
    \<Longrightarrow> judgment_step s r (moved s Waiting_for_paper_account_approval (ps_iteration s) Waiting)"

inductive_simps judgment_step_iff: "judgment_step s r t"

text \<open>The plan state a decision asks for.\<close>

definition commit_state :: "plan_state \<Rightarrow> pyval \<Rightarrow> plan_state option" where
  "commit_state s d = (if fld d ''outcome'' = PStr ''advance''
     then Some (moved s (the (stage_of (the_str (fld d ''next_stage''))))
       (if fld d ''iteration'' = PNone then ps_iteration s else \<lfloor>the (num_of (fld d ''iteration''))\<rfloor>)
       (status_of (the_str (fld d ''status''))))
     else None)"

lemma moved_step:
  "st \<in> set (TRANSITIONS (ps_stage s)) \<Longrightarrow> stt \<in> set (ss_statuses (STAGE_SPEC st))
    \<Longrightarrow> round_ok (ps_stage s) (ps_iteration s) st j \<Longrightarrow> plan_step s (moved s st j stt)"
  unfolding moved_def by (rule advance_plan)

lemma judgment_step_plan_step:
  assumes "state_ok s" "judgment_step s r t"
  shows "plan_step s t"
  using assms(2,1)
  by cases (auto intro!: moved_step simp: round_ok_def state_ok_def MAX_ROUNDS_def spec_of_def)

section \<open>Accepted proposals\<close>

text \<open>The keys of a value at any depth.\<close>

inductive key_in :: "string \<Rightarrow> pyval \<Rightarrow> bool" where
  here: "k \<in> fst ` set d \<Longrightarrow> key_in k (PDict d)"
| child: "x \<in> snd ` set d \<Longrightarrow> key_in k x \<Longrightarrow> key_in k (PDict d)"
| element: "x \<in> set xs \<Longrightarrow> key_in k x \<Longrightarrow> key_in k (PList xs)"

inductive_simps key_in_simps [simp]:
  "key_in k (PDict d)" "key_in k (PList xs)" "key_in k PNone" "key_in k (PBool b)" "key_in k (PInt n)"
  "key_in k (PFloat f)" "key_in k (PStr s)"

definition raw_free :: "pyval \<Rightarrow> bool" where
  "raw_free v \<longleftrightarrow> (\<forall>k. key_in k v \<longrightarrow> lower k \<notin> set FORBIDDEN_RAW_KEYS)"

lemma raw_free_simps [simp]:
  "raw_free (PDict [])"
  "raw_free (PDict ((k, x) # d)) \<longleftrightarrow> lower k \<notin> set FORBIDDEN_RAW_KEYS \<and> raw_free x \<and> raw_free (PDict d)"
  "raw_free (PList [])"
  "raw_free (PList (x # xs)) \<longleftrightarrow> raw_free x \<and> raw_free (PList xs)"
  "raw_free PNone" "raw_free (PBool b)" "raw_free (PInt n)" "raw_free (PFloat f)" "raw_free (PStr s)"
  by (auto simp: raw_free_def)

lemma reject_raw_returns:
  "reject_raw_keys path v = Inr () \<longleftrightarrow> raw_free v"
  "reject_raw_items path d = Inr () \<longleftrightarrow> raw_free (PDict d)"
  "reject_raw_list path i xs = Inr () \<longleftrightarrow> raw_free (PList xs)"
proof (induction path v and path d and path i xs rule: reject_raw_keys_reject_raw_items_reject_raw_list.induct)
  case (5 path key child d)
  then show ?case by (cases "lower key \<in> set FORBIDDEN_RAW_KEYS") (simp_all add: res_simps)
qed (simp_all add: res_simps)

section \<open>The shape of an accepted proposal\<close>

definition text_within :: "nat \<Rightarrow> pyval \<Rightarrow> bool" where
  "text_within n v \<longleftrightarrow> (\<exists>s. v = PStr s \<and> length s \<le> n)"

definition proposal_ok :: "pyval \<Rightarrow> bool" where
  "proposal_ok r \<longleftrightarrow> is_dict r
     \<and> set PROPOSAL_BASE_FIELDS \<subseteq> set (keys_of r)
     \<and> set (keys_of r) \<subseteq> set PROPOSAL_BASE_FIELDS \<union> set PROPOSAL_OPTIONAL_FIELDS
     \<and> fld r ''schema_version'' = PStr PROPOSAL_SCHEMA_VERSION
     \<and> raw_free r
     \<and> (\<exists>st \<in> set MODEL_STAGES. \<exists>kind \<in> set (for_stage STAGE_PROPOSAL_KINDS st).
          fld r ''stage'' = PStr st \<and> fld r ''proposal_kind'' = PStr kind
          \<and> (kind = ''select_iteration'' \<longrightarrow> has_key r ''selected_iteration'')
          \<and> (kind = ''propose_revision'' \<longrightarrow> has_key r ''revision_direction'')
          \<and> (kind = PROPOSAL_ESCALATE \<longrightarrow> fld r ''escalate'' = PBool True))
     \<and> (\<exists>t. fld r ''task_id'' = PStr t \<and> re_identity t)
     \<and> (\<forall>f \<in> {''plan_version'', ''task_version'', ''iteration''}. \<exists>n. fld r f = PInt n \<and> 1 \<le> n)
     \<and> (\<exists>b. fld r ''evidence_sufficient'' = PBool b) \<and> (\<exists>b. fld r ''escalate'' = PBool b)
     \<and> text_within TEXT_MAX (fld r ''summary'')
     \<and> (has_key r ''rationale'' \<longrightarrow> text_within RATIONALE_MAX (fld r ''rationale''))
     \<and> (has_key r ''selected_iteration'' \<longrightarrow> (\<exists>n. fld r ''selected_iteration'' = PInt n \<and> 1 \<le> n \<and> n \<le> 3))
     \<and> (has_key r ''revision_direction'' \<longrightarrow> (\<exists>x \<in> set REVISION_DIRECTIONS. fld r ''revision_direction'' = PStr x))
     \<and> length (canonical_utf8 r) \<le> PROPOSAL_MAX_BYTES"

lemma check_text_returns [res_simps]: "check_text v field n = Inr u \<longleftrightarrow> text_within n v"
  by (cases v) (auto simp: check_text_def text_within_def)

lemma check_bounded_returns [res_simps]: "check_bounded v n field = Inr u \<longleftrightarrow> length (canonical_utf8 v) \<le> n"
  by (auto simp: check_bounded_def)

lemma check_positive_returns [res_simps]:
  "check_positive v what names = Inr u \<longleftrightarrow> (\<forall>f \<in> set names. \<exists>n. fld v f = PInt n \<and> 1 \<le> n)"
  by (simp add: check_positive_def res_simps int_at_least_conv)

lemma stage_requires_model_conv: "stage_requires_model v \<longleftrightarrow> (\<exists>st \<in> set MODEL_STAGES. v = PStr st)"
  by (cases v) (auto simp: stage_requires_model_def)

lemma forbidden_not_allowed:
  "set (keys_of r) \<subseteq> set (PROPOSAL_BASE_FIELDS @ PROPOSAL_OPTIONAL_FIELDS)
     \<Longrightarrow> filter (\<lambda>k. k \<in> set FORBIDDEN_PROPOSAL_FIELDS) (keys_of r) = []"
proof -
  have "set (PROPOSAL_BASE_FIELDS @ PROPOSAL_OPTIONAL_FIELDS) \<inter> set FORBIDDEN_PROPOSAL_FIELDS = {}"
    by (simp add: PROPOSAL_BASE_FIELDS_def PROPOSAL_OPTIONAL_FIELDS_def FORBIDDEN_PROPOSAL_FIELDS_def)
  then show "set (keys_of r) \<subseteq> set (PROPOSAL_BASE_FIELDS @ PROPOSAL_OPTIONAL_FIELDS)
     \<Longrightarrow> filter (\<lambda>k. k \<in> set FORBIDDEN_PROPOSAL_FIELDS) (keys_of r) = []"
    by (auto simp: filter_empty_conv)
qed

lemma sort_remdups_empty: "sort (remdups (xs :: string list)) = [] \<longleftrightarrow> xs = []"
  by (metis remdups_eq_nil_iff sort_key_simps(1) sort_key_const set_empty set_sort)

lemma proposal_shape_returns:
  "proposal_shape r = Inr () \<longleftrightarrow> is_dict r \<and> set PROPOSAL_BASE_FIELDS \<subseteq> set (keys_of r)
     \<and> set (keys_of r) \<subseteq> set PROPOSAL_BASE_FIELDS \<union> set PROPOSAL_OPTIONAL_FIELDS
     \<and> fld r ''schema_version'' = PStr PROPOSAL_SCHEMA_VERSION \<and> raw_free r"
  unfolding proposal_shape_def Let_def if_raise_returns sort_remdups_empty reject_raw_returns(1) not_not
    keys_include_iff keys_within_iff py_eq_PStr de_Morgan_disj
  using forbidden_not_allowed [of r] by auto

lemma optional_returns [res_simps]: "((if c then m else Inr ()) = Inr u) \<longleftrightarrow> (c \<longrightarrow> m = Inr ())"
  by auto

lemma ex_unit: "(\<exists>u :: unit. P u) \<longleftrightarrow> P ()"
  by (metis old.unit.exhaust)

lemma known_returns:
  "(\<exists>b. in_strs v S = Inr b \<and> (\<not> b \<longrightarrow> Inl e = Inr ())) \<longleftrightarrow> (\<exists>x \<in> set S. v = PStr x)"
  by (cases v) (auto simp: in_strs_def)

lemma proposal_body_returns:
  "fld r ''proposal_kind'' = PStr kind \<Longrightarrow> proposal_body r = Inr () \<longleftrightarrow>
     text_within TEXT_MAX (fld r ''summary'')
     \<and> (has_key r ''rationale'' \<longrightarrow> text_within RATIONALE_MAX (fld r ''rationale''))
     \<and> (has_key r ''selected_iteration'' \<longrightarrow> (\<exists>n. fld r ''selected_iteration'' = PInt n \<and> 1 \<le> n \<and> n \<le> 3))
     \<and> (has_key r ''revision_direction'' \<longrightarrow> (\<exists>x \<in> set REVISION_DIRECTIONS. fld r ''revision_direction'' = PStr x))
     \<and> (kind = ''select_iteration'' \<longrightarrow> has_key r ''selected_iteration'')
     \<and> (kind = ''propose_revision'' \<longrightarrow> has_key r ''revision_direction'')
     \<and> (kind = PROPOSAL_ESCALATE \<longrightarrow> fld r ''escalate'' = PBool True)
     \<and> length (canonical_utf8 r) \<le> PROPOSAL_MAX_BYTES"
  unfolding proposal_body_def Let_def andThen_returns if_raise_returns check_text_returns optional_returns
    check_bounded_returns ex_unit known_returns int_between_conv MAX_ROUNDS_def
  by (simp only: the_str.simps de_Morgan_conj not_not imp_conv_disj)

lemma validate_proposal_returns:
  "validate_proposal v = Inr r \<longleftrightarrow> proposal_shape v = Inr () \<and> stage_requires_model (fld v ''stage'')
     \<and> str_matches re_identity (fld v ''task_id'')
     \<and> (\<forall>f \<in> {''plan_version'', ''task_version'', ''iteration''}. \<exists>n. fld v f = PInt n \<and> 1 \<le> n)
     \<and> in_strs (fld v ''proposal_kind'') (for_stage STAGE_PROPOSAL_KINDS (the_str (fld v ''stage''))) = Inr True
     \<and> is_bool (fld v ''evidence_sufficient'') \<and> is_bool (fld v ''escalate'')
     \<and> proposal_body v = Inr () \<and> v = r"
  unfolding validate_proposal_def Let_def andThen_returns if_raise_returns check_positive_returns ex_unit
    not_not ex_Inr_bool de_Morgan_disj by simp

lemma validate_proposal_iff: "validate_proposal v = Inr r \<longleftrightarrow> r = v \<and> proposal_ok v"
proof
  assume h: "validate_proposal v = Inr r"
  then obtain st kind where st: "st \<in> set MODEL_STAGES" "fld v ''stage'' = PStr st"
      "kind \<in> set (for_stage STAGE_PROPOSAL_KINDS st)" "fld v ''proposal_kind'' = PStr kind"
    unfolding validate_proposal_returns stage_requires_model_conv in_strs_True by auto
  note rest = h [unfolded validate_proposal_returns proposal_shape_returns proposal_body_returns [OF st(4)]
      str_matches_conv is_bool_conv]
  have "proposal_ok v"
    unfolding proposal_ok_def using st rest
    by - (elim conjE, intro conjI bexI [of _ st] bexI [of _ kind]; assumption)
  then show "r = v \<and> proposal_ok v" using rest by simp
next
  assume "r = v \<and> proposal_ok v"
  then have r: "r = v" and ok: "proposal_ok v" by simp_all
  then obtain st kind where st: "st \<in> set MODEL_STAGES" "fld v ''stage'' = PStr st"
      "kind \<in> set (for_stage STAGE_PROPOSAL_KINDS st)" "fld v ''proposal_kind'' = PStr kind"
      "kind = ''select_iteration'' \<longrightarrow> has_key v ''selected_iteration''"
      "kind = ''propose_revision'' \<longrightarrow> has_key v ''revision_direction''"
      "kind = PROPOSAL_ESCALATE \<longrightarrow> fld v ''escalate'' = PBool True"
    unfolding proposal_ok_def by blast
  have known: "stage_requires_model (fld v ''stage'')"
    "in_strs (fld v ''proposal_kind'') (for_stage STAGE_PROPOSAL_KINDS (the_str (fld v ''stage''))) = Inr True"
    using st(1-4) by (auto simp: stage_requires_model_conv)
  show "validate_proposal v = Inr r"
    unfolding validate_proposal_returns proposal_shape_returns proposal_body_returns [OF st(4)]
      str_matches_conv is_bool_conv
    using known st(5-7) r [symmetric] ok [unfolded proposal_ok_def]
    by - (elim conjE, intro conjI; assumption)
qed

interpretation proposals: checker validate_proposal proposal_ok
  by unfold_locales (rule validate_proposal_iff)

section \<open>What the reducer derives\<close>

lemma plus_one_at: "num_of v = Some (of_int i) \<Longrightarrow> \<exists>w. plus_one v = Inr w \<and> num_of w = Some (of_int (i + 1))"
  by (cases v rule: plus_one.cases) auto

lemma num_of_bound: "num_of v = Some (of_int i) \<Longrightarrow> num_cmp (\<ge>) v (PInt n) = Inr (n \<le> i)"
  "num_of v = Some (of_int i) \<Longrightarrow> num_cmp (\<le>) (PInt n) v = Inr (n \<le> i)"
  by (simp_all add: num_cmp_def)

lemma num_of_not_None: "num_of v = Some q \<Longrightarrow> v \<noteq> PNone"
  by auto

lemma selected_within_at:
  "num_of top' = Some (of_int i) \<Longrightarrow> 1 \<le> n \<Longrightarrow> selected_within (PInt n) top' = Inr (n \<le> i)"
  by (simp add: selected_within_def num_cmp_def)

lemma advance_decision_at:
  "advance_decision (stage_str st) status reason iteration = Inr (PDict [(''outcome'', PStr ''advance''),
     (''reason'', PStr reason), (''next_stage'', PStr (stage_str st)), (''status'', PStr status),
     (''expected_postcondition'', PStr (STAGE_POSTCONDITION st)), (''iteration'', iteration)])"
  by (simp add: advance_decision_def del: stage_str.simps)

text \<open>The decision asks for the state; nothing else does.\<close>

definition decides :: "plan_state \<Rightarrow> pyval res \<Rightarrow> plan_state option \<Rightarrow> bool" where
  "decides s m t \<longleftrightarrow> (\<exists>d. m = Inr d \<and> commit_state s d = t
     \<and> (t = None \<longrightarrow> fld d ''outcome'' = PStr ''needs_attention'')
     \<and> (\<forall>t'. t = Some t' \<longrightarrow> fld d ''next_stage'' = PStr (stage_str (ps_stage t'))
          \<and> fld d ''status'' = PStr (status_str (ps_status t'))
          \<and> fld d ''expected_postcondition'' = PStr (STAGE_POSTCONDITION (ps_stage t'))))"

lemma decides_attention: "decides s (judgment_decision ''needs_attention'' reason) None"
  by (simp add: decides_def judgment_decision_def OUTCOMES_def commit_state_def)

lemma decides_advance:
  "decides s (advance_decision (stage_str st) (status_str stt) reason PNone)
     (Some (moved s st (ps_iteration s) stt))"
  "num_of w = Some (of_int j) \<Longrightarrow> decides s (advance_decision (stage_str st) (status_str stt) reason w)
     (Some (moved s st j stt))"
  unfolding decides_def advance_decision_at
  by (auto simp: commit_state_def moved_def simp del: stage_str.simps status_str.simps)

lemma proposal_kind_of:
  assumes "proposal_ok r" "fld r ''stage'' = PStr st"
  shows "\<exists>kind \<in> set (for_stage STAGE_PROPOSAL_KINDS st). fld r ''proposal_kind'' = PStr kind
     \<and> (kind = ''select_iteration'' \<longrightarrow> (\<exists>n. fld r ''selected_iteration'' = PInt n \<and> 1 \<le> n \<and> n \<le> 3))"
  using assms unfolding proposal_ok_def by (metis pyval.inject(4))

lemma kinds_of_stage:
  "set (for_stage STAGE_PROPOSAL_KINDS (stage_str Iteration_comparison))
     = {''select_iteration'', ''propose_revision'', PROPOSAL_ESCALATE}"
  "set (for_stage STAGE_PROPOSAL_KINDS (stage_str Final_selection)) = {''select_iteration'', PROPOSAL_ESCALATE}"
  by (simp_all add: for_stage_def STAGE_PROPOSAL_KINDS_def)

text \<open>The computation decides as the specification steps.\<close>

definition steps_as :: "plan_state \<Rightarrow> pyval \<Rightarrow> pyval res \<Rightarrow> bool" where
  "steps_as s r m \<longleftrightarrow> (\<exists>t. decides s m t \<and> (\<forall>t'. t = Some t' \<longleftrightarrow> judgment_step s r t'))"

lemma steps_as_Some: "decides s m (Some u) \<Longrightarrow> (\<And>t'. judgment_step s r t' \<longleftrightarrow> t' = u) \<Longrightarrow> steps_as s r m"
  unfolding steps_as_def by auto

lemma steps_as_None: "(\<And>t'. \<not> judgment_step s r t') \<Longrightarrow> steps_as s r (judgment_decision ''needs_attention'' reason)"
  unfolding steps_as_def using decides_attention by auto

lemma comparison_decides:
  assumes s: "ps_stage s = Iteration_comparison" "state_ok s" and i: "num_of v = Some (of_int (ps_iteration s))"
    and r: "proposal_ok r" "proposal_bound s r"
  shows "steps_as s r (comparison_decision v r)"
proof -
  have stg: "fld r ''stage'' = PStr (stage_str Iteration_comparison)" "fld r ''proposal_kind'' \<noteq> PStr PROPOSAL_ESCALATE"
    using r(2) s(1) by (simp_all add: proposal_bound_def)
  obtain kind where known: "kind \<in> {''select_iteration'', ''propose_revision'', PROPOSAL_ESCALATE}"
      and kind: "fld r ''proposal_kind'' = PStr kind"
      and sel: "kind = ''select_iteration'' \<longrightarrow> (\<exists>n. fld r ''selected_iteration'' = PInt n \<and> 1 \<le> n \<and> n \<le> 3)"
    using proposal_kind_of [OF r(1) stg(1)] unfolding kinds_of_stage by blast
  have step: "judgment_step s r t' \<longleftrightarrow>
      (kind = ''propose_revision'' \<and> ps_iteration s < 3 \<and> t' = moved s Waiting_for_task_create_approval (ps_iteration s + 1) Waiting)
    \<or> (kind = ''select_iteration'' \<and> ps_iteration s = 3 \<and> t' = moved s Final_selection 3 Active)" for t'
    unfolding judgment_step_iff s(1) kind MAX_ROUNDS_def using r(2) by (simp add: conj_ac)
  show ?thesis
  proof (cases "kind = ''propose_revision''")
    case True
    obtain w where w: "plus_one v = Inr w" "num_of w = Some (of_int (ps_iteration s + 1))"
      using plus_one_at [OF i] by blast
    have "comparison_decision v r = (if 3 \<le> ps_iteration s
        then judgment_decision ''needs_attention'' ''revision_beyond_final_iteration''
        else advance_decision (stage_str Waiting_for_task_create_approval) (status_str Waiting) ''revision_round_requested'' w)"
      using True kind num_of_bound(1) [OF i] w(1) by (simp add: comparison_decision_def MAX_ROUNDS_def)
    then show ?thesis
      using step True steps_as_None [of s r] steps_as_Some [OF decides_advance(2) [OF w(2)]]
      by (cases "3 \<le> ps_iteration s") (simp_all del: stage_str.simps status_str.simps)
  next
    case False
    then have k: "kind = ''select_iteration''" using known kind stg(2) by auto
    then obtain n where n: "fld r ''selected_iteration'' = PInt n" "1 \<le> n" "n \<le> 3" using sel by blast
    have "comparison_decision v r = (if \<not> n \<le> ps_iteration s
        then judgment_decision ''needs_attention'' ''selected_iteration_out_of_range''
        else if ps_iteration s \<noteq> 3 then judgment_decision ''needs_attention'' ''selection_requires_final_iteration''
        else advance_decision (stage_str Final_selection) (status_str Active) ''best_iteration_selected'' PNone)"
      using k kind n selected_within_at [OF i n(2)] i
      by (simp add: comparison_decision_def MAX_ROUNDS_def)
    then show ?thesis
      using step k n(3) steps_as_None [of s r] steps_as_Some [OF decides_advance(1)]
      by (cases "ps_iteration s = 3"; cases "n \<le> ps_iteration s")
        (simp_all del: stage_str.simps status_str.simps)
  qed
qed

lemma stage_decides:
  assumes s: "state_ok s" and i: "num_of v = Some (of_int (ps_iteration s))"
    and r: "proposal_ok r" "proposal_bound s r"
  shows "steps_as s r (stage_decision (PStr (stage_str (ps_stage s))) v r)"
proof -
  obtain st where "st \<in> set MODEL_STAGES" "fld r ''stage'' = PStr st"
    using r(1) by (auto simp: proposal_ok_def)
  then have "stage_str (ps_stage s) \<in> set MODEL_STAGES" using r(2) by (simp add: proposal_bound_def)
  then consider "ps_stage s = Strategy_draft" | "ps_stage s = Backtest_analysis"
    | "ps_stage s = Iteration_comparison" | "ps_stage s = Final_selection"
    by (cases "ps_stage s") (simp_all add: MODEL_STAGES_def)
  then show ?thesis
  proof cases
    case 1
    then have "stage_decision (PStr (stage_str (ps_stage s))) v r
        = advance_decision (stage_str Waiting_for_strategy_approval) (status_str Waiting) ''strategy_draft_committed'' PNone"
      by (simp add: stage_decision_def)
    then show ?thesis
      using steps_as_Some [OF decides_advance(1)] 1 r(2)
      by (simp add: judgment_step_iff del: stage_str.simps status_str.simps)
  next
    case 2
    then have "stage_decision (PStr (stage_str (ps_stage s))) v r
        = advance_decision (stage_str Iteration_comparison) (status_str Active) ''backtest_analysis_committed'' PNone"
      by (simp add: stage_decision_def)
    then show ?thesis
      using steps_as_Some [OF decides_advance(1)] 2 r(2)
      by (simp add: judgment_step_iff del: stage_str.simps status_str.simps)
  next
    case 3
    then show ?thesis using comparison_decides [OF 3 s i r] by (simp add: stage_decision_def)
  next
    case 4
    then have stg: "fld r ''stage'' = PStr (stage_str Final_selection)" "fld r ''proposal_kind'' \<noteq> PStr PROPOSAL_ESCALATE"
      using r(2) by (simp_all add: proposal_bound_def)
    then obtain n where n: "fld r ''selected_iteration'' = PInt n" "1 \<le> n" "n \<le> 3"
      using proposal_kind_of [OF r(1) stg(1)] unfolding kinds_of_stage by auto
    have "stage_decision (PStr (stage_str (ps_stage s))) v r
        = advance_decision (stage_str Waiting_for_paper_account_approval) (status_str Waiting) ''final_selection_committed'' PNone"
      using 4 n by (simp add: stage_decision_def selected_within_def num_cmp_def MAX_ROUNDS_def)
    then show ?thesis
      using steps_as_Some [OF decides_advance(1)] 4 r(2)
      by (simp add: judgment_step_iff del: stage_str.simps status_str.simps)
  qed
qed


lemma plan_task_id: "plan_ok p st stt \<Longrightarrow> fld p ''task_id'' = PStr (ps_task_id (abs_plan p))"
  unfolding plan_ok_def by (auto simp: abs_plan_def)

lemma derive_decides:
  assumes p: "valid_plan p" and r: "proposal_ok r"
  shows "steps_as (abs_plan p) r (derive_proposal_commit p r)"
proof -
  obtain st stt where ok: "plan_ok p st stt" using p by (auto simp: valid_plan_def)
  let ?s = "abs_plan p"
  note f = abs_plan_at [OF ok]
  have stage: "fld p ''stage'' = PStr (stage_str (ps_stage ?s))" using plan_ok_fields(3) [OF ok] f(1) by simp
  obtain n m i where ints: "fld r ''plan_version'' = PInt n" "fld r ''task_version'' = PInt m" "fld r ''iteration'' = PInt i"
    using r unfolding proposal_ok_def by auto
  obtain b e where bools: "fld r ''evidence_sufficient'' = PBool b" "fld r ''escalate'' = PBool e"
    using r unfolding proposal_ok_def by auto
  obtain w where judged: "fld r ''stage'' = PStr w" "stage_requires_model (PStr w)"
    using r unfolding proposal_ok_def stage_requires_model_conv by auto
  have round: "py_eq (PInt i) (fld p ''iteration'') \<longleftrightarrow> i = ps_iteration ?s"
    unfolding py_eq_num [OF f(5)] by simp
  have bound: "proposal_bound ?s r \<longleftrightarrow> fld r ''task_id'' = PStr (ps_task_id ?s) \<and> n = ps_plan_version ?s
      \<and> m = ps_task_version ?s \<and> w = stage_str (ps_stage ?s) \<and> i = ps_iteration ?s \<and> b \<and> \<not> e
      \<and> fld r ''proposal_kind'' \<noteq> PStr PROPOSAL_ESCALATE"
    by (simp add: proposal_bound_def ints bools judged)
  have none: "steps_as ?s r (judgment_decision ''needs_attention'' reason)" if "\<not> proposal_bound ?s r" for reason
    using that by (intro steps_as_None) (auto simp: judgment_step_iff)
  have some: "steps_as ?s r (stage_decision (fld p ''stage'') (fld p ''iteration'') r)" if "proposal_bound ?s r"
    unfolding stage by (rule stage_decides [OF f(6,5) r that])
  have cond: "steps_as ?s r (if c then judgment_decision ''needs_attention'' reason else k)"
    if "c \<Longrightarrow> \<not> proposal_bound ?s r" "\<not> c \<Longrightarrow> steps_as ?s r k" for c reason k
    using that none by simp
  show ?thesis
    unfolding derive_proposal_commit_def plan_checker.accepted [OF p] proposals.accepted [OF r] andThen_Inr
      plan_task_id [OF ok] f(3,4) py_eq_PStr py_eq_PInt ints bools judged(1) round truthy.simps num_of.simps
    using judged(2) by (intro cond some) (auto simp: bound stage simp del: stage_str.simps)
qed


lemma commit_is_legal:
  assumes p: "valid_plan p" and r: "proposal_ok r" and d: "derive_proposal_commit p r = Inr d"
  shows "assert_commit_is_legal p d = Inr ()"
proof (cases "commit_state (abs_plan p) d")
  case None
  then show ?thesis by (simp add: commit_state_def assert_commit_is_legal_def split: if_splits)
next
  case (Some t)
  have "steps_as (abs_plan p) r (Inr d)" using derive_decides [OF p r] d by simp
  then have step: "judgment_step (abs_plan p) r t" and target: "fld d ''next_stage'' = PStr (stage_str (ps_stage t))"
    using Some by (auto simp: steps_as_def decides_def)
  obtain st stt where ok: "plan_ok p st stt" using p by (auto simp: valid_plan_def)
  have "ps_stage t \<in> set (TRANSITIONS st)"
    using judgment_step_plan_step [OF abs_plan_at(6) [OF ok] step] abs_plan_at(1) [OF ok] by (auto simp: plan_step_iff)
  then have "can_transition (the_str (fld p ''stage'')) (stage_str (ps_stage t))"
    unfolding plan_ok_fields(3) [OF ok] by (auto simp: can_transition_def simp del: stage_str.simps)
  then show ?thesis
    by (simp add: assert_commit_is_legal_def Let_def plan_checker.accepted [OF p] target del: stage_str.simps)
qed

section \<open>Concrete proposals\<close>

definition sample_proposal :: pyval where
  "sample_proposal = PDict [(''schema_version'', PStr PROPOSAL_SCHEMA_VERSION), (''task_id'', PStr ''task-1''),
     (''plan_version'', PInt 1), (''task_version'', PInt 1), (''stage'', PStr ''strategy_draft''),
     (''iteration'', PInt 3), (''proposal_kind'', PStr ''strategy_draft''),
     (''evidence_sufficient'', PBool True), (''escalate'', PBool False), (''summary'', PStr ''ok'')]"

lemma sample_proposal_short: "length (canonical_utf8 sample_proposal) \<le> PROPOSAL_MAX_BYTES"
proof -
  have "2 * json_bound sample_proposal \<le> PROPOSAL_MAX_BYTES"
    by (simp add: sample_proposal_def PROPOSAL_MAX_BYTES_def PROPOSAL_SCHEMA_VERSION_def int_str_def nat_digits.simps)
  then show ?thesis using canonical_bound [of sample_proposal] by linarith
qed

lemma sample_raw_free: "raw_free sample_proposal"
proof -
  have "reject_raw_keys ''proposal'' sample_proposal = Inr ()" by code_simp
  then show ?thesis by (simp add: reject_raw_returns)
qed

lemma sample_proposal_ok: "proposal_ok sample_proposal"
  unfolding proposal_ok_def
proof (intro conjI)
  show "\<exists>st \<in> set MODEL_STAGES. \<exists>kind \<in> set (for_stage STAGE_PROPOSAL_KINDS st).
      fld sample_proposal ''stage'' = PStr st \<and> fld sample_proposal ''proposal_kind'' = PStr kind
      \<and> (kind = ''select_iteration'' \<longrightarrow> has_key sample_proposal ''selected_iteration'')
      \<and> (kind = ''propose_revision'' \<longrightarrow> has_key sample_proposal ''revision_direction'')
      \<and> (kind = PROPOSAL_ESCALATE \<longrightarrow> fld sample_proposal ''escalate'' = PBool True)"
    by (rule bexI [of _ "''strategy_draft''"], rule bexI [of _ "''strategy_draft''"])
      (simp_all add: sample_proposal_def PROPOSAL_ESCALATE_def for_stage_def STAGE_PROPOSAL_KINDS_def MODEL_STAGES_def)
qed (simp_all add: sample_proposal_short sample_raw_free, auto simp: sample_ids_match(1) sample_proposal_def
    PROPOSAL_BASE_FIELDS_def PROPOSAL_OPTIONAL_FIELDS_def text_within_def TEXT_MAX_def)

lemma sample_proposal_bound: "proposal_bound (abs_plan sample_plan) sample_proposal"
  unfolding sample_state by (simp add: proposal_bound_def initial_state_def sample_ids_def sample_proposal_def PROPOSAL_ESCALATE_def)

section \<open>The fence on model calls\<close>

text \<open>The outcome of the \<open>n\<close>-th call of a judgment stage.\<close>

lemma call_outcome_at:
  assumes "stage \<in> set MODEL_STAGES"
  shows "stage_model_call_outcome (PStr stage) (PInt n) progress = Inr c \<longleftrightarrow>
    1 \<le> n \<and> (progress = PNone \<or> str_matches re_digest progress)
    \<and> co_model_calls_used c = n \<and> co_continue c = (n = 1 \<and> progress \<noteq> PNone)
    \<and> co_status c = (if co_continue c then ''continue'' else ''stop'')
    \<and> co_model_calls_remaining c = max 0 (2 - n)
    \<and> co_outcome c = (if co_continue c then None else if n = 2 then Some ''advance'' else Some ''needs_attention'')
    \<and> co_reason c = (if 2 < n then MODEL_CALL_LIMIT_EXCEEDED else if n = 2 then ''stage_within_model_call_bound''
        else if progress = PNone then NO_DURABLE_PROGRESS else ''durable_progress_observed'')"
proof -
  have "stage_model_call_limit stage = Inr 2"
    using assms by (auto simp: stage_model_call_limit_def STAGE_MODEL_CALL_LIMITS_def
        DEFAULT_MAX_MODEL_CALLS_PER_STAGE_def MODEL_STAGES_def)
  moreover have "assert_model_turn_allowed (PStr stage) = Inr stage"
    using assms by (simp add: assert_model_turn_allowed_def stage_requires_model_def)
  ultimately show ?thesis
    unfolding stage_model_call_outcome_def
    by (cases c) (auto simp: res_simps check_digest_def int_at_least_def Let_def max_def)
qed

lemma call_outcome_stage: "stage_model_call_outcome (PStr stage) calls progress = Inr c \<Longrightarrow> stage \<in> set MODEL_STAGES"
  by (auto simp: stage_model_call_outcome_def res_simps assert_model_turn_allowed_def stage_requires_model_def)

text \<open>C26. An accepted proposal is returned as it is, and the accepted ones are exactly those of the
  closed shape: the base fields and at most the three optional ones, of their types, a kind
  its stage allows with the field that kind needs, no key of raw execution data at any depth,
  and at most 16384 bytes of canonical text. So it names no route, identity or approval.\<close>

theorem proposal_shape_exact:
  "(validate_proposal v = Inr r \<longleftrightarrow> r = v \<and> proposal_ok v)
   \<and> (proposal_ok v \<longrightarrow> set (keys_of v) \<inter> set FORBIDDEN_PROPOSAL_FIELDS = {})"
proof -
  have "set (PROPOSAL_BASE_FIELDS @ PROPOSAL_OPTIONAL_FIELDS) \<inter> set FORBIDDEN_PROPOSAL_FIELDS = {}"
    by (simp add: PROPOSAL_BASE_FIELDS_def PROPOSAL_OPTIONAL_FIELDS_def FORBIDDEN_PROPOSAL_FIELDS_def)
  then have "proposal_ok v \<longrightarrow> set (keys_of v) \<inter> set FORBIDDEN_PROPOSAL_FIELDS = {}"
    unfolding proposal_ok_def set_append by blast
  then show ?thesis unfolding validate_proposal_iff by simp
qed

theorem proposal_shape_exact_witness:
  "validate_proposal sample_proposal = Inr sample_proposal
   \<and> set (keys_of sample_proposal) \<inter> set FORBIDDEN_PROPOSAL_FIELDS = {}"
  using proposal_shape_exact [of sample_proposal sample_proposal] sample_proposal_ok by simp

text \<open>C25. The reducer implements the specification and stays inside the plan machine: for a valid
  plan and an accepted proposal it always decides; its decisions that advance are exactly the
  judgment steps, with the status and postcondition of their target; each is legal, and
  \<open>advance\<close> can make the same step. Every other decision is \<^verbatim>\<open>needs_attention\<close>.\<close>

theorem judgment_refines_plan:
  assumes "valid_plan p" "proposal_ok r"
  shows "\<exists>d. derive_proposal_commit p r = Inr d \<and> assert_commit_is_legal p d = Inr ()
    \<and> (\<forall>t. commit_state (abs_plan p) d = Some t \<longleftrightarrow> judgment_step (abs_plan p) r t)
    \<and> (commit_state (abs_plan p) d = None \<longrightarrow> fld d ''outcome'' = PStr ''needs_attention'')
    \<and> (\<forall>t. judgment_step (abs_plan p) r t \<longrightarrow>
         fld d ''status'' = PStr (status_str (ps_status t))
         \<and> fld d ''expected_postcondition'' = PStr (STAGE_POSTCONDITION (ps_stage t))
         \<and> (\<exists>a q. advance p a = Inr q \<and> abs_plan q = t))"
proof -
  obtain t d where d: "derive_proposal_commit p r = Inr d" and t: "commit_state (abs_plan p) d = t"
    and none: "t = None \<longrightarrow> fld d ''outcome'' = PStr ''needs_attention''"
    and shape: "\<forall>t'. t = Some t' \<longrightarrow> fld d ''next_stage'' = PStr (stage_str (ps_stage t'))
        \<and> fld d ''status'' = PStr (status_str (ps_status t'))
        \<and> fld d ''expected_postcondition'' = PStr (STAGE_POSTCONDITION (ps_stage t'))"
    and step: "\<forall>t'. t = Some t' \<longleftrightarrow> judgment_step (abs_plan p) r t'"
    using derive_decides [OF assms] unfolding steps_as_def decides_def by (elim exE conjE) (rule that)
  have "state_ok (abs_plan p)" using assms(1) abs_plan_at(6) by (auto simp: valid_plan_def)
  then have moves: "\<exists>a q. advance p a = Inr q \<and> abs_plan q = u" if "judgment_step (abs_plan p) r u" for u
    using step_advance [OF assms(1) judgment_step_plan_step [OF _ that]] by blast
  show ?thesis
  proof (intro exI [of _ d] conjI allI impI)
    fix u
    show "commit_state (abs_plan p) d = Some u \<longleftrightarrow> judgment_step (abs_plan p) r u"
      unfolding t by (rule spec [OF step])
    assume u: "judgment_step (abs_plan p) r u"
    then have "t = Some u" using step by simp
    with shape show "fld d ''status'' = PStr (status_str (ps_status u))"
      "fld d ''expected_postcondition'' = PStr (STAGE_POSTCONDITION (ps_stage u))" by blast+
    show "\<exists>a q. advance p a = Inr q \<and> abs_plan q = u" by (rule moves [OF u])
  qed (use d t none commit_is_legal [OF assms d] in simp_all)
qed

theorem judgment_refines_plan_witness:
  "\<exists>d. derive_proposal_commit sample_plan sample_proposal = Inr d
     \<and> commit_state (abs_plan sample_plan) d
        = Some (moved (abs_plan sample_plan) Waiting_for_strategy_approval 3 Waiting)"
proof -
  have "ps_stage (abs_plan sample_plan) = Strategy_draft" "ps_iteration (abs_plan sample_plan) = 3"
    by (simp_all add: sample_state initial_state_def)
  then have "judgment_step (abs_plan sample_plan) sample_proposal
      (moved (abs_plan sample_plan) Waiting_for_strategy_approval 3 Waiting)"
    using judgment_step.draft [OF sample_proposal_bound] by simp
  with judgment_refines_plan [OF sample_valid sample_proposal_ok] show ?thesis by blast
qed

end
