(* ===== verification/Judgment_Calls.thy ===== *)
theory Judgment_Calls
  imports Plan_Approval Plan_Store Judgment_Commit
begin

text \<open>
  The judgment mixin of the research store, \<^verbatim>\<open>services/backend/app/research_judgment.py\<close>: which model
  calls may be made for the current revision of a plan, who may dispatch them, and how their result
  moves the plan. The database is the plan ledger of \<open>Plan_Store\<close> with the table of stage calls and
  the table of consumer claims; the tables the mixin only reads, and the research tasks it updates,
  are among \<open>db_tables\<close>. A transaction that raises is rolled back. The clocks are arguments: \<open>now\<close> of
  the process and \<open>clock\<close> of the database; a time stamp of a row is its ISO text, as the SQL layer
  returns it, and the lease of a claim is in microseconds. The status transition of a research task
  (\<open>ResearchStore.transition\<close>) is a parameter, a function on the tables. Left out are the paths of
  the ACP root.
\<close>

section \<open>The database\<close>

record stage_call =
  sc_task_id :: string
  sc_call_identity :: string
  sc_plan_version :: int
  sc_stage :: string
  sc_call_index :: int
  sc_status :: string
  sc_admitted_at :: string
  sc_completed_at :: "string option"
  sc_progress_identity :: pyval
  sc_outcome :: "string option"
  sc_result :: pyval

record consumer_claim =
  cl_owner :: string
  cl_lease_until :: int
  cl_attempt :: int
  cl_dispatch_intent_at :: "int option"
  cl_dispatch_intent_owner :: "string option"

record judgment_db =
  jd_ledger :: plan_db
  jd_calls :: "stage_call list"
  jd_claims :: "string \<times> string \<Rightarrow> consumer_claim option"

text \<open>\<open>transition("research_task", task_id, target, key, progress=..., require_completion_evidence=...)\<close>\<close>

type_synonym task_transition =
  "string \<Rightarrow> string \<Rightarrow> string \<Rightarrow> pyval \<Rightarrow> bool \<Rightarrow> (string \<Rightarrow> pyval list) \<Rightarrow> (string \<Rightarrow> pyval list) res"

definition load_stage_call :: "judgment_db \<Rightarrow> string \<Rightarrow> string \<Rightarrow> stage_call option" where
  "load_stage_call db task_id call_identity =
     find (\<lambda>r. sc_task_id r = task_id \<and> sc_call_identity r = call_identity) (jd_calls db)"

definition current_plan :: "judgment_db \<Rightarrow> string \<Rightarrow> pyval res" where
  "current_plan db task_id = (case db_plans (jd_ledger db) task_id of
       None \<Rightarrow> Inl (ResearchNotFound ''research execution plan not found'')
     | Some row \<Rightarrow> validate_plan (pr_plan row))"

definition acp_root :: "judgment_db \<Rightarrow> (string \<times> pyval) list \<Rightarrow> pyval option" where
  "acp_root db clauses = fetch_one (db_tables (jd_ledger db) ''research_judgment_acp_roots'') clauses"

definition reject_legacy_acp_call :: "judgment_db \<Rightarrow> string \<Rightarrow> string \<Rightarrow> unit res" where
  "reject_legacy_acp_call db task_id call_identity =
    (if acp_root db [(''task_id'', PStr task_id), (''call_identity'', PStr call_identity)] \<noteq> None
     then Inl (InvalidTransition ''ACP-bound judgment calls require their trusted root result path'') else Inr ())"

definition reject_legacy_acp_stage :: "judgment_db \<Rightarrow> string \<Rightarrow> pyval \<Rightarrow> unit res" where
  "reject_legacy_acp_stage db task_id plan =
    (if acp_root db [(''task_id'', PStr task_id), (''plan_version'', fld plan ''plan_version''),
         (''stage'', fld plan ''stage'')] \<noteq> None
     then Inl (InvalidTransition ''ACP-bound judgment stages require their trusted root result path'') else Inr ())"

definition require_model_stage :: "pyval \<Rightarrow> string res" where
  "require_model_stage stage =
    (if \<not> stage_requires_model stage
     then Inl (ModelTurnNotAllowed ''a deterministic research stage must not start a model turn'')
     else Inr (the_str stage))"

definition hash_value :: "pyval \<Rightarrow> string" where
  "hash_value v = ''sha256:'' @ sha256_hex (canonical_ascii v)"

section \<open>The stage input\<close>

definition STAGE_INSTRUCTION :: "(string \<times> string) list" where
  "STAGE_INSTRUCTION =
    [(''strategy_draft'', ''Propose the bounded strategy draft judgment for this research task.''),
     (''backtest_analysis'', ''Analyse the bounded backtest summary for the current round.''),
     (''iteration_comparison'', ''Compare the completed rounds and propose a bounded next step.''),
     (''final_selection'', ''Select the best round or escalate when evidence is insufficient.'')]"

definition EVIDENCE_SUMMARIES :: "(string \<times> string) list" where
  "EVIDENCE_SUMMARIES =
    [(''strategy_version'', ''validated strategy version reference''),
     (''strategy_approval'', ''strategy approval reference''),
     (''stock_pool_snapshot'', ''frozen stock-pool snapshot reference''),
     (''signal_producer_job'', ''signal production job reference''),
     (''signal_snapshot'', ''validated signal snapshot reference''),
     (''backtest_task'', ''backtest task reference''),
     (''backtest_job'', ''backtest job reference''),
     (''backtest_result'', ''backtest result reference'')]"

definition evidence_descriptor :: "string \<Rightarrow> pyval \<Rightarrow> string \<Rightarrow> pyval" where
  "evidence_descriptor kind identity summary =
     PDict [(''kind'', PStr kind), (''id'', identity), (''summary'', PStr summary)]"

definition stage_evidence :: "pyval \<Rightarrow> pyval list" where
  "stage_evidence plan =
    (let evidence = concat (map (\<lambda>(kind, reference). case map_of EVIDENCE_SUMMARIES kind of None \<Rightarrow> []
           | Some summary \<Rightarrow> if is_str (fld reference kind) then [evidence_descriptor kind (fld reference kind) summary] else [])
         (sort_key fst (the_dict (fld plan ''references''))))
     in if 32 \<le> length evidence then take 32 evidence
        else if is_str (fld plan ''last_progress_identity'')
        then evidence @ [evidence_descriptor ''plan_progress'' (fld plan ''last_progress_identity'')
               ''last durable research progress identity'']
        else evidence)"

definition build_stage_input :: "pyval \<Rightarrow> pyval \<Rightarrow> pyval res" where
  "build_stage_input task plan =
    (let stage = the_str (fld plan ''stage'') in
     case map_of STAGE_INSTRUCTION stage of None \<Rightarrow> Inl (KeyError stage)
     | Some instruction \<Rightarrow> andThen (stage_model_call_limit stage) (\<lambda>bound.
     validate_stage_input (PDict
      [(''schema_version'', PStr STAGE_INPUT_SCHEMA_VERSION), (''task_id'', fld plan ''task_id''),
       (''plan_version'', fld plan ''plan_version''), (''task_version'', fld plan ''task_version''),
       (''stage'', fld plan ''stage''), (''iteration'', fld plan ''iteration''), (''status'', fld plan ''status''),
       (''objective'', PStr (take TEXT_MAX (the_str (fld task ''objective'')))),
       (''stage_instruction'', PStr instruction),
       (''proposal_kinds'', strs (sort (for_stage STAGE_PROPOSAL_KINDS stage))),
       (''evidence'', PList (stage_evidence plan)),
       (''allowed_tools'', strs (sort (for_stage STAGE_ALLOWED_TOOLS stage))),
       (''model_call_limit'', PInt bound), (''escalation_allowed'', PBool True)])))"

definition get_research_stage_input :: "judgment_db \<Rightarrow> string \<Rightarrow> pyval \<Rightarrow> pyval res" where
  "get_research_stage_input db task_id context =
     andThen (plan_task (jd_ledger db) task_id context) (\<lambda>task.
     andThen (current_plan db (the_str (fld task ''task_id''))) (\<lambda>plan.
     andThen (require_model_stage (fld plan ''stage'')) (\<lambda>_. build_stage_input task plan)))"

section \<open>The admission of a model call\<close>

text \<open>The round of a plan as \<open>int()\<close> reads it.\<close>

definition plan_iteration :: "pyval \<Rightarrow> int" where
  "plan_iteration plan = \<lfloor>the (num_of (fld plan ''iteration''))\<rfloor>"

definition stage_admission :: "stage_call \<Rightarrow> pyval \<Rightarrow> pyval \<Rightarrow> string \<Rightarrow> bool \<Rightarrow> pyval res" where
  "stage_admission row task plan status created =
     andThen (stage_model_call_limit (the_str (fld plan ''stage''))) (\<lambda>bound.
     andThen (build_stage_input task plan) (\<lambda>stage_input.
     Inr (PDict [(''call_identity'', PStr (sc_call_identity row)), (''call_index'', PInt (sc_call_index row)),
       (''model_call_limit'', PInt bound), (''stage'', fld plan ''stage''), (''plan_version'', fld plan ''plan_version''),
       (''task_version'', fld plan ''task_version''), (''stage_input'', stage_input),
       (''status'', PStr status), (''created'', PBool created)])))"

text \<open>\<^verbatim>\<open>INSERT INTO research_judgment_stage_calls\<close>, with its primary key and its unique index.\<close>

definition insert_stage_call :: "stage_call \<Rightarrow> judgment_db \<Rightarrow> judgment_db res" where
  "insert_stage_call row db =
    (if list_ex (\<lambda>r. sc_task_id r = sc_task_id row \<and> (sc_call_identity r = sc_call_identity row
           \<or> sc_plan_version r = sc_plan_version row \<and> sc_stage r = sc_stage row \<and> sc_call_index r = sc_call_index row))
         (jd_calls db)
     then Inl (SQLAlchemyError ''duplicate key value violates unique constraint'')
     else Inr (db\<lparr>jd_calls := jd_calls db @ [row]\<rparr>))"

definition calls_of :: "judgment_db \<Rightarrow> string \<Rightarrow> int \<Rightarrow> string \<Rightarrow> stage_call list" where
  "calls_of db task_id version stage =
     filter (\<lambda>r. sc_task_id r = task_id \<and> sc_plan_version r = version \<and> sc_stage r = stage) (jd_calls db)"

definition admit_new_call :: "judgment_db \<Rightarrow> string \<Rightarrow> string \<Rightarrow> pyval \<Rightarrow> pyval \<Rightarrow> string \<Rightarrow> (pyval \<times> judgment_db) res" where
  "admit_new_call db task_id call_identity task plan now =
    (let version = the_int (fld plan ''plan_version''); stage = the_str (fld plan ''stage'');
         used = int (length (calls_of db task_id version stage)) in
     andThen (stage_model_call_limit stage) (\<lambda>bound.
     if bound \<le> used
     then Inl (StageModelCallLimitExceeded ''research stage model call limit reached for this plan revision'')
     else let row = \<lparr>sc_task_id = task_id, sc_call_identity = call_identity, sc_plan_version = version,
            sc_stage = stage, sc_call_index = used + 1, sc_status = ''admitted'', sc_admitted_at = now,
            sc_completed_at = None, sc_progress_identity = PNone, sc_outcome = None, sc_result = PNone\<rparr> in
     andThen (insert_stage_call row db) (\<lambda>db'.
     andThen (stage_admission row task plan ''admitted'' True) (\<lambda>admission. Inr (admission, db')))))"

text \<open>The current plan of a judgment stage, which the attempt binding names when one is given.\<close>

definition current_attempt :: "judgment_db \<Rightarrow> string \<Rightarrow> pyval \<Rightarrow> pyval res" where
  "current_attempt db task_id binding =
     andThen (current_plan db task_id) (\<lambda>plan.
     andThen (require_model_stage (fld plan ''stage'')) (\<lambda>stage.
     if binding \<noteq> PNone \<and> binding \<noteq> PStr (attempt_binding (the_int (fld plan ''plan_version'')) stage (plan_iteration plan))
     then Inl (InvalidTransition ''research stage attempt binding does not match the current plan'')
     else Inr plan))"

text \<open>A completed call answers with its receipt first, before the attempt or the plan is looked at.\<close>

definition completed_admission :: "stage_call \<Rightarrow> pyval" where
  "completed_admission r = PDict [(''call_identity'', PStr (sc_call_identity r)), (''status'', PStr ''completed''),
     (''receipt'', sc_result r), (''created'', PBool False), (''call_index'', PInt (sc_call_index r)),
     (''stage'', PStr (sc_stage r)), (''plan_version'', PInt (sc_plan_version r))]"

definition admit_current_call ::
    "judgment_db \<Rightarrow> string \<Rightarrow> string \<Rightarrow> pyval \<Rightarrow> pyval \<Rightarrow> string \<Rightarrow> (pyval \<times> judgment_db) res" where
  "admit_current_call db task_id call_identity binding task now =
    (case load_stage_call db task_id call_identity of
       None \<Rightarrow>
         andThen (current_attempt db task_id binding) (\<lambda>plan. admit_new_call db task_id call_identity task plan now)
     | Some r \<Rightarrow>
         if sc_status r = ''completed'' then Inr (completed_admission r, db)
         else andThen (current_attempt db task_id binding) (\<lambda>plan.
         if PInt (sc_plan_version r) \<noteq> fld plan ''plan_version'' \<or> PStr (sc_stage r) \<noteq> fld plan ''stage''
         then Inl (InvalidTransition ''research stage call identity was reused for another plan revision'')
         else andThen (stage_admission r task plan (sc_status r) False) (\<lambda>admission. Inr (admission, db))))"

definition admit_research_stage_call ::
    "judgment_db \<Rightarrow> string \<Rightarrow> pyval \<Rightarrow> pyval \<Rightarrow> string \<Rightarrow> (pyval \<times> judgment_db) res" where
  "admit_research_stage_call db task_id payload context now =
     andThen (validate_stage_admission_request payload) (\<lambda>request.
     andThen (plan_task (jd_ledger db) task_id context) (\<lambda>task.
     andThen (reject_legacy_acp_call db task_id (the_str (fld request ''call_identity''))) (\<lambda>_.
     admit_current_call db (the_str (fld task ''task_id'')) (the_str (fld request ''call_identity''))
       (fld request ''attempt_binding'') task now)))"

end
