(* ===== verification/Judgment_Results.thy ===== *)
theory Judgment_Results
  imports Judgment_Calls
begin

text \<open>
  The judgment mixin, second part: the result of a model call. One transaction validates and commits
  the proposal, moves the plan, derives the durable progress from a persisted record, completes the
  call, and moves the plan to \<^verbatim>\<open>needs_attention\<close> when the fence says so. Then the claims of consumers.
\<close>

section \<open>Moving the plan\<close>

text \<open>\<^verbatim>\<open>UPDATE research_execution_plans SET ... WHERE task_id = ... AND plan_version = ... RETURNING task_id\<close>\<close>

definition swap_plan :: "judgment_db \<Rightarrow> string \<Rightarrow> pyval \<Rightarrow> pyval \<Rightarrow> string \<Rightarrow> string \<Rightarrow> judgment_db res" where
  "swap_plan db task_id plan advanced key h =
    (case db_plans (jd_ledger db) task_id of
       Some row \<Rightarrow>
         if py_eq (pr_plan_version row) (fld plan ''plan_version'')
         then Inr (db\<lparr>jd_ledger := (jd_ledger db)\<lparr>db_plans := (db_plans (jd_ledger db))(task_id \<mapsto> advanced_row row advanced key h)\<rparr>\<rparr>)
         else Inl (InvalidTransition ''research execution plan compare-and-swap failed'')
     | None \<Rightarrow> Inl (InvalidTransition ''research execution plan compare-and-swap failed''))"

definition target_approval :: "pyval \<Rightarrow> string \<Rightarrow> pyval res" where
  "target_approval plan target_stage =
    (case (case stage_of target_stage of None \<Rightarrow> None | Some st \<Rightarrow> STAGE_APPROVAL_REQUIREMENT st) of
       None \<Rightarrow> Inr PNone
     | Some (action, kind) \<Rightarrow>
       let resource_id = fld (fld (fld plan ''references'') kind) kind in
       if \<not> is_str resource_id \<or> the_str resource_id = []
       then Inl (InvalidTransition (''research judgment target requires an existing '' @ kind @ '' reference''))
       else Inr (bound_approval action kind resource_id (the_int (fld plan ''plan_version'') + 1)
         (the_int (fld plan ''task_version'')) PNone))"

definition COMPLETION_EVIDENCE_REFERENCE_KINDS :: "string list" where
  "COMPLETION_EVIDENCE_REFERENCE_KINDS = [''strategy_version'', ''strategy_approval'', ''signal_snapshot'', ''backtest_result'']"

definition completion_checkpoint :: "pyval \<Rightarrow> pyval" where
  "completion_checkpoint plan = PDict
     [(''schema_version'', PStr ''research-progress.v1''), (''stage'', PStr ''completed''), (''next_action'', PNone),
      (''blocked_reason'', PNone), (''linked_objects'', PList []),
      (''completion_evidence'', PList (filter is_str (map (\<lambda>kind. fld (fld (fld plan ''references'') kind) kind)
         COMPLETION_EVIDENCE_REFERENCE_KINDS)))]"

definition set_tables :: "judgment_db \<Rightarrow> (string \<Rightarrow> pyval list) \<Rightarrow> judgment_db" where
  "set_tables db tables = db\<lparr>jd_ledger := (jd_ledger db)\<lparr>db_tables := tables\<rparr>\<rparr>"

definition complete_research_task ::
    "task_transition \<Rightarrow> judgment_db \<Rightarrow> pyval \<Rightarrow> pyval \<Rightarrow> string \<Rightarrow> (int \<times> judgment_db) res" where
  "complete_research_task transition db task plan key =
    (let tid = the_str (fld task ''task_id''); tables = db_tables (jd_ledger db) in
     andThen (if fld task ''status'' = PStr ''planned'' then transition tid ''running'' (key @ ''-start'') PNone False tables
       else Inr tables) (\<lambda>started.
     andThen (transition tid ''completed'' (key @ ''-complete'') (completion_checkpoint plan) True started) (\<lambda>tables'.
     case fetch_one (tables' ''research_tasks'') [(''task_id'', PStr tid)] of
       None \<Rightarrow> Inl (TypeError ''research task row is missing'')
     | Some row \<Rightarrow> Inr (the_int (fld row ''version''), set_tables db tables'))))"

text \<open>The fixed arguments of \<open>advance\<close> in both uses.\<close>

definition judgment_args :: "pyval \<Rightarrow> string \<Rightarrow> pyval \<Rightarrow> string \<Rightarrow> string \<Rightarrow> string \<Rightarrow> pyval \<Rightarrow> advance_args" where
  "judgment_args plan next_stage iteration status postcondition key approval = \<lparr>
     aa_expected_plan_version = the_int (fld plan ''plan_version''),
     aa_expected_task_version = the_int (fld plan ''task_version''), aa_next_stage = next_stage,
     aa_iteration = iteration, aa_status = status, aa_expected_postcondition = postcondition,
     aa_idempotency_key = PStr key, aa_references = PNone, aa_prerequisites = PNone,
     aa_approval = approval, aa_last_progress_identity = fld plan ''last_progress_identity''\<rparr>"

definition apply_proposal_advance ::
    "task_transition \<Rightarrow> judgment_db \<Rightarrow> pyval \<Rightarrow> pyval \<Rightarrow> pyval \<Rightarrow> pyval \<Rightarrow> string \<Rightarrow> (pyval \<times> judgment_db) res" where
  "apply_proposal_advance transition db task plan proposal decision key =
    (let target_stage = the_str (fld decision ''next_stage'');
         iteration = (if type_is_int (fld decision ''iteration'') \<or> is_bool (fld decision ''iteration'')
           then fld decision ''iteration'' else fld plan ''iteration'') in
     andThen (target_approval plan target_stage) (\<lambda>approval.
     andThen (as_invalid_transition (andThen (advance plan (judgment_args plan target_stage iteration
         (the_str (fld decision ''status'')) (the_str (fld decision ''expected_postcondition'')) key approval)) (\<lambda>advanced.
       if is_dict (fld advanced ''approval'') then bind_command_digest advanced else Inr advanced))) (\<lambda>advanced.
     andThen (if target_stage = ''completed''
       then andThen (complete_research_task transition db task plan key) (\<lambda>(version, db1).
         andThen (validate_plan (dict_set ''task_version'' (PInt version) advanced)) (\<lambda>bumped. Inr (bumped, db1)))
       else Inr (advanced, db)) (\<lambda>(advanced, db1).
     andThen (proposal_request_hash proposal) (\<lambda>h.
     andThen (swap_plan db1 (the_str (fld task ''task_id'')) plan advanced key h) (\<lambda>db2. Inr (advanced, db2)))))))"

definition blocked_progress :: "pyval \<Rightarrow> string \<Rightarrow> pyval" where
  "blocked_progress task reason =
    (let kept = (\<lambda>field. if is_list (fld (fld task ''progress'') field) then fld (fld task ''progress'') field else PList []) in
     PDict [(''schema_version'', PStr ''research-progress.v1''), (''stage'', PStr ''blocked''),
       (''next_action'', PStr ''needs_attention''), (''blocked_reason'', PStr reason),
       (''linked_objects'', kept ''linked_objects''), (''completion_evidence'', kept ''completion_evidence'')])"

text \<open>\<^verbatim>\<open>UPDATE research_tasks SET progress = ..., version = ... WHERE task_id = ... AND version = ... RETURNING task_id\<close>\<close>

definition update_task_progress :: "judgment_db \<Rightarrow> pyval \<Rightarrow> pyval \<Rightarrow> int \<Rightarrow> judgment_db res" where
  "update_task_progress db task progress version =
    (let tables = db_tables (jd_ledger db);
         same = row_matches [(''task_id'', fld task ''task_id''), (''version'', fld task ''version'')] in
     if \<not> list_ex same (tables ''research_tasks'')
     then Inl (InvalidTransition ''research task compare-and-swap failed'')
     else Inr (set_tables db (tables(''research_tasks'' :=
       map (\<lambda>r. if same r then dict_set ''progress'' progress (dict_set ''version'' (PInt version) r) else r)
         (tables ''research_tasks'')))))"

definition apply_stage_needs_attention ::
    "judgment_db \<Rightarrow> pyval \<Rightarrow> pyval \<Rightarrow> string \<Rightarrow> string \<Rightarrow> (pyval \<times> judgment_db) res" where
  "apply_stage_needs_attention db task plan reason key =
     andThen (as_invalid_transition (advance plan (judgment_args plan ''needs_attention'' (fld plan ''iteration'')
       ''blocked'' (STAGE_POSTCONDITION Needs_attention) key PNone))) (\<lambda>moved_plan.
     let version = the_int (fld task ''version'') + 1 in
     andThen (validate_plan (dict_set ''task_version'' (PInt version) moved_plan)) (\<lambda>advanced.
     andThen (update_task_progress db task (blocked_progress task (take 160 reason)) version) (\<lambda>db1.
     andThen (swap_plan db1 (the_str (fld task ''task_id'')) plan advanced key key) (\<lambda>db2.
     Inr (advanced, db2)))))"

section \<open>The proposal\<close>

record committed_proposal =
  cp_plan :: pyval
  cp_projection :: pyval
  cp_identity :: string
  cp_reason :: string
  cp_replayed :: bool

definition proposal_projection :: "pyval \<Rightarrow> string \<Rightarrow> bool \<Rightarrow> (string \<times> pyval) list \<Rightarrow> pyval res" where
  "proposal_projection plan identity replayed rest =
     andThen (project_execution_plan plan) (\<lambda>v.
     Inr (dict_merge v ([(''proposal_identity'', PStr identity), (''replayed'', PBool replayed)] @ rest)))"

definition commit_fresh_proposal ::
    "task_transition \<Rightarrow> judgment_db \<Rightarrow> pyval \<Rightarrow> pyval \<Rightarrow> pyval \<Rightarrow> string \<Rightarrow> string
      \<Rightarrow> (committed_proposal \<times> judgment_db) res" where
  "commit_fresh_proposal transition db task plan proposal identity h =
    (let tid = the_str (fld task ''task_id'') in
     andThen (require_model_stage (fld plan ''stage'')) (\<lambda>_.
     if \<not> py_eq (fld proposal ''stage'') (fld plan ''stage'')
     then Inl (InvalidTransition ''research proposal stage does not match the current plan'')
     else if \<not> py_eq (fld proposal ''iteration'') (fld plan ''iteration'')
     then Inl (InvalidTransition ''research proposal iteration does not match the current plan'')
     else if \<not> py_eq (fld proposal ''plan_version'') (fld plan ''plan_version'')
     then Inl (InvalidTransition ''research execution plan version is stale'')
     else if \<not> py_eq (fld proposal ''task_version'') (fld plan ''task_version'')
     then Inl (InvalidTransition ''research execution task version is stale'')
     else andThen (derive_proposal_commit plan proposal) (\<lambda>decision.
     andThen (assert_commit_is_legal plan decision) (\<lambda>_.
     andThen (if py_eq (fld decision ''outcome'') (PStr ''advance'')
       then apply_proposal_advance transition db task plan proposal decision identity
       else if py_eq (fld decision ''outcome'') (PStr ''needs_attention'')
       then apply_stage_needs_attention db task plan (the_str (fld decision ''reason'')) identity
       else Inr (plan, db)) (\<lambda>(advanced, db1).
     let ledger = jd_ledger db1;
         db2 = db1\<lparr>jd_ledger := ledger\<lparr>db_receipts := (db_receipts ledger)((tid, identity) \<mapsto>
           \<lparr>rc_request_hash = h, rc_plan_version = fld advanced ''plan_version'', rc_result = advanced\<rparr>)\<rparr>\<rparr> in
     andThen (proposal_projection advanced identity False [(''reason'', fld decision ''reason'')]) (\<lambda>v.
     Inr (\<lparr>cp_plan = advanced, cp_projection = v, cp_identity = identity,
       cp_reason = the_str (fld decision ''reason''), cp_replayed = False\<rparr>, db2)))))))"

definition commit_proposal_in_transaction ::
    "task_transition \<Rightarrow> judgment_db \<Rightarrow> pyval \<Rightarrow> pyval \<Rightarrow> pyval \<Rightarrow> (committed_proposal \<times> judgment_db) res" where
  "commit_proposal_in_transaction transition db task plan payload =
     andThen (validate_proposal payload) (\<lambda>proposal.
     if \<not> py_eq (fld proposal ''task_id'') (fld task ''task_id'')
     then Inl (InvalidTransition ''research proposal task does not match the plan'')
     else andThen (proposal_identity proposal) (\<lambda>identity.
     andThen (proposal_request_hash proposal) (\<lambda>h.
     case db_receipts (jd_ledger db) (the_str (fld task ''task_id''), identity) of
       Some receipt \<Rightarrow>
         if rc_request_hash receipt \<noteq> h then Inl (IdempotencyConflict ''research proposal identity was reused'')
         else andThen (validate_plan (rc_result receipt)) (\<lambda>stored.
         andThen (proposal_projection (rc_result receipt) identity True []) (\<lambda>v.
         Inr (\<lparr>cp_plan = stored, cp_projection = v, cp_identity = identity, cp_reason = ''replayed'',
           cp_replayed = True\<rparr>, db)))
     | None \<Rightarrow> commit_fresh_proposal transition db task plan proposal identity h)))"

definition commit_research_proposal ::
    "task_transition \<Rightarrow> judgment_db \<Rightarrow> string \<Rightarrow> pyval \<Rightarrow> pyval \<Rightarrow> (pyval \<times> judgment_db) res" where
  "commit_research_proposal transition db task_id payload context =
     andThen (validate_proposal payload) (\<lambda>proposal.
     if \<not> py_eq (fld proposal ''task_id'') (PStr task_id)
     then Inl (InvalidTransition ''research proposal task does not match its route'')
     else andThen (plan_task (jd_ledger db) task_id context) (\<lambda>task.
     andThen (current_plan db (the_str (fld task ''task_id''))) (\<lambda>plan.
     andThen (reject_legacy_acp_stage db task_id plan) (\<lambda>_.
     andThen (commit_proposal_in_transaction transition db task plan proposal) (\<lambda>(committed_p, db').
     Inr (cp_projection committed_p, db'))))))"

section \<open>Durable progress and the completion of a call\<close>

definition plan_advance_identity :: "pyval \<Rightarrow> pyval \<Rightarrow> string" where
  "plan_advance_identity task plan = hash_value (PDict [(''kind'', PStr ''plan_advance''), (''task_id'', fld task ''task_id''),
     (''plan_version'', fld plan ''plan_version''), (''last_progress_identity'', fld plan ''last_progress_identity'')])"

text \<open>An artifact or experiment of the task, not older than the admission of the call.\<close>

definition record_progress :: "judgment_db \<Rightarrow> pyval \<Rightarrow> stage_call \<Rightarrow> string \<Rightarrow> string \<Rightarrow> string \<Rightarrow> pyval \<Rightarrow> pyval res" where
  "record_progress db task admission kind table id_column identity =
    (case fetch_one (db_tables (jd_ledger db) table) [(id_column, identity), (''task_id'', fld task ''task_id''),
         (''owner_principal'', fld task ''owner_principal''), (''workspace_id'', fld task ''workspace_id'')] of
       None \<Rightarrow> Inl (ValueError ''research progress evidence does not belong to this task'')
     | Some row \<Rightarrow>
       andThen (py_lt (fld row ''created_at'') (PStr (sc_admitted_at admission))) (\<lambda>older.
       if older then Inl (ValueError ''research progress evidence predates the admitted call'')
       else Inr (PStr (hash_value (PDict [(''kind'', PStr kind), (''id'', fld row id_column),
         (''content_sha256'', if truthy (fld row ''content_sha256'') then fld row ''content_sha256'' else fld row ''request_hash''),
         (''created_at'', fld row ''created_at'')])))))"

definition backtest_progress :: "judgment_db \<Rightarrow> pyval \<Rightarrow> pyval \<Rightarrow> pyval res" where
  "backtest_progress db task identity =
    (case fetch_one (db_tables (jd_ledger db) ''backtest_jobs'') [(''job_id'', identity), (''task_id'', fld task ''task_id''),
         (''owner_principal'', fld task ''owner_principal'')] of
       None \<Rightarrow> Inl (ValueError ''research progress evidence does not belong to this task'')
     | Some job \<Rightarrow>
       if fld job ''status'' \<notin> {PStr ''completed'', PStr ''failed'', PStr ''cancelled''}
       then Inl (ValueError ''research progress backtest job is not terminal'')
       else if \<not> is_str (fld job ''result_artifact_id'')
       then Inl (ValueError ''research progress backtest job has no durable result'')
       else Inr (PStr (hash_value (PDict [(''kind'', PStr ''backtest_job''), (''id'', fld job ''job_id''),
         (''status'', fld job ''status''), (''result_artifact_id'', fld job ''result_artifact_id'')]))))"

definition derive_progress_identity :: "judgment_db \<Rightarrow> pyval \<Rightarrow> pyval \<Rightarrow> stage_call \<Rightarrow> pyval \<Rightarrow> pyval res" where
  "derive_progress_identity db task plan admission evidence =
    (let kind = the_str (fld evidence ''kind'') in
     if kind = ''none'' then Inr PNone
     else if kind = ''plan_advance'' then
       (if the_int (fld plan ''plan_version'') \<le> sc_plan_version admission then Inr PNone
        else Inr (PStr (plan_advance_identity task plan)))
     else if kind = ''artifact''
     then record_progress db task admission ''artifact'' ''artifacts'' ''artifact_id'' (fld evidence ''id'')
     else if kind = ''experiment''
     then record_progress db task admission ''experiment'' ''experiments'' ''experiment_id'' (fld evidence ''id'')
     else if kind = ''backtest_job'' then backtest_progress db task (fld evidence ''id'')
     else Inl (ValueError ''research progress evidence kind is unknown''))"

definition stage_advanced_outcome :: "int \<Rightarrow> call_outcome" where
  "stage_advanced_outcome call_index = \<lparr>co_status = ''stop'', co_outcome = Some ''advance'', co_reason = ''stage_advanced'',
     co_model_calls_used = call_index, co_model_calls_remaining = 0, co_continue = False\<rparr>"

definition text_or_none :: "string option \<Rightarrow> pyval" where
  "text_or_none x = (case x of None \<Rightarrow> PNone | Some t \<Rightarrow> PStr t)"

definition progress_result :: "call_outcome \<Rightarrow> stage_call \<Rightarrow> pyval \<Rightarrow> bool \<Rightarrow> pyval" where
  "progress_result c admission progress moved_to_attention = PDict
     [(''status'', PStr (co_status c)), (''outcome'', text_or_none (co_outcome c)), (''reason'', PStr (co_reason c)),
      (''model_calls_used'', PInt (co_model_calls_used c)), (''model_calls_remaining'', PInt (co_model_calls_remaining c)),
      (''continue'', PBool (co_continue c)), (''call_identity'', PStr (sc_call_identity admission)),
      (''call_index'', PInt (sc_call_index admission)), (''progress_identity'', progress),
      (''plan_moved_to_needs_attention'', PBool moved_to_attention), (''replayed'', PBool False)]"

text \<open>The outcome, the progress identity and the result of a call, with the move of the plan when the fence
  asks for attention and the plan did not move already.\<close>

definition complete_stage_call ::
    "judgment_db \<Rightarrow> pyval \<Rightarrow> pyval \<Rightarrow> stage_call \<Rightarrow> pyval \<Rightarrow> (call_outcome \<times> pyval \<times> pyval \<times> judgment_db) res" where
  "complete_stage_call db task plan admission evidence =
     andThen (validate_progress_evidence evidence) (\<lambda>evidence.
     andThen (derive_progress_identity db task plan admission evidence) (\<lambda>evidence_identity.
     let plan_advanced = (sc_plan_version admission < the_int (fld plan ''plan_version''));
         progress = (if plan_advanced then PStr (plan_advance_identity task plan) else evidence_identity) in
     andThen (if plan_advanced \<and> fld plan ''stage'' \<noteq> PStr (sc_stage admission)
       then Inr (stage_advanced_outcome (sc_call_index admission))
       else stage_model_call_outcome (PStr (sc_stage admission)) (PInt (sc_call_index admission)) progress) (\<lambda>c.
     let attention = (co_status c = ''stop'' \<and> co_outcome c = Some ''needs_attention'' \<and> \<not> plan_advanced) in
     andThen (if attention
       then andThen (apply_stage_needs_attention db task plan (co_reason c) (''stage-fence-'' @ sc_call_identity admission))
         (\<lambda>(_, db1). Inr db1)
       else Inr db) (\<lambda>db1.
     Inr (c, progress, progress_result c admission progress attention, db1)))))"

text \<open>\<^verbatim>\<open>UPDATE research_judgment_stage_calls SET status = 'completed', ... WHERE ... AND status = 'admitted'\<close>\<close>

definition complete_call_row ::
    "string \<Rightarrow> string \<Rightarrow> string \<Rightarrow> pyval \<Rightarrow> string option \<Rightarrow> pyval \<Rightarrow> judgment_db \<Rightarrow> judgment_db" where
  "complete_call_row task_id call_identity now progress outcome result db = db\<lparr>jd_calls :=
     map (\<lambda>r. if sc_task_id r = task_id \<and> sc_call_identity r = call_identity \<and> sc_status r = ''admitted''
       then r\<lparr>sc_status := ''completed'', sc_completed_at := Some now, sc_progress_identity := progress,
         sc_outcome := outcome, sc_result := result\<rparr> else r) (jd_calls db)\<rparr>"

text \<open>The row of an admitted call that may be completed now; a completed one answers with what it stored.\<close>

definition completable_call :: "judgment_db \<Rightarrow> string \<Rightarrow> string \<Rightarrow> pyval \<Rightarrow> stage_call res" where
  "completable_call db task_id call_identity plan =
    (case load_stage_call db task_id call_identity of
       None \<Rightarrow> Inl (InvalidTransition ''research stage call was not admitted'')
     | Some row \<Rightarrow>
       andThen (reject_legacy_acp_call db task_id call_identity) (\<lambda>_.
       if the_int (fld plan ''plan_version'') < sc_plan_version row
       then Inl (InvalidTransition ''research stage call belongs to a newer plan revision'')
       else if sc_status row = ''completed'' then Inr row
       else if sc_status row \<noteq> ''admitted'' then Inl (InvalidTransition ''research stage call is not completable'')
       else andThen (require_model_stage (PStr (sc_stage row))) (\<lambda>_. Inr row)))"

definition stored_replay :: "stage_call \<Rightarrow> pyval" where
  "stored_replay row = dict_set ''replayed'' (PBool True) (if is_dict (sc_result row) then sc_result row else PDict [])"

definition RESULT_RECEIPT_SCHEMA_VERSION :: string where
  "RESULT_RECEIPT_SCHEMA_VERSION = ''research-judgment-result-receipt.v1''"

definition result_receipt :: "stage_call \<Rightarrow> committed_proposal option \<Rightarrow> pyval \<Rightarrow> pyval" where
  "result_receipt row committed_p progress = PDict
     [(''schema_version'', PStr RESULT_RECEIPT_SCHEMA_VERSION), (''call_identity'', PStr (sc_call_identity row)),
      (''proposal'', case committed_p of None \<Rightarrow> PNone | Some c \<Rightarrow> cp_projection c),
      (''proposal_identity'', case committed_p of None \<Rightarrow> PNone | Some c \<Rightarrow> PStr (cp_identity c)),
      (''progress'', progress)]"

definition commit_judgment_result_in_transaction ::
    "task_transition \<Rightarrow> judgment_db \<Rightarrow> pyval \<Rightarrow> pyval \<Rightarrow> stage_call \<Rightarrow> pyval \<Rightarrow> pyval \<Rightarrow> string
      \<Rightarrow> (pyval \<times> judgment_db) res" where
  "commit_judgment_result_in_transaction transition db task plan row evidence proposal now =
     andThen (if proposal \<noteq> PNone
       then andThen (commit_proposal_in_transaction transition db task plan proposal) (\<lambda>(c, db1). Inr (Some c, cp_plan c, db1))
       else Inr (None, plan, db)) (\<lambda>(committed_p, plan1, db1).
     andThen (complete_stage_call db1 task plan1 row evidence) (\<lambda>(c, progress, result, db2).
     let receipt = result_receipt row committed_p result in
     Inr (dict_set ''replayed'' (PBool False) receipt,
       complete_call_row (the_str (fld task ''task_id'')) (sc_call_identity row) now progress (co_outcome c) receipt db2)))"

definition record_research_judgment_result ::
    "task_transition \<Rightarrow> judgment_db \<Rightarrow> string \<Rightarrow> pyval \<Rightarrow> pyval \<Rightarrow> string \<Rightarrow> (pyval \<times> judgment_db) res" where
  "record_research_judgment_result transition db task_id payload context now =
     andThen (validate_judgment_result_request payload) (\<lambda>request.
     andThen (plan_task (jd_ledger db) task_id context) (\<lambda>task.
     andThen (current_plan db (the_str (fld task ''task_id''))) (\<lambda>plan.
     andThen (completable_call db (the_str (fld task ''task_id'')) (the_str (fld request ''call_identity'')) plan) (\<lambda>row.
     if sc_status row = ''completed'' then Inr (stored_replay row, db)
     else commit_judgment_result_in_transaction transition db task plan row (fld request ''durable_evidence'')
       (fld request ''proposal'') now))))"

definition record_research_stage_progress ::
    "judgment_db \<Rightarrow> string \<Rightarrow> pyval \<Rightarrow> pyval \<Rightarrow> string \<Rightarrow> (pyval \<times> judgment_db) res" where
  "record_research_stage_progress db task_id payload context now =
     andThen (validate_stage_progress_request payload) (\<lambda>request.
     andThen (plan_task (jd_ledger db) task_id context) (\<lambda>task.
     andThen (current_plan db (the_str (fld task ''task_id''))) (\<lambda>plan.
     andThen (completable_call db (the_str (fld task ''task_id'')) (the_str (fld request ''call_identity'')) plan) (\<lambda>row.
     if sc_status row = ''completed'' then Inr (stored_replay row, db)
     else andThen (complete_stage_call db task plan row (fld request ''durable_evidence'')) (\<lambda>(c, progress, result, db1).
       Inr (result, complete_call_row (the_str (fld task ''task_id'')) (sc_call_identity row) now progress
         (co_outcome c) result db1))))))"

section \<open>The claims of consumers\<close>

datatype claim_result =
    Claimed string int string int string int int
  | Root_exists pyval
  | Dispatch_intent_exists string
  | Lease_held

definition seconds_us :: "int \<Rightarrow> int" where "seconds_us n = n * 1000000"

definition claim_judgment_stage_call ::
    "judgment_db \<Rightarrow> string \<Rightarrow> pyval \<Rightarrow> pyval \<Rightarrow> pyval \<Rightarrow> int \<Rightarrow> int \<Rightarrow> (claim_result \<times> judgment_db) res" where
  "claim_judgment_stage_call db task_id call_identity payload context now clock =
     andThen (validate_judgment_stage_claim_request payload) (\<lambda>request.
     andThen (validate_call_identity call_identity) (\<lambda>verified.
     let identity = the_str verified; owner = the_str (fld request ''claim_owner'');
         until = now + seconds_us (the_int (fld request ''lease_seconds'')) in
     andThen (plan_task (jd_ledger db) task_id context) (\<lambda>task.
     let tid = the_str (fld task ''task_id'') in
     andThen (current_plan db tid) (\<lambda>plan.
     andThen (require_model_stage (fld plan ''stage'')) (\<lambda>stage.
     let version = the_int (fld plan ''plan_version'') in
     if identity \<noteq> ''byq-judgment-'' @ take 32 (sha256_hex (utf8 (tid @ '':'' @ attempt_binding version stage (plan_iteration plan))))
     then Inl (InvalidTransition ''judgment stage claim does not match the current plan attempt'')
     else case acp_root db [(''task_id'', PStr tid), (''call_identity'', PStr identity)] of
       Some bound_root \<Rightarrow> Inr (Root_exists (fld bound_root ''status''), db)
     | None \<Rightarrow>
       let claimed = (\<lambda>attempt intent intent_owner. \<lparr>cl_owner = owner, cl_lease_until = until, cl_attempt = attempt,
             cl_dispatch_intent_at = intent, cl_dispatch_intent_owner = intent_owner\<rparr>);
           result = (\<lambda>attempt. Claimed identity version stage (plan_iteration plan) owner attempt until) in
       (case jd_claims db (tid, identity) of
          None \<Rightarrow> Inr (result 1, db\<lparr>jd_claims := (jd_claims db)((tid, identity) \<mapsto> claimed 1 None None)\<rparr>)
        | Some prior \<Rightarrow>
            if cl_dispatch_intent_at prior \<noteq> None then Inr (Dispatch_intent_exists (cl_owner prior), db)
            else if cl_lease_until prior \<le> clock \<or> cl_owner prior = owner
            then Inr (result (cl_attempt prior + 1), db\<lparr>jd_claims := (jd_claims db)((tid, identity) \<mapsto>
              claimed (cl_attempt prior + 1) (cl_dispatch_intent_at prior) (cl_dispatch_intent_owner prior))\<rparr>)
            else Inr (Lease_held, db)))))))"

definition record_judgment_dispatch_intent ::
    "judgment_db \<Rightarrow> string \<Rightarrow> pyval \<Rightarrow> pyval \<Rightarrow> pyval \<Rightarrow> int \<Rightarrow> int \<Rightarrow> (int option \<times> judgment_db) res" where
  "record_judgment_dispatch_intent db task_id call_identity payload context now clock =
     andThen (validate_judgment_stage_claim_request payload) (\<lambda>request.
     andThen (validate_call_identity call_identity) (\<lambda>verified.
     let identity = the_str verified; owner = the_str (fld request ''claim_owner'');
         until = now + seconds_us (the_int (fld request ''lease_seconds'')) in
     andThen (plan_task (jd_ledger db) task_id context) (\<lambda>_.
     case jd_claims db (task_id, identity) of
       None \<Rightarrow> Inr (None, db)
     | Some prior \<Rightarrow>
       if cl_owner prior = owner \<and> clock < cl_lease_until prior \<and> cl_dispatch_intent_at prior = None
       then Inr (Some (cl_attempt prior), db\<lparr>jd_claims := (jd_claims db)((task_id, identity) \<mapsto>
         prior\<lparr>cl_dispatch_intent_at := Some now, cl_dispatch_intent_owner := Some owner, cl_lease_until := until\<rparr>)\<rparr>)
       else Inr (None, db))))"

end
