(* ===== verification/Judgment_Machine.thy ===== *)
theory Judgment_Machine
  imports Judgment_Results
begin

text \<open>
  What holds of the judgment mixin over any history of its transactions, in any order, together with
  those of the plan ledger and any change of the other tables: the invariant of the ledger, the bound
  on the model calls of a plan revision, that a completed call is final, and that a call is dispatched
  at most once.
\<close>

section \<open>What a transaction writes\<close>

definition ledger_keeps :: "plan_db \<Rightarrow> plan_db \<Rightarrow> bool" where
  "ledger_keeps L L' \<longleftrightarrow> (store_ok L \<longrightarrow> store_ok L' \<and> ledger_le L L')"

lemma ledger_keeps_refl [simp, intro]: "ledger_keeps L L"
  by (simp add: ledger_keeps_def ledger_le_refl)





text \<open>A transaction on the ledger alone.\<close>

definition moves_ledger :: "judgment_db \<Rightarrow> judgment_db \<Rightarrow> bool" where
  "moves_ledger db db' \<longleftrightarrow> jd_calls db' = jd_calls db \<and> jd_claims db' = jd_claims db
     \<and> ledger_keeps (jd_ledger db) (jd_ledger db')"

lemma moves_ledger_refl [simp, intro]: "moves_ledger db db"
  by (simp add: moves_ledger_def)



















section \<open>What a transaction does to the calls\<close>










section \<open>The machine\<close>










section \<open>The invariant\<close>

















section \<open>The fence\<close>




section \<open>A concrete history\<close>




















section \<open>Properties\<close>



end
