(* ===== verification/Py_Float.thy ===== *)
theory Py_Float
  imports Py_Json
begin

text \<open>
  The double arithmetic of Python that the backtest engine uses. A finite double is the rational
  it denotes, and every operation rounds the exact result to the nearest double, ties to even,
  with infinities on overflow. The sign of zero is not kept.
\<close>

section \<open>Rounding\<close>

definition round_signed :: "rat \<Rightarrow> rat" where
  "round_signed q = (if q = 0 then 0 else if q < 0 then - round_double (- q) else round_double q)"

definition to_double :: "rat \<Rightarrow> pyfloat" where
  "to_double q = (let r = round_signed q in
     if 1024 \<le> ilog2 \<lfloor>\<bar>r\<bar>\<rfloor> then (if 0 < r then FInf else FNegInf) else FFin r)"

section \<open>Arithmetic\<close>

fun fneg :: "pyfloat \<Rightarrow> pyfloat" where
  "fneg FNaN = FNaN"
| "fneg FInf = FNegInf"
| "fneg FNegInf = FInf"
| "fneg (FFin q) = FFin (- q)"

fun fadd :: "pyfloat \<Rightarrow> pyfloat \<Rightarrow> pyfloat" where
  "fadd (FFin a) (FFin b) = to_double (a + b)"
| "fadd FNaN _ = FNaN"
| "fadd _ FNaN = FNaN"
| "fadd FInf FNegInf = FNaN"
| "fadd FNegInf FInf = FNaN"
| "fadd FInf _ = FInf"
| "fadd _ FInf = FInf"
| "fadd FNegInf _ = FNegInf"
| "fadd _ FNegInf = FNegInf"

definition fsub :: "pyfloat \<Rightarrow> pyfloat \<Rightarrow> pyfloat" where
  "fsub x y = fadd x (fneg y)"

definition signed_inf :: "bool \<Rightarrow> pyfloat" where
  "signed_inf negative = (if negative then FNegInf else FInf)"

fun fsign :: "pyfloat \<Rightarrow> rat" where
  "fsign FNaN = 0"
| "fsign FInf = 1"
| "fsign FNegInf = -1"
| "fsign (FFin q) = q"

fun fmul :: "pyfloat \<Rightarrow> pyfloat \<Rightarrow> pyfloat" where
  "fmul (FFin a) (FFin b) = to_double (a * b)"
| "fmul x y = (if x = FNaN \<or> y = FNaN \<or> fsign x = 0 \<or> fsign y = 0 then FNaN
     else signed_inf ((fsign x < 0) \<noteq> (fsign y < 0)))"

text \<open>True division raises for a zero divisor, whatever is divided.\<close>

fun fdiv :: "pyfloat \<Rightarrow> pyfloat \<Rightarrow> pyfloat res" where
  "fdiv (FFin a) (FFin b) = (if b = 0 then Inl (ZeroDivisionError ''float division by zero'') else Inr (to_double (a / b)))"
| "fdiv x (FFin b) = (if b = 0 then Inl (ZeroDivisionError ''float division by zero'')
     else Inr (if x = FNaN then FNaN else signed_inf ((fsign x < 0) \<noteq> (b < 0))))"
| "fdiv (FFin a) y = Inr (if y = FNaN then FNaN else FFin 0)"
| "fdiv _ _ = Inr FNaN"

section \<open>Comparisons\<close>

text \<open>Every comparison with a NaN is false.\<close>

fun flt :: "pyfloat \<Rightarrow> pyfloat \<Rightarrow> bool" where
  "flt (FFin a) (FFin b) = (a < b)"
| "flt FNegInf (FFin _) = True"
| "flt FNegInf FInf = True"
| "flt (FFin _) FInf = True"
| "flt _ _ = False"

definition feq :: "pyfloat \<Rightarrow> pyfloat \<Rightarrow> bool" where
  "feq x y \<longleftrightarrow> x = y \<and> x \<noteq> FNaN"

definition fle :: "pyfloat \<Rightarrow> pyfloat \<Rightarrow> bool" where
  "fle x y \<longleftrightarrow> flt x y \<or> feq x y"

text \<open>\<open>max(x, y)\<close> keeps its first argument unless the second is greater.\<close>

definition fmax :: "pyfloat \<Rightarrow> pyfloat \<Rightarrow> pyfloat" where
  "fmax x y = (if flt x y then y else x)"

section \<open>Conversions\<close>

text \<open>\<open>float(n)\<close>, which \<open>n * x\<close> and \<open>x / n\<close> apply to their integer operand; \<open>m / n\<close> of two
  integers; \<open>round(x)\<close> and \<open>round(x, n)\<close>.\<close>

definition float_of_int :: "int \<Rightarrow> pyfloat res" where
  "float_of_int n = (case to_double (of_int n) of FFin q \<Rightarrow> Inr (FFin q)
     | _ \<Rightarrow> Inl (OverflowError ''int too large to convert to float''))"

definition int_fdiv :: "int \<Rightarrow> int \<Rightarrow> pyfloat res" where
  "int_fdiv m n = (if n = 0 then Inl (ZeroDivisionError ''division by zero'')
     else case to_double (of_int m / of_int n) of FFin q \<Rightarrow> Inr (FFin q)
       | _ \<Rightarrow> Inl (OverflowError ''integer division result too large for a float''))"

fun float_round :: "pyfloat \<Rightarrow> int res" where
  "float_round (FFin q) = Inr (round_half_even q)"
| "float_round FNaN = Inl (ValueError ''cannot convert float NaN to integer'')"
| "float_round _ = Inl (OverflowError ''cannot convert float infinity to integer'')"

fun float_round_to :: "nat \<Rightarrow> pyfloat \<Rightarrow> pyfloat" where
  "float_round_to n (FFin q) = to_double (of_int (round_half_even (q * 10 ^ n)) / 10 ^ n)"
| "float_round_to n x = x"

text \<open>A decimal literal of the source.\<close>

definition literal :: "int \<Rightarrow> nat \<Rightarrow> pyfloat" where
  "literal m n = to_double (of_int m / 10 ^ n)"

section \<open>Integers within the mantissa\<close>

text \<open>An integer below \<open>2 ^ 53\<close> in absolute value is a double, and rounding to any number of decimals keeps
  it.\<close>

lemma round_half_even_int: "round_half_even (of_int n) = n"
  by (simp add: round_half_even_def Let_def)

lemma ilog2_bound: "0 < n \<Longrightarrow> n < 2 ^ k \<Longrightarrow> ilog2 n < int k \<or> k = 0"
proof (induction n arbitrary: k rule: ilog2.induct)
  case (1 n)
  show ?case
  proof (cases "n \<le> 1")
    case True
    then show ?thesis by (simp add: ilog2.simps [of n]) arith
  next
    case False
    then obtain k' where k: "k = Suc k'" using "1.prems" by (cases k) auto
    then have "n div 2 < 2 ^ k'" using "1.prems" by simp
    then have "ilog2 (n div 2) < int k' \<or> k' = 0" using "1.IH" False by simp
    moreover have "k' \<noteq> 0" using False "1.prems" k by (cases k') simp_all
    ultimately show ?thesis using False k by (simp add: ilog2.simps [of n])
  qed
qed

lemma scale_back:
  assumes "p \<le> 0"
  shows "of_int (round_half_even (of_int n * pow_int 2 (- p))) * pow_int 2 p = of_int n"
proof -
  have "of_int n * pow_int 2 (- p) = of_int (n * 2 ^ nat (- p))" using assms by (simp add: pow_int_def)
  then have "round_half_even (of_int n * pow_int 2 (- p)) = n * 2 ^ nat (- p)" by (simp only: round_half_even_int)
  then show ?thesis using assms by (cases "p = 0") (simp_all add: pow_int_def)
qed

lemma round_double_int:
  assumes "0 < n" "n < 2 ^ 53"
  shows "round_double (of_int n) = of_int n"
proof -
  have quotient_of_rat_of_int: "quotient_of (of_int n) = (n, 1)" by simp
  have "ilog2 n \<le> 52" using ilog2_bound [of n 53] assms by simp
  moreover have "ilog2 1 = 0" by (simp add: ilog2.simps [of 1])
  ultimately show ?thesis
    unfolding round_double_def Let_def quotient_of_rat_of_int prod.case by (intro scale_back) simp
qed

lemma to_double_int:
  assumes "\<bar>n\<bar> < 2 ^ 53"
  shows "to_double (of_int n) = FFin (of_int n)"
proof -
  have "round_signed (of_int n) = of_int n"
    using assms round_double_int [of n] round_double_int [of "- n"] by (auto simp: round_signed_def abs_if)
  moreover have "ilog2 \<bar>n\<bar> < 1024" if "n \<noteq> 0" using ilog2_bound [of "\<bar>n\<bar>" 53] assms that by simp
  then have "\<not> 1024 \<le> ilog2 \<bar>n\<bar>" by (cases "n = 0") (simp_all add: ilog2.simps [of 0])
  ultimately show ?thesis unfolding to_double_def Let_def by (simp only: of_int_abs [symmetric] floor_of_int) simp
qed

lemma float_of_int_exact: "\<bar>n\<bar> < 2 ^ 53 \<Longrightarrow> float_of_int n = Inr (FFin (of_int n))"
  by (simp add: float_of_int_def to_double_int)

lemma float_round_to_int:
  assumes "\<bar>n\<bar> < 2 ^ 53"
  shows "float_round_to k (FFin (of_int n)) = FFin (of_int n)"
proof -
  have "of_int n * 10 ^ k = (of_int (n * 10 ^ k) :: rat)" by simp
  then have "round_half_even (of_int n * 10 ^ k) = n * 10 ^ k" by (simp only: round_half_even_int)
  then show ?thesis using to_double_int [OF assms] by simp
qed

text \<open>The same facts in the form in which numerals meet them.\<close>

lemma exact_numerals:
  "to_double 0 = FFin 0" "to_double 1 = FFin 1" "float_of_int 0 = Inr (FFin 0)"
  "float_round_to k (FFin 0) = FFin 0" "float_round_to k (FFin 1) = FFin 1"
  using to_double_int [of 0] to_double_int [of 1] float_of_int_exact [of 0] float_round_to_int [of 0] float_round_to_int [of 1]
  by simp_all

lemma exact_numeral:
  assumes "(numeral n :: int) < 2 ^ 53"
  shows "to_double (numeral n) = FFin (numeral n)" "to_double (- numeral n) = FFin (- numeral n)"
    "float_of_int (numeral n) = Inr (FFin (numeral n))" "float_round_to k (FFin (numeral n)) = FFin (numeral n)"
  using assms to_double_int [of "numeral n"] to_double_int [of "- numeral n"] float_of_int_exact [of "numeral n"]
    float_round_to_int [of "numeral n"] by simp_all

lemmas exact_float_simps = exact_numerals exact_numeral

end
