(* ===== verification/Backtest_Engine.thy ===== *)
theory Backtest_Engine
  imports Py_Float
begin

text \<open>
  The native backtest engine, \<open>run_native_backtest\<close> of
  \<^verbatim>\<open>services/backend/app/backtest.py\<close>: a frozen set of daily bars and signals is run session by
  session under the rules of the A-share market. The manifest is the typed one that the
  normalisers of that module build, so its fields are records here; the casts of the code
  (\<open>str\<close>, \<open>int\<close>, \<open>float\<close>) are then identities. The wall clock is the argument \<open>elapsed\<close>, the
  seconds that have passed when a session begins.
\<close>

section \<open>The manifest\<close>

record bar =
  bar_symbol :: string
  bar_trade_date :: string
  bar_open :: pyfloat
  bar_close :: pyfloat
  bar_prev_close :: "pyfloat option"
  bar_up_limit :: "pyfloat option"
  bar_down_limit :: "pyfloat option"
  bar_is_suspended :: bool

record signal =
  sig_symbol :: string
  sig_trade_date :: string
  sig_direction :: int
  sig_quantity :: "int option"

record corporate_action =
  ca_symbol :: string
  ca_ex_date :: string
  ca_cash_dividend_per_share :: pyfloat
  ca_share_ratio :: pyfloat
  ca_pay_date :: "string option"
  ca_share_listing_date :: "string option"

record benchmark_bar =
  bm_symbol :: string
  bm_trade_date :: string
  bm_close :: pyfloat

record execution_rules =
  ex_initial_capital :: pyfloat
  ex_commission_rate :: pyfloat
  ex_stamp_tax_rate :: pyfloat
  ex_slippage_rate :: pyfloat
  ex_limit_threshold :: pyfloat
  ex_lot_size :: int
  ex_max_positions :: int
  ex_a_share_rules :: bool
  ex_max_runtime_seconds :: pyfloat

record manifest =
  mf_bars :: "bar list"
  mf_signals :: "signal list"
  mf_actions :: "corporate_action list"
  mf_benchmark :: "benchmark_bar list"
  mf_execution :: execution_rules

text \<open>The indices the engine builds: a later row of the same key replaces an earlier one, and the
  signals and actions of a date are in symbol order.\<close>

definition dates_of :: "manifest \<Rightarrow> string list" where
  "dates_of m = sort (remdups (map bar_trade_date (mf_bars m)))"

definition bar_at :: "manifest \<Rightarrow> string \<Rightarrow> string \<Rightarrow> bar option" where
  "bar_at m date symbol =
     find (\<lambda>b. bar_trade_date b = date \<and> bar_symbol b = symbol) (rev (mf_bars m))"

definition signals_on :: "manifest \<Rightarrow> string \<Rightarrow> signal list" where
  "signals_on m date =
     sort_key sig_symbol (filter (\<lambda>r. sig_direction r \<noteq> 0 \<and> sig_trade_date r = date) (mf_signals m))"

definition actions_on :: "manifest \<Rightarrow> string \<Rightarrow> corporate_action list" where
  "actions_on m date = sort_key ca_symbol (filter (\<lambda>a. ca_ex_date a = date) (mf_actions m))"

section \<open>The state of a run\<close>

record lot =
  lot_entry_date :: string
  lot_quantity :: int
  lot_cost_per_share :: pyfloat

record trade =
  tr_symbol :: string
  tr_order_type :: string
  tr_timestamp :: string
  tr_price :: pyfloat
  tr_quantity :: int
  tr_amount :: pyfloat
  tr_commission :: pyfloat
  tr_tax :: pyfloat
  tr_realized_pnl :: "pyfloat option"

record blocked_trade =
  bt_symbol :: string
  bt_trade_date :: string
  bt_side :: string
  bt_reason_code :: string
  bt_detail :: string

record entitlement =
  en_symbol :: string
  en_ex_date :: string
  en_old_quantity :: int
  en_new_quantity :: int
  en_cash_dividend :: pyfloat
  en_share_quantity :: int
  en_pay_date :: string
  en_share_listing_date :: string
  en_cash_settled :: bool
  en_shares_settled :: bool

record equity_row =
  eq_trade_date :: string
  eq_equity :: pyfloat
  eq_cash :: pyfloat
  eq_positions_count :: int

record position_row =
  ps_symbol :: string
  ps_quantity :: int
  ps_entry_date :: "string option"
  ps_cost_per_share :: "pyfloat option"

record log_entry =
  lg_seq :: int
  lg_level :: string
  lg_message :: string
  lg_fields :: pydict

text \<open>The dictionary of positions keeps its insertion order. The pending entitlements and the
  corporate action events of the result are the same objects, so they are one list.\<close>

record engine =
  eg_cash :: pyfloat
  eg_positions :: "(string \<times> lot list) list"
  eg_trades :: "trade list"
  eg_blocked :: "blocked_trade list"
  eg_entitlements :: "entitlement list"
  eg_equity_curve :: "equity_row list"
  eg_daily_positions :: "(string \<times> position_row list) list"
  eg_daily_returns :: "(string \<times> pyfloat) list"
  eg_logs :: "log_entry list"
  eg_log_counter :: int
  eg_log_truncated :: bool

definition MAX_LOG_ENTRIES :: nat where "MAX_LOG_ENTRIES = 500"

definition money :: "pyfloat \<Rightarrow> pyfloat" where "money x = float_round_to 10 x"

definition log_event :: "string \<Rightarrow> string \<Rightarrow> pydict \<Rightarrow> engine \<Rightarrow> engine" where
  "log_event level message values g =
    (let n = eg_log_counter g + 1; g' = g\<lparr>eg_log_counter := n\<rparr> in
     if MAX_LOG_ENTRIES \<le> length (eg_logs g) then g'\<lparr>eg_log_truncated := True\<rparr>
     else g'\<lparr>eg_logs := eg_logs g @ [\<lparr>lg_seq = n, lg_level = level, lg_message = message,
       lg_fields = filter (\<lambda>(_, v). v \<noteq> PNone) values\<rparr>]\<rparr>)"

definition block :: "string \<Rightarrow> string \<Rightarrow> string \<Rightarrow> string \<Rightarrow> string \<Rightarrow> engine \<Rightarrow> engine" where
  "block symbol trade_date side reason_code detail g =
     log_event ''warn'' ''order_blocked'' [(''symbol'', PStr symbol), (''trade_date'', PStr trade_date),
         (''side'', PStr side), (''reason_code'', PStr reason_code)]
       (g\<lparr>eg_blocked := eg_blocked g @ [\<lparr>bt_symbol = symbol, bt_trade_date = trade_date, bt_side = side,
         bt_reason_code = reason_code, bt_detail = detail\<rparr>]\<rparr>)"

definition lots_of :: "engine \<Rightarrow> string \<Rightarrow> lot list" where
  "lots_of g symbol = (case map_of (eg_positions g) symbol of None \<Rightarrow> [] | Some lots \<Rightarrow> lots)"

definition total_quantity :: "lot list \<Rightarrow> int" where
  "total_quantity lots = sum_list (map lot_quantity lots)"

definition sellable_lot :: "bool \<Rightarrow> string \<Rightarrow> lot \<Rightarrow> bool" where
  "sellable_lot a_share_rules current_date l \<longleftrightarrow> \<not> a_share_rules \<or> lot_entry_date l < current_date"

definition available :: "bool \<Rightarrow> engine \<Rightarrow> string \<Rightarrow> string \<Rightarrow> int" where
  "available a_share_rules g symbol current_date =
     total_quantity (filter (sellable_lot a_share_rules current_date) (lots_of g symbol))"

definition set_lots :: "string \<Rightarrow> lot list \<Rightarrow> engine \<Rightarrow> engine" where
  "set_lots symbol lots g = g\<lparr>eg_positions := AList.update symbol lots (eg_positions g)\<rparr>"

definition limit_state :: "bar \<Rightarrow> pyfloat \<Rightarrow> string option" where
  "limit_state b threshold =
    (case bar_prev_close b of None \<Rightarrow> None
     | Some previous \<Rightarrow>
        let one = FFin 1;
            up = (case bar_up_limit b of Some x \<Rightarrow> x
                  | None \<Rightarrow> float_round_to 2 (fmul previous (fadd one threshold)));
            down = (case bar_down_limit b of Some x \<Rightarrow> x
                  | None \<Rightarrow> float_round_to 2 (fmul previous (fsub one threshold)));
            price = bar_open b in
        if fle (fsub up (literal 1 8)) price then Some ''limit_up''
        else if fle price (fadd down (literal 1 8)) then Some ''limit_down''
        else None)"

section \<open>Corporate actions\<close>

definition entitle :: "string \<Rightarrow> corporate_action \<Rightarrow> engine \<Rightarrow> engine res" where
  "entitle current_date action g =
    (let symbol = ca_symbol action; lots = lots_of g symbol in
     if lots = [] then Inr g
     else let old_quantity = total_quantity lots in
     andThen (float_of_int old_quantity) (\<lambda>old.
     let cash_dividend = fmul old (ca_cash_dividend_per_share action) in
     andThen (float_round (fmul old (ca_share_ratio action))) (\<lambda>share_quantity.
     Inr (log_event ''info'' ''corporate_action_entitlement''
         [(''symbol'', PStr symbol), (''ex_date'', PStr current_date),
          (''cash_dividend'', PFloat (money cash_dividend)), (''share_quantity'', PInt share_quantity)]
       (g\<lparr>eg_entitlements := eg_entitlements g @ [\<lparr>en_symbol = symbol, en_ex_date = current_date,
          en_old_quantity = old_quantity, en_new_quantity = old_quantity + share_quantity,
          en_cash_dividend = money cash_dividend, en_share_quantity = share_quantity,
          en_pay_date = (case ca_pay_date action of None \<Rightarrow> current_date | Some d \<Rightarrow> d),
          en_share_listing_date = (case ca_share_listing_date action of None \<Rightarrow> current_date | Some d \<Rightarrow> d),
          en_cash_settled = fle cash_dividend (FFin 0), en_shares_settled = share_quantity \<le> 0\<rparr>]\<rparr>)))))"

fun foldRes :: "('x \<Rightarrow> 's \<Rightarrow> 's res) \<Rightarrow> 'x list \<Rightarrow> 's \<Rightarrow> 's res" where
  "foldRes f [] s = Inr s"
| "foldRes f (x # xs) s = andThen (f x s) (foldRes f xs)"

definition apply_actions :: "manifest \<Rightarrow> string \<Rightarrow> engine \<Rightarrow> engine res" where
  "apply_actions m current_date g = foldRes (entitle current_date) (actions_on m current_date) g"

text \<open>The listed shares are spread over the lots in proportion; the last lot takes the rest.\<close>

fun spread_shares :: "int \<Rightarrow> int \<Rightarrow> int \<Rightarrow> lot list \<Rightarrow> lot list res" where
  "spread_shares quantity current_quantity remaining [] = Inr []"
| "spread_shares quantity current_quantity remaining (l # ls) =
     andThen (if ls = [] then Inr remaining
       else andThen (int_fdiv (quantity * lot_quantity l) current_quantity) float_round) (\<lambda>addition.
     let old = lot_quantity l; new = old + addition in
     andThen (if 0 < new
       then andThen (float_of_int old) (\<lambda>fo. andThen (float_of_int new) (\<lambda>fn.
          fdiv (fmul (lot_cost_per_share l) fo) fn))
       else Inr (lot_cost_per_share l)) (\<lambda>cost.
     andThen (spread_shares quantity current_quantity (remaining - addition) ls) (\<lambda>rest.
     Inr (l\<lparr>lot_quantity := new, lot_cost_per_share := cost\<rparr> # rest))))"

definition settle_cash :: "string \<Rightarrow> entitlement \<Rightarrow> engine \<Rightarrow> entitlement \<times> engine" where
  "settle_cash current_date e g =
    (if \<not> en_cash_settled e \<and> en_pay_date e \<le> current_date
     then (e\<lparr>en_cash_settled := True\<rparr>,
       log_event ''info'' ''cash_dividend_settled'' [(''symbol'', PStr (en_symbol e)),
         (''trade_date'', PStr current_date), (''cash_dividend'', PFloat (en_cash_dividend e))]
         (g\<lparr>eg_cash := fadd (eg_cash g) (en_cash_dividend e)\<rparr>))
     else (e, g))"

definition settle_shares :: "string \<Rightarrow> entitlement \<Rightarrow> engine \<Rightarrow> (entitlement \<times> engine) res" where
  "settle_shares current_date e g =
    (if \<not> en_shares_settled e \<and> en_share_listing_date e \<le> current_date
     then let quantity = en_share_quantity e; lots = lots_of g (en_symbol e);
              current_quantity = total_quantity lots in
       andThen (if lots \<noteq> [] \<and> 0 < current_quantity
         then andThen (spread_shares quantity current_quantity quantity lots) (\<lambda>lots'.
              Inr (set_lots (en_symbol e) lots' g))
         else Inr g) (\<lambda>g'.
       Inr (e\<lparr>en_shares_settled := True\<rparr>,
         log_event ''info'' ''stock_dividend_settled'' [(''symbol'', PStr (en_symbol e)),
           (''trade_date'', PStr current_date), (''share_quantity'', PInt quantity)] g'))
     else Inr (e, g))"

fun settle_all :: "string \<Rightarrow> entitlement list \<Rightarrow> engine \<Rightarrow> (entitlement list \<times> engine) res" where
  "settle_all current_date [] g = Inr ([], g)"
| "settle_all current_date (e # es) g =
     (let (e1, g1) = settle_cash current_date e g in
      andThen (settle_shares current_date e1 g1) (\<lambda>(e2, g2).
      andThen (settle_all current_date es g2) (\<lambda>(es', g3). Inr (e2 # es', g3))))"

definition settle_actions :: "string \<Rightarrow> engine \<Rightarrow> engine res" where
  "settle_actions current_date g = andThen (settle_all current_date (eg_entitlements g) g) (\<lambda>(es, g').
     Inr (g'\<lparr>eg_entitlements := es\<rparr>))"

section \<open>Orders\<close>

text \<open>First in, first out: what is left of the lots, and the realised gain.\<close>

fun sell_lots :: "bool \<Rightarrow> string \<Rightarrow> pyfloat \<Rightarrow> lot list \<Rightarrow> int \<Rightarrow> pyfloat \<Rightarrow> (lot list \<times> pyfloat) res" where
  "sell_lots a_share_rules current_date price [] remaining realized = Inr ([], realized)"
| "sell_lots a_share_rules current_date price (l # ls) remaining realized =
     (let n = (if sellable_lot a_share_rules current_date l then min (lot_quantity l) remaining else 0) in
      andThen (if n \<noteq> 0
        then andThen (float_of_int n) (\<lambda>fn.
          Inr (fadd realized (fmul (fsub price (lot_cost_per_share l)) fn)))
        else Inr realized) (\<lambda>realized'.
      andThen (sell_lots a_share_rules current_date price ls (remaining - n) realized') (\<lambda>(rest, total).
      let left = lot_quantity l - n in
      Inr (if left \<noteq> 0 then l\<lparr>lot_quantity := left\<rparr> # rest else rest, total))))"

definition whole_lots :: "execution_rules \<Rightarrow> int \<Rightarrow> int" where
  "whole_lots ex n = (if ex_a_share_rules ex then n div ex_lot_size ex * ex_lot_size ex else n)"

definition sell_order :: "execution_rules \<Rightarrow> string \<Rightarrow> string \<Rightarrow> pyfloat \<Rightarrow> int \<Rightarrow> engine \<Rightarrow> engine res" where
  "sell_order ex current_date symbol price requested g =
    (let a_share = ex_a_share_rules ex; sellable = available a_share g symbol current_date in
     if sellable \<le> 0
     then Inr (block symbol current_date ''sell'' ''t_plus_one'' ''no prior-session lot is sellable'' g)
     else let quantity = whole_lots ex (min requested sellable) in
     if quantity \<le> 0
     then Inr (block symbol current_date ''sell'' ''lot_size'' ''sellable quantity is below the minimum lot'' g)
     else andThen (float_of_int quantity) (\<lambda>fq.
     let amount = fmul price fq;
         commission = fmul amount (ex_commission_rate ex);
         tax = fmul amount (ex_stamp_tax_rate ex) in
     andThen (sell_lots a_share current_date price (lots_of g symbol) quantity (FFin 0)) (\<lambda>(lots, realized).
     let g1 = (set_lots symbol lots g)\<lparr>eg_cash := fadd (eg_cash g) (fsub (fsub amount commission) tax),
           eg_trades := eg_trades g @ [\<lparr>tr_symbol = symbol, tr_order_type = ''sell'', tr_timestamp = current_date,
             tr_price = money price, tr_quantity = quantity, tr_amount = money amount,
             tr_commission = money commission, tr_tax = money tax,
             tr_realized_pnl = Some (money (fsub (fsub realized commission) tax))\<rparr>]\<rparr>;
         g2 = log_event ''info'' ''order_filled'' [(''symbol'', PStr symbol), (''side'', PStr ''sell''),
           (''quantity'', PInt quantity), (''price'', PFloat (money price))] g1 in
     Inr (if quantity < requested
       then block symbol current_date ''sell'' ''t_plus_one_partial'' ''same-session lots remain unavailable'' g2
       else g2))))"

definition active_positions :: "engine \<Rightarrow> int" where
  "active_positions g = int (length (filter (\<lambda>(_, lots). 0 < total_quantity lots) (eg_positions g)))"

definition buy_order :: "execution_rules \<Rightarrow> string \<Rightarrow> string \<Rightarrow> pyfloat \<Rightarrow> int \<Rightarrow> engine \<Rightarrow> engine res" where
  "buy_order ex current_date symbol price requested g =
    (if symbol \<notin> fst ` set (eg_positions g) \<and> ex_max_positions ex \<le> active_positions g
     then Inr (block symbol current_date ''buy'' ''max_positions'' ''maximum active positions reached'' g)
     else andThen (float_of_int requested) (\<lambda>fq.
     let amount = fmul price fq; commission = fmul amount (ex_commission_rate ex);
         cost = fadd amount commission in
     if flt (fadd (eg_cash g) (literal 1 9)) cost
     then Inr (block symbol current_date ''buy'' ''insufficient_capital'' ''cash cannot fund the requested lot'' g)
     else andThen (fdiv cost fq) (\<lambda>per_share.
     let new_lot = \<lparr>lot_entry_date = current_date, lot_quantity = requested, lot_cost_per_share = per_share\<rparr>;
         g1 = (set_lots symbol (lots_of g symbol @ [new_lot]) g)\<lparr>eg_cash := fsub (eg_cash g) cost,
           eg_trades := eg_trades g @ [\<lparr>tr_symbol = symbol, tr_order_type = ''buy'', tr_timestamp = current_date,
             tr_price = money price, tr_quantity = requested, tr_amount = money amount,
             tr_commission = money commission, tr_tax = FFin 0, tr_realized_pnl = None\<rparr>]\<rparr> in
     Inr (log_event ''info'' ''order_filled'' [(''symbol'', PStr symbol), (''side'', PStr ''buy''),
       (''quantity'', PInt requested), (''price'', PFloat (money price))] g1))))"

definition execute_order :: "manifest \<Rightarrow> string \<Rightarrow> signal \<Rightarrow> engine \<Rightarrow> engine res" where
  "execute_order m current_date s g =
    (let ex = mf_execution m; symbol = sig_symbol s;
         side = (if sig_direction s < 0 then ''sell'' else ''buy'') in
     case bar_at m current_date symbol of
       None \<Rightarrow> Inr (block symbol current_date side ''missing_execution_bar'' ''no frozen bar for execution session'' g)
     | Some b \<Rightarrow>
       if ex_a_share_rules ex \<and> bar_is_suspended b
       then Inr (block symbol current_date side ''suspended'' ''execution bar is suspended'' g)
       else let limit = (if ex_a_share_rules ex then limit_state b (ex_limit_threshold ex) else None) in
       if side = ''buy'' \<and> limit = Some ''limit_up'' \<or> side = ''sell'' \<and> limit = Some ''limit_down''
       then Inr (block symbol current_date side (the limit) ''A-share price limit blocks this order'' g)
       else let requested = whole_lots ex (case sig_quantity s of None \<Rightarrow> ex_lot_size ex | Some n \<Rightarrow> n) in
       if requested \<le> 0
       then Inr (block symbol current_date side ''lot_size'' ''quantity is below the minimum lot'' g)
       else let slippage = ex_slippage_rate ex in
       if side = ''sell''
       then sell_order ex current_date symbol (fmul (bar_open b) (fsub (FFin 1) slippage)) requested g
       else buy_order ex current_date symbol (fmul (bar_open b) (fadd (FFin 1) slippage)) requested g)"

text \<open>The signals of the previous session, sells before buys.\<close>

definition orders_for :: "manifest \<Rightarrow> string option \<Rightarrow> signal list" where
  "orders_for m previous = (case previous of None \<Rightarrow> [] | Some date \<Rightarrow>
     filter (\<lambda>s. sig_direction s = -1) (signals_on m date)
     @ filter (\<lambda>s. sig_direction s = 1) (signals_on m date))"

section \<open>A session\<close>

definition value_position :: "manifest \<Rightarrow> string \<Rightarrow> string \<times> lot list \<Rightarrow> pyfloat \<times> int \<Rightarrow> (pyfloat \<times> int) res" where
  "value_position m current_date p acc =
    (let (symbol, lots) = p; (equity, n) = acc; quantity = total_quantity lots in
     if quantity \<le> 0 then Inr acc
     else case bar_at m current_date symbol of
       None \<Rightarrow> Inr (equity, n + 1)
     | Some b \<Rightarrow> andThen (float_of_int quantity) (\<lambda>fq. Inr (fadd equity (fmul fq (bar_close b)), n + 1)))"

definition value_entitlement :: "manifest \<Rightarrow> string \<Rightarrow> entitlement \<Rightarrow> pyfloat \<Rightarrow> pyfloat res" where
  "value_entitlement m current_date e equity =
    (let equity1 = (if en_cash_settled e then equity else fadd equity (en_cash_dividend e)) in
     if en_shares_settled e then Inr equity1
     else case bar_at m current_date (en_symbol e) of
       None \<Rightarrow> Inr equity1
     | Some b \<Rightarrow> andThen (float_of_int (en_share_quantity e)) (\<lambda>fq. Inr (fadd equity1 (fmul fq (bar_close b)))))"

definition position_rows :: "engine \<Rightarrow> position_row list" where
  "position_rows g = map (\<lambda>(symbol, lots). \<lparr>ps_symbol = symbol, ps_quantity = total_quantity lots,
       ps_entry_date = (case lots of [] \<Rightarrow> None | l # _ \<Rightarrow> Some (lot_entry_date l)),
       ps_cost_per_share = (case lots of [] \<Rightarrow> None | l # _ \<Rightarrow> Some (money (lot_cost_per_share l)))\<rparr>)
     (filter (\<lambda>(_, lots). 0 < total_quantity lots) (eg_positions g))"

text \<open>The valuation at the close, the equity curve and the daily return.\<close>

definition close_session :: "manifest \<Rightarrow> string \<Rightarrow> engine \<Rightarrow> engine res" where
  "close_session m current_date g =
     andThen (foldRes (value_position m current_date) (eg_positions g) (eg_cash g, 0)) (\<lambda>(equity0, position_count).
     andThen (foldRes (value_entitlement m current_date) (eg_entitlements g) equity0) (\<lambda>equity.
     let previous_equity = (if eg_equity_curve g = [] then ex_initial_capital (mf_execution m)
           else eq_equity (last (eg_equity_curve g))) in
     andThen (if feq previous_equity (FFin 0) then Inr (FFin 0)
       else andThen (fdiv equity previous_equity) (\<lambda>q. Inr (money (fsub q (FFin 1))))) (\<lambda>daily_return.
     Inr (log_event ''info'' ''session_processed'' [(''trade_date'', PStr current_date),
         (''cash'', PFloat (money (eg_cash g))), (''equity'', PFloat (money equity)),
         (''positions_count'', PInt position_count)]
       (g\<lparr>eg_equity_curve := eg_equity_curve g @ [\<lparr>eq_trade_date = current_date, eq_equity = money equity,
            eq_cash = money (eg_cash g), eq_positions_count = position_count\<rparr>],
          eg_daily_positions := eg_daily_positions g @ [(current_date, position_rows g)],
          eg_daily_returns := eg_daily_returns g @ [(current_date, daily_return)]\<rparr>)))))"

definition session :: "manifest \<Rightarrow> string option \<Rightarrow> string \<Rightarrow> engine \<Rightarrow> engine res" where
  "session m previous current_date g =
     andThen (apply_actions m current_date g) (\<lambda>g1.
     andThen (settle_actions current_date g1) (\<lambda>g2.
     andThen (foldRes (execute_order m current_date) (orders_for m previous) g2) (\<lambda>g3.
     close_session m current_date g3)))"

fun run_sessions :: "manifest \<Rightarrow> (nat \<Rightarrow> pyfloat) \<Rightarrow> nat \<Rightarrow> string option \<Rightarrow> string list \<Rightarrow> engine \<Rightarrow> engine res" where
  "run_sessions m elapsed i previous [] g = Inr g"
| "run_sessions m elapsed i previous (d # ds) g =
     (if flt (ex_max_runtime_seconds (mf_execution m)) (elapsed i)
      then Inl (BacktestResourceExceeded ''backtest exceeded its wall-clock limit'')
      else andThen (session m previous d g) (run_sessions m elapsed (Suc i) (Some d) ds))"

definition initial_engine :: "manifest \<Rightarrow> engine" where
  "initial_engine m = log_event ''info'' ''backtest_started''
     [(''engine'', PStr ''native''), (''schema_version'', PStr ''backtest-input-v1'')]
     \<lparr>eg_cash = ex_initial_capital (mf_execution m), eg_positions = [], eg_trades = [], eg_blocked = [],
      eg_entitlements = [], eg_equity_curve = [], eg_daily_positions = [], eg_daily_returns = [],
      eg_logs = [], eg_log_counter = 0, eg_log_truncated = False\<rparr>"

section \<open>The result\<close>

fun max_drawdown_from :: "pyfloat list \<Rightarrow> pyfloat \<Rightarrow> pyfloat \<Rightarrow> pyfloat res" where
  "max_drawdown_from [] peak worst = Inr worst"
| "max_drawdown_from (v # vs) peak worst =
     (let peak' = fmax peak v in
      andThen (if feq peak' (FFin 0) then Inr (FFin 0) else fdiv (fsub peak' v) peak') (\<lambda>drawdown.
      max_drawdown_from vs peak' (fmax worst drawdown)))"

definition benchmark_close :: "manifest \<Rightarrow> string \<Rightarrow> pyfloat option" where
  "benchmark_close m date = map_option bm_close (find (\<lambda>b. bm_trade_date b = date) (rev (mf_benchmark m)))"

definition benchmark_point :: "manifest \<Rightarrow> pyfloat \<Rightarrow> string \<Rightarrow> (string \<times> pyfloat \<times> pyfloat) list res" where
  "benchmark_point m base date = (case benchmark_close m date of None \<Rightarrow> Inr []
     | Some c \<Rightarrow> andThen (fdiv (fmul (ex_initial_capital (mf_execution m)) c) base) (\<lambda>v.
         Inr [(date, money v, money c)]))"

definition benchmark_curve :: "manifest \<Rightarrow> (string \<times> pyfloat \<times> pyfloat) list res" where
  "benchmark_curve m =
    (case List.find (\<lambda>d. benchmark_close m d \<noteq> None) (dates_of m) of None \<Rightarrow> Inr []
     | Some d \<Rightarrow> andThen (mapRes (benchmark_point m (the (benchmark_close m d))) (dates_of m)) (\<lambda>rows. Inr (concat rows)))"

record backtest_result =
  br_final_value :: pyfloat
  br_total_return :: pyfloat
  br_benchmark_symbol :: "string option"
  br_benchmark_return :: "pyfloat option"
  br_excess_return :: "pyfloat option"
  br_benchmark_curve :: "(string \<times> pyfloat \<times> pyfloat) list"
  br_max_drawdown :: pyfloat
  br_engine :: engine

definition run_native_backtest :: "manifest \<Rightarrow> (nat \<Rightarrow> pyfloat) \<Rightarrow> backtest_result res" where
  "run_native_backtest m elapsed =
    (let initial = ex_initial_capital (mf_execution m) in
     andThen (run_sessions m elapsed 0 None (dates_of m) (initial_engine m)) (\<lambda>g.
     let values = map eq_equity (eg_equity_curve g);
         final_value = (if values = [] then initial else last values) in
     andThen (max_drawdown_from values initial (FFin 0)) (\<lambda>max_drawdown.
     andThen (benchmark_curve m) (\<lambda>curve.
     andThen (if curve = [] then Inr None
       else andThen (fdiv (fst (snd (last curve))) initial) (\<lambda>q. Inr (Some (money (fsub q (FFin 1)))))) (\<lambda>benchmark_return.
     andThen (fdiv final_value initial) (\<lambda>q.
     let total_return = money (fsub q (FFin 1)) in
     Inr \<lparr>br_final_value = money final_value, br_total_return = total_return,
       br_benchmark_symbol = (case mf_benchmark m of [] \<Rightarrow> None | b # _ \<Rightarrow> Some (bm_symbol b)),
       br_benchmark_return = benchmark_return,
       br_excess_return = map_option (\<lambda>r. money (fsub total_return r)) benchmark_return,
       br_benchmark_curve = curve, br_max_drawdown = money max_drawdown,
       br_engine = log_event ''info'' ''backtest_completed'' [(''final_value'', PFloat (money final_value)),
         (''total_return'', PFloat total_return), (''max_drawdown'', PFloat (money max_drawdown)),
         (''trade_count'', PInt (int (length (eg_trades g))))] g\<rparr>))))))"

end
