(* ===== verification/Backtest_Trades.thy ===== *)
theory Backtest_Trades
  imports Backtest_Engine
begin

text \<open>
  The runs of the engine: what every step keeps, how shares are accounted for, and where the
  trades come from.
\<close>

named_theorems engine_simps \<open>what logging leaves unchanged\<close>

section \<open>Logging and blocking touch nothing else\<close>

lemma log_event_keeps [engine_simps]:
  "eg_cash (log_event level message values g) = eg_cash g"
  "eg_positions (log_event level message values g) = eg_positions g"
  "eg_trades (log_event level message values g) = eg_trades g"
  "eg_blocked (log_event level message values g) = eg_blocked g"
  "eg_entitlements (log_event level message values g) = eg_entitlements g"
  "eg_equity_curve (log_event level message values g) = eg_equity_curve g"
  "eg_daily_positions (log_event level message values g) = eg_daily_positions g"
  "eg_daily_returns (log_event level message values g) = eg_daily_returns g"
  by (simp_all add: log_event_def Let_def)

lemma block_keeps [engine_simps]:
  "eg_cash (block s d side code' detail g) = eg_cash g"
  "eg_positions (block s d side code' detail g) = eg_positions g"
  "eg_trades (block s d side code' detail g) = eg_trades g"
  "eg_entitlements (block s d side code' detail g) = eg_entitlements g"
  "eg_equity_curve (block s d side code' detail g) = eg_equity_curve g"
  "eg_daily_positions (block s d side code' detail g) = eg_daily_positions g"
  "eg_daily_returns (block s d side code' detail g) = eg_daily_returns g"
  by (simp_all add: block_def engine_simps)

lemma block_blocked [engine_simps]:
  "eg_blocked (block s d side code' detail g) = eg_blocked g @ [\<lparr>bt_symbol = s, bt_trade_date = d, bt_side = side,
     bt_reason_code = code', bt_detail = detail\<rparr>]"
  by (simp add: block_def engine_simps)

lemma set_lots_keeps [engine_simps]:
  "eg_cash (set_lots s lots g) = eg_cash g" "eg_trades (set_lots s lots g) = eg_trades g"
  "eg_blocked (set_lots s lots g) = eg_blocked g" "eg_entitlements (set_lots s lots g) = eg_entitlements g"
  "eg_equity_curve (set_lots s lots g) = eg_equity_curve g"
  "eg_daily_positions (set_lots s lots g) = eg_daily_positions g"
  "eg_daily_returns (set_lots s lots g) = eg_daily_returns g"
  by (simp_all add: set_lots_def)

lemma lots_of_cong: "eg_positions g = eg_positions h \<Longrightarrow> lots_of g = lots_of h"
  by (simp add: lots_of_def fun_eq_iff)

lemma lots_of_update [engine_simps]:
  "lots_of (set_lots s lots g) s' = (if s' = s then lots else lots_of g s')"
  by (auto simp: lots_of_def set_lots_def update_conv')

lemma lots_of_keeps [engine_simps]:
  "lots_of (log_event level message values g) = lots_of g"
  "lots_of (block s d side code' detail g) = lots_of g"
  "lots_of (g\<lparr>eg_cash := c\<rparr>) = lots_of g"
  "lots_of (g\<lparr>eg_trades := t\<rparr>) = lots_of g"
  "lots_of (g\<lparr>eg_entitlements := es\<rparr>) = lots_of g"
  "lots_of (g\<lparr>eg_equity_curve := q, eg_daily_positions := p, eg_daily_returns := r\<rparr>) = lots_of g"
  by (rule lots_of_cong, simp add: engine_simps)+

section \<open>Folds that may raise\<close>

lemma foldRes_inv:
  assumes "foldRes f xs s = Inr t" "P s" "\<And>x s t. x \<in> set xs \<Longrightarrow> P s \<Longrightarrow> f x s = Inr t \<Longrightarrow> P t"
  shows "P t"
  using assms by (induction xs arbitrary: s) (auto simp: res_simps)

lemma foldRes_append: "foldRes f (xs @ ys) s = andThen (foldRes f xs s) (foldRes f ys)"
proof (induction xs arbitrary: s)
  case (Cons x xs)
  then show ?case by (cases "f x s") simp_all
qed simp

lemma foldRes_cong:
  "(\<And>x s. x \<in> set xs \<Longrightarrow> f x s = h x s) \<Longrightarrow> foldRes f xs s = foldRes h xs s"
proof (induction xs arbitrary: s)
  case (Cons x xs)
  then show ?case by (cases "h x s") simp_all
qed simp

section \<open>Lots\<close>

lemma total_quantity_simps [simp]:
  "total_quantity [] = 0" "total_quantity (l # ls) = lot_quantity l + total_quantity ls"
  "total_quantity (ls @ ls') = total_quantity ls + total_quantity ls'"
  by (simp_all add: total_quantity_def)

lemma total_quantity_filter:
  "total_quantity (filter P ls) + total_quantity (filter (\<lambda>l. \<not> P l) ls) = total_quantity ls"
  by (induction ls) auto

definition positive_lots :: "lot list \<Rightarrow> bool" where
  "positive_lots ls \<longleftrightarrow> list_all (\<lambda>l. 0 < lot_quantity l) ls"

lemma positive_total: "positive_lots ls \<Longrightarrow> 0 \<le> total_quantity ls"
  by (induction ls) (auto simp: positive_lots_def)

lemma positive_filter: "positive_lots ls \<Longrightarrow> positive_lots (filter P ls)"
  by (auto simp: positive_lots_def list_all_iff)

text \<open>A sale of at most the sellable shares takes exactly its quantity, leaves the lots positive and
  never touches a lot that is not sellable.\<close>

lemma sell_lots_exact:
  assumes "sell_lots a d price ls q realized = Inr (ls', gain)" "positive_lots ls"
    "0 \<le> q" "q \<le> total_quantity (filter (sellable_lot a d) ls)"
  shows "positive_lots ls' \<and> total_quantity ls' = total_quantity ls - q
    \<and> filter (\<lambda>l. \<not> sellable_lot a d l) ls' = filter (\<lambda>l. \<not> sellable_lot a d l) ls"
  using assms
proof (induction ls arbitrary: q realized ls' gain)
  case Nil
  then show ?case by simp
next
  case (Cons l ls)
  define n where "n = (if sellable_lot a d l then min (lot_quantity l) q else 0)"
  define left where "left = lot_quantity l - n"
  from Cons.prems(1) obtain realized1 rest where rest: "sell_lots a d price ls (q - n) realized1 = Inr (rest, gain)"
    and ls': "ls' = (if left \<noteq> 0 then l\<lparr>lot_quantity := left\<rparr> # rest else rest)"
    unfolding sell_lots.simps Let_def n_def [symmetric] left_def [symmetric] andThen_returns by auto
  have pos: "0 < lot_quantity l" "positive_lots ls" using Cons.prems(2) by (simp_all add: positive_lots_def)
  have n: "0 \<le> n" "n \<le> q" "n \<le> lot_quantity l" using pos Cons.prems(3) by (auto simp: n_def)
  have "q - n \<le> total_quantity (filter (sellable_lot a d) ls)"
    using Cons.prems(4) positive_total [OF positive_filter [OF pos(2)]] by (auto simp: n_def min_def)
  with Cons.IH [OF rest pos(2)] n have ih: "positive_lots rest" "total_quantity rest = total_quantity ls - (q - n)"
    "filter (\<lambda>l. \<not> sellable_lot a d l) rest = filter (\<lambda>l. \<not> sellable_lot a d l) ls" by simp_all
  have "sellable_lot a d (l\<lparr>lot_quantity := left\<rparr>) = sellable_lot a d l" by (simp add: sellable_lot_def)
  moreover have "\<not> sellable_lot a d l \<Longrightarrow> left = lot_quantity l" by (simp add: left_def n_def)
  ultimately show ?case
    using ih n pos unfolding ls' by (auto simp: positive_lots_def left_def)
qed

section \<open>What an order does\<close>

text \<open>A blocked order leaves trades and positions alone; a filled one adds one trade and replaces the
  lots of its symbol.\<close>

definition unfilled :: "engine \<Rightarrow> engine \<Rightarrow> bool" where
  "unfilled g g' \<longleftrightarrow> eg_trades g' = eg_trades g \<and> eg_positions g' = eg_positions g"

definition filled :: "string \<Rightarrow> string \<Rightarrow> string \<Rightarrow> pyfloat \<Rightarrow> int \<Rightarrow> lot list \<Rightarrow> engine \<Rightarrow> engine \<Rightarrow> bool" where
  "filled kind d s price q lots g g' \<longleftrightarrow>
     (\<exists>t. eg_trades g' = eg_trades g @ [t] \<and> tr_symbol t = s \<and> tr_order_type t = kind
        \<and> tr_timestamp t = d \<and> tr_price t = money price \<and> tr_quantity t = q)
     \<and> lots_of g' = (lots_of g)(s := lots)"

text \<open>What neither kind of order touches.\<close>

definition same_records :: "engine \<Rightarrow> engine \<Rightarrow> bool" where
  "same_records g g' \<longleftrightarrow> eg_entitlements g' = eg_entitlements g \<and> eg_equity_curve g' = eg_equity_curve g
     \<and> eg_daily_positions g' = eg_daily_positions g \<and> eg_daily_returns g' = eg_daily_returns g"

lemma whole_lots_le: "0 < ex_lot_size ex \<Longrightarrow> whole_lots ex n \<le> n"
  by (simp add: whole_lots_def) (metis div_mult_mod_eq le_add_same_cancel1 pos_mod_sign)

lemma whole_lots_multiple: "ex_a_share_rules ex \<Longrightarrow> ex_lot_size ex dvd whole_lots ex n"
  by (simp add: whole_lots_def)

lemma sell_order_effect:
  assumes "sell_order ex d s price requested g = Inr g'" "0 < ex_lot_size ex"
  shows "same_records g g' \<and> (unfilled g g' \<or> (\<exists>q lots gain. filled ''sell'' d s price q lots g g' \<and> 0 < q \<and> q \<le> requested
     \<and> q \<le> available (ex_a_share_rules ex) g s d \<and> (ex_a_share_rules ex \<longrightarrow> ex_lot_size ex dvd q)
     \<and> sell_lots (ex_a_share_rules ex) d price (lots_of g s) q (FFin 0) = Inr (lots, gain)))"
proof -
  define sellable where "sellable = available (ex_a_share_rules ex) g s d"
  define q where "q = whole_lots ex (min requested sellable)"
  show ?thesis
  proof (cases "sellable \<le> 0 \<or> q \<le> 0")
    case True
    then show ?thesis
      using assms(1) unfolding sell_order_def Let_def sellable_def [symmetric] q_def [symmetric]
      by (auto simp: unfilled_def same_records_def engine_simps split: if_splits)
  next
    case False
    then obtain lots gain where "sell_lots (ex_a_share_rules ex) d price (lots_of g s) q (FFin 0) = Inr (lots, gain)"
      and fill: "filled ''sell'' d s price q lots g g'" "same_records g g'"
      using assms(1) unfolding sell_order_def Let_def sellable_def [symmetric] q_def [symmetric]
      by (auto simp: filled_def same_records_def engine_simps fun_eq_iff res_simps)
    moreover have "q \<le> min requested sellable" using whole_lots_le [OF assms(2), of "min requested sellable"] by (simp add: q_def)
    moreover have "ex_a_share_rules ex \<longrightarrow> ex_lot_size ex dvd q" using whole_lots_multiple by (simp add: q_def)
    ultimately show ?thesis using False unfolding sellable_def [symmetric] by (auto simp: not_le)
  qed
qed

lemma buy_order_effect:
  assumes "buy_order ex d s price requested g = Inr g'"
  shows "same_records g g' \<and> (unfilled g g' \<or> (\<exists>c. filled ''buy'' d s price requested
     (lots_of g s @ [\<lparr>lot_entry_date = d, lot_quantity = requested, lot_cost_per_share = c\<rparr>]) g g'))"
proof (cases "s \<notin> fst ` set (eg_positions g) \<and> ex_max_positions ex \<le> active_positions g")
  case True
  then show ?thesis
    using assms by (auto simp: buy_order_def unfilled_def same_records_def engine_simps)
next
  case False
  define cost where "cost = (\<lambda>fq. fadd (fmul price fq) (fmul (fmul price fq) (ex_commission_rate ex)))"
  obtain fq where fq: "float_of_int requested = Inr fq"
    and g': "(if flt (fadd (eg_cash g) (literal 1 9)) (cost fq)
      then Inr (block s d ''buy'' ''insufficient_capital'' ''cash cannot fund the requested lot'' g)
      else andThen (fdiv (cost fq) fq) (\<lambda>c. Inr (log_event ''info'' ''order_filled'' [(''symbol'', PStr s),
        (''side'', PStr ''buy''), (''quantity'', PInt requested), (''price'', PFloat (money price))]
        ((set_lots s (lots_of g s @ [\<lparr>lot_entry_date = d, lot_quantity = requested, lot_cost_per_share = c\<rparr>]) g)
         \<lparr>eg_cash := fsub (eg_cash g) (cost fq),
           eg_trades := eg_trades g @ [\<lparr>tr_symbol = s, tr_order_type = ''buy'', tr_timestamp = d,
             tr_price = money price, tr_quantity = requested, tr_amount = money (fmul price fq),
             tr_commission = money (fmul (fmul price fq) (ex_commission_rate ex)), tr_tax = FFin 0,
             tr_realized_pnl = None\<rparr>]\<rparr>)))) = Inr g'"
    using assms unfolding buy_order_def if_not_P [OF False] andThen_returns Let_def cost_def by blast
  show ?thesis
  proof (cases "flt (fadd (eg_cash g) (literal 1 9)) (cost fq)")
    case True
    with g' show ?thesis by (auto simp: unfilled_def same_records_def engine_simps)
  next
    case False
    with g' show ?thesis by (auto simp: res_simps filled_def same_records_def engine_simps fun_eq_iff)
  qed
qed

section \<open>The account of shares\<close>

definition traded :: "string \<Rightarrow> string \<Rightarrow> (string \<Rightarrow> bool) \<Rightarrow> trade list \<Rightarrow> int" where
  "traded kind s P ts = sum_list (map tr_quantity
     (filter (\<lambda>t. tr_order_type t = kind \<and> tr_symbol t = s \<and> P (tr_timestamp t)) ts))"

lemma traded_simps [simp]:
  "traded kind s P [] = 0"
  "traded kind s P (t # ts) = (if tr_order_type t = kind \<and> tr_symbol t = s \<and> P (tr_timestamp t)
     then tr_quantity t else 0) + traded kind s P ts"
  "traded kind s P (ts @ us) = traded kind s P ts + traded kind s P us"
  by (simp_all add: traded_def)

lemma traded_mono:
  "\<forall>t \<in> set ts. 0 \<le> tr_quantity t \<Longrightarrow> \<forall>t \<in> set ts. P (tr_timestamp t) \<longrightarrow> Q (tr_timestamp t)
    \<Longrightarrow> traded kind s P ts \<le> traded kind s Q ts"
  by (induction ts) auto

lemma traded_split: "traded kind s P ts = traded kind s (\<lambda>x. P x \<and> x < d) ts + traded kind s (\<lambda>x. P x \<and> \<not> x < d) ts"
  by (induction ts) auto

lemma traded_cong: "\<forall>t \<in> set ts. P (tr_timestamp t) = Q (tr_timestamp t) \<Longrightarrow> traded kind s P ts = traded kind s Q ts"
  unfolding traded_def by (intro arg_cong [of _ _ sum_list] arg_cong [of _ _ "map tr_quantity"] filter_cong) auto

text \<open>The invariant inside the session of a date: what is held is what was bought and not sold, all
  lots are positive, and, under the A-share rules, the lots of this date are the purchases of
  this date, and no sale was ever larger than what had been bought before its date.\<close>

definition account :: "string \<Rightarrow> lot list \<Rightarrow> trade list \<Rightarrow> bool" where
  "account s ls ts \<longleftrightarrow> positive_lots ls
     \<and> total_quantity ls = traded ''buy'' s (\<lambda>_. True) ts - traded ''sell'' s (\<lambda>_. True) ts"

definition t_plus_one :: "string \<Rightarrow> string \<Rightarrow> lot list \<Rightarrow> trade list \<Rightarrow> bool" where
  "t_plus_one d s ls ts \<longleftrightarrow> (\<forall>l \<in> set ls. lot_entry_date l \<le> d)
     \<and> total_quantity (filter (\<lambda>l. \<not> lot_entry_date l < d) ls) = traded ''buy'' s (\<lambda>x. \<not> x < d) ts
     \<and> (\<forall>d'. traded ''sell'' s (\<lambda>x. x \<le> d') ts \<le> traded ''buy'' s (\<lambda>x. x < d') ts)"

definition book :: "bool \<Rightarrow> string \<Rightarrow> engine \<Rightarrow> bool" where
  "book a d g \<longleftrightarrow> (\<forall>t \<in> set (eg_trades g). tr_timestamp t \<le> d \<and> 0 < tr_quantity t)
     \<and> (\<forall>s. account s (lots_of g s) (eg_trades g))
     \<and> (a \<longrightarrow> (\<forall>s. t_plus_one d s (lots_of g s) (eg_trades g)))"

lemma book_unfilled: "unfilled g g' \<Longrightarrow> book a d g \<Longrightarrow> book a d g'"
  using lots_of_cong [of g' g] by (simp add: unfilled_def book_def)

lemma t_plus_one_buy:
  assumes T: "t_plus_one d s' ls ts" and t: "tr_order_type t = ''buy''" "tr_timestamp t = d" "0 < tr_quantity t"
    and l: "lot_entry_date l = d" "lot_quantity l = tr_quantity t" and s: "tr_symbol t = s"
  shows "t_plus_one d s' (if s' = s then ls @ [l] else ls) (ts @ [t])"
proof -
  define ls' where "ls' = (if s' = s then ls @ [l] else ls)"
  have "\<forall>l \<in> set ls'. lot_entry_date l \<le> d" using T l by (auto simp: t_plus_one_def ls'_def)
  moreover have "total_quantity (filter (\<lambda>l. \<not> lot_entry_date l < d) ls')
      = traded ''buy'' s' (\<lambda>x. \<not> x < d) (ts @ [t])"
    using T t l s by (cases "s' = s") (simp_all add: t_plus_one_def ls'_def)
  moreover have "traded ''sell'' s' (\<lambda>x. x \<le> d') (ts @ [t]) \<le> traded ''buy'' s' (\<lambda>x. x < d') (ts @ [t])" for d'
  proof -
    have "traded ''sell'' s' (\<lambda>x. x \<le> d') (ts @ [t]) = traded ''sell'' s' (\<lambda>x. x \<le> d') ts" using t(1) by simp
    also have "\<dots> \<le> traded ''buy'' s' (\<lambda>x. x < d') ts" using T by (simp add: t_plus_one_def)
    also have "\<dots> \<le> traded ''buy'' s' (\<lambda>x. x < d') (ts @ [t])" using t(3) by simp
    finally show ?thesis .
  qed
  ultimately show ?thesis unfolding t_plus_one_def ls'_def by blast
qed

lemma book_buy:
  assumes "book a d g" "filled ''buy'' d s price q (lots_of g s @ [l]) g g'" "0 < q"
    "lot_quantity l = q" "lot_entry_date l = d"
  shows "book a d g'"
proof -
  obtain t where t: "eg_trades g' = eg_trades g @ [t]" "tr_symbol t = s" "tr_order_type t = ''buy''"
      "tr_timestamp t = d" "tr_quantity t = q" and lots: "lots_of g' = (lots_of g)(s := lots_of g s @ [l])"
    using assms(2) by (auto simp: filled_def)
  show ?thesis
    unfolding book_def
  proof (intro conjI impI allI)
    show "\<forall>t \<in> set (eg_trades g'). tr_timestamp t \<le> d \<and> 0 < tr_quantity t"
      using assms(1,3) t by (simp add: book_def)
  next
    fix s'
    show "account s' (lots_of g' s') (eg_trades g')"
      using assms(1,3,4) t lots by (auto simp: book_def account_def positive_lots_def)
  next
    fix s'
    assume a
    then have "t_plus_one d s' (lots_of g s') (eg_trades g)" using assms(1) by (simp add: book_def)
    from t_plus_one_buy [OF this t(3,4) _ assms(5) _ t(2)] show "t_plus_one d s' (lots_of g' s') (eg_trades g')"
      using assms(3,4) t lots by (simp split: if_splits)
  qed
qed

lemma book_sell:
  assumes b: "book a d g" and f: "filled ''sell'' d s price q lots g g'" and q: "0 < q" "q \<le> available a g s d"
    and lots: "sell_lots a d price (lots_of g s) q realized = Inr (lots, gain)"
  shows "book a d g'"
proof -
  obtain t where t: "eg_trades g' = eg_trades g @ [t]" "tr_symbol t = s" "tr_order_type t = ''sell''"
      "tr_timestamp t = d" "tr_quantity t = q" and lots': "lots_of g' = (lots_of g)(s := lots)"
    using f by (auto simp: filled_def)
  have acc: "account s' (lots_of g s') (eg_trades g)" for s' using b by (simp add: book_def)
  have old: "\<forall>t \<in> set (eg_trades g). tr_timestamp t \<le> d \<and> 0 \<le> tr_quantity t" using b by (auto simp: book_def)
  have eff: "positive_lots lots" "total_quantity lots = total_quantity (lots_of g s) - q"
    "filter (\<lambda>l. \<not> sellable_lot a d l) lots = filter (\<lambda>l. \<not> sellable_lot a d l) (lots_of g s)"
    using sell_lots_exact [OF lots] acc [of s] q by (simp_all add: account_def available_def)
  show ?thesis
    unfolding book_def
  proof (intro conjI impI allI)
    show "\<forall>t \<in> set (eg_trades g'). tr_timestamp t \<le> d \<and> 0 < tr_quantity t"
      using b q t by (simp add: book_def)
  next
    fix s'
    show "account s' (lots_of g' s') (eg_trades g')"
      using acc [of s'] eff t lots' by (auto simp: account_def)
  next
    fix s'
    assume a
    then have T: "t_plus_one d s' (lots_of g s') (eg_trades g)" using b by (simp add: book_def)
    show "t_plus_one d s' (lots_of g' s') (eg_trades g')"
    proof (cases "s' = s")
      case False
      with T t lots' show ?thesis by (simp add: t_plus_one_def)
    next
      case True
      have today: "filter (\<lambda>l. \<not> lot_entry_date l < d) lots = filter (\<lambda>l. \<not> lot_entry_date l < d) (lots_of g s)"
        using eff(3) \<open>a\<close> by (simp add: sellable_lot_def)
      have entries: "\<forall>l \<in> set lots. lot_entry_date l \<le> d"
      proof
        fix l
        assume "l \<in> set lots"
        then have "l \<in> set (filter (\<lambda>l. \<not> lot_entry_date l < d) lots) \<or> lot_entry_date l < d" by simp
        then show "lot_entry_date l \<le> d"
          unfolding today using T [unfolded True] by (auto simp: t_plus_one_def)
      qed
      have "filter (sellable_lot a d) (lots_of g s) = filter (\<lambda>l. lot_entry_date l < d) (lots_of g s)"
        using \<open>a\<close> by (intro filter_cong) (simp_all add: sellable_lot_def)
      then have "q \<le> total_quantity (lots_of g s) - traded ''buy'' s (\<lambda>x. \<not> x < d) (eg_trades g)"
        using q(2) T [unfolded True] total_quantity_filter [of "\<lambda>l. lot_entry_date l < d" "lots_of g s"]
        by (simp add: t_plus_one_def available_def)
      then have room: "traded ''sell'' s (\<lambda>_. True) (eg_trades g) + q \<le> traded ''buy'' s (\<lambda>x. x < d) (eg_trades g)"
        using acc [of s] traded_split [of "''buy''" s "\<lambda>_. True" "eg_trades g" d] by (simp add: account_def)
      have "traded ''sell'' s (\<lambda>x. x \<le> d') (eg_trades g) + q \<le> traded ''buy'' s (\<lambda>x. x < d') (eg_trades g)" if "d \<le> d'" for d'
      proof -
        have "traded ''sell'' s (\<lambda>x. x \<le> d') (eg_trades g) \<le> traded ''sell'' s (\<lambda>_. True) (eg_trades g)"
          using old by (intro traded_mono) auto
        moreover have "traded ''buy'' s (\<lambda>x. x < d) (eg_trades g) \<le> traded ''buy'' s (\<lambda>x. x < d') (eg_trades g)"
          using old that by (intro traded_mono) auto
        ultimately show ?thesis using room by linarith
      qed
      then show ?thesis
        using T t lots' entries today True unfolding t_plus_one_def by auto
    qed
  qed
qed

section \<open>Where a trade comes from\<close>

definition order_side :: "signal \<Rightarrow> string" where
  "order_side s = (if sig_direction s < 0 then ''sell'' else ''buy'')"

definition ordered_quantity :: "execution_rules \<Rightarrow> signal \<Rightarrow> int" where
  "ordered_quantity ex s = (case sig_quantity s of None \<Rightarrow> ex_lot_size ex | Some n \<Rightarrow> n)"

text \<open>The limits of the day: the bar's own, or the previous close moved by the threshold, to the cent.\<close>

definition upper_limit :: "execution_rules \<Rightarrow> bar \<Rightarrow> pyfloat \<Rightarrow> pyfloat" where
  "upper_limit ex b previous = (case bar_up_limit b of Some x \<Rightarrow> x
     | None \<Rightarrow> float_round_to 2 (fmul previous (fadd (FFin 1) (ex_limit_threshold ex))))"

definition lower_limit :: "execution_rules \<Rightarrow> bar \<Rightarrow> pyfloat \<Rightarrow> pyfloat" where
  "lower_limit ex b previous = (case bar_down_limit b of Some x \<Rightarrow> x
     | None \<Rightarrow> float_round_to 2 (fmul previous (fsub (FFin 1) (ex_limit_threshold ex))))"

text \<open>Under the A-share rules the bar is not suspended and, when it names a previous close, a buy does not
  open within 1e-8 of the upper limit or above it, and a sell does not open within 1e-8 of the
  lower limit or below it (unless the open is at the upper limit too).\<close>

definition may_trade :: "execution_rules \<Rightarrow> signal \<Rightarrow> bar \<Rightarrow> bool" where
  "may_trade ex s b \<longleftrightarrow> (ex_a_share_rules ex \<longrightarrow> \<not> bar_is_suspended b
     \<and> (\<forall>previous. bar_prev_close b = Some previous \<longrightarrow>
         (if sig_direction s < 0
          then \<not> fle (bar_open b) (fadd (lower_limit ex b previous) (literal 1 8))
            \<or> fle (fsub (upper_limit ex b previous) (literal 1 8)) (bar_open b)
          else \<not> fle (fsub (upper_limit ex b previous) (literal 1 8)) (bar_open b))))"

text \<open>A fill is at the open of the bar, moved by the slippage against the order.\<close>

definition fill_price :: "execution_rules \<Rightarrow> signal \<Rightarrow> bar \<Rightarrow> pyfloat" where
  "fill_price ex s b = fmul (bar_open b)
     (if sig_direction s < 0 then fsub (FFin 1) (ex_slippage_rate ex) else fadd (FFin 1) (ex_slippage_rate ex))"

definition legal_trade :: "manifest \<Rightarrow> string \<Rightarrow> signal list \<Rightarrow> trade \<Rightarrow> bool" where
  "legal_trade m d orders t \<longleftrightarrow> (\<exists>s \<in> set orders. \<exists>b. bar_at m d (sig_symbol s) = Some b
     \<and> may_trade (mf_execution m) s b \<and> tr_symbol t = sig_symbol s
     \<and> tr_order_type t = order_side s \<and> tr_timestamp t = d \<and> tr_price t = money (fill_price (mf_execution m) s b)
     \<and> 0 < tr_quantity t \<and> tr_quantity t \<le> ordered_quantity (mf_execution m) s
     \<and> (ex_a_share_rules (mf_execution m) \<longrightarrow> ex_lot_size (mf_execution m) dvd tr_quantity t))"

lemma execute_order_cases:
  assumes "execute_order m d s g = Inr g'"
  shows "(same_records g g' \<and> unfilled g g')
    \<or> (\<exists>b. bar_at m d (sig_symbol s) = Some b \<and> may_trade (mf_execution m) s b
       \<and> 0 < whole_lots (mf_execution m) (ordered_quantity (mf_execution m) s)
       \<and> (if sig_direction s < 0 then sell_order else buy_order) (mf_execution m) d (sig_symbol s)
           (fill_price (mf_execution m) s b) (whole_lots (mf_execution m) (ordered_quantity (mf_execution m) s)) g = Inr g')"
proof (cases "bar_at m d (sig_symbol s)")
  case None
  then show ?thesis
    using assms by (auto simp: execute_order_def unfilled_def same_records_def engine_simps)
next
  case (Some b)
  note e = assms [unfolded execute_order_def Let_def Some option.case]
  let ?ex = "mf_execution m"
  show ?thesis
  proof (cases "ex_a_share_rules ?ex \<and> bar_is_suspended b
      \<or> (if sig_direction s < 0 then ''sell'' else ''buy'') = ''buy'' \<and> (if ex_a_share_rules ?ex then limit_state b (ex_limit_threshold ?ex) else None) = Some ''limit_up''
      \<or> (if sig_direction s < 0 then ''sell'' else ''buy'') = ''sell'' \<and> (if ex_a_share_rules ?ex then limit_state b (ex_limit_threshold ?ex) else None) = Some ''limit_down''
      \<or> whole_lots ?ex (ordered_quantity ?ex s) \<le> 0")
    case True
    then show ?thesis
      using e unfolding ordered_quantity_def [symmetric]
      by (auto simp: unfilled_def same_records_def engine_simps split: if_splits)
  next
    case False
    then have "may_trade ?ex s b"
      by (auto simp: may_trade_def limit_state_def upper_limit_def lower_limit_def Let_def split: if_splits)
    moreover have "(if sig_direction s < 0 then sell_order else buy_order) ?ex d (sig_symbol s) (fill_price ?ex s b)
           (whole_lots ?ex (ordered_quantity ?ex s)) g = Inr g'"
      using e False unfolding ordered_quantity_def [symmetric] by (auto simp: fill_price_def split: if_splits)
    ultimately show ?thesis using False Some by auto
  qed
qed

lemma execute_order_effect:
  assumes "execute_order m d s g = Inr g'" "0 < ex_lot_size (mf_execution m)"
  shows "same_records g g' \<and> (unfilled g g' \<or> (\<exists>t. eg_trades g' = eg_trades g @ [t] \<and> legal_trade m d [s] t))"
proof -
  let ?ex = "mf_execution m" and ?q = "whole_lots (mf_execution m) (ordered_quantity (mf_execution m) s)"
  have q: "?q \<le> ordered_quantity ?ex s" "ex_a_share_rules ?ex \<longrightarrow> ex_lot_size ?ex dvd ?q"
    using whole_lots_le [OF assms(2)] whole_lots_multiple by blast+
  have fill: "\<exists>t. eg_trades g' = eg_trades g @ [t] \<and> legal_trade m d [s] t"
    if "filled (order_side s) d (sig_symbol s) (fill_price ?ex s b) n lots g g'"
      "bar_at m d (sig_symbol s) = Some b" "may_trade ?ex s b" "0 < n" "n \<le> ?q"
      "ex_a_share_rules ?ex \<longrightarrow> ex_lot_size ?ex dvd n" for n lots b
    using that q(1) by (auto simp: filled_def legal_trade_def)
  show ?thesis
    using execute_order_cases [OF assms(1)]
  proof (elim disjE conjE exE)
    fix b
    assume h: "bar_at m d (sig_symbol s) = Some b" "may_trade ?ex s b" "0 < ?q"
      "(if sig_direction s < 0 then sell_order else buy_order) ?ex d (sig_symbol s) (fill_price ?ex s b) ?q g = Inr g'"
    show ?thesis
    proof (cases "sig_direction s < 0")
      case True
      with h(4) sell_order_effect [OF _ assms(2)] fill [OF _ h(1,2)] show ?thesis
        by (fastforce simp: order_side_def)
    next
      case False
      with h(4) buy_order_effect fill [OF _ h(1-3) order_refl q(2)] show ?thesis
        by (fastforce simp: order_side_def)
    qed
  qed simp
qed

lemma book_execute:
  assumes "execute_order m d s g = Inr g'" "0 < ex_lot_size (mf_execution m)" "book (ex_a_share_rules (mf_execution m)) d g"
  shows "book (ex_a_share_rules (mf_execution m)) d g'"
  using execute_order_cases [OF assms(1)]
proof (elim disjE conjE exE)
  assume "unfilled g g'"
  then show ?thesis using assms(3) by (rule book_unfilled)
next
  let ?ex = "mf_execution m" and ?q = "whole_lots (mf_execution m) (ordered_quantity (mf_execution m) s)"
  fix b
  assume h: "0 < ?q"
    "(if sig_direction s < 0 then sell_order else buy_order) ?ex d (sig_symbol s) (fill_price ?ex s b) ?q g = Inr g'"
  show ?thesis
  proof (cases "sig_direction s < 0")
    case True
    with h(2) have "sell_order ?ex d (sig_symbol s) (fill_price ?ex s b) ?q g = Inr g'" by simp
    from sell_order_effect [OF this assms(2)] show ?thesis
      using book_unfilled assms(3) book_sell [OF assms(3)] by blast
  next
    case False
    with h(2) have "buy_order ?ex d (sig_symbol s) (fill_price ?ex s b) ?q g = Inr g'" by simp
    from buy_order_effect [OF this] show ?thesis
      using book_unfilled assms(3) book_buy [OF assms(3) _ h(1)] by fastforce
  qed
qed

end
