(* ===== verification/Backtest_Example.thy ===== *)
theory Backtest_Example
  imports Backtest_Trades
begin

text \<open>
  A run of the engine evaluated step by step: a market small enough to follow, in which every price
  and amount is a whole number.
\<close>

section \<open>A small market\<close>

text \<open>Two symbols at the price 1 on four days, without costs; an order is one lot of 100 shares and at most
  one position may be active.\<close>

definition flat_bar :: "string \<Rightarrow> string \<Rightarrow> bar" where
  "flat_bar symbol date = \<lparr>bar_symbol = symbol, bar_trade_date = date, bar_open = FFin 1, bar_close = FFin 1,
     bar_prev_close = None, bar_up_limit = None, bar_down_limit = None, bar_is_suspended = False\<rparr>"

definition order_of :: "string \<Rightarrow> string \<Rightarrow> int \<Rightarrow> signal" where
  "order_of symbol date direction = \<lparr>sig_symbol = symbol, sig_trade_date = date, sig_direction = direction,
     sig_quantity = None\<rparr>"

definition small_rules :: execution_rules where
  "small_rules = \<lparr>ex_initial_capital = FFin 1000, ex_commission_rate = FFin 0, ex_stamp_tax_rate = FFin 0,
     ex_slippage_rate = FFin 0, ex_limit_threshold = FFin 0, ex_lot_size = 100, ex_max_positions = 1,
     ex_a_share_rules = True, ex_max_runtime_seconds = FFin 60\<rparr>"

definition small_market :: "signal list \<Rightarrow> manifest" where
  "small_market orders = \<lparr>mf_bars = [flat_bar ''A'' ''1'', flat_bar ''B'' ''1'', flat_bar ''A'' ''2'', flat_bar ''B'' ''2'',
       flat_bar ''A'' ''3'', flat_bar ''B'' ''3'', flat_bar ''A'' ''4'', flat_bar ''B'' ''4''],
     mf_signals = orders, mf_actions = [], mf_benchmark = [], mf_execution = small_rules\<rparr>"

lemma small_less [simp]: "''1'' < ''2''" "''2'' < ''3''" "''3'' < ''4''" "''1'' < ''3''" "''1'' < ''4''" "''2'' < ''4''"
  by code_simp+

lemma dates_small: "dates_of (small_market os) = [''1'', ''2'', ''3'', ''4'']"
  by (simp add: dates_of_def small_market_def flat_bar_def)

lemma small_bar: "d \<in> {''1'', ''2'', ''3'', ''4''} \<Longrightarrow> s \<in> {''A'', ''B''} \<Longrightarrow> bar_at (small_market os) d s = Some (flat_bar s d)"
  by (auto simp: bar_at_def small_market_def flat_bar_def)

lemma money_exact: "money (FFin 0) = FFin 0" "money (FFin 1) = FFin 1"
  "(numeral n :: int) < 2 ^ 53 \<Longrightarrow> money (FFin (numeral n)) = FFin (numeral n)"
  by (simp_all only: money_def exact_float_simps)

lemma small_fields: "mf_benchmark (small_market os) = []" "mf_execution (small_market os) = small_rules"
  "mf_actions (small_market os) = []" "mf_signals (small_market os) = os"
  by (simp_all add: small_market_def)

lemma cash_is_enough:
  "\<not> flt (fadd (FFin 1000) (literal 1 9)) (FFin 100)" "\<not> flt (fadd (FFin 900) (literal 1 9)) (FFin 100)"
  by code_simp+

lemmas small_run =
  exact_float_simps feq_def fle_def fmax_def fsub_def small_fields dates_small small_bar cash_is_enough small_rules_def flat_bar_def order_of_def
  run_native_backtest_def session_def apply_actions_def actions_on_def settle_actions_def orders_for_def signals_on_def
  execute_order_def sell_order_def buy_order_def close_session_def value_position_def value_entitlement_def position_rows_def
  initial_engine_def whole_lots_def set_lots_def available_def lots_of_def active_positions_def sellable_lot_def
  benchmark_curve_def benchmark_close_def money_exact limit_state_def engine_simps Let_def

text \<open>A is bought on the first day's signal, sold out, bought again after B has been bought.\<close>

definition crowded :: manifest where
  "crowded = small_market [order_of ''A'' ''1'' 1, order_of ''A'' ''2'' (-1), order_of ''B'' ''2'' 1, order_of ''A'' ''3'' 1]"

text \<open>The state of the run of \<open>crowded\<close> after each day.\<close>

definition row :: "string \<Rightarrow> rat \<Rightarrow> int \<Rightarrow> equity_row" where
  "row d c n = \<lparr>eq_trade_date = d, eq_equity = FFin 1000, eq_cash = FFin c, eq_positions_count = n\<rparr>"

definition fill :: "string \<Rightarrow> string \<Rightarrow> string \<Rightarrow> pyfloat option \<Rightarrow> trade" where
  "fill s kind d pnl = \<lparr>tr_symbol = s, tr_order_type = kind, tr_timestamp = d, tr_price = FFin 1, tr_quantity = 100,
     tr_amount = FFin 100, tr_commission = FFin 0, tr_tax = FFin 0, tr_realized_pnl = pnl\<rparr>"

definition one_lot :: "string \<Rightarrow> lot" where
  "one_lot d = \<lparr>lot_entry_date = d, lot_quantity = 100, lot_cost_per_share = FFin 1\<rparr>"

definition snapshot :: "engine \<Rightarrow> rat \<Rightarrow> (string \<times> lot list) list \<Rightarrow> trade list \<Rightarrow> equity_row list \<Rightarrow> bool" where
  "snapshot g c ps ts rows \<longleftrightarrow> eg_cash g = FFin c \<and> eg_positions g = ps \<and> eg_trades g = ts
     \<and> eg_entitlements g = [] \<and> eg_equity_curve g = rows"

lemma char_AB: "''A'' < ''B''" "''A'' \<le> ''B''" "\<not> ''B'' < ''A''"
  by code_simp+

lemmas crowded_simps = crowded_def snapshot_def row_def fill_def one_lot_def char_AB small_run

lemma crowded_1: "snapshot (initial_engine crowded) 1000 [] [] []"
  by (simp add: crowded_simps)

lemma crowded_2: "snapshot g 1000 [] [] [] \<Longrightarrow>
  \<exists>g'. session crowded None ''1'' g = Inr g' \<and> snapshot g' 1000 [] [] [row ''1'' 1000 0]"
  by (simp add: crowded_simps)

lemma crowded_3: "snapshot g 1000 [] [] [row ''1'' 1000 0] \<Longrightarrow>
  \<exists>g'. session crowded (Some ''1'') ''2'' g = Inr g' \<and> snapshot g' 900 [(''A'', [one_lot ''2''])] [fill ''A'' ''buy'' ''2'' None]
    [row ''1'' 1000 0, row ''2'' 900 1]"
  by (simp add: crowded_simps)

lemma crowded_4: "snapshot g 900 [(''A'', [one_lot ''2''])] [fill ''A'' ''buy'' ''2'' None] [row ''1'' 1000 0, row ''2'' 900 1] \<Longrightarrow>
  \<exists>g'. session crowded (Some ''2'') ''3'' g = Inr g' \<and> snapshot g' 900 [(''A'', []), (''B'', [one_lot ''3''])]
    [fill ''A'' ''buy'' ''2'' None, fill ''A'' ''sell'' ''3'' (Some (FFin 0)), fill ''B'' ''buy'' ''3'' None]
    [row ''1'' 1000 0, row ''2'' 900 1, row ''3'' 900 1]"
  by (simp add: crowded_simps)

lemma crowded_5: "snapshot g 900 [(''A'', []), (''B'', [one_lot ''3''])]
    [fill ''A'' ''buy'' ''2'' None, fill ''A'' ''sell'' ''3'' (Some (FFin 0)), fill ''B'' ''buy'' ''3'' None]
    [row ''1'' 1000 0, row ''2'' 900 1, row ''3'' 900 1] \<Longrightarrow>
  \<exists>g'. session crowded (Some ''3'') ''4'' g = Inr g' \<and> snapshot g' 800 [(''A'', [one_lot ''4'']), (''B'', [one_lot ''3''])]
    [fill ''A'' ''buy'' ''2'' None, fill ''A'' ''sell'' ''3'' (Some (FFin 0)), fill ''B'' ''buy'' ''3'' None, fill ''A'' ''buy'' ''4'' None]
    [row ''1'' 1000 0, row ''2'' 900 1, row ''3'' 900 1, row ''4'' 800 2]"
  by (simp add: crowded_simps)

lemma crowded_run:
  "\<exists>r. run_native_backtest crowded (\<lambda>_. FFin 0) = Inr r
    \<and> eg_trades (br_engine r) = [fill ''A'' ''buy'' ''2'' None, fill ''A'' ''sell'' ''3'' (Some (FFin 0)),
        fill ''B'' ''buy'' ''3'' None, fill ''A'' ''buy'' ''4'' None]
    \<and> eg_positions (br_engine r) = [(''A'', [one_lot ''4'']), (''B'', [one_lot ''3''])]
    \<and> eg_equity_curve (br_engine r) = [row ''1'' 1000 0, row ''2'' 900 1, row ''3'' 900 1, row ''4'' 800 2]"
proof -
  obtain g1 where 1: "session crowded None ''1'' (initial_engine crowded) = Inr g1" "snapshot g1 1000 [] [] [row ''1'' 1000 0]"
    using crowded_2 [OF crowded_1] by blast
  obtain g2 where 2: "session crowded (Some ''1'') ''2'' g1 = Inr g2" "snapshot g2 900 [(''A'', [one_lot ''2''])]
      [fill ''A'' ''buy'' ''2'' None] [row ''1'' 1000 0, row ''2'' 900 1]"
    using crowded_3 [OF 1(2)] by blast
  obtain g3 where 3: "session crowded (Some ''2'') ''3'' g2 = Inr g3" "snapshot g3 900 [(''A'', []), (''B'', [one_lot ''3''])]
      [fill ''A'' ''buy'' ''2'' None, fill ''A'' ''sell'' ''3'' (Some (FFin 0)), fill ''B'' ''buy'' ''3'' None]
      [row ''1'' 1000 0, row ''2'' 900 1, row ''3'' 900 1]"
    using crowded_4 [OF 2(2)] by blast
  obtain g4 where 4: "session crowded (Some ''3'') ''4'' g3 = Inr g4" "snapshot g4 800 [(''A'', [one_lot ''4'']), (''B'', [one_lot ''3''])]
      [fill ''A'' ''buy'' ''2'' None, fill ''A'' ''sell'' ''3'' (Some (FFin 0)), fill ''B'' ''buy'' ''3'' None, fill ''A'' ''buy'' ''4'' None]
      [row ''1'' 1000 0, row ''2'' 900 1, row ''3'' 900 1, row ''4'' 800 2]"
    using crowded_5 [OF 3(2)] by blast
  have dates: "dates_of crowded = [''1'', ''2'', ''3'', ''4'']" and fields: "mf_execution crowded = small_rules" "mf_benchmark crowded = []"
    by (simp_all add: crowded_def dates_small small_fields)
  have "run_sessions crowded (\<lambda>_. FFin 0) 0 None (dates_of crowded) (initial_engine crowded) = Inr g4"
    by (simp add: dates fields 1(1) 2(1) 3(1) 4(1) small_rules_def)
  with 4(2) show ?thesis
    by (simp add: run_native_backtest_def Let_def dates fields benchmark_curve_def benchmark_close_def small_rules_def snapshot_def
        row_def feq_def fmax_def fsub_def exact_float_simps engine_simps)
qed

text \<open>The limit on active positions is checked only for a symbol that was never held: A, sold out on the
  third day, is bought again on the fourth although B is held and the limit is one.\<close>

theorem max_positions_exceeded:
  "ex_max_positions (mf_execution crowded) = 1
   \<and> (\<exists>r. run_native_backtest crowded (\<lambda>_. FFin 0) = Inr r
        \<and> map eq_positions_count (eg_equity_curve (br_engine r)) = [0, 1, 1, 2])"
  using crowded_run by (auto simp: crowded_def small_market_def small_rules_def row_def)

end
