(* ===== verification/Backtest_Runs.thy ===== *)
theory Backtest_Runs
  imports Backtest_Example
begin

text \<open>
  A run of the engine from the first session to the result: what each phase of a session may touch,
  the account of shares, and where the trades come from.
\<close>

section \<open>What a session adds to the records\<close>

text \<open>The records of a run only grow, by rows of the session's date.\<close>

definition grows :: "('r \<Rightarrow> string) \<Rightarrow> string \<Rightarrow> 'r list \<Rightarrow> 'r list \<Rightarrow> bool" where
  "grows date_of d rs rs' \<longleftrightarrow> (\<exists>zs. rs' = rs @ zs \<and> (\<forall>z \<in> set zs. date_of z = d))"

lemma grows_refl [simp, intro]: "grows f d rs rs"
  by (simp add: grows_def)

lemma grows_one [simp]: "f r = d \<Longrightarrow> grows f d rs (rs @ [r])"
  by (simp add: grows_def)

lemma grows_trans: "grows f d rs rs' \<Longrightarrow> grows f d rs' rs'' \<Longrightarrow> grows f d rs rs''"
  unfolding grows_def by fastforce

lemma grows_past: "grows f d rs rs' \<Longrightarrow> c < d \<Longrightarrow> filter (\<lambda>r. f r \<le> c) rs' = filter (\<lambda>r. f r \<le> c) rs"
  by (auto simp: grows_def filter_empty_conv)

definition appends :: "string \<Rightarrow> engine \<Rightarrow> engine \<Rightarrow> bool" where
  "appends d g g' \<longleftrightarrow> grows tr_timestamp d (eg_trades g) (eg_trades g')
     \<and> grows bt_trade_date d (eg_blocked g) (eg_blocked g')
     \<and> grows eq_trade_date d (eg_equity_curve g) (eg_equity_curve g')
     \<and> grows fst d (eg_daily_positions g) (eg_daily_positions g')
     \<and> grows fst d (eg_daily_returns g) (eg_daily_returns g')"

lemma appends_trans: "appends d g g' \<Longrightarrow> appends d g' g'' \<Longrightarrow> appends d g g''"
  unfolding appends_def by (blast intro: grows_trans)

lemma appends_refl [simp, intro]: "appends d g g"
  by (simp add: appends_def)

lemma appends_fold:
  assumes "foldRes f xs g = Inr g'" "\<And>x g g'. x \<in> set xs \<Longrightarrow> f x g = Inr g' \<Longrightarrow> appends d g g'"
  shows "appends d g g'"
  by (rule foldRes_inv [OF assms(1), where P = "appends d g"]) (auto intro: appends_trans assms(2))

section \<open>The phases of a session\<close>

lemma session_steps:
  "session m p d g = Inr g' \<longleftrightarrow> (\<exists>g1 g2 g3. apply_actions m d g = Inr g1 \<and> settle_actions d g1 = Inr g2
     \<and> foldRes (execute_order m d) (orders_for m p) g2 = Inr g3 \<and> close_session m d g3 = Inr g')"
  unfolding session_def andThen_returns by blast

text \<open>Corporate actions and the close leave trades and blocked orders alone.\<close>

definition no_orders :: "engine \<Rightarrow> engine \<Rightarrow> bool" where
  "no_orders g g' \<longleftrightarrow> eg_trades g' = eg_trades g \<and> eg_blocked g' = eg_blocked g"

definition same_rows :: "engine \<Rightarrow> engine \<Rightarrow> bool" where
  "same_rows g g' \<longleftrightarrow> eg_equity_curve g' = eg_equity_curve g
     \<and> eg_daily_positions g' = eg_daily_positions g \<and> eg_daily_returns g' = eg_daily_returns g"

lemma no_orders_appends: "no_orders g g' \<Longrightarrow> same_rows g g' \<Longrightarrow> appends d g g'"
  by (simp add: no_orders_def same_rows_def appends_def)

lemma entitle_keeps:
  "entitle d a g = Inr g' \<Longrightarrow> no_orders g g' \<and> same_rows g g' \<and> eg_positions g' = eg_positions g"
  by (auto simp: entitle_def Let_def no_orders_def same_rows_def res_simps engine_simps split: if_splits)

lemma apply_actions_keeps:
  assumes "apply_actions m d g = Inr g'"
  shows "no_orders g g' \<and> same_rows g g' \<and> eg_positions g' = eg_positions g"
  by (rule foldRes_inv [OF assms [unfolded apply_actions_def]])
    (auto simp: no_orders_def same_rows_def dest!: entitle_keeps)

lemma settle_cash_keeps:
  "settle_cash d e g = (e', g') \<Longrightarrow> no_orders g g' \<and> same_rows g g' \<and> eg_positions g' = eg_positions g
     \<and> en_shares_settled e' = en_shares_settled e"
  by (auto simp: settle_cash_def no_orders_def same_rows_def engine_simps split: if_splits)

lemma settle_shares_keeps:
  assumes "settle_shares d e g = Inr (e', g')"
  shows "no_orders g g' \<and> same_rows g g' \<and> (en_shares_settled e \<longrightarrow> e' = e \<and> g' = g)"
proof (cases "\<not> en_shares_settled e \<and> en_share_listing_date e \<le> d")
  case False
  then show ?thesis
    using assms by (simp add: settle_shares_def if_not_P [OF False] no_orders_def same_rows_def)
next
  case True
  let ?log = "log_event ''info'' ''stock_dividend_settled'' [(''symbol'', PStr (en_symbol e)),
    (''trade_date'', PStr d), (''share_quantity'', PInt (en_share_quantity e))]"
  have "\<exists>h. (h = g \<or> (\<exists>lots. h = set_lots (en_symbol e) lots g)) \<and> g' = ?log h"
    using assms unfolding settle_shares_def if_P [OF True] Let_def andThen_returns
    by (auto simp: res_simps split: if_splits)
  then show ?thesis using True by (auto simp: no_orders_def same_rows_def engine_simps)
qed

lemma settle_all_keeps:
  "settle_all d es g = Inr (es', g') \<Longrightarrow> no_orders g g' \<and> same_rows g g'
     \<and> (list_all en_shares_settled es \<longrightarrow> list_all en_shares_settled es' \<and> eg_positions g' = eg_positions g)"
proof (induction es arbitrary: g es')
  case Nil
  then show ?case by (simp add: no_orders_def same_rows_def)
next
  case (Cons e es)
  obtain e1 g1 where c: "settle_cash d e g = (e1, g1)" by (cases "settle_cash d e g")
  with Cons.prems obtain e2 g2 es2 where s: "settle_shares d e1 g1 = Inr (e2, g2)"
    and r: "settle_all d es g2 = Inr (es2, g')" and es': "es' = e2 # es2"
    by (auto simp: res_simps)
  show ?case
    using settle_cash_keeps [OF c] settle_shares_keeps [OF s] Cons.IH [OF r]
    by (auto simp: es' no_orders_def same_rows_def)
qed

lemma settle_actions_keeps:
  assumes "settle_actions d g = Inr g'"
  shows "no_orders g g' \<and> same_rows g g' \<and> (list_all en_shares_settled (eg_entitlements g)
     \<longrightarrow> list_all en_shares_settled (eg_entitlements g') \<and> eg_positions g' = eg_positions g)"
proof -
  obtain es h where a: "settle_all d (eg_entitlements g) g = Inr (es, h)" and g': "g' = h\<lparr>eg_entitlements := es\<rparr>"
    using assms by (auto simp: settle_actions_def res_simps)
  from settle_all_keeps [OF a] show ?thesis by (simp add: g' no_orders_def same_rows_def)
qed

lemma close_session_effect:
  assumes "close_session m d g = Inr g'"
  shows "no_orders g g' \<and> eg_positions g' = eg_positions g \<and> eg_entitlements g' = eg_entitlements g
    \<and> (\<exists>q. eq_trade_date q = d \<and> eg_equity_curve g' = eg_equity_curve g @ [q])
    \<and> eg_daily_positions g' = eg_daily_positions g @ [(d, position_rows g)]
    \<and> (\<exists>r. eg_daily_returns g' = eg_daily_returns g @ [(d, r)])"
  using assms unfolding close_session_def
  by (auto simp: res_simps Let_def no_orders_def engine_simps split: prod.splits)

lemma appends_log: "appends d g h \<Longrightarrow> appends d g (log_event level message values h)"
  by (simp add: appends_def engine_simps)

lemma appends_block: "appends d g h \<Longrightarrow> appends d g (block x d side reason detail h)"
  unfolding appends_def block_keeps block_blocked by (auto intro: grows_trans [OF _ grows_one])

lemma appends_fill:
  "tr_timestamp t = d \<Longrightarrow> appends d g ((set_lots s lots g)\<lparr>eg_cash := c, eg_trades := eg_trades g @ [t]\<rparr>)"
  by (simp add: appends_def engine_simps)

lemmas appends_intros = appends_log appends_block appends_fill appends_refl

lemma sell_appends: "sell_order ex d s price requested g = Inr g' \<Longrightarrow> appends d g g'"
  unfolding sell_order_def Let_def
  by (elim returns_elims) (auto simp only: sum.inject trade.simps intro!: appends_intros split: if_split)

lemma buy_appends: "buy_order ex d s price requested g = Inr g' \<Longrightarrow> appends d g g'"
  unfolding buy_order_def Let_def
  by (elim returns_elims) (auto simp only: sum.inject trade.simps intro!: appends_intros)

lemma execute_appends:
  assumes "execute_order m d s g = Inr g'"
  shows "appends d g g'"
proof (cases "bar_at m d (sig_symbol s)")
  case None
  then show ?thesis using assms by (auto simp: execute_order_def Let_def intro!: appends_intros)
next
  case (Some b)
  show ?thesis
    using assms unfolding execute_order_def Let_def Some option.case
    by (elim returns_elims) (auto simp only: sum.inject intro!: appends_intros dest: sell_appends buy_appends)
qed

lemma session_appends:
  assumes "session m p d g = Inr g'"
  shows "appends d g g'"
proof -
  from assms obtain g1 g2 g3 where a: "apply_actions m d g = Inr g1" and s: "settle_actions d g1 = Inr g2"
    and e: "foldRes (execute_order m d) (orders_for m p) g2 = Inr g3" and c: "close_session m d g3 = Inr g'"
    by (auto simp: session_steps)
  have "appends d g g1" "appends d g1 g2"
    using apply_actions_keeps [OF a] settle_actions_keeps [OF s] no_orders_appends by blast+
  moreover have "appends d g2 g3" by (rule appends_fold [OF e]) (rule execute_appends)
  moreover have "appends d g3 g'"
    using close_session_effect [OF c] by (auto simp: appends_def no_orders_def)
  ultimately show ?thesis by (blast intro: appends_trans)
qed

section \<open>The account over a run\<close>

text \<open>A manifest whose corporate actions distribute cash only.\<close>

definition cash_only :: "manifest \<Rightarrow> bool" where
  "cash_only m \<longleftrightarrow> list_all (\<lambda>a. ca_share_ratio a = FFin 0) (mf_actions m)"

lemma round_zero: "float_round (to_double 0) = Inr 0"
  by (simp add: to_double_def round_signed_def round_half_even_def ilog2.simps [of 0])

lemma entitle_cash_only:
  assumes "entitle d a g = Inr g'" "ca_share_ratio a = FFin 0" "list_all en_shares_settled (eg_entitlements g)"
  shows "list_all en_shares_settled (eg_entitlements g')"
proof (cases "lots_of g (ca_symbol a) = []")
  case True
  then show ?thesis using assms by (simp add: entitle_def)
next
  case False
  have fin: "\<exists>q. x = FFin q" if "float_of_int n = Inr x" for n x
    using that by (cases "to_double (of_int n)") (auto simp: float_of_int_def)
  show ?thesis
    using assms False fin unfolding entitle_def Let_def
    by (auto elim!: returns_elims simp: round_zero engine_simps dest!: fin)
qed

lemma session_shares_settled:
  assumes "apply_actions m d g = Inr g1" "settle_actions d g1 = Inr g2" "cash_only m"
    "list_all en_shares_settled (eg_entitlements g)"
  shows "list_all en_shares_settled (eg_entitlements g2) \<and> unfilled g g2"
proof -
  have "ca_share_ratio a = FFin 0" if "a \<in> set (actions_on m d)" for a
    using that assms(3) by (auto simp: actions_on_def cash_only_def list_all_iff)
  note ratio = this
  have "list_all en_shares_settled (eg_entitlements g1)"
    by (rule foldRes_inv [OF assms(1) [unfolded apply_actions_def],
          where P = "\<lambda>g. list_all en_shares_settled (eg_entitlements g)", OF assms(4)]) (rule entitle_cash_only [OF _ ratio])
  then show ?thesis
    using apply_actions_keeps [OF assms(1)] settle_actions_keeps [OF assms(2)]
    by (simp add: unfilled_def no_orders_def)
qed

lemma orders_keep_records:
  assumes "foldRes (execute_order m d) os g = Inr g'" "0 < ex_lot_size (mf_execution m)"
  shows "same_records g g'"
  by (rule foldRes_inv [OF assms(1), where P = "same_records g"])
    (auto simp: same_records_def dest!: execute_order_effect [OF _ assms(2)])

lemma session_book:
  assumes "session m p d g = Inr g'" "cash_only m" "0 < ex_lot_size (mf_execution m)"
    "list_all en_shares_settled (eg_entitlements g)" "book (ex_a_share_rules (mf_execution m)) d g"
  shows "list_all en_shares_settled (eg_entitlements g') \<and> book (ex_a_share_rules (mf_execution m)) d g'"
proof -
  from assms(1) obtain g1 g2 g3 where a: "apply_actions m d g = Inr g1" and s: "settle_actions d g1 = Inr g2"
    and e: "foldRes (execute_order m d) (orders_for m p) g2 = Inr g3" and c: "close_session m d g3 = Inr g'"
    by (auto simp: session_steps)
  let ?book = "book (ex_a_share_rules (mf_execution m)) d"
  from session_shares_settled [OF a s assms(2,4)] have s2: "list_all en_shares_settled (eg_entitlements g2)"
    and "?book g2" using book_unfilled assms(5) by blast+
  then have "?book g3"
    by (intro foldRes_inv [OF e, where P = ?book]) (auto intro: book_execute assms(3))
  moreover have "unfilled g3 g'" "eg_entitlements g' = eg_entitlements g2"
    using close_session_effect [OF c] orders_keep_records [OF e assms(3)]
    by (simp_all add: unfilled_def no_orders_def same_records_def)
  ultimately show ?thesis using s2 by (auto intro: book_unfilled)
qed

lemma book_later:
  assumes "book a d g" "d < d'"
  shows "book a d' g"
proof -
  have old: "tr_timestamp t < d'" if "t \<in> set (eg_trades g)" for t
    using assms that by (auto simp: book_def)
  have "t_plus_one d' s (lots_of g s) (eg_trades g)" if a for s
  proof -
    have T: "t_plus_one d s (lots_of g s) (eg_trades g)" using assms(1) that by (simp add: book_def)
    then have "\<forall>l \<in> set (lots_of g s). lot_entry_date l < d'"
      using assms(2) by (auto simp: t_plus_one_def)
    moreover have "traded ''buy'' s (\<lambda>x. \<not> x < d') (eg_trades g) = traded ''buy'' s (\<lambda>x. False) (eg_trades g)"
      using old by (intro traded_cong) auto
    ultimately show ?thesis
      using T by (auto simp: t_plus_one_def traded_def filter_empty_conv less_imp_le)
  qed
  then show ?thesis using assms by (auto simp: book_def)
qed

lemma run_sessions_book:
  assumes "run_sessions m elapsed i p ds g = Inr g'" "cash_only m" "0 < ex_lot_size (mf_execution m)"
    "list_all en_shares_settled (eg_entitlements g)" "sorted_wrt (<) ds"
    "\<forall>d \<in> set ds. book (ex_a_share_rules (mf_execution m)) d g" "\<exists>d. book (ex_a_share_rules (mf_execution m)) d g"
  shows "\<exists>d. book (ex_a_share_rules (mf_execution m)) d g'"
  using assms
proof (induction ds arbitrary: i p g)
  case (Cons d ds)
  from Cons.prems(1) obtain h where h: "session m p d g = Inr h" "run_sessions m elapsed (Suc i) (Some d) ds h = Inr g'"
    by (auto simp: res_simps split: if_splits)
  from session_book [OF h(1) Cons.prems(2-4)] Cons.prems(6)
  have b: "list_all en_shares_settled (eg_entitlements h)" "book (ex_a_share_rules (mf_execution m)) d h" by simp_all
  show ?case
    using Cons.IH [OF h(2) Cons.prems(2,3) b(1)] Cons.prems(5) b(2) book_later [OF b(2)] by auto
qed simp

lemma dates_ascend: "sorted_wrt (<) (dates_of m)"
  by (simp add: dates_of_def strict_sorted_iff)

lemma initial_book: "book a d (initial_engine m)" "list_all en_shares_settled (eg_entitlements (initial_engine m))"
  by (simp_all add: initial_engine_def engine_simps book_def account_def t_plus_one_def lots_of_def
      positive_lots_def)

lemma backtest_returns:
  assumes "run_native_backtest m elapsed = Inr r"
  shows "\<exists>g level message values. run_sessions m elapsed 0 None (dates_of m) (initial_engine m) = Inr g
    \<and> br_engine r = log_event level message values g"
  using assms unfolding run_native_backtest_def Let_def
  by (elim returns_elims; simp only: sum.inject; hypsubst)
    (intro exI conjI; (assumption | simp only: backtest_result.select_convs; rule refl))+

section \<open>The account of a backtest\<close>

definition held :: "engine \<Rightarrow> string \<Rightarrow> int" where
  "held g s = total_quantity (lots_of g s)"

text \<open>C29. When corporate actions distribute cash only, the shares of a symbol that a finished run
  holds are exactly those it bought and did not sell, and never negative; and under the A-share
  rules the shares sold up to any date never exceed the shares bought before that date (T+1).\<close>

theorem backtest_account:
  assumes "run_native_backtest m elapsed = Inr r" "cash_only m" "0 < ex_lot_size (mf_execution m)"
  shows "held (br_engine r) s = traded ''buy'' s (\<lambda>_. True) (eg_trades (br_engine r))
        - traded ''sell'' s (\<lambda>_. True) (eg_trades (br_engine r))
    \<and> 0 \<le> held (br_engine r) s
    \<and> (ex_a_share_rules (mf_execution m) \<longrightarrow> (\<forall>date. traded ''sell'' s (\<lambda>x. x \<le> date) (eg_trades (br_engine r))
        \<le> traded ''buy'' s (\<lambda>x. x < date) (eg_trades (br_engine r))))"
proof -
  from backtest_returns [OF assms(1)] obtain g level message "values"
    where run: "run_sessions m elapsed 0 None (dates_of m) (initial_engine m) = Inr g"
      and r: "br_engine r = log_event level message values g" by blast
  from run_sessions_book [OF run assms(2,3) initial_book(2) dates_ascend]
  obtain d where "book (ex_a_share_rules (mf_execution m)) d g" using initial_book(1) by blast
  then have acc: "account s (lots_of g s) (eg_trades g)"
    and T: "ex_a_share_rules (mf_execution m) \<longrightarrow> t_plus_one d s (lots_of g s) (eg_trades g)"
    by (simp_all add: book_def)
  have "0 \<le> held g s" using positive_total acc unfolding account_def held_def by blast
  with acc T show ?thesis by (simp add: account_def held_def t_plus_one_def r engine_simps)
qed

theorem backtest_account_witness:
  "\<exists>r. run_native_backtest crowded (\<lambda>_. FFin 0) = Inr r
     \<and> held (br_engine r) ''A'' = traded ''buy'' ''A'' (\<lambda>_. True) (eg_trades (br_engine r))
        - traded ''sell'' ''A'' (\<lambda>_. True) (eg_trades (br_engine r))
     \<and> held (br_engine r) ''A'' = 100
     \<and> (\<forall>date. traded ''sell'' ''A'' (\<lambda>x. x \<le> date) (eg_trades (br_engine r))
        \<le> traded ''buy'' ''A'' (\<lambda>x. x < date) (eg_trades (br_engine r)))"
proof -
  obtain r where r: "run_native_backtest crowded (\<lambda>_. FFin 0) = Inr r"
    "eg_positions (br_engine r) = [(''A'', [one_lot ''4'']), (''B'', [one_lot ''3''])]"
    using crowded_run by blast
  have "cash_only crowded" "0 < ex_lot_size (mf_execution crowded)" "ex_a_share_rules (mf_execution crowded)"
    by (simp_all add: cash_only_def crowded_def small_fields small_rules_def)
  then show ?thesis
    using backtest_account [OF r(1), of "''A''"] r by (simp add: held_def lots_of_def one_lot_def)
qed

section \<open>Where the trades of a backtest come from\<close>

text \<open>A trade is explained by a signal of the session right before its own, whose bar of the day
  allowed the order.\<close>

definition consecutive :: "manifest \<Rightarrow> (string \<times> string) set" where
  "consecutive m = set (zip (dates_of m) (tl (dates_of m)))"

definition explained :: "manifest \<Rightarrow> trade \<Rightarrow> bool" where
  "explained m t \<longleftrightarrow> (\<exists>s \<in> set (mf_signals m). (sig_trade_date s, tr_timestamp t) \<in> consecutive m
     \<and> legal_trade m (tr_timestamp t) [s] t)"

lemma orders_for_signals: "s \<in> set (orders_for m (Some p)) \<Longrightarrow> s \<in> set (mf_signals m) \<and> sig_trade_date s = p"
  by (auto simp: orders_for_def signals_on_def)

lemma zip_neighbours: "(x, y) \<in> set (zip (xs @ x # y # ys) (tl (xs @ x # y # ys)))"
proof (induction xs)
  case (Cons a xs)
  then show ?case by (cases xs) simp_all
qed simp

lemma session_trades:
  assumes "session m p d g = Inr g'" "0 < ex_lot_size (mf_execution m)" "t \<in> set (eg_trades g')"
  shows "t \<in> set (eg_trades g) \<or> (\<exists>s \<in> set (orders_for m p). legal_trade m d [s] t)"
proof -
  from assms(1) obtain g1 g2 g3 where a: "apply_actions m d g = Inr g1" and s: "settle_actions d g1 = Inr g2"
    and e: "foldRes (execute_order m d) (orders_for m p) g2 = Inr g3" and c: "close_session m d g3 = Inr g'"
    by (auto simp: session_steps)
  let ?P = "\<lambda>h. \<forall>t \<in> set (eg_trades h). t \<in> set (eg_trades g) \<or> (\<exists>s \<in> set (orders_for m p). legal_trade m d [s] t)"
  have "?P g2"
    using apply_actions_keeps [OF a] settle_actions_keeps [OF s] by (simp add: no_orders_def)
  moreover have "?P h'" if o: "s \<in> set (orders_for m p)" and P: "?P h" and h: "execute_order m d s h = Inr h'" for s h h'
    using execute_order_effect [OF h assms(2)] P o by (auto simp: unfilled_def)
  ultimately have "?P g3" by (intro foldRes_inv [OF e, where P = ?P]) blast+
  then show ?thesis using assms(3) close_session_effect [OF c] by (simp add: no_orders_def)
qed

lemma run_sessions_trades:
  assumes "run_sessions m elapsed i p ds g = Inr g'" "0 < ex_lot_size (mf_execution m)"
    "dates_of m = pre @ (case p of None \<Rightarrow> [] | Some d \<Rightarrow> [d]) @ ds"
    "\<forall>t \<in> set (eg_trades g). explained m t"
  shows "\<forall>t \<in> set (eg_trades g'). explained m t"
  using assms
proof (induction ds arbitrary: i p g pre)
  case (Cons d ds)
  from Cons.prems(1) obtain h where h: "session m p d g = Inr h" "run_sessions m elapsed (Suc i) (Some d) ds h = Inr g'"
    by (auto simp: res_simps split: if_splits)
  have next_day: "(p', d) \<in> consecutive m" if "p = Some p'" for p'
    using Cons.prems(3) that zip_neighbours [of p' d pre ds] by (simp add: consecutive_def)
  have "explained m t" if t: "t \<in> set (eg_trades h)" for t
    using session_trades [OF h(1) Cons.prems(2) t]
  proof (elim disjE bexE)
    fix s
    assume s: "s \<in> set (orders_for m p)" and l: "legal_trade m d [s] t"
    then obtain p' where p': "p = Some p'" by (cases p) (auto simp: orders_for_def)
    from l have "tr_timestamp t = d" by (auto simp: legal_trade_def)
    with orders_for_signals [of s m p'] next_day [OF p'] s l show "explained m t"
      unfolding explained_def p' by auto
  qed (use Cons.prems(4) in blast)
  then show ?case
    using Cons.IH [OF h(2) Cons.prems(2), of "pre @ (case p of None \<Rightarrow> [] | Some d \<Rightarrow> [d])"] Cons.prems(3) by simp
qed simp

text \<open>C30. Every trade of a finished run has a reason: a signal of the session right before it, for the
  same symbol and side and for at least its quantity. The symbol has a bar on the day of the trade,
  and the price is the open of that bar moved by the slippage, rounded to money. Under the A-share
  rules that bar is not suspended, its open is not at the limit that stops the side (the bar's own
  limit, or the previous close moved by the threshold and rounded to the cent, within 1e-8; without
  a previous close there is no limit, and a sell is not stopped at an upper limit), and the
  quantity is a positive multiple of the lot; without those rules it is only positive.\<close>

theorem backtest_trades_explained:
  assumes "run_native_backtest m elapsed = Inr r" "0 < ex_lot_size (mf_execution m)"
  shows "\<forall>t \<in> set (eg_trades (br_engine r)). explained m t"
proof -
  from backtest_returns [OF assms(1)] obtain g level message "values"
    where run: "run_sessions m elapsed 0 None (dates_of m) (initial_engine m) = Inr g"
      and r: "br_engine r = log_event level message values g" by blast
  from run_sessions_trades [OF run assms(2), of "[]"] show ?thesis
    by (simp add: r engine_simps initial_engine_def)
qed

theorem backtest_trades_explained_witness:
  "\<exists>r. run_native_backtest crowded (\<lambda>_. FFin 0) = Inr r \<and> length (eg_trades (br_engine r)) = 4
     \<and> list_all (explained crowded) (eg_trades (br_engine r))"
proof -
  obtain r where r: "run_native_backtest crowded (\<lambda>_. FFin 0) = Inr r" "length (eg_trades (br_engine r)) = 4"
    using crowded_run by auto
  have "0 < ex_lot_size (mf_execution crowded)" by (simp add: crowded_def small_fields small_rules_def)
  from backtest_trades_explained [OF r(1) this] r show ?thesis by (auto simp: list_all_iff)
qed

end
