(* ===== verification/Backtest_Causality.thy ===== *)
theory Backtest_Causality
  imports Backtest_Runs
begin

text \<open>
  The engine does not look ahead: what it records up to a date depends only on what is known then.
\<close>

section \<open>What is known on a date\<close>

text \<open>Up to a date: its bars and corporate actions, and the signals of the days before it.\<close>

definition known_until :: "string \<Rightarrow> manifest
    \<Rightarrow> bar list \<times> signal list \<times> corporate_action list \<times> execution_rules" where
  "known_until c m = (filter (\<lambda>b. bar_trade_date b \<le> c) (mf_bars m), filter (\<lambda>s. sig_trade_date s < c) (mf_signals m),
     filter (\<lambda>a. ca_ex_date a \<le> c) (mf_actions m), mf_execution m)"

definition records_until :: "string \<Rightarrow> engine \<Rightarrow> trade list \<times> blocked_trade list \<times> equity_row list
    \<times> (string \<times> position_row list) list \<times> (string \<times> pyfloat) list" where
  "records_until c g = (filter (\<lambda>t. tr_timestamp t \<le> c) (eg_trades g), filter (\<lambda>b. bt_trade_date b \<le> c) (eg_blocked g),
     filter (\<lambda>q. eq_trade_date q \<le> c) (eg_equity_curve g), filter (\<lambda>p. fst p \<le> c) (eg_daily_positions g),
     filter (\<lambda>r. fst r \<le> c) (eg_daily_returns g))"

lemma find_filter: "(\<And>x. P x \<Longrightarrow> Q x) \<Longrightarrow> List.find P (filter Q xs) = List.find P xs"
  by (induction xs) auto

lemma filter_weaker: "(\<And>x. P x \<Longrightarrow> Q x) \<Longrightarrow> filter P (filter Q xs) = filter P xs"
  by (induction xs) auto

lemma bar_at_known:
  assumes "known_until c m = known_until c n" "d \<le> c"
  shows "bar_at m d s = bar_at n d s"
proof -
  have "bar_at k d s = List.find (\<lambda>b. bar_trade_date b = d \<and> bar_symbol b = s) (rev (filter (\<lambda>b. bar_trade_date b \<le> c) (mf_bars k)))" for k
    unfolding bar_at_def rev_filter using assms(2) by (intro find_filter [symmetric]) auto
  then show ?thesis using assms(1) by (simp add: known_until_def)
qed

lemma actions_on_known:
  assumes "known_until c m = known_until c n" "d \<le> c"
  shows "actions_on m d = actions_on n d"
proof -
  have "actions_on k d = sort_key ca_symbol (filter (\<lambda>a. ca_ex_date a = d) (filter (\<lambda>a. ca_ex_date a \<le> c) (mf_actions k)))" for k
    unfolding actions_on_def using assms(2) by (subst filter_weaker) auto
  then show ?thesis using assms(1) by (simp only: known_until_def prod.inject)
qed

lemma signals_on_known:
  assumes "known_until c m = known_until c n" "d < c"
  shows "signals_on m d = signals_on n d"
proof -
  have "signals_on k d = sort_key sig_symbol (filter (\<lambda>r. sig_direction r \<noteq> 0 \<and> sig_trade_date r = d) (filter (\<lambda>s. sig_trade_date s < c) (mf_signals k)))" for k
    unfolding signals_on_def using assms(2) by (subst filter_weaker) auto
  then show ?thesis using assms(1) by (simp only: known_until_def prod.inject)
qed

lemma dates_known:
  assumes "known_until c m = known_until c n"
  shows "filter (\<lambda>d. d \<le> c) (dates_of m) = filter (\<lambda>d. d \<le> c) (dates_of n)"
proof -
  have "filter (\<lambda>d. d \<le> c) (dates_of k) = sort (remdups (map bar_trade_date (filter (\<lambda>b. bar_trade_date b \<le> c) (mf_bars k))))" for k
    by (simp add: dates_of_def filter_sort remdups_filter [symmetric] filter_map comp_def)
  then show ?thesis using assms by (simp only: known_until_def prod.inject)
qed

lemma sorted_split: "sorted xs \<Longrightarrow> xs = filter (\<lambda>x. x \<le> c) xs @ filter (\<lambda>x. \<not> x \<le> c) xs"
proof (induction xs)
  case (Cons x xs)
  show ?case
  proof (cases "x \<le> c")
    case True
    then show ?thesis using Cons by simp
  next
    case False
    then have "\<forall>y \<in> set xs. \<not> y \<le> c" using Cons.prems by auto
    then show ?thesis using False by (simp add: filter_True filter_False)
  qed
qed simp

section \<open>A session depends on what is known on its date\<close>

lemma session_known:
  assumes "known_until c m = known_until c n" "d \<le> c" "\<And>q. p = Some q \<Longrightarrow> q < c"
  shows "session m p d g = session n p d g"
proof -
  have ex: "mf_execution m = mf_execution n" using assms(1) by (simp add: known_until_def)
  have bar: "bar_at m d = bar_at n d" by (rule ext) (rule bar_at_known [OF assms(1,2)])
  have "apply_actions m d = apply_actions n d"
    by (rule ext) (simp add: apply_actions_def actions_on_known [OF assms(1,2)])
  moreover have "execute_order m d = execute_order n d"
    by (intro ext) (simp add: execute_order_def bar ex)
  moreover have "orders_for m p = orders_for n p"
    using assms(3) signals_on_known [OF assms(1)] by (cases p) (simp_all add: orders_for_def)
  moreover have "value_position m d = value_position n d" "value_entitlement m d = value_entitlement n d"
    by (intro ext, simp only: value_position_def value_entitlement_def bar)+
  then have "close_session m d = close_session n d"
    by (intro ext) (simp only: close_session_def ex)
  ultimately show ?thesis by (simp only: session_def)
qed

lemma runs_agree:
  assumes "known_until c m = known_until c n"
    "run_sessions m elapsed i p ds g = Inr h" "run_sessions n elapsed' j p ds g = Inr h'"
    "\<forall>d \<in> set ds. d \<le> c" "sorted_wrt (<) ((case p of None \<Rightarrow> [] | Some q \<Rightarrow> [q]) @ ds)"
  shows "h = h'"
  using assms(2-)
proof (induction ds arbitrary: i j p g)
  case (Cons d ds)
  have "q < c" if "p = Some q" for q
    using Cons.prems(3,4) that by (auto intro: less_le_trans)
  then have same: "session m p d g = session n p d g"
    using session_known [OF assms(1), of d p g] Cons.prems(3) by auto
  from Cons.prems(1,2) obtain g1 where "session m p d g = Inr g1" and
    "run_sessions m elapsed (Suc i) (Some d) ds g1 = Inr h" "run_sessions n elapsed' (Suc j) (Some d) ds g1 = Inr h'"
    by (auto simp: same res_simps split: if_splits)
  moreover have "sorted_wrt (<) ([d] @ ds)" using Cons.prems(4) by (auto split: option.splits)
  ultimately show ?case using Cons.IH Cons.prems(3) by simp
qed simp

lemma runs_split:
  assumes "run_sessions m elapsed i p (ds @ es) g = Inr h"
  shows "\<exists>g' j q. run_sessions m elapsed i p ds g = Inr g' \<and> run_sessions m elapsed j q es g' = Inr h"
  using assms
proof (induction ds arbitrary: i p g)
  case Nil
  then show ?case by auto
next
  case (Cons d ds)
  then obtain g1 where "session m p d g = Inr g1" "\<not> flt (ex_max_runtime_seconds (mf_execution m)) (elapsed i)"
    "run_sessions m elapsed (Suc i) (Some d) (ds @ es) g1 = Inr h"
    by (auto simp: res_simps split: if_splits)
  then show ?case using Cons.IH by simp
qed

lemma session_past:
  assumes "session m p d g = Inr h" "c < d"
  shows "records_until c h = records_until c g"
  using session_appends [OF assms(1)] unfolding appends_def records_until_def prod.inject
  by - (elim conjE, intro conjI; rule grows_past [OF _ assms(2)]; assumption)

lemma runs_past:
  assumes "run_sessions m elapsed i p es g = Inr h" "\<forall>d \<in> set es. \<not> d \<le> c"
  shows "records_until c h = records_until c g"
  using assms
proof (induction es arbitrary: i p g)
  case (Cons d es)
  then obtain g1 where "session m p d g = Inr g1" "run_sessions m elapsed (Suc i) (Some d) es g1 = Inr h"
    by (auto simp: res_simps split: if_splits)
  with Cons.IH Cons.prems(2) session_past [of m p d g g1 c] show ?case by (simp add: not_le)
qed simp

section \<open>No look-ahead\<close>

lemma records_log [simp]: "records_until c (log_event level message values g) = records_until c g"
  by (simp add: records_until_def engine_simps)

lemma backtest_until:
  assumes "run_native_backtest k el = Inr x"
  shows "\<exists>g. run_sessions k el 0 None (filter (\<lambda>d. d \<le> c) (dates_of k)) (initial_engine k) = Inr g
    \<and> records_until c (br_engine x) = records_until c g"
proof -
  let ?upto = "filter (\<lambda>d. d \<le> c) (dates_of k)" and ?later = "filter (\<lambda>d. \<not> d \<le> c) (dates_of k)"
  obtain h level message "values" where h: "run_sessions k el 0 None (dates_of k) (initial_engine k) = Inr h"
      "br_engine x = log_event level message values h"
    using backtest_returns [OF assms] by blast
  have "dates_of k = ?upto @ ?later" by (rule sorted_split) (simp add: dates_of_def)
  then have "run_sessions k el 0 None (?upto @ ?later) (initial_engine k) = Inr h" using h(1) by (rule subst)
  from runs_split [OF this] obtain g j q where "run_sessions k el 0 None ?upto (initial_engine k) = Inr g"
      "run_sessions k el j q ?later g = Inr h" by blast
  moreover from this(2) have "records_until c h = records_until c g" by (rule runs_past) simp
  ultimately show ?thesis unfolding h(2) records_log by blast
qed

text \<open>C28. No look-ahead: if two manifests agree on what is known on a date (the bars and corporate
  actions up to it, the signals of earlier days, and the execution rules) and both runs finish,
  then every trade, blocked order, equity row, position row and daily return up to that date is
  the same in both, whatever the market and the signals do later and however the clock runs.\<close>

theorem backtest_no_lookahead:
  assumes "known_until c m = known_until c n"
    "run_native_backtest m elapsed = Inr r" "run_native_backtest n elapsed' = Inr r'"
  shows "records_until c (br_engine r) = records_until c (br_engine r')"
proof -
  have init: "initial_engine m = initial_engine n" using assms(1) by (simp add: initial_engine_def known_until_def)
  from backtest_until [OF assms(2), of c] obtain g where g: "run_sessions m elapsed 0 None (filter (\<lambda>d. d \<le> c) (dates_of m)) (initial_engine m) = Inr g"
    "records_until c (br_engine r) = records_until c g" by blast
  from backtest_until [OF assms(3), of c] obtain g' where g': "run_sessions n elapsed' 0 None (filter (\<lambda>d. d \<le> c) (dates_of n)) (initial_engine n) = Inr g'"
    "records_until c (br_engine r') = records_until c g'" by blast
  have g'_run: "run_sessions n elapsed' 0 None (filter (\<lambda>d. d \<le> c) (dates_of m)) (initial_engine m) = Inr g'"
    by (simp only: dates_known [OF assms(1)] init g'(1))
  have "g = g'"
    by (rule runs_agree [OF assms(1) g(1) g'_run]) (simp_all add: sorted_wrt_filter dates_ascend)
  then show ?thesis using g(2) g'(2) by simp
qed

text \<open>The run without the last order of \<open>crowded\<close> has the same records up to the third day.\<close>

definition uncrowded :: manifest where
  "uncrowded = small_market [order_of ''A'' ''1'' 1, order_of ''A'' ''2'' (-1), order_of ''B'' ''2'' 1]"

lemma uncrowded_known: "known_until ''3'' crowded = known_until ''3'' uncrowded"
  by (simp add: known_until_def crowded_def uncrowded_def small_market_def order_of_def)

lemma uncrowded_run: "\<exists>r. run_native_backtest uncrowded (\<lambda>_. FFin 1) = Inr r"
  unfolding uncrowded_def by (simp add: small_run char_AB)

theorem backtest_no_lookahead_witness:
  "\<exists>r r'. run_native_backtest crowded (\<lambda>_. FFin 0) = Inr r \<and> run_native_backtest uncrowded (\<lambda>_. FFin 1) = Inr r'
     \<and> length (eg_trades (br_engine r)) = 4 \<and> records_until ''3'' (br_engine r) = records_until ''3'' (br_engine r')"
proof -
  obtain r r' where r: "run_native_backtest crowded (\<lambda>_. FFin 0) = Inr r" "length (eg_trades (br_engine r)) = 4"
    "run_native_backtest uncrowded (\<lambda>_. FFin 1) = Inr r'"
    using crowded_run uncrowded_run by auto
  from backtest_no_lookahead [OF uncrowded_known r(1,3)] r show ?thesis by blast
qed

end
