(* ===== verification/Backtest_Checks.thy ===== *)
theory Backtest_Checks
  imports Digest Py_Float
begin

text \<open>
  The checks of single values that \<^verbatim>\<open>services/backend/app/backtest.py\<close> builds on: bounded texts,
  integers, numbers and dates, closed field sets, symbols, and the canonical JSON it hashes.
\<close>

definition text_of :: "pyval \<Rightarrow> string \<Rightarrow> nat \<Rightarrow> string res" where
  "text_of value field max_length =
    (if \<not> is_str value then Inl (ValueError (field @ '' must be a string''))
     else let normalized = strip (the_str value) in
     if normalized = [] then Inl (ValueError (field @ '' must not be empty''))
     else if max_length < length normalized
     then Inl (ValueError (field @ '' exceeds '' @ nat_digits max_length @ '' characters''))
     else Inr normalized)"

definition integer_of :: "pyval \<Rightarrow> string \<Rightarrow> int \<Rightarrow> int option \<Rightarrow> int res" where
  "integer_of value field minimum maximum =
    (if \<not> type_is_int value then Inl (ValueError (field @ '' must be an integer''))
     else let n = the_int value in
     if n < minimum \<or> (case maximum of None \<Rightarrow> False | Some k \<Rightarrow> k < n)
     then Inl (ValueError (field @ '' must be'' @ (case maximum of None \<Rightarrow> '' at least '' @ int_str minimum
       | Some k \<Rightarrow> '' between '' @ int_str minimum @ '' and '' @ int_str k)))
     else Inr n)"

text \<open>\<open>json.dumps\<close> with \<open>allow_nan=False\<close>.\<close>

fun finite_json :: "pyval \<Rightarrow> bool" where
  "finite_json (PFloat x) = (x \<notin> {FNaN, FInf, FNegInf})"
| "finite_json (PList xs) = list_all finite_json xs"
| "finite_json (PDict d) = list_all (\<lambda>(k, v). finite_json v) d"
| "finite_json _ = True"

definition canonical :: "pyval \<Rightarrow> string res" where
  "canonical value = (if finite_json value then Inr (json_dumps False True value)
     else Inl (ValueError ''backtest input must be finite JSON''))"

text \<open>The label of a job; \<open>None\<close> stands for the default one.\<close>

definition normalize_backtest_name :: "pyval \<Rightarrow> string option res" where
  "normalize_backtest_name value = (if value = PNone then Inr None
     else andThen (text_of value ''name'' 120) (\<lambda>name. Inr (Some name)))"

text \<open>A finite number, as a double.\<close>

definition finite_float :: "pyfloat \<Rightarrow> bool" where
  "finite_float x \<longleftrightarrow> x \<notin> {FNaN, FInf, FNegInf}"

definition checked_float :: "string \<Rightarrow> bool \<Rightarrow> pyfloat \<Rightarrow> pyfloat res" where
  "checked_float field positive x = (if \<not> finite_float x \<or> positive \<and> fle x (FFin 0)
     then Inl (ValueError (field @ '' must be finite'' @ (if positive then '' and positive'' else []))) else Inr x)"

definition number_of :: "pyval \<Rightarrow> string \<Rightarrow> bool \<Rightarrow> pyfloat res" where
  "number_of value field positive = (case value of
       PInt n \<Rightarrow> andThen (float_of_int n) (checked_float field positive)
     | PFloat x \<Rightarrow> checked_float field positive x
     | _ \<Rightarrow> Inl (ValueError (field @ '' must be a number'')))"

text \<open>A calendar date, also written without dashes.\<close>

definition re_digits :: "nat \<Rightarrow> string \<Rightarrow> bool" where
  "re_digits n s \<longleftrightarrow> length s = n \<and> list_all is_digit s"

definition DATE_PATTERN :: "string \<Rightarrow> bool" where
  "DATE_PATTERN s \<longleftrightarrow> length s = 10 \<and> re_digits 4 (take 4 s) \<and> take 1 (drop 4 s) = ''-'' \<and> re_digits 2 (take 2 (drop 5 s))
     \<and> take 1 (drop 7 s) = ''-'' \<and> re_digits 2 (drop 8 s)"

definition decimal :: "string \<Rightarrow> nat" where
  "decimal s = foldl (\<lambda>n c. 10 * n + (code c - 48)) 0 s"

definition leap_year :: "nat \<Rightarrow> bool" where
  "leap_year y \<longleftrightarrow> y mod 4 = 0 \<and> (y mod 100 \<noteq> 0 \<or> y mod 400 = 0)"

definition days_in_month :: "nat \<Rightarrow> nat \<Rightarrow> nat" where
  "days_in_month y mo = (if mo = 2 then (if leap_year y then 29 else 28) else if mo \<in> {4, 6, 9, 11} then 30 else 31)"

definition real_date :: "string \<Rightarrow> bool" where
  "real_date s \<longleftrightarrow> (let y = decimal (take 4 s); mo = decimal (take 2 (drop 5 s)); d = decimal (drop 8 s) in
     1 \<le> y \<and> 1 \<le> mo \<and> mo \<le> 12 \<and> 1 \<le> d \<and> d \<le> days_in_month y mo)"

definition date_of :: "pyval \<Rightarrow> string \<Rightarrow> string res" where
  "date_of value field =
    (if \<not> is_str value then Inl (ValueError (field @ '' must be YYYY-MM-DD''))
     else let stripped = strip (the_str value);
              normalized = (if re_digits 8 stripped then take 4 stripped @ ''-'' @ take 2 (drop 4 stripped) @ ''-'' @ drop 6 stripped
                else stripped) in
     if \<not> DATE_PATTERN normalized then Inl (ValueError (field @ '' must be YYYY-MM-DD''))
     else if \<not> real_date normalized then Inl (ValueError (field @ '' is not a real calendar date''))
     else Inr normalized)"

definition reject_unknown :: "pyval \<Rightarrow> string list \<Rightarrow> string \<Rightarrow> unit res" where
  "reject_unknown payload allowed field = (let unknown = unknown_keys payload allowed in
     if unknown \<noteq> [] then Inl (ValueError (field @ '' has unknown fields: '' @ join '', '' unknown)) else Inr ())"

text \<open>\<open>str.upper\<close> within the code points below 256; the two letters whose upper case is above (the micro
  sign and y with diaeresis) are kept, no symbol may contain them.\<close>

definition upper_char :: "char \<Rightarrow> string" where
  "upper_char c = (if is_lower c \<or> (224 \<le> code c \<and> code c \<le> 254 \<and> code c \<noteq> 247) then [char_of (code c - 32)]
     else if code c = 223 then ''SS'' else [c])"

definition upper :: "string \<Rightarrow> string" where "upper s = concat (map upper_char s)"

definition SYMBOL_PATTERN :: "string \<Rightarrow> bool" where
  "SYMBOL_PATTERN s \<longleftrightarrow> length s = 9 \<and> re_digits 6 (take 6 s) \<and> drop 6 s \<in> {''.SH'', ''.SZ'', ''.BJ''}"

definition INDEX_SYMBOL_PATTERN :: "string \<Rightarrow> bool" where
  "INDEX_SYMBOL_PATTERN s \<longleftrightarrow> list_ex (\<lambda>suffix. endswith suffix s \<and> (let stem = take (length s - length suffix) s in
     6 \<le> length stem \<and> length stem \<le> 12 \<and> list_all (\<lambda>c. is_digit c \<or> is_upper c) stem)) [''.SH'', ''.SZ'', ''.CSI'']"

definition normalize_symbol :: "pyval \<Rightarrow> string \<Rightarrow> string res" where
  "normalize_symbol value field = andThen (text_of value field 16) (\<lambda>t. let normalized = upper t in
     if \<not> SYMBOL_PATTERN normalized then Inl (ValueError (field @ '' must be a canonical A-share symbol'')) else Inr normalized)"

definition entity_id :: "pyval \<Rightarrow> string \<Rightarrow> string \<Rightarrow> string res" where
  "entity_id value field prefix = andThen (text_of value field 64) (\<lambda>normalized.
     if \<not> re_prefix_hex (prefix @ ''_'') 32 normalized
     then Inl (ValueError (field @ '' is not a valid BYQ '' @ prefix @ '' identifier'')) else Inr normalized)"

definition TRACE_PATTERN :: "string \<Rightarrow> bool" where
  "TRACE_PATTERN s \<longleftrightarrow> (case s of [] \<Rightarrow> False
     | c # cs \<Rightarrow> is_alnum c \<and> length cs \<le> 63 \<and> list_all (\<lambda>c. is_alnum c \<or> c = CHR ''_'' \<or> c = CHR ''-'') cs)"

definition trace_id :: "pyval \<Rightarrow> string res" where
  "trace_id value = andThen (text_of value ''trace_id'' 64) (\<lambda>normalized.
     if \<not> TRACE_PATTERN normalized then Inl (ValueError ''trace_id is not a valid BYQ identifier'') else Inr normalized)"

definition checked_idempotency_key :: "pyval \<Rightarrow> string res" where
  "checked_idempotency_key value = text_of value ''idempotency_key'' 128"

text \<open>\<open>value in {...}\<close> for a set of constants; a value without a hash raises.\<close>

definition in_constants :: "pyval \<Rightarrow> pyval list \<Rightarrow> bool res" where
  "in_constants value constants = (if hashable value then Inr (list_ex (py_eq value) constants)
     else Inl (TypeError ''unhashable type''))"

end
