(* ===== verification/Backtest_Jobs.thy ===== *)
theory Backtest_Jobs
  imports Backtest_Checks Contract_Specs
begin

text \<open>
  The durable job store of \<^verbatim>\<open>services/backend/app/backtest.py\<close>, class \<open>BacktestJobStore\<close>: the
  table \<open>backtest_jobs\<close> with its two unique indices, and the transactions that create, claim,
  complete, retry, requeue, cancel and delete a job. A transaction that raises is rolled back. What
  an operation raises after its transaction has committed leaves the new state, so an operation
  returns its result and the state separately. The clocks (\<open>now\<close> of the process, \<open>clock\<close> of the
  database) are arguments, in microseconds.
\<close>

section \<open>The tables\<close>

datatype job_status = JobQueued | JobRunning | JobCompleted | JobFailed | JobCancelled

record backtest_request =
  rq_name :: pyval
  rq_task_id :: string
  rq_experiment_id :: "string option"
  rq_strategy_version :: string
  rq_approval :: string
  rq_trace_id :: string
  rq_idempotency_key :: string
  rq_manifest :: pyval
  rq_input_manifest_id :: string
  rq_more :: pydict

record job =
  jb_job_id :: string
  jb_name :: "string option"
  jb_task_id :: string
  jb_experiment_id :: "string option"
  jb_workspace_id :: string
  jb_owner :: string
  jb_status :: job_status
  jb_request :: backtest_request
  jb_request_hash :: string
  jb_input_manifest_id :: string
  jb_input_manifest :: pyval
  jb_strategy_version :: string
  jb_approval :: string
  jb_idempotency_key :: string
  jb_attempts :: int
  jb_max_attempts :: int
  jb_result_reference :: "pyval option"
  jb_result_artifact_id :: "string option"
  jb_summary :: "pyval option"
  jb_error_code :: "string option"
  jb_error_message :: "string option"
  jb_created_at :: int
  jb_updated_at :: int
  jb_finished_at :: "int option"

text \<open>The columns of the other tables that the transactions read: an artifact and an optimization job.\<close>

record artifact =
  af_artifact_id :: string
  af_task_id :: string
  af_experiment_id :: "string option"
  af_workspace_id :: string
  af_owner :: string
  af_kind :: string
  af_status :: string
  af_idempotency_key :: string
  af_trace_id :: string
  af_content :: pyval

record optimization_job =
  oj_task_id :: string
  oj_workspace_id :: string
  oj_owner :: string
  oj_candidates :: "pyval list"

text \<open>\<open>js_workspace\<close> is what the trigger on \<open>backtest_jobs\<close> resolves for a task and an owner, if it
  does not raise.\<close>

record job_store =
  js_jobs :: "job list"
  js_artifacts :: "artifact list"
  js_optimizations :: "optimization_job list"
  js_workspace :: "string \<Rightarrow> string \<Rightarrow> string option"

definition seconds :: "int \<Rightarrow> int" where "seconds n = n * 1000000"

definition BACKTEST_CLAIM_LEASE_SECONDS :: int where "BACKTEST_CLAIM_LEASE_SECONDS = 900"

definition JOB_ID_PATTERN :: "string \<Rightarrow> bool" where "JOB_ID_PATTERN s = re_prefix_hex ''backtest_'' 32 s"

definition find_job :: "string \<Rightarrow> job_store \<Rightarrow> job option" where
  "find_job job_id s = find (\<lambda>j. jb_job_id j = job_id) (js_jobs s)"

text \<open>\<^verbatim>\<open>UPDATE backtest_jobs SET ... WHERE ...\<close>\<close>

definition update_jobs :: "(job \<Rightarrow> bool) \<Rightarrow> (job \<Rightarrow> job) \<Rightarrow> job_store \<Rightarrow> job_store" where
  "update_jobs p f s = s\<lparr>js_jobs := map (\<lambda>j. if p j then f j else j) (js_jobs s)\<rparr>"

definition not_found :: pyerr where "not_found = BacktestNotFound ''backtest job not found''"

section \<open>Reads\<close>

definition get_job :: "pyval \<Rightarrow> job_store \<Rightarrow> job res" where
  "get_job job_id s =
     andThen (text_of job_id ''job_id'' 64) (\<lambda>id.
     if \<not> JOB_ID_PATTERN id then Inl (ValueError ''job_id is not a valid backtest identifier'')
     else case find_job id s of None \<Rightarrow> Inl not_found | Some j \<Rightarrow> Inr j)"

definition request_of :: "pyval \<Rightarrow> job_store \<Rightarrow> backtest_request res" where
  "request_of job_id s =
     andThen (text_of job_id ''job_id'' 64) (\<lambda>id.
     case find_job id s of None \<Rightarrow> Inl not_found | Some j \<Rightarrow> Inr (jb_request j))"

definition earlier :: "job \<Rightarrow> job \<Rightarrow> bool" where
  "earlier i j \<longleftrightarrow> jb_created_at i < jb_created_at j \<or> jb_created_at i = jb_created_at j \<and> jb_job_id i < jb_job_id j"

definition next_queued_id :: "job_store \<Rightarrow> string option" where
  "next_queued_id s =
    (case filter (\<lambda>j. jb_status j = JobQueued \<and> jb_attempts j < jb_max_attempts j) (js_jobs s) of
       [] \<Rightarrow> None
     | j # js \<Rightarrow> Some (jb_job_id (fold (\<lambda>x best. if earlier x best then x else best) js j)))"

definition all_result_references :: "job_store \<Rightarrow> pyval list" where
  "all_result_references s = filter is_dict (concat (map (\<lambda>j. case jb_result_reference j of None \<Rightarrow> [] | Some r \<Rightarrow> [r]) (js_jobs s)))"

section \<open>Operations\<close>

text \<open>A transaction, and then the read that the operation returns.\<close>

definition committed :: "('a \<times> job_store) res \<Rightarrow> ('a \<Rightarrow> job_store \<Rightarrow> 'b res) \<Rightarrow> job_store \<Rightarrow> 'b res \<times> job_store" where
  "committed transaction read s = (case transaction of Inl e \<Rightarrow> (Inl e, s) | Inr (x, s') \<Rightarrow> (read x s', s'))"

definition request_json :: "backtest_request \<Rightarrow> pydict" where
  "request_json r = [(''name'', rq_name r), (''task_id'', PStr (rq_task_id r)),
     (''experiment_id'', case rq_experiment_id r of None \<Rightarrow> PNone | Some e \<Rightarrow> PStr e),
     (''strategy_version_artifact_id'', PStr (rq_strategy_version r)), (''approval_artifact_id'', PStr (rq_approval r)),
     (''trace_id'', PStr (rq_trace_id r)), (''idempotency_key'', PStr (rq_idempotency_key r)),
     (''manifest'', rq_manifest r), (''input_manifest_id'', PStr (rq_input_manifest_id r))] @ rq_more r"

definition job_request_hash :: "backtest_request \<Rightarrow> string res" where
  "job_request_hash r =
     andThen (canonical (PDict (filter (\<lambda>(k, _). k \<notin> {''idempotency_key'', ''name''}) (request_json r)))) (\<lambda>text.
     Inr (sha256_hex (utf8 text)))"

text \<open>An ML strategy may only be used while it is validated; another strategy is not looked at.\<close>

definition strategy_available :: "job_store \<Rightarrow> string \<Rightarrow> string \<Rightarrow> unit res" where
  "strategy_available s owner artifact_id =
    (case find (\<lambda>a. af_artifact_id a = artifact_id \<and> af_owner a = owner) (js_artifacts s) of
       None \<Rightarrow> Inr ()
     | Some a \<Rightarrow> if af_kind a = ''ml_strategy_version'' \<and> af_status a \<noteq> ''validated''
         then Inl (BacktestConflict ''ML strategy is not available for a new backtest'') else Inr ())"

definition insert_job :: "job \<Rightarrow> job_store \<Rightarrow> job_store res" where
  "insert_job j s =
    (case js_workspace s (jb_task_id j) (jb_owner j) of
       None \<Rightarrow> Inl (SQLAlchemyError ''parent workspace is unresolved'')
     | Some w \<Rightarrow>
       if jb_job_id j \<in> jb_job_id ` set (js_jobs s)
       then Inl (SQLAlchemyError ''duplicate key value violates unique constraint'')
       else Inr (s\<lparr>js_jobs := js_jobs s @ [j\<lparr>jb_workspace_id := w\<rparr>]\<rparr>))"

definition create_job :: "backtest_request \<Rightarrow> pyval \<Rightarrow> string \<Rightarrow> int \<Rightarrow> job_store \<Rightarrow> job res \<times> job_store" where
  "create_job request owner_principal job_id now s =
    (let manifest = rq_manifest request in
     if \<not> is_dict manifest then (Inl (ValueError ''backtest request has no input manifest''), s)
     else committed
      (andThen (text_of owner_principal ''owner_principal'' 128) (\<lambda>owner.
       andThen (integer_of (if is_dict (fld manifest ''execution'')
           then fld_or (fld manifest ''execution'') ''max_attempts'' (PInt 2) else PInt 2) ''max_attempts'' 1 (Some 3)) (\<lambda>max_attempts.
       andThen (job_request_hash request) (\<lambda>request_hash.
       andThen (normalize_backtest_name (rq_name request)) (\<lambda>name.
       case find (\<lambda>j. jb_task_id j = rq_task_id request \<and> jb_idempotency_key j = rq_idempotency_key request) (js_jobs s) of
         Some existing \<Rightarrow>
           if jb_request_hash existing \<noteq> request_hash
           then Inl (BacktestConflict ''backtest idempotency key was reused'')
           else Inr (Inr existing, s)
       | None \<Rightarrow>
           andThen (strategy_available s owner (rq_strategy_version request)) (\<lambda>_.
           andThen (insert_job \<lparr>jb_job_id = job_id, jb_name = name, jb_task_id = rq_task_id request,
               jb_experiment_id = rq_experiment_id request, jb_workspace_id = [], jb_owner = owner,
               jb_status = JobQueued, jb_request = request, jb_request_hash = request_hash,
               jb_input_manifest_id = rq_input_manifest_id request, jb_input_manifest = manifest,
               jb_strategy_version = rq_strategy_version request, jb_approval = rq_approval request,
               jb_idempotency_key = rq_idempotency_key request, jb_attempts = 0, jb_max_attempts = max_attempts,
               jb_result_reference = None, jb_result_artifact_id = None, jb_summary = None,
               jb_error_code = None, jb_error_message = None, jb_created_at = now, jb_updated_at = now,
               jb_finished_at = None\<rparr> s) (\<lambda>s'. Inr (Inl job_id, s')))))))
      ) (\<lambda>found s'. case found of Inr existing \<Rightarrow> Inr existing | Inl new_id \<Rightarrow> get_job (PStr new_id) s') s)"

definition claim :: "pyval \<Rightarrow> int \<Rightarrow> job_store \<Rightarrow> job option res \<times> job_store" where
  "claim job_id now s = committed
     (andThen (text_of job_id ''job_id'' 64) (\<lambda>id.
      let ready = (\<lambda>j. jb_job_id j = id \<and> jb_status j = JobQueued \<and> jb_attempts j < jb_max_attempts j) in
      if list_ex ready (js_jobs s)
      then Inr (Some id, update_jobs ready (\<lambda>j. j\<lparr>jb_status := JobRunning, jb_attempts := jb_attempts j + 1,
        jb_updated_at := now, jb_error_code := None, jb_error_message := None\<rparr>) s)
      else if find_job id s = None then Inl not_found else Inr (None, s)))
     (\<lambda>claimed s'. case claimed of None \<Rightarrow> Inr None
      | Some claimed_id \<Rightarrow> andThen (get_job (PStr claimed_id) s') (\<lambda>j. Inr (Some j))) s"

definition validate_completion_attempt :: "pyval \<Rightarrow> int res" where
  "validate_completion_attempt expected_attempt =
    (if \<not> int_at_least 1 expected_attempt then Inl (ValueError ''expected_attempt must be a positive integer'')
     else Inr (the_int expected_attempt))"

definition claim_is_live :: "int \<Rightarrow> job \<Rightarrow> bool" where
  "claim_is_live clock j \<longleftrightarrow> clock - seconds BACKTEST_CLAIM_LEASE_SECONDS < jb_updated_at j"

definition require_current_attempt :: "string \<Rightarrow> int \<Rightarrow> int \<Rightarrow> job_store \<Rightarrow> job res" where
  "require_current_attempt job_id expected_attempt clock s =
    (case find_job job_id s of None \<Rightarrow> Inl not_found
     | Some j \<Rightarrow> if jb_status j \<noteq> JobRunning \<or> jb_attempts j \<noteq> expected_attempt \<or> \<not> claim_is_live clock j
         then Inl (BacktestConflict ''backtest claim is no longer current'') else Inr j)"

text \<open>\<open>content->>'key'\<close> of a text; the other JSON values are never the text of an identifier.\<close>

definition content_text :: "pyval \<Rightarrow> string \<Rightarrow> string option" where
  "content_text content key = (case fld content key of PStr t \<Rightarrow> Some t | _ \<Rightarrow> None)"

text \<open>The artifact that may complete a job: the validated result of this very job and input.\<close>

definition result_artifact_for :: "string \<Rightarrow> pyval \<Rightarrow> job \<Rightarrow> artifact \<Rightarrow> bool" where
  "result_artifact_for result_artifact_id result_reference j a \<longleftrightarrow>
     af_artifact_id a = result_artifact_id
     \<and> af_task_id a = jb_task_id j \<and> af_owner a = jb_owner j \<and> af_workspace_id a = jb_workspace_id j
     \<and> af_experiment_id a = jb_experiment_id j
     \<and> af_kind a = ''backtest_result'' \<and> af_status a = ''validated''
     \<and> af_idempotency_key a = ''backtest-result-'' @ jb_job_id j
     \<and> af_trace_id a = rq_trace_id (jb_request j)
     \<and> content_text (af_content a) ''execution_outcome'' = Some ''completed''
     \<and> content_text (af_content a) ''job_id'' = Some (jb_job_id j)
     \<and> content_text (af_content a) ''input_manifest_id'' = Some (jb_input_manifest_id j)
     \<and> content_text (af_content a) ''strategy_version_artifact_id'' = Some (jb_strategy_version j)
     \<and> content_text (af_content a) ''approval_artifact_id'' = Some (jb_approval j)
     \<and> py_eq (fld (af_content a) ''result_reference'') result_reference"

definition complete_in_transaction ::
    "string \<Rightarrow> int \<Rightarrow> pyval \<Rightarrow> string \<Rightarrow> pyval \<Rightarrow> int \<Rightarrow> int \<Rightarrow> job_store \<Rightarrow> job_store res" where
  "complete_in_transaction job_id expected_attempt result_reference result_artifact_id summary now clock s =
    (let current = (\<lambda>j. jb_job_id j = job_id \<and> jb_status j = JobRunning \<and> jb_attempts j = expected_attempt
           \<and> claim_is_live clock j \<and> list_ex (result_artifact_for result_artifact_id result_reference j) (js_artifacts s)) in
     if \<not> list_ex current (js_jobs s)
     then Inl (BacktestConflict ''backtest claim or result artifact is no longer current'')
     else Inr (update_jobs current (\<lambda>j. j\<lparr>jb_status := JobCompleted, jb_result_reference := Some result_reference,
       jb_result_artifact_id := Some result_artifact_id, jb_summary := Some summary, jb_error_code := None,
       jb_error_message := None, jb_updated_at := now, jb_finished_at := Some now\<rparr>) s))"

definition complete :: "pyval \<Rightarrow> pyval \<Rightarrow> pyval \<Rightarrow> string \<Rightarrow> pyval \<Rightarrow> int \<Rightarrow> int \<Rightarrow> job_store \<Rightarrow> job res \<times> job_store" where
  "complete job_id expected_attempt result_reference result_artifact_id summary now clock s = committed
     (andThen (text_of job_id ''job_id'' 64) (\<lambda>identity.
      andThen (validate_completion_attempt expected_attempt) (\<lambda>attempt.
      andThen (complete_in_transaction identity attempt result_reference result_artifact_id summary now clock s) (\<lambda>s'.
      Inr (identity, s')))))
     (\<lambda>identity. get_job (PStr identity)) s"

text \<open>The research store that the caller passes in creates an artifact and validates it, in the same
  transaction.\<close>

record research_store =
  rs_create_artifact :: "pyval \<Rightarrow> artifact list \<Rightarrow> (artifact \<times> artifact list) res"
  rs_validate_artifact :: "string \<Rightarrow> string \<Rightarrow> artifact list \<Rightarrow> (artifact \<times> artifact list) res"

definition complete_with_artifact ::
    "research_store \<Rightarrow> pyval \<Rightarrow> pyval \<Rightarrow> pyval \<Rightarrow> pyval \<Rightarrow> pyval \<Rightarrow> int \<Rightarrow> int \<Rightarrow> job_store \<Rightarrow> job res \<times> job_store" where
  "complete_with_artifact rs job_id expected_attempt result_reference summary artifact_payload now clock s = committed
     (andThen (text_of job_id ''job_id'' 64) (\<lambda>identity.
      andThen (validate_completion_attempt expected_attempt) (\<lambda>attempt.
      andThen (require_current_attempt identity attempt clock s) (\<lambda>_.
      andThen (rs_create_artifact rs artifact_payload (js_artifacts s)) (\<lambda>(created, artifacts).
      andThen (if af_status created = ''draft''
        then rs_validate_artifact rs (af_artifact_id created) (''backtest-result-validate-'' @ identity) artifacts
        else Inr (created, artifacts)) (\<lambda>(validated, artifacts').
      if af_status validated \<noteq> ''validated'' then Inl (BacktestConflict ''backtest result Artifact is not validated'')
      else andThen (complete_in_transaction identity attempt result_reference (af_artifact_id validated) summary now clock
        (s\<lparr>js_artifacts := artifacts'\<rparr>)) (\<lambda>s'. Inr (identity, s'))))))))
     (\<lambda>identity. get_job (PStr identity)) s"

definition retry_or_fail :: "pyval \<Rightarrow> int \<Rightarrow> pyval \<Rightarrow> pyval \<Rightarrow> int \<Rightarrow> job_store \<Rightarrow> job res \<times> job_store" where
  "retry_or_fail job_id expected_attempt error_code error_message now s = committed
     (andThen (text_of job_id ''job_id'' 64) (\<lambda>id.
      andThen (text_of error_message ''error_message'' 512) (\<lambda>safe_message.
      case find_job id s of None \<Rightarrow> Inl not_found
      | Some row \<Rightarrow>
        if jb_status row \<noteq> JobRunning \<or> jb_attempts row \<noteq> expected_attempt then Inr (id, s)
        else let finished = jb_max_attempts row \<le> jb_attempts row in
        andThen (text_of error_code ''error_code'' 64) (\<lambda>safe_code.
        Inr (id, update_jobs (\<lambda>j. jb_job_id j = id \<and> jb_status j = JobRunning \<and> jb_attempts j = expected_attempt)
          (\<lambda>j. j\<lparr>jb_status := if finished then JobFailed else JobQueued, jb_error_code := Some safe_code,
             jb_error_message := Some safe_message, jb_updated_at := now,
             jb_finished_at := if finished then Some now else None\<rparr>) s)))))
     (\<lambda>id. get_job (PStr id)) s"

definition requeue_stale :: "int \<Rightarrow> int \<Rightarrow> job_store \<Rightarrow> int \<times> job_store" where
  "requeue_stale older_than_seconds now s =
    (let cutoff = now - seconds (max 1 older_than_seconds);
         stale = (\<lambda>j. jb_status j = JobRunning \<and> jb_updated_at j < cutoff);
         s1 = update_jobs (\<lambda>j. jb_max_attempts j \<le> jb_attempts j \<and> (jb_status j = JobQueued \<or> stale j))
           (\<lambda>j. j\<lparr>jb_status := JobFailed, jb_error_code := Some ''worker_restart_exhausted'',
              jb_error_message := Some ''backtest attempt limit exhausted'', jb_updated_at := now,
              jb_finished_at := Some now\<rparr>) s;
         requeued = (\<lambda>j. stale j \<and> jb_attempts j < jb_max_attempts j) in
     (int (length (filter requeued (js_jobs s1))),
      update_jobs requeued (\<lambda>j. j\<lparr>jb_status := JobQueued, jb_error_code := Some ''worker_restart'',
        jb_error_message := Some ''stale running job requeued'', jb_updated_at := now\<rparr>) s1))"

definition cancel :: "pyval \<Rightarrow> int \<Rightarrow> job_store \<Rightarrow> job res \<times> job_store" where
  "cancel job_id now s = committed
     (andThen (text_of job_id ''job_id'' 64) (\<lambda>id.
      if find_job id s = None then Inl not_found
      else Inr (id, update_jobs (\<lambda>j. jb_job_id j = id \<and> jb_status j \<in> {JobQueued, JobRunning})
        (\<lambda>j. j\<lparr>jb_status := JobCancelled, jb_error_code := Some ''cancelled'',
           jb_error_message := Some ''cancelled by owner'', jb_updated_at := now, jb_finished_at := Some now\<rparr>) s)))
     (\<lambda>id. get_job (PStr id)) s"

text \<open>\<^verbatim>\<open>candidates @> [{"backtest_job_id": id}]\<close>\<close>

definition references_job :: "string \<Rightarrow> optimization_job \<Rightarrow> bool" where
  "references_job job_id r \<longleftrightarrow>
     list_ex (\<lambda>c. is_dict c \<and> fld c ''backtest_job_id'' = PStr job_id) (oj_candidates r)"

definition delete_job :: "pyval \<Rightarrow> string \<Rightarrow> job_store \<Rightarrow> job res \<times> job_store" where
  "delete_job job_id owner_principal s = committed
     (andThen (text_of job_id ''job_id'' 64) (\<lambda>id.
      if \<not> JOB_ID_PATTERN id then Inl (ValueError ''job_id is not a valid backtest identifier'')
      else if owner_principal = [] then Inl (BacktestConflict ''backtest deletion requires an owner principal'')
      else case find_job id s of None \<Rightarrow> Inl not_found
      | Some row \<Rightarrow>
        if jb_owner row \<noteq> owner_principal then Inl (BacktestConflict ''backtest deletion requires matching owner scope'')
        else if jb_status row \<in> {JobQueued, JobRunning}
        then Inl (BacktestConflict ''cannot delete an active backtest; cancel it first'')
        else if list_ex (\<lambda>r. oj_task_id r = jb_task_id row \<and> oj_workspace_id r = jb_workspace_id row
             \<and> oj_owner r = jb_owner row \<and> references_job id r) (js_optimizations s)
        then Inl (BacktestConflict ''backtest is referenced by an optimization job'')
        else Inr (row, s\<lparr>js_jobs := filter (\<lambda>j. jb_job_id j \<noteq> id) (js_jobs s)\<rparr>)))
     (\<lambda>row _. Inr row) s"

end
