(* ===== verification/Backtest_Job_Machine.thy ===== *)
theory Backtest_Job_Machine
  imports Backtest_Jobs
begin

text \<open>
  The job store as a state machine: what each transaction may do with the table of jobs, in any order
  and by any callers.
\<close>

section \<open>The life of a job\<close>

fun terminal :: "job_status \<Rightarrow> bool" where
  "terminal JobQueued = False" | "terminal JobRunning = False"
| "terminal JobCompleted = True" | "terminal JobFailed = True" | "terminal JobCancelled = True"

text \<open>The state machine of one job: its status and the attempts it has used, of at most \<open>n\<close>.\<close>

inductive job_step :: "int \<Rightarrow> job_status \<times> int \<Rightarrow> job_status \<times> int \<Rightarrow> bool" for n where
  claimed: "a < n \<Longrightarrow> job_step n (JobQueued, a) (JobRunning, a + 1)"
| completed: "job_step n (JobRunning, a) (JobCompleted, a)"
| retried: "a < n \<Longrightarrow> job_step n (JobRunning, a) (JobQueued, a)"
| failed: "n \<le> a \<Longrightarrow> job_step n (JobRunning, a) (JobFailed, a)"
| cancelled: "st \<in> {JobQueued, JobRunning} \<Longrightarrow> job_step n (st, a) (JobCancelled, a)"

inductive_cases job_stepE: "job_step n (st, a) (st', a')"

definition job_state :: "job \<Rightarrow> job_status \<times> int" where
  "job_state j = (jb_status j, jb_attempts j)"

text \<open>What never changes in a job.\<close>

definition job_identity :: "job \<Rightarrow> job" where
  "job_identity j = j\<lparr>jb_status := JobQueued, jb_attempts := 0, jb_result_reference := None,
     jb_result_artifact_id := None, jb_summary := None, jb_error_code := None, jb_error_message := None,
     jb_updated_at := 0, jb_finished_at := None\<rparr>"

text \<open>A well-formed job: a queued job may still be claimed, a failed one has used all attempts, and only
  a completed one has a result.\<close>

definition job_ok :: "job \<Rightarrow> bool" where
  "job_ok j \<longleftrightarrow> JOB_ID_PATTERN (jb_job_id j) \<and> 1 \<le> jb_max_attempts j \<and> jb_max_attempts j \<le> 3
     \<and> 0 \<le> jb_attempts j \<and> jb_attempts j \<le> jb_max_attempts j
     \<and> (jb_status j = JobQueued \<longrightarrow> jb_attempts j < jb_max_attempts j)
     \<and> (jb_status j \<in> {JobRunning, JobCompleted} \<longrightarrow> 1 \<le> jb_attempts j)
     \<and> (jb_status j = JobFailed \<longrightarrow> jb_attempts j = jb_max_attempts j)
     \<and> (jb_result_artifact_id j \<noteq> None \<longleftrightarrow> jb_status j = JobCompleted)
     \<and> (jb_result_reference j \<noteq> None \<longleftrightarrow> jb_status j = JobCompleted)
     \<and> (jb_finished_at j \<noteq> None \<longleftrightarrow> terminal (jb_status j))"

definition job_moved :: "job \<Rightarrow> job \<Rightarrow> bool" where
  "job_moved j j' \<longleftrightarrow> j' = j \<or> job_identity j' = job_identity j \<and> job_ok j'
     \<and> job_step (jb_max_attempts j) (job_state j) (job_state j')"

definition job_key :: "job \<Rightarrow> string \<times> string" where
  "job_key j = (jb_task_id j, jb_idempotency_key j)"

text \<open>What a transaction may do with the table: advance jobs, add a fresh one under its new identifier, or
  delete a finished one.\<close>

inductive store_step :: "string option \<Rightarrow> job list \<Rightarrow> job list \<Rightarrow> bool" for new where
  advance: "\<forall>j \<in> set js. job_moved j (h j) \<Longrightarrow> store_step new js (map h js)"
| create: "new = Some (jb_job_id j) \<Longrightarrow> job_ok j \<Longrightarrow> job_state j = (JobQueued, 0) \<Longrightarrow> jb_job_id j \<notin> jb_job_id ` set js \<Longrightarrow> job_key j \<notin> job_key ` set js
    \<Longrightarrow> store_step new js (js @ [j])"
| delete: "\<forall>j \<in> set js. jb_job_id j = jid \<longrightarrow> terminal (jb_status j) \<Longrightarrow> store_step new js (filter (\<lambda>j. jb_job_id j \<noteq> jid) js)"

definition table_ok :: "job list \<Rightarrow> bool" where
  "table_ok js \<longleftrightarrow> distinct (map jb_job_id js) \<and> distinct (map job_key js) \<and> list_all job_ok js"

text \<open>The operations in any order, by any callers, with what other stores do to the other tables.\<close>

datatype job_op =
    CreateJob backtest_request pyval string int
  | ClaimJob pyval int
  | CompleteJob pyval pyval pyval string pyval int int
  | CompleteWithArtifact research_store pyval pyval pyval pyval pyval int int
  | RetryOrFail pyval int pyval pyval int
  | RequeueStale int int
  | CancelJob pyval int
  | DeleteJob pyval string
  | OtherTables "artifact list" "optimization_job list"

fun apply_op :: "job_op \<Rightarrow> job_store \<Rightarrow> job_store" where
  "apply_op (CreateJob request owner job_id now) s = snd (create_job request owner job_id now s)"
| "apply_op (ClaimJob job_id now) s = snd (claim job_id now s)"
| "apply_op (CompleteJob job_id attempt reference artifact_id summary now clock) s =
     snd (complete job_id attempt reference artifact_id summary now clock s)"
| "apply_op (CompleteWithArtifact rs job_id attempt reference summary payload now clock) s =
     snd (complete_with_artifact rs job_id attempt reference summary payload now clock s)"
| "apply_op (RetryOrFail job_id attempt error_code message now) s = snd (retry_or_fail job_id attempt error_code message now s)"
| "apply_op (RequeueStale older now) s = snd (requeue_stale older now s)"
| "apply_op (CancelJob job_id now) s = snd (cancel job_id now s)"
| "apply_op (DeleteJob job_id owner) s = snd (delete_job job_id owner s)"
| "apply_op (OtherTables artifacts optimizations) s = s\<lparr>js_artifacts := artifacts, js_optimizations := optimizations\<rparr>"

text \<open>A new job is given an identifier \<open>backtest_\<close> and 32 hexadecimal digits.\<close>

fun fresh_id_ok :: "job_op \<Rightarrow> bool" where
  "fresh_id_ok (CreateJob request owner job_id now) = JOB_ID_PATTERN job_id"
| "fresh_id_ok _ = True"

text \<open>The identifier a transaction may give to a new job.\<close>

fun new_id :: "job_op \<Rightarrow> string option" where
  "new_id (CreateJob request owner job_id now) = Some job_id"
| "new_id _ = None"

section \<open>Every operation is a step of the table\<close>

lemma store_step_refl [simp, intro]: "store_step new js js"
  using store_step.advance [of js "\<lambda>j. j"] by (simp add: job_moved_def)

lemma store_step_update:
  "(\<And>j. j \<in> set (js_jobs s) \<Longrightarrow> p j \<Longrightarrow> job_moved j (f j)) \<Longrightarrow> store_step new (js_jobs s) (js_jobs (update_jobs p f s))"
  unfolding update_jobs_def by (simp, rule store_step.advance) (simp add: job_moved_def)

lemma store_step_committed:
  "(\<And>x s'. transaction = Inr (x, s') \<Longrightarrow> store_step new (js_jobs s) (js_jobs s'))
    \<Longrightarrow> store_step new (js_jobs s) (js_jobs (snd (committed transaction read s)))"
  by (auto simp: committed_def split: sum.splits)

lemma table_okD: "table_ok js \<Longrightarrow> j \<in> set js \<Longrightarrow> job_ok j"
  by (simp add: table_ok_def list_all_iff)

lemma find_job_Some: "find_job jid s = Some j \<Longrightarrow> j \<in> set (js_jobs s) \<and> jb_job_id j = jid"
  by (auto simp: find_job_def find_Some_iff)

lemma text_of_PStr: "text_of (PStr t) field n = Inr u \<longleftrightarrow> u = strip t \<and> u \<noteq> [] \<and> length u \<le> n"
  by (auto simp: text_of_def Let_def)

lemma job_step_claim:
  assumes "job_ok j" "jb_status j = JobQueued" "jb_attempts j < jb_max_attempts j"
  shows "job_moved j (j\<lparr>jb_status := JobRunning, jb_attempts := jb_attempts j + 1, jb_updated_at := now,
    jb_error_code := None, jb_error_message := None\<rparr>)"
  using assms job_step.claimed [of "jb_attempts j"] by (auto simp: job_moved_def job_identity_def job_ok_def job_state_def)

lemma job_step_complete:
  assumes "job_ok j" "jb_status j = JobRunning"
  shows "job_moved j (j\<lparr>jb_status := JobCompleted, jb_result_reference := Some r, jb_result_artifact_id := Some i,
    jb_summary := Some u, jb_error_code := None, jb_error_message := None, jb_updated_at := now, jb_finished_at := Some now\<rparr>)"
  using assms job_step.completed by (auto simp: job_moved_def job_identity_def job_ok_def job_state_def)

lemma job_step_retry:
  assumes "job_ok j" "jb_status j = JobRunning"
  shows "job_moved j (j\<lparr>jb_status := if jb_max_attempts j \<le> jb_attempts j then JobFailed else JobQueued, jb_error_code := c,
    jb_error_message := e, jb_updated_at := now,
    jb_finished_at := if jb_max_attempts j \<le> jb_attempts j then Some now else None\<rparr>)"
  using assms job_step.retried [of "jb_attempts j"] job_step.failed [of _ "jb_attempts j"]
  by (auto simp: job_moved_def job_identity_def job_ok_def job_state_def)

lemma job_step_cancel:
  assumes "job_ok j" "jb_status j \<in> {JobQueued, JobRunning}"
  shows "job_moved j (j\<lparr>jb_status := JobCancelled, jb_error_code := c, jb_error_message := e, jb_updated_at := now,
    jb_finished_at := Some now\<rparr>)"
  unfolding job_moved_def using assms job_step.cancelled [of "jb_status j" "jb_max_attempts j" "jb_attempts j"]
  by (cases "jb_status j"; intro disjI2) (simp_all add: job_identity_def job_ok_def job_state_def)

lemma job_step_fail:
  assumes "job_ok j" "jb_status j \<in> {JobQueued, JobRunning}" "jb_max_attempts j \<le> jb_attempts j"
  shows "job_moved j (j\<lparr>jb_status := JobFailed, jb_error_code := c, jb_error_message := e, jb_updated_at := now,
    jb_finished_at := Some now\<rparr>)"
  using assms job_step.failed [of "jb_max_attempts j" "jb_attempts j"]
  by (auto simp: job_moved_def job_identity_def job_ok_def job_state_def)

lemma job_step_requeue:
  assumes "job_ok j" "jb_status j = JobRunning" "jb_attempts j < jb_max_attempts j"
  shows "job_moved j (j\<lparr>jb_status := JobQueued, jb_error_code := c, jb_error_message := e, jb_updated_at := now\<rparr>)"
  using assms job_step.retried [of "jb_attempts j" "jb_max_attempts j"]
  by (auto simp: job_moved_def job_identity_def job_ok_def job_state_def)

lemma claim_step:
  assumes "table_ok (js_jobs s)"
  shows "store_step new (js_jobs s) (js_jobs (snd (claim job_id now s)))"
  unfolding claim_def Let_def
proof (rule store_step_committed, elim returns_elims, goal_cases)
  case (1 x s' jid)
  have "store_step new (js_jobs s) (js_jobs (update_jobs (\<lambda>j. jb_job_id j = jid \<and> jb_status j = JobQueued \<and> jb_attempts j < jb_max_attempts j)
      (\<lambda>j. j\<lparr>jb_status := JobRunning, jb_attempts := jb_attempts j + 1, jb_updated_at := now, jb_error_code := None,
        jb_error_message := None\<rparr>) s))"
    by (rule store_step_update, rule job_step_claim) (use table_okD [OF assms] in auto)
  then show ?case using 1(3) by (auto simp only: sum.inject prod.inject)
qed (auto simp only: sum.inject prod.inject)

lemma complete_in_step:
  assumes "complete_in_transaction jid attempt reference artifact_id summary now clock s = Inr s'" "table_ok (js_jobs s)"
  shows "store_step new (js_jobs s) (js_jobs s')"
  using assms(1) unfolding complete_in_transaction_def Let_def
proof (elim returns_elims, goal_cases)
  case 2
  show ?case
    unfolding 2(2) [symmetric, unfolded sum.inject]
    by (rule store_step_update, rule job_step_complete) (use table_okD [OF assms(2)] in auto)
qed simp

lemma complete_step:
  assumes "table_ok (js_jobs s)"
  shows "store_step new (js_jobs s) (js_jobs (snd (complete job_id attempt reference artifact_id summary now clock s)))"
  unfolding complete_def
  by (rule store_step_committed) (auto simp: res_simps intro: complete_in_step [OF _ assms])

lemma complete_with_artifact_step:
  assumes "table_ok (js_jobs s)"
  shows "store_step new (js_jobs s) (js_jobs (snd (complete_with_artifact rs job_id attempt reference summary payload now clock s)))"
proof -
  have "store_step new (js_jobs s) (js_jobs s')"
    if "complete_in_transaction jid n reference artifact_id summary now clock (s\<lparr>js_artifacts := artifacts\<rparr>) = Inr s'"
    for jid n artifact_id artifacts s'
    using complete_in_step [OF that] assms by simp
  then show ?thesis
    unfolding complete_with_artifact_def
    by (intro store_step_committed) (elim returns_elims; simp only: sum.inject sum.distinct prod.inject; blast)
qed

lemma find_job_unique:
  assumes "table_ok (js_jobs s)" "find_job jid s = Some row" "j \<in> set (js_jobs s)" "jb_job_id j = jid"
  shows "j = row"
  using assms find_job_Some [OF assms(2)] by (auto simp: table_ok_def distinct_map inj_on_def)

lemma retry_row:
  assumes "table_ok (js_jobs s)" "find_job jid s = Some row"
  shows "store_step new (js_jobs s) (js_jobs (update_jobs (\<lambda>j. jb_job_id j = jid \<and> jb_status j = JobRunning \<and> jb_attempts j = attempt)
      (\<lambda>j. j\<lparr>jb_status := if jb_max_attempts row \<le> jb_attempts row then JobFailed else JobQueued, jb_error_code := c,
         jb_error_message := e, jb_updated_at := now,
         jb_finished_at := if jb_max_attempts row \<le> jb_attempts row then Some now else None\<rparr>) s))"
proof (rule store_step_update)
  fix j
  assume j: "j \<in> set (js_jobs s)" "jb_job_id j = jid \<and> jb_status j = JobRunning \<and> jb_attempts j = attempt"
  with find_job_unique [OF assms] have "row = j" by blast
  then show "job_moved j (j\<lparr>jb_status := if jb_max_attempts row \<le> jb_attempts row then JobFailed else JobQueued,
       jb_error_code := c, jb_error_message := e, jb_updated_at := now,
       jb_finished_at := if jb_max_attempts row \<le> jb_attempts row then Some now else None\<rparr>)"
    using job_step_retry table_okD [OF assms(1) j(1)] j(2) by blast
qed

lemma retry_step:
  assumes "table_ok (js_jobs s)"
  shows "store_step new (js_jobs s) (js_jobs (snd (retry_or_fail job_id attempt c message now s)))"
  unfolding retry_or_fail_def Let_def
  by (rule store_step_committed, elim returns_elims)
    (auto simp only: sum.inject sum.distinct prod.inject intro: retry_row [OF assms])

lemma requeue_step:
  assumes "table_ok (js_jobs s)"
  shows "store_step new (js_jobs s) (js_jobs (snd (requeue_stale older now s)))"
proof -
  define cutoff where "cutoff = now - seconds (max 1 older)"
  define exhausted where "exhausted = (\<lambda>j :: job. jb_max_attempts j \<le> jb_attempts j
    \<and> (jb_status j = JobQueued \<or> jb_status j = JobRunning \<and> jb_updated_at j < cutoff))"
  define fail where "fail = (\<lambda>j :: job. j\<lparr>jb_status := JobFailed, jb_error_code := Some ''worker_restart_exhausted'',
    jb_error_message := Some ''backtest attempt limit exhausted'', jb_updated_at := now, jb_finished_at := Some now\<rparr>)"
  define stale where "stale = (\<lambda>j :: job. (jb_status j = JobRunning \<and> jb_updated_at j < cutoff) \<and> jb_attempts j < jb_max_attempts j)"
  define requeue where "requeue = (\<lambda>j :: job. j\<lparr>jb_status := JobQueued, jb_error_code := Some ''worker_restart'',
    jb_error_message := Some ''stale running job requeued'', jb_updated_at := now\<rparr>)"
  define h where "h = (\<lambda>j. let k = (if exhausted j then fail j else j) in if stale k then requeue k else k)"
  have jobs: "js_jobs (snd (requeue_stale older now s)) = map h (js_jobs s)"
    unfolding requeue_stale_def Let_def snd_conv update_jobs_def h_def exhausted_def fail_def stale_def requeue_def cutoff_def
    by simp
  have "job_moved j (h j)" if "j \<in> set (js_jobs s)" for j
  proof -
    have ok: "job_ok j" by (rule table_okD [OF assms that])
    have f: "job_moved j (fail j)" if "exhausted j"
      unfolding fail_def by (rule job_step_fail [OF ok]) (use that in \<open>auto simp: exhausted_def\<close>)
    have r: "job_moved j (requeue j)" if "stale j"
      unfolding requeue_def by (rule job_step_requeue [OF ok]) (use that in \<open>auto simp: stale_def\<close>)
    have "\<not> stale (fail j)" by (simp add: stale_def fail_def)
    moreover have "job_moved j j" by (simp add: job_moved_def)
    ultimately show ?thesis using f r by (simp add: h_def)
  qed
  then show ?thesis unfolding jobs by (intro store_step.advance) blast
qed

lemma cancel_step:
  assumes "table_ok (js_jobs s)"
  shows "store_step new (js_jobs s) (js_jobs (snd (cancel job_id now s)))"
  unfolding cancel_def
  by (rule store_step_committed)
    (auto simp: res_simps split: if_splits intro!: store_step_update job_step_cancel table_okD [OF assms])

lemma delete_row:
  assumes "table_ok (js_jobs s)" "find_job jid s = Some row" "jb_status row \<notin> {JobQueued, JobRunning}"
  shows "store_step new (js_jobs s) (js_jobs (s\<lparr>js_jobs := filter (\<lambda>j. jb_job_id j \<noteq> jid) (js_jobs s)\<rparr>))"
proof -
  have "terminal (jb_status j)" if "j \<in> set (js_jobs s)" "jb_job_id j = jid" for j
    using find_job_unique [OF assms(1,2) that] assms(3) by (cases "jb_status j") auto
  then show ?thesis using store_step.delete [of "js_jobs s" jid] by simp
qed

lemma delete_step:
  assumes "table_ok (js_jobs s)"
  shows "store_step new (js_jobs s) (js_jobs (snd (delete_job job_id owner s)))"
  unfolding delete_job_def
  by (rule store_step_committed, elim returns_elims)
    (auto simp only: sum.inject sum.distinct prod.inject intro: delete_row [OF assms])

lemma insert_step:
  assumes "insert_job j s = Inr s'" "\<And>w. job_ok (j\<lparr>jb_workspace_id := w\<rparr>)" "job_state j = (JobQueued, 0)"
    "find (\<lambda>k. jb_task_id k = jb_task_id j \<and> jb_idempotency_key k = jb_idempotency_key j) (js_jobs s) = None"
    "jb_job_id j = i"
  shows "store_step (Some i) (js_jobs s) (js_jobs s')"
proof -
  obtain w where s': "s' = s\<lparr>js_jobs := js_jobs s @ [j\<lparr>jb_workspace_id := w\<rparr>]\<rparr>" and new: "jb_job_id j \<notin> jb_job_id ` set (js_jobs s)"
    using assms(1) by (auto simp: insert_job_def split: option.splits if_splits)
  have "job_key j \<notin> job_key ` set (js_jobs s)"
    using assms(4) by (auto simp: find_None_iff job_key_def)
  then show ?thesis
    using new assms(2) [of w] assms(3,5) unfolding s'
    by simp (rule store_step.create; simp add: job_state_def job_key_def)
qed

lemma create_job_step:
  assumes "JOB_ID_PATTERN job_id"
  shows "store_step (Some job_id) (js_jobs s) (js_jobs (snd (create_job request owner job_id now s)))"
proof (cases "is_dict (rq_manifest request)")
  case True
  have bounds: "1 \<le> n \<and> n \<le> 3" if "integer_of v field 1 (Some 3) = Inr n" for v field n
    using that by (auto simp: integer_of_def Let_def split: if_splits)
  show ?thesis
    unfolding create_job_def Let_def if_not_P [OF not_not [THEN iffD2, OF True]]
    by (rule store_step_committed, elim returns_elims, simp_all only: sum.inject sum.distinct prod.inject)
      (auto elim!: insert_step simp: job_ok_def job_state_def assms dest: bounds)
qed (simp add: create_job_def)

lemma apply_op_step:
  assumes "table_ok (js_jobs s)" "fresh_id_ok p"
  shows "store_step (new_id p) (js_jobs s) (js_jobs (apply_op p s))"
  using assms by (cases p) (simp_all add: create_job_step claim_step complete_step complete_with_artifact_step retry_step
      requeue_step cancel_step delete_step)

end
