(* ===== verification/Backtest_Job_History.thy ===== *)
theory Backtest_Job_History
  imports Backtest_Job_Machine
begin

text \<open>
  What holds of the job store over any history of transactions: the invariant of the table, the end of
  every job, and that only the current attempt, with its own result, decides.
\<close>

section \<open>The invariant of the table\<close>

lemma job_identity_eq:
  assumes "job_identity j' = job_identity j"
  shows "jb_job_id j' = jb_job_id j" "job_key j' = job_key j" "jb_max_attempts j' = jb_max_attempts j"
    "jb_owner j' = jb_owner j" "jb_request j' = jb_request j"
proof -
  show "jb_job_id j' = jb_job_id j" "job_key j' = job_key j" "jb_max_attempts j' = jb_max_attempts j"
    "jb_owner j' = jb_owner j" "jb_request j' = jb_request j"
    using arg_cong [OF assms, of jb_job_id] arg_cong [OF assms, of job_key] arg_cong [OF assms, of jb_max_attempts]
      arg_cong [OF assms, of jb_owner] arg_cong [OF assms, of jb_request]
    by (simp_all add: job_identity_def job_key_def)
qed

lemma moved_keeps:
  assumes "job_moved j j'"
  shows "jb_job_id j' = jb_job_id j \<and> job_key j' = job_key j \<and> (job_ok j \<longrightarrow> job_ok j')"
proof (cases "j' = j")
  case False
  then have "job_identity j' = job_identity j" "job_ok j'" using assms by (simp_all add: job_moved_def)
  then show ?thesis using job_identity_eq(1,2) by blast
qed simp

lemma store_step_ok: "store_step new js js' \<Longrightarrow> table_ok js \<Longrightarrow> table_ok js'"
proof (induction rule: store_step.induct)
  case (advance js h)
  have keep: "jb_job_id (h j) = jb_job_id j" "job_key (h j) = job_key j" "job_ok (h j)" if "j \<in> set js" for j
    using advance that moved_keeps [of j "h j"] table_okD [OF advance.prems that] by blast+
  have "map jb_job_id (map h js) = map jb_job_id js" "map job_key (map h js) = map job_key js"
    by (simp_all add: keep)
  moreover have "list_all job_ok (map h js)" using keep(3) by (simp add: list_all_iff)
  ultimately show ?case using advance.prems unfolding table_ok_def by metis
next
  case (create j js)
  then show ?case by (simp add: table_ok_def)
next
  case (delete js jid)
  then show ?case by (auto simp: table_ok_def distinct_map_filter list_all_iff)
qed

definition run_job_ops :: "job_op list \<Rightarrow> job_store \<Rightarrow> job_store" where
  "run_job_ops ps s = fold apply_op ps s"

lemma run_job_ops_ok:
  "list_all fresh_id_ok ps \<Longrightarrow> table_ok (js_jobs s) \<Longrightarrow> table_ok (js_jobs (run_job_ops ps s))"
proof (induction ps arbitrary: s)
  case (Cons p ps)
  then show ?case using store_step_ok [OF apply_op_step] by (simp add: run_job_ops_def)
qed (simp add: run_job_ops_def)

section \<open>A sample job\<close>

definition sample_id :: string where "sample_id = ''backtest_'' @ replicate 32 CHR ''0''"

definition sample_request :: backtest_request where
  "sample_request = \<lparr>rq_name = PNone, rq_task_id = ''task_1'', rq_experiment_id = None, rq_strategy_version = ''artifact_1'',
     rq_approval = ''artifact_2'', rq_trace_id = ''trace-1'', rq_idempotency_key = ''k1'', rq_manifest = PDict [],
     rq_input_manifest_id = ''m1'', rq_more = []\<rparr>"

definition sample_job :: "job_status \<Rightarrow> int \<Rightarrow> job" where
  "sample_job st a = \<lparr>jb_job_id = sample_id, jb_name = None, jb_task_id = ''task_1'', jb_experiment_id = None,
     jb_workspace_id = ''w1'', jb_owner = ''user-1'', jb_status = st, jb_request = sample_request, jb_request_hash = ''h'',
     jb_input_manifest_id = ''m1'', jb_input_manifest = PDict [], jb_strategy_version = ''artifact_1'',
     jb_approval = ''artifact_2'', jb_idempotency_key = ''k1'', jb_attempts = a, jb_max_attempts = 2,
     jb_result_reference = (if st = JobCompleted then Some (PStr ''r'') else None),
     jb_result_artifact_id = (if st = JobCompleted then Some ''artifact_3'' else None), jb_summary = None,
     jb_error_code = None, jb_error_message = None, jb_created_at = 0, jb_updated_at = 0,
     jb_finished_at = (if terminal st then Some 0 else None)\<rparr>"

definition sample_result :: artifact where
  "sample_result = \<lparr>af_artifact_id = ''artifact_3'', af_task_id = ''task_1'', af_experiment_id = None, af_workspace_id = ''w1'',
     af_owner = ''user-1'', af_kind = ''backtest_result'', af_status = ''validated'',
     af_idempotency_key = ''backtest-result-'' @ sample_id, af_trace_id = ''trace-1'',
     af_content = PDict [(''execution_outcome'', PStr ''completed''), (''job_id'', PStr sample_id),
       (''input_manifest_id'', PStr ''m1''), (''strategy_version_artifact_id'', PStr ''artifact_1''),
       (''approval_artifact_id'', PStr ''artifact_2''), (''result_reference'', PStr ''r'')]\<rparr>"

definition sample_store :: "job list \<Rightarrow> job_store" where
  "sample_store js = \<lparr>js_jobs = js, js_artifacts = [], js_optimizations = [], js_workspace = (\<lambda>_ _. Some ''w1'')\<rparr>"

definition sample_research :: research_store where
  "sample_research = \<lparr>rs_create_artifact = (\<lambda>payload artifacts. Inr (sample_result, sample_result # artifacts)),
     rs_validate_artifact = (\<lambda>artifact_id key artifacts. Inr (sample_result, artifacts))\<rparr>"

lemma sample_id_ok: "JOB_ID_PATTERN sample_id"
  unfolding JOB_ID_PATTERN_def sample_id_def re_prefix_hex_append
  by (simp add: re_hex_def is_hex_def is_digit_def code_def list_all_iff)

lemma sample_job_ok: "st \<in> {JobRunning, JobCompleted} \<Longrightarrow> a \<in> {1, 2} \<Longrightarrow> table_ok (js_jobs (sample_store [sample_job st a]))"
  by (auto simp: table_ok_def sample_store_def sample_job_def job_ok_def sample_id_ok)

lemma sample_job_found: "find_job sample_id (sample_store [sample_job st a]) = Some (sample_job st a)"
  by (simp add: find_job_def sample_store_def sample_job_def)

text \<open>C31. From an empty table, whatever the transactions, their order, their callers and their clocks, the
  table stays well-formed: identifiers and idempotency keys are unique, no job has used more
  attempts than it may, a queued job can still be claimed, a failed one has used every attempt,
  and exactly the completed ones have a result. And every further transaction does one of three
  things: it moves jobs along the state machine, never touching what identifies them, it adds a
  fresh queued job, or it deletes a finished one.\<close>

theorem job_store_refines_machine:
  assumes "js_jobs s = []" "list_all fresh_id_ok ps" "fresh_id_ok p"
  shows "table_ok (js_jobs (run_job_ops ps s)) \<and> store_step (new_id p) (js_jobs (run_job_ops ps s)) (js_jobs (apply_op p (run_job_ops ps s)))"
proof -
  have "table_ok (js_jobs s)" using assms(1) by (simp add: table_ok_def)
  from run_job_ops_ok [OF assms(2) this] show ?thesis using apply_op_step [OF _ assms(3)] by blast
qed

theorem job_store_refines_machine_witness:
  "\<exists>j. js_jobs (apply_op (CreateJob sample_request (PStr ''user-1'') sample_id 5) (run_job_ops [OtherTables [] []] (sample_store []))) = [j]
     \<and> table_ok (js_jobs (run_job_ops [OtherTables [] []] (sample_store [])))
     \<and> store_step (Some sample_id) (js_jobs (run_job_ops [OtherTables [] []] (sample_store [])))
        (js_jobs (apply_op (CreateJob sample_request (PStr ''user-1'') sample_id 5) (run_job_ops [OtherTables [] []] (sample_store []))))"
proof -
  let ?create = "CreateJob sample_request (PStr ''user-1'') sample_id 5"
  have "\<exists>j. js_jobs (apply_op ?create (run_job_ops [OtherTables [] []] (sample_store []))) = [j]"
    by (simp add: sample_store_def run_job_ops_def create_job_def sample_request_def committed_def text_of_def Let_def
        strip_def is_space_def code_def integer_of_def job_request_hash_def canonical_def request_json_def
        normalize_backtest_name_def strategy_available_def insert_job_def)
  moreover have "js_jobs (sample_store []) = []" "list_all fresh_id_ok [OtherTables [] []]" "fresh_id_ok ?create"
    by (simp_all add: sample_store_def sample_id_ok)
  note job_store_refines_machine [OF this]
  ultimately show ?thesis by simp
qed

section \<open>A job ends\<close>

fun rank :: "int \<Rightarrow> job_status \<times> int \<Rightarrow> int" where
  "rank n (JobQueued, a) = 2 * (n - a)"
| "rank n (JobRunning, a) = 2 * (n - a) + 1"
| "rank n (_, a) = 0"

lemma job_step_rank: "job_step n x y \<Longrightarrow> snd x \<le> n \<Longrightarrow> (fst x = JobQueued \<Longrightarrow> snd x < n) \<Longrightarrow> rank n y < rank n x"
  by (induction rule: job_step.induct) auto

lemma job_ok_rank: "job_ok j \<Longrightarrow> 0 \<le> rank (jb_max_attempts j) (job_state j) \<and> rank (jb_max_attempts j) (job_state j) \<le> 6"
  by (cases "jb_status j") (auto simp: job_ok_def job_state_def)

lemma moved_rank:
  assumes "job_moved j j'" "job_ok j"
  shows "rank (jb_max_attempts j') (job_state j') + (if job_state j' \<noteq> job_state j then 1 else 0)
    \<le> rank (jb_max_attempts j) (job_state j)"
proof (cases "j' = j")
  case False
  then have i: "job_identity j' = job_identity j" and step: "job_step (jb_max_attempts j) (job_state j) (job_state j')"
    using assms(1) by (simp_all add: job_moved_def)
  have "rank (jb_max_attempts j) (job_state j') < rank (jb_max_attempts j) (job_state j)"
    by (rule job_step_rank [OF step]) (use assms(2) in \<open>auto simp: job_ok_def job_state_def\<close>)
  then show ?thesis by (simp add: job_identity_eq(3) [OF i])
qed simp

lemma moved_terminal: "job_moved j j' \<Longrightarrow> terminal (jb_status j) \<Longrightarrow> j' = j"
  by (cases "jb_status j") (auto simp: job_moved_def job_state_def elim: job_step.cases)

text \<open>How often the transactions change the state of a job.\<close>

fun changes :: "string \<Rightarrow> job_op list \<Rightarrow> job_store \<Rightarrow> int" where
  "changes jid [] s = 0"
| "changes jid (p # ps) s =
     (if map_option job_state (find_job jid (apply_op p s)) \<noteq> map_option job_state (find_job jid s) then 1 else 0)
     + changes jid ps (apply_op p s)"

text \<open>What is left of a job: its rank, counted from one while it exists.\<close>

definition life :: "job option \<Rightarrow> int" where
  "life r = (case r of None \<Rightarrow> 0 | Some j \<Rightarrow> rank (jb_max_attempts j) (job_state j) + 1)"

lemma find_job_map:
  assumes "\<forall>j \<in> set js. jb_job_id (h j) = jb_job_id j"
  shows "find (\<lambda>j. jb_job_id j = jid) (map h js) = map_option h (find (\<lambda>j. jb_job_id j = jid) js)"
  using assms by (induction js) auto

lemma find_others: "find (\<lambda>j. jb_job_id j = jid) (filter (\<lambda>j. jb_job_id j \<noteq> i) js)
    = (if i = jid then None else find (\<lambda>j. jb_job_id j = jid) js)"
  by (induction js) auto

lemma find_snoc: "find P (xs @ [x]) = (case find P xs of None \<Rightarrow> (if P x then Some x else None) | Some y \<Rightarrow> Some y)"
  by (induction xs) auto

lemma store_step_job:
  assumes "store_step new (js_jobs s) (js_jobs s')" "table_ok (js_jobs s)" "new \<noteq> Some jid"
  shows "(case find_job jid s of None \<Rightarrow> find_job jid s' = None
    | Some j \<Rightarrow> (case find_job jid s' of None \<Rightarrow> terminal (jb_status j) | Some j' \<Rightarrow> job_moved j j'))"
  using assms(1)
proof (cases rule: store_step.cases)
  case (advance h)
  have "\<forall>j \<in> set (js_jobs s). jb_job_id (h j) = jb_job_id j" using advance(2) moved_keeps by blast
  then have "find_job jid s' = map_option h (find_job jid s)"
    by (simp add: find_job_def advance(1) find_job_map)
  then show ?thesis using advance(2) find_job_Some [of jid s] by (auto split: option.splits)
next
  case (create j)
  then have "find_job jid s' = find_job jid s"
    using assms(3) by (auto simp: find_job_def find_snoc split: option.splits)
  then show ?thesis by (auto simp: job_moved_def split: option.splits)
next
  case (delete i)
  have "find_job jid s' = (if i = jid then None else find_job jid s)"
    unfolding find_job_def delete(1) by (rule find_others)
  then show ?thesis using delete(2) find_job_Some [of jid s] by (auto simp: job_moved_def split: option.splits)
qed

lemma life_step:
  assumes "table_ok (js_jobs s)" "fresh_id_ok p" "new_id p \<noteq> Some jid"
  shows "0 \<le> life (find_job jid (apply_op p s))"
    "life (find_job jid (apply_op p s)) + (if map_option job_state (find_job jid (apply_op p s))
        \<noteq> map_option job_state (find_job jid s) then 1 else 0) \<le> life (find_job jid s)"
proof -
  have step: "store_step (new_id p) (js_jobs s) (js_jobs (apply_op p s))" by (rule apply_op_step [OF assms(1,2)])
  have ok: "table_ok (js_jobs (apply_op p s))" by (rule store_step_ok [OF step assms(1)])
  have ok1: "find_job jid s = Some j \<Longrightarrow> job_ok j" and ok2: "find_job jid (apply_op p s) = Some j \<Longrightarrow> job_ok j" for j
    using find_job_Some table_okD [OF assms(1)] table_okD [OF ok] by blast+
  show "0 \<le> life (find_job jid (apply_op p s))"
    using ok2 job_ok_rank by (fastforce simp: life_def split: option.splits)
  show "life (find_job jid (apply_op p s)) + (if map_option job_state (find_job jid (apply_op p s))
        \<noteq> map_option job_state (find_job jid s) then 1 else 0) \<le> life (find_job jid s)"
  proof (cases "find_job jid s")
    case None
    then show ?thesis using store_step_job [OF step assms(1,3)] by simp
  next
    case (Some j)
    show ?thesis
    proof (cases "find_job jid (apply_op p s)")
      case None
      then show ?thesis using ok1 [OF Some] job_ok_rank [of j] by (simp add: life_def Some)
    next
      case (Some j')
      have "job_moved j j'" using store_step_job [OF step assms(1,3)] \<open>find_job jid s = Some j\<close> Some by simp
      from moved_rank [OF this ok1] show ?thesis using \<open>find_job jid s = Some j\<close> Some by (simp add: life_def)
    qed
  qed
qed

lemma life_run:
  assumes "list_all fresh_id_ok ps" "list_all (\<lambda>p. new_id p \<noteq> Some jid) ps" "table_ok (js_jobs s)"
    "0 \<le> life (find_job jid s)"
  shows "life (find_job jid (run_job_ops ps s)) + changes jid ps s \<le> life (find_job jid s) \<and> 0 \<le> life (find_job jid (run_job_ops ps s))"
  using assms
proof (induction ps arbitrary: s)
  case (Cons p ps)
  have p: "fresh_id_ok p" "new_id p \<noteq> Some jid" using Cons.prems by simp_all
  from Cons.IH [of "apply_op p s"] life_step [OF Cons.prems(3) p] store_step_ok [OF apply_op_step [OF Cons.prems(3) p(1)] Cons.prems(3)] Cons.prems
  show ?case by (simp add: run_job_ops_def)
qed (simp add: run_job_ops_def)

lemma terminal_run:
  assumes "list_all fresh_id_ok ps" "list_all (\<lambda>p. new_id p \<noteq> Some jid) ps" "table_ok (js_jobs s)"
    "find_job jid s \<in> {None, Some j}" "terminal (jb_status j)"
  shows "find_job jid (run_job_ops ps s) \<in> {None, Some j}"
  using assms
proof (induction ps arbitrary: s)
  case (Cons p ps)
  have p: "fresh_id_ok p" "new_id p \<noteq> Some jid" using Cons.prems by simp_all
  note step = apply_op_step [OF Cons.prems(3) p(1)]
  have "find_job jid (apply_op p s) \<in> {None, Some j}"
    using store_step_job [OF step Cons.prems(3) p(2)] Cons.prems(4) moved_terminal [OF _ Cons.prems(5)]
    by (auto split: option.splits)
  from Cons.IH [OF _ _ store_step_ok [OF step Cons.prems(3)] this Cons.prems(5)] Cons.prems show ?case
    by (simp add: run_job_ops_def)
qed (simp add: run_job_ops_def)

text \<open>C32. A job ends: however its transactions interleave and whoever sends them, its state changes at
  most seven times, its deletion included (so it is claimed at most three times); and once it is
  completed, failed or cancelled it keeps every field until it is deleted. That the identifier is
  not given to a new job again is the uniqueness of the drawn identifiers.\<close>

theorem job_ends:
  assumes "table_ok (js_jobs s)" "find_job jid s = Some j" "list_all fresh_id_ok ps" "list_all (\<lambda>p. new_id p \<noteq> Some jid) ps"
  shows "changes jid ps s \<le> 7 \<and> (terminal (jb_status j) \<longrightarrow> find_job jid (run_job_ops ps s) \<in> {None, Some j})"
proof -
  have "job_ok j" using find_job_Some [OF assms(2)] table_okD [OF assms(1)] by blast
  then have "0 \<le> life (find_job jid s)" "life (find_job jid s) \<le> 7"
    using job_ok_rank [of j] by (simp_all add: life_def assms(2))
  then show ?thesis
    using life_run [OF assms(3,4,1)] terminal_run [OF assms(3,4,1), of j] assms(2) by auto
qed

theorem job_ends_witness:
  "changes sample_id [ClaimJob (PStr sample_id) 1, CancelJob (PStr sample_id) 2] (sample_store [sample_job JobCompleted 1]) \<le> 7
   \<and> find_job sample_id (run_job_ops [ClaimJob (PStr sample_id) 1, CancelJob (PStr sample_id) 2] (sample_store [sample_job JobCompleted 1]))
     \<in> {None, Some (sample_job JobCompleted 1)}"
  using job_ends [OF sample_job_ok sample_job_found, of JobCompleted 1 "[ClaimJob (PStr sample_id) 1, CancelJob (PStr sample_id) 2]"]
  by (simp add: sample_job_def)

section \<open>Only the current attempt decides\<close>

lemma job_id_text:
  assumes "JOB_ID_PATTERN jid"
  shows "text_of (PStr jid) field 64 = Inr jid"
proof -
  obtain h where d: "jid = ''backtest_'' @ h" and h: "re_hex 32 h"
    using re_prefix_hexD assms unfolding JOB_ID_PATTERN_def by blast
  have "list_all (\<lambda>c. \<not> is_space c) h" using h by (auto simp: re_hex_def list_all_iff hex_no_space)
  moreover have "list_all (\<lambda>c. \<not> is_space c) ''backtest_''" by (simp add: is_space_def code_def)
  ultimately have "list_all (\<lambda>c. \<not> is_space c) jid" by (simp add: d)
  then have "strip jid = jid" by (rule strip_no_space)
  moreover have "length jid = 41" using h by (simp add: d re_hex_def)
  ultimately show ?thesis by (auto simp: text_of_def Let_def)
qed

lemma get_job_found:
  assumes "table_ok (js_jobs s)" "find_job jid s = Some j"
  shows "JOB_ID_PATTERN jid" "get_job (PStr jid) s = Inr j"
proof -
  show "JOB_ID_PATTERN jid" using find_job_Some [OF assms(2)] table_okD [OF assms(1)] by (auto simp: job_ok_def)
  then show "get_job (PStr jid) s = Inr j" by (simp add: get_job_def job_id_text assms(2))
qed

lemma find_job_update:
  assumes "\<And>j. jb_job_id (f j) = jb_job_id j"
  shows "find_job jid (update_jobs p f s) = map_option (\<lambda>j. if p j then f j else j) (find_job jid s)"
  unfolding find_job_def update_jobs_def by (simp, rule find_job_map) (simp add: assms)

lemma claim_is_live_iff: "claim_is_live clock j \<longleftrightarrow> clock - 900 * 1000000 < jb_updated_at j"
  by (simp add: claim_is_live_def seconds_def BACKTEST_CLAIM_LEASE_SECONDS_def)

lemma content_text_Some: "content_text content key = Some t \<longleftrightarrow> fld content key = PStr t"
  by (auto simp: content_text_def split: pyval.splits)

lemma complete_in_refused:
  assumes "table_ok (js_jobs s)" "find_job jid s = Some j"
    "\<not> (jb_status j = JobRunning \<and> jb_attempts j = n \<and> claim_is_live clock j)"
  shows "complete_in_transaction jid n reference artifact_id summary now clock s
    = Inl (BacktestConflict ''backtest claim or result artifact is no longer current'')"
  using assms find_job_unique [OF assms(1,2)] by (auto simp: complete_in_transaction_def list_ex_iff Let_def)

lemma retry_takes_effect:
  assumes "table_ok (js_jobs s)" "find_job jid s = Some j" "jb_status j = JobRunning" "jb_attempts j = n"
    "text_of message ''error_message'' 512 = Inr safe_message" "text_of error_code ''error_code'' 64 = Inr safe_code"
  shows "\<exists>s'. retry_or_fail (PStr jid) n error_code message now s =
      (Inr (j\<lparr>jb_status := if jb_max_attempts j \<le> n then JobFailed else JobQueued, jb_error_code := Some safe_code,
         jb_error_message := Some safe_message, jb_updated_at := now,
         jb_finished_at := if jb_max_attempts j \<le> n then Some now else None\<rparr>), s')
    \<and> (\<forall>i. i \<noteq> jid \<longrightarrow> find_job i s' = find_job i s)"
proof -
  note jid = get_job_found [OF assms(1,2)]
  define p where "p = (\<lambda>i :: job. jb_job_id i = jid \<and> jb_status i = JobRunning \<and> jb_attempts i = n)"
  define f where "f = (\<lambda>i :: job. i\<lparr>jb_status := if jb_max_attempts j \<le> n then JobFailed else JobQueued,
     jb_error_code := Some safe_code, jb_error_message := Some safe_message, jb_updated_at := now,
     jb_finished_at := if jb_max_attempts j \<le> n then Some now else None\<rparr>)"
  have "p j" using find_job_Some [OF assms(2)] assms(3,4) by (simp add: p_def)
  have f_id: "jb_job_id (f i) = jb_job_id i" for i by (simp add: f_def)
  have j': "find_job jid (update_jobs p f s) = Some (f j)"
    using \<open>p j\<close> by (simp add: find_job_update f_id assms(2))
  have "find_job i (update_jobs p f s) = find_job i s" if "i \<noteq> jid" for i
    using that find_job_Some [of i s] by (cases "find_job i s") (auto simp: find_job_update f_id p_def)
  moreover have "retry_or_fail (PStr jid) n error_code message now s = (Inr (f j), update_jobs p f s)"
    using j' assms(3,4)
    by (simp add: retry_or_fail_def committed_def job_id_text [OF jid(1)] assms(2,5,6) Let_def get_job_def jid(1)
        flip: p_def f_def)
  ultimately show ?thesis unfolding f_def by blast
qed

text \<open>C33. A superseded worker changes nothing. If the job is no longer running, or runs a later attempt
  than the worker's, or was last updated 900 seconds or more before the database's clock (the
  lease of its claim has expired), neither way of completing it returns and both leave every
  table as it was; and if the attempt is not the running one, reporting a failure returns the job
  as it stands and leaves the tables as they were. The report of the running attempt does count,
  also after its lease: the job is queued again, or failed once its attempts are used up, with the
  reported code and message, and no other job changes.\<close>

theorem superseded_worker_changes_nothing:
  assumes "table_ok (js_jobs s)" "find_job jid s = Some j"
  shows "(\<not> (jb_status j = JobRunning \<and> jb_attempts j = n \<and> clock - 900 * 1000000 < jb_updated_at j) \<longrightarrow>
        (\<exists>e. complete (PStr jid) (PInt n) reference artifact_id summary now clock s = (Inl e, s))
        \<and> (\<exists>e. complete_with_artifact rs (PStr jid) (PInt n) reference summary payload now clock s = (Inl e, s)))
    \<and> (\<not> (jb_status j = JobRunning \<and> jb_attempts j = n) \<and> returns (text_of message ''error_message'' 512) \<longrightarrow>
        retry_or_fail (PStr jid) n error_code message now s = (Inr j, s))
    \<and> (\<forall>safe_message safe_code. jb_status j = JobRunning \<and> jb_attempts j = n
        \<and> text_of message ''error_message'' 512 = Inr safe_message \<and> text_of error_code ''error_code'' 64 = Inr safe_code \<longrightarrow>
        (\<exists>s'. retry_or_fail (PStr jid) n error_code message now s =
            (Inr (j\<lparr>jb_status := if jb_max_attempts j \<le> n then JobFailed else JobQueued, jb_error_code := Some safe_code,
               jb_error_message := Some safe_message, jb_updated_at := now,
               jb_finished_at := if jb_max_attempts j \<le> n then Some now else None\<rparr>), s')
          \<and> (\<forall>i. i \<noteq> jid \<longrightarrow> find_job i s' = find_job i s)))"
proof (intro conjI allI impI)
  note jid = get_job_found [OF assms]
  assume "\<not> (jb_status j = JobRunning \<and> jb_attempts j = n \<and> clock - 900 * 1000000 < jb_updated_at j)"
  then have "\<not> (jb_status j = JobRunning \<and> jb_attempts j = n \<and> claim_is_live clock j)" by (simp add: claim_is_live_iff)
  then show "\<exists>e. complete (PStr jid) (PInt n) reference artifact_id summary now clock s = (Inl e, s)"
    "\<exists>e. complete_with_artifact rs (PStr jid) (PInt n) reference summary payload now clock s = (Inl e, s)"
    using complete_in_refused [OF assms]
    by (auto simp: complete_def complete_with_artifact_def committed_def job_id_text [OF jid(1)]
        validate_completion_attempt_def require_current_attempt_def assms(2))
next
  note jid = get_job_found [OF assms]
  assume "\<not> (jb_status j = JobRunning \<and> jb_attempts j = n) \<and> returns (text_of message ''error_message'' 512)"
  then show "retry_or_fail (PStr jid) n error_code message now s = (Inr j, s)"
    using assms(2) jid by (auto simp: retry_or_fail_def committed_def job_id_text returns_iff)
qed (use retry_takes_effect [OF assms] in blast)

theorem superseded_worker_changes_nothing_witness:
  "(\<exists>e. complete (PStr sample_id) (PInt 1) (PStr ''r'') ''artifact_3'' PNone 9 9 (sample_store [sample_job JobRunning 2])
       = (Inl e, sample_store [sample_job JobRunning 2]))
   \<and> retry_or_fail (PStr sample_id) 1 (PStr ''late'') (PStr ''late'') 9 (sample_store [sample_job JobRunning 2])
       = (Inr (sample_job JobRunning 2), sample_store [sample_job JobRunning 2])"
  using superseded_worker_changes_nothing [OF sample_job_ok sample_job_found, of JobRunning 2 1 9 "PStr ''r''" "''artifact_3''" PNone 9
      sample_research PNone "PStr ''late''" "PStr ''late''"]
  by (auto simp: sample_job_def text_of_def strip_def is_space_def code_def)

lemma completed_job_found:
  assumes "complete_in_transaction jid n reference artifact_id summary now clock s = Inr s'" "table_ok (js_jobs s)"
  shows "\<exists>j. find_job jid s = Some j \<and> jb_status j = JobRunning \<and> jb_attempts j = n \<and> claim_is_live clock j
    \<and> (\<exists>a \<in> set (js_artifacts s). result_artifact_for artifact_id reference j a)
    \<and> find_job jid s' = Some (j\<lparr>jb_status := JobCompleted, jb_result_reference := Some reference,
         jb_result_artifact_id := Some artifact_id, jb_summary := Some summary, jb_error_code := None,
         jb_error_message := None, jb_updated_at := now, jb_finished_at := Some now\<rparr>)
    \<and> js_artifacts s' = js_artifacts s \<and> (\<forall>i. i \<noteq> jid \<longrightarrow> find_job i s' = find_job i s)"
proof -
  define current where "current = (\<lambda>j. jb_job_id j = jid \<and> jb_status j = JobRunning \<and> jb_attempts j = n
           \<and> claim_is_live clock j \<and> list_ex (result_artifact_for artifact_id reference j) (js_artifacts s))"
  define finish where "finish = (\<lambda>j :: job. j\<lparr>jb_status := JobCompleted, jb_result_reference := Some reference,
         jb_result_artifact_id := Some artifact_id, jb_summary := Some summary, jb_error_code := None,
         jb_error_message := None, jb_updated_at := now, jb_finished_at := Some now\<rparr>)"
  have s': "list_ex current (js_jobs s)" "s' = update_jobs current finish s"
    using assms(1) unfolding complete_in_transaction_def Let_def current_def [symmetric] finish_def [symmetric]
    by (auto split: if_splits)
  obtain j where j: "j \<in> set (js_jobs s)" "current j" using s'(1) by (auto simp: list_ex_iff)
  have f: "find_job jid s = Some j"
    using j assms(2) find_job_unique [OF assms(2)] unfolding find_job_def current_def
    by (cases "find (\<lambda>j. jb_job_id j = jid) (js_jobs s)") (auto simp: find_None_iff find_job_def)
  have "find_job jid s' = Some (finish j)"
    unfolding s'(2) using f j(2) by (subst find_job_update) (simp_all add: finish_def)
  moreover have "js_artifacts s' = js_artifacts s" by (simp add: s'(2) update_jobs_def)
  moreover have "find_job i s' = find_job i s" if "i \<noteq> jid" for i
    unfolding s'(2) using that find_job_Some [of i s]
    by (subst find_job_update) (auto simp: finish_def current_def map_option_case split: option.splits)
  ultimately show ?thesis using f j(2) unfolding current_def finish_def by (auto simp: list_ex_iff)
qed

lemma completion_commits:
  assumes "JOB_ID_PATTERN jid"
    "complete (PStr jid) (PInt n) reference result_artifact_id summary now clock s = (Inr j', s')
      \<or> complete_with_artifact rs (PStr jid) (PInt n) reference summary payload now clock s = (Inr j', s')"
    "\<And>artifact_id artifacts. complete_in_transaction jid n reference artifact_id summary now clock (s\<lparr>js_artifacts := artifacts\<rparr>) = Inr s'
      \<Longrightarrow> get_job (PStr jid) s' = Inr j' \<Longrightarrow> thesis"
  shows thesis
  using assms(2)
proof
  assume c: "complete (PStr jid) (PInt n) reference result_artifact_id summary now clock s = (Inr j', s')"
  have s: "s\<lparr>js_artifacts := js_artifacts s\<rparr> = s" by simp
  from c show ?thesis
    unfolding complete_def committed_def job_id_text [OF assms(1)] validate_completion_attempt_def
    using assms(3) [of result_artifact_id "js_artifacts s"] by (auto simp: s split: sum.splits elim!: returns_elims)
next
  assume "complete_with_artifact rs (PStr jid) (PInt n) reference summary payload now clock s = (Inr j', s')"
  then show ?thesis
    unfolding complete_with_artifact_def committed_def job_id_text [OF assms(1)] validate_completion_attempt_def
    using assms(3) by (auto split: sum.splits elim!: returns_elims)
qed

text \<open>C34. A job is completed only by its own result. When completing it, with an artifact that is already
  stored or together with the artifact, returns, the job was running exactly this attempt and was
  last updated less than 900 seconds before the database's clock; afterwards it is completed with
  the given reference and summary, and the artifact it names is in the store: a validated backtest
  result of the job's task, owner, workspace, experiment and trace, under the idempotency key
  derived from the job, whose content is a completed outcome that names this job, its input
  manifest, its strategy version and approval and the same reference. The other jobs are as they
  were.\<close>

theorem completion_has_its_artifact:
  assumes "complete (PStr jid) (PInt n) reference result_artifact_id summary now clock s = (Inr j', s')
      \<or> complete_with_artifact rs (PStr jid) (PInt n) reference summary payload now clock s = (Inr j', s')"
    "table_ok (js_jobs s)" "JOB_ID_PATTERN jid"
  shows "\<exists>j a. find_job jid s = Some j \<and> jb_status j = JobRunning \<and> jb_attempts j = n
    \<and> clock - 900 * 1000000 < jb_updated_at j
    \<and> j' = j\<lparr>jb_status := JobCompleted, jb_result_reference := Some reference,
         jb_result_artifact_id := Some (af_artifact_id a), jb_summary := Some summary, jb_error_code := None,
         jb_error_message := None, jb_updated_at := now, jb_finished_at := Some now\<rparr>
    \<and> find_job jid s' = Some j' \<and> (\<forall>i. i \<noteq> jid \<longrightarrow> find_job i s' = find_job i s)
    \<and> a \<in> set (js_artifacts s') \<and> af_kind a = ''backtest_result'' \<and> af_status a = ''validated''
    \<and> af_task_id a = jb_task_id j \<and> af_owner a = jb_owner j \<and> af_workspace_id a = jb_workspace_id j
    \<and> af_experiment_id a = jb_experiment_id j \<and> af_trace_id a = rq_trace_id (jb_request j)
    \<and> af_idempotency_key a = ''backtest-result-'' @ jid
    \<and> fld (af_content a) ''execution_outcome'' = PStr ''completed'' \<and> fld (af_content a) ''job_id'' = PStr jid
    \<and> fld (af_content a) ''input_manifest_id'' = PStr (jb_input_manifest_id j)
    \<and> fld (af_content a) ''strategy_version_artifact_id'' = PStr (jb_strategy_version j)
    \<and> fld (af_content a) ''approval_artifact_id'' = PStr (jb_approval j)
    \<and> py_eq (fld (af_content a) ''result_reference'') reference"
proof -
  from assms(1) obtain artifact_id artifacts
    where c: "complete_in_transaction jid n reference artifact_id summary now clock (s\<lparr>js_artifacts := artifacts\<rparr>) = Inr s'"
      and g: "get_job (PStr jid) s' = Inr j'"
    by (rule completion_commits [OF assms(3)])
  have t: "table_ok (js_jobs (s\<lparr>js_artifacts := artifacts\<rparr>))" using assms(2) by simp
  have f: "find_job i (s\<lparr>js_artifacts := artifacts\<rparr>) = find_job i s" for i by (simp add: find_job_def)
  from g have "find_job jid s' = Some j'" by (auto simp: get_job_def job_id_text [OF assms(3)] split: option.splits if_splits)
  moreover from completed_job_found [OF c t] obtain j a where "find_job jid s = Some j" "jb_status j = JobRunning"
    "jb_attempts j = n" "claim_is_live clock j" "a \<in> set (js_artifacts s')" "result_artifact_for artifact_id reference j a"
    "find_job jid s' = Some (j\<lparr>jb_status := JobCompleted, jb_result_reference := Some reference,
         jb_result_artifact_id := Some artifact_id, jb_summary := Some summary, jb_error_code := None,
         jb_error_message := None, jb_updated_at := now, jb_finished_at := Some now\<rparr>)"
    "\<forall>i. i \<noteq> jid \<longrightarrow> find_job i s' = find_job i s"
    by (auto simp: f)
  moreover from this(1) have "jb_job_id j = jid" using find_job_Some by blast
  ultimately have "\<exists>j a. find_job jid s = Some j \<and> jb_job_id j = jid \<and> jb_status j = JobRunning \<and> jb_attempts j = n
      \<and> claim_is_live clock j \<and> a \<in> set (js_artifacts s') \<and> result_artifact_for artifact_id reference j a
      \<and> find_job jid s' = Some j' \<and> j' = j\<lparr>jb_status := JobCompleted, jb_result_reference := Some reference,
         jb_result_artifact_id := Some artifact_id, jb_summary := Some summary, jb_error_code := None,
         jb_error_message := None, jb_updated_at := now, jb_finished_at := Some now\<rparr>
      \<and> (\<forall>i. i \<noteq> jid \<longrightarrow> find_job i s' = find_job i s)" by (metis option.inject)
  then show ?thesis
    by (elim ex_forward) (simp add: claim_is_live_iff result_artifact_for_def content_text_Some)
qed

theorem completion_has_its_artifact_witness:
  "\<exists>j' s' a. complete_with_artifact sample_research (PStr sample_id) (PInt 1) (PStr ''r'') PNone PNone 9 9
      (sample_store [sample_job JobRunning 1]) = (Inr j', s')
    \<and> jb_status j' = JobCompleted \<and> jb_result_artifact_id j' = Some (af_artifact_id a)
    \<and> a \<in> set (js_artifacts s') \<and> fld (af_content a) ''input_manifest_id'' = PStr ''m1''
    \<and> fld (af_content a) ''approval_artifact_id'' = PStr ''artifact_2''"
proof -
  obtain j' s' where c: "complete_with_artifact sample_research (PStr sample_id) (PInt 1) (PStr ''r'') PNone PNone 9 9
      (sample_store [sample_job JobRunning 1]) = (Inr j', s')"
    by (simp add: complete_with_artifact_def committed_def job_id_text sample_id_ok validate_completion_attempt_def
        require_current_attempt_def sample_job_found sample_research_def complete_in_transaction_def result_artifact_for_def
        sample_store_def sample_job_def sample_result_def sample_request_def content_text_def claim_is_live_def seconds_def
        BACKTEST_CLAIM_LEASE_SECONDS_def update_jobs_def get_job_def find_job_def int_at_least_def)
  from completion_has_its_artifact [OF disjI2 [OF c] sample_job_ok sample_id_ok] obtain j a
    where "find_job sample_id (sample_store [sample_job JobRunning 1]) = Some j" "jb_status j' = JobCompleted"
      "jb_result_artifact_id j' = Some (af_artifact_id a)" "a \<in> set (js_artifacts s')"
      "fld (af_content a) ''input_manifest_id'' = PStr (jb_input_manifest_id j)"
      "fld (af_content a) ''approval_artifact_id'' = PStr (jb_approval j)"
    by auto
  moreover from this(1) have "j = sample_job JobRunning 1" by (simp add: sample_job_found)
  then have "jb_input_manifest_id j = ''m1''" "jb_approval j = ''artifact_2''" by (simp_all add: sample_job_def)
  ultimately show ?thesis using c by metis
qed

section \<open>Creation is idempotent\<close>

lemma created_hash:
  assumes "create_job r owner i now s = (Inr j, s1)" "JOB_ID_PATTERN i"
  shows "is_dict (rq_manifest r) \<and> returns (text_of owner ''owner_principal'' 128)
    \<and> returns (integer_of (if is_dict (fld (rq_manifest r) ''execution'')
           then fld_or (fld (rq_manifest r) ''execution'') ''max_attempts'' (PInt 2) else PInt 2) ''max_attempts'' 1 (Some 3))
    \<and> job_request_hash r = Inr (jb_request_hash j) \<and> returns (normalize_backtest_name (rq_name r))"
proof (cases "is_dict (rq_manifest r)")
  case True
  have found: "find_job i (s\<lparr>js_jobs := js_jobs s @ [k]\<rparr>) = Some k"
    if "i \<notin> jb_job_id ` set (js_jobs s)" "jb_job_id k = i" for k
  proof -
    have "find (\<lambda>j. jb_job_id j = i) (js_jobs s) = None" using that(1) by (auto simp: find_None_iff)
    then show ?thesis using that(2) by (simp add: find_job_def find_snoc)
  qed
  show ?thesis
    using assms(1) True found
    unfolding create_job_def Let_def committed_def
    by (auto split: sum.splits elim!: returns_elims
        simp: insert_job_def get_job_def job_id_text [OF assms(2)] assms(2) returns_iff split: if_splits option.splits)
qed (use assms(1) in \<open>simp add: create_job_def\<close>)

lemma find_by_key:
  assumes "k \<in> set js" "job_key k = (t, key)" "distinct (map job_key js)"
  shows "find (\<lambda>j. jb_task_id j = t \<and> jb_idempotency_key j = key) js = Some k"
proof (cases "find (\<lambda>j. jb_task_id j = t \<and> jb_idempotency_key j = key) js")
  case None
  then show ?thesis using assms(1,2) by (auto simp: find_None_iff job_key_def)
next
  case (Some k')
  then have "k' \<in> set js" "job_key k' = job_key k" using assms(2) by (auto simp: find_Some_iff job_key_def)
  then show ?thesis using Some assms(1,3) by (metis distinct_map inj_onD)
qed

text \<open>What a creation does while its task and key are taken by \<open>k\<close>.\<close>

lemma create_job_taken:
  assumes "find (\<lambda>j. jb_task_id j = rq_task_id r \<and> jb_idempotency_key j = rq_idempotency_key r) (js_jobs s) = Some k"
  shows "snd (create_job r owner i now s) = s
    \<and> (\<forall>x. fst (create_job r owner i now s) = Inr x \<longrightarrow> x = k \<and> job_request_hash r = Inr (jb_request_hash k))"
  unfolding create_job_def Let_def committed_def assms
  by (auto split: sum.splits if_splits elim!: returns_elims)

lemma create_job_same_settings:
  assumes "find (\<lambda>j. jb_task_id j = rq_task_id r \<and> jb_idempotency_key j = rq_idempotency_key r) (js_jobs s) = Some k"
    "is_dict (rq_manifest r)" "returns (text_of owner ''owner_principal'' 128)"
    "returns (integer_of (if is_dict (fld (rq_manifest r) ''execution'')
           then fld_or (fld (rq_manifest r) ''execution'') ''max_attempts'' (PInt 2) else PInt 2) ''max_attempts'' 1 (Some 3))"
    "returns (normalize_backtest_name (rq_name r))" "job_request_hash r = Inr h"
  shows "create_job r owner i now s = (if h = jb_request_hash k then Inr k
     else Inl (BacktestConflict ''backtest idempotency key was reused''), s)"
  using assms by (auto simp: create_job_def committed_def returns_iff)

text \<open>What makes two creations the same: every field of the request except its idempotency key and its
  name.\<close>

definition request_content :: "backtest_request \<Rightarrow> pyval" where
  "request_content r = PDict ([(''task_id'', PStr (rq_task_id r)),
     (''experiment_id'', case rq_experiment_id r of None \<Rightarrow> PNone | Some e \<Rightarrow> PStr e),
     (''strategy_version_artifact_id'', PStr (rq_strategy_version r)), (''approval_artifact_id'', PStr (rq_approval r)),
     (''trace_id'', PStr (rq_trace_id r)), (''manifest'', rq_manifest r),
     (''input_manifest_id'', PStr (rq_input_manifest_id r))]
     @ filter (\<lambda>(k, _). k \<noteq> ''idempotency_key'' \<and> k \<noteq> ''name'') (rq_more r))"

lemma job_request_hash_content:
  "job_request_hash r = andThen (canonical (request_content r)) (\<lambda>t. Inr (sha256_hex (utf8 t)))"
  by (simp add: job_request_hash_def request_content_def request_json_def)

lemma created_row:
  assumes "create_job r owner i now s = (Inr j, s1)" "JOB_ID_PATTERN i" "table_ok (js_jobs s)"
  shows "find_job (jb_job_id j) s1 = Some j" "job_key j = (rq_task_id r, rq_idempotency_key r)"
proof -
  have new: "find_job i (s\<lparr>js_jobs := js_jobs s @ [k]\<rparr>) = Some k"
    if "i \<notin> jb_job_id ` set (js_jobs s)" "jb_job_id k = i" for k
  proof -
    have "find (\<lambda>j. jb_job_id j = i) (js_jobs s) = None" using that(1) by (auto simp: find_None_iff)
    then show ?thesis using that(2) by (simp add: find_job_def find_snoc)
  qed
  have old: "find_job (jb_job_id k) s = Some k" if "find P (js_jobs s) = Some k" for P k
  proof -
    have m: "k \<in> set (js_jobs s)" using that by (auto simp: find_Some_iff)
    then obtain k' where "find_job (jb_job_id k) s = Some k'"
      unfolding find_job_def by (cases "find (\<lambda>j. jb_job_id j = jb_job_id k) (js_jobs s)") (auto simp: find_None_iff)
    then show ?thesis using find_job_unique [OF assms(3) _ m] by blast
  qed
  have "find_job (jb_job_id j) s1 = Some j \<and> job_key j = (rq_task_id r, rq_idempotency_key r)"
  proof (cases "find (\<lambda>j. jb_task_id j = rq_task_id r \<and> jb_idempotency_key j = rq_idempotency_key r) (js_jobs s)")
    case (Some k)
    then have "jb_task_id k = rq_task_id r \<and> jb_idempotency_key k = rq_idempotency_key r" by (auto simp: find_Some_iff)
    moreover have "j = k \<and> s1 = s" using assms(1) Some unfolding create_job_def Let_def committed_def
      by (auto split: if_splits sum.splits elim!: returns_elims)
    ultimately show ?thesis using old [OF Some] by (simp add: job_key_def)
  next
    case None
    then show ?thesis using assms(1) new unfolding create_job_def Let_def committed_def
      by (auto split: if_splits sum.splits elim!: returns_elims
          simp: insert_job_def get_job_def job_id_text [OF assms(2)] assms(2) job_key_def split: option.splits)
  qed
  then show "find_job (jb_job_id j) s1 = Some j" "job_key j = (rq_task_id r, rq_idempotency_key r)" by blast+
qed

lemma moved_identity: "job_moved j j' \<Longrightarrow> job_identity j' = job_identity j"
  by (auto simp: job_moved_def)

lemma identity_run:
  assumes "list_all fresh_id_ok ps" "list_all (\<lambda>p. new_id p \<noteq> Some jid) ps" "table_ok (js_jobs s)"
    "\<forall>k. find_job jid s = Some k \<longrightarrow> job_identity k = identity"
  shows "\<forall>k. find_job jid (run_job_ops ps s) = Some k \<longrightarrow> job_identity k = identity"
  using assms
proof (induction ps arbitrary: s)
  case (Cons p ps)
  have p: "fresh_id_ok p" "new_id p \<noteq> Some jid" using Cons.prems by simp_all
  note step = apply_op_step [OF Cons.prems(3) p(1)]
  have "\<forall>k. find_job jid (apply_op p s) = Some k \<longrightarrow> job_identity k = identity"
    using store_step_job [OF step Cons.prems(3) p(2)] Cons.prems(4) moved_identity
    by (fastforce split: option.splits)
  from Cons.IH [OF _ _ store_step_ok [OF step Cons.prems(3)] this] Cons.prems show ?case
    by (simp add: run_job_ops_def)
qed (simp add: run_job_ops_def)

text \<open>The row of a creation still holds its task and key after any transactions that do not delete it.\<close>

lemma created_row_holds:
  assumes "create_job r owner i now s = (Inr j, s1)" "JOB_ID_PATTERN i" "table_ok (js_jobs s)"
    "list_all fresh_id_ok ps" "list_all (\<lambda>p. new_id p \<noteq> Some (jb_job_id j)) ps"
    "find_job (jb_job_id j) (run_job_ops ps s1) = Some k"
  shows "job_identity k = job_identity j \<and> job_request_hash r = Inr (jb_request_hash k)
    \<and> find (\<lambda>j. jb_task_id j = rq_task_id r \<and> jb_idempotency_key j = rq_idempotency_key r) (js_jobs (run_job_ops ps s1)) = Some k"
proof -
  note row = created_row [OF assms(1-3)]
  have "apply_op (CreateJob r owner i now) s = s1" by (simp add: assms(1))
  with store_step_ok [OF apply_op_step [OF assms(3), of "CreateJob r owner i now"] assms(3)] assms(2)
  have t1: "table_ok (js_jobs s1)" by simp
  have i: "job_identity k = job_identity j"
    using identity_run [OF assms(4,5) t1, of "job_identity j"] row(1) assms(6) by simp
  have h: "jb_request_hash k = jb_request_hash j" using arg_cong [OF i, of jb_request_hash] by (simp add: job_identity_def)
  have key: "job_key k = (rq_task_id r, rq_idempotency_key r)" using job_identity_eq(2) [OF i] row(2) by simp
  have k: "k \<in> set (js_jobs (run_job_ops ps s1))" using find_job_Some [OF assms(6)] by blast
  have d: "distinct (map job_key (js_jobs (run_job_ops ps s1)))"
    using run_job_ops_ok [OF assms(4) t1] by (simp add: table_ok_def)
  have "find (\<lambda>j. jb_task_id j = rq_task_id r \<and> jb_idempotency_key j = rq_idempotency_key r) (js_jobs (run_job_ops ps s1)) = Some k"
    using k key d by (rule find_by_key)
  then show ?thesis using i h created_hash [OF assms(1,2)] by simp
qed

text \<open>C35. Creating a job is idempotent, and only for the same input. When a creation has returned a job, then
  after any transactions at all that did not delete it, the job is the same one (whatever its
  status is by then), and the same request returns it as it then stands. A request for the same
  task and idempotency key, whoever sends it, whatever identifier was drawn and whatever the clock
  says, changes nothing and returns, if anything, this job; and it does so only if the SHA-256
  digest of the canonical text of its fields, the input manifest and its identifier included and
  only the idempotency key and the name left out, is that of the first request. A request with the
  same name and execution settings but another digest raises a conflict.\<close>

theorem create_is_idempotent:
  assumes "create_job r owner i now s = (Inr j, s1)" "JOB_ID_PATTERN i" "table_ok (js_jobs s)"
    "list_all fresh_id_ok ps" "list_all (\<lambda>p. new_id p \<noteq> Some (jb_job_id j)) ps"
    "s2 = run_job_ops ps s1" "find_job (jb_job_id j) s2 = Some k"
    "rq_task_id r' = rq_task_id r" "rq_idempotency_key r' = rq_idempotency_key r"
  shows "job_identity k = job_identity j \<and> create_job r owner i' now' s2 = (Inr k, s2)
    \<and> snd (create_job r' owner' i' now' s2) = s2
    \<and> (\<forall>x. fst (create_job r' owner' i' now' s2) = Inr x \<longrightarrow> x = k
        \<and> (\<exists>t t'. canonical (request_content r) = Inr t \<and> canonical (request_content r') = Inr t'
              \<and> sha256_hex (utf8 t') = sha256_hex (utf8 t)))
    \<and> (rq_name r' = rq_name r \<and> is_dict (rq_manifest r')
        \<and> fld (rq_manifest r') ''execution'' = fld (rq_manifest r) ''execution'' \<longrightarrow>
        (\<forall>t t'. canonical (request_content r) = Inr t \<and> canonical (request_content r') = Inr t' \<longrightarrow>
          create_job r' owner i' now' s2 =
            (if sha256_hex (utf8 t') = sha256_hex (utf8 t) then Inr k
             else Inl (BacktestConflict ''backtest idempotency key was reused''), s2)))"
proof -
  note k = created_row_holds [OF assms(1-5), of k, folded assms(6), OF assms(7)]
  note made = created_hash [OF assms(1,2)]
  have found: "find (\<lambda>j. jb_task_id j = rq_task_id r' \<and> jb_idempotency_key j = rq_idempotency_key r') (js_jobs s2) = Some k"
    using k by (simp add: assms(8,9))
  have replay: "create_job r owner i' now' s2 = (Inr k, s2)"
    using made k by (auto simp: create_job_def committed_def returns_iff)
  obtain t where t: "canonical (request_content r) = Inr t" "jb_request_hash k = sha256_hex (utf8 t)"
    using k by (auto simp: job_request_hash_content res_simps)
  note taken = create_job_taken [OF found, of owner' i' now']
  have same: "\<exists>t t'. canonical (request_content r) = Inr t \<and> canonical (request_content r') = Inr t'
      \<and> sha256_hex (utf8 t') = sha256_hex (utf8 t)" if "fst (create_job r' owner' i' now' s2) = Inr x" for x
    using that taken t by (auto simp: job_request_hash_content res_simps)
  have conflict: "create_job r' owner i' now' s2 = (if sha256_hex (utf8 t'') = sha256_hex (utf8 t') then Inr k
       else Inl (BacktestConflict ''backtest idempotency key was reused''), s2)"
    if "rq_name r' = rq_name r" "is_dict (rq_manifest r')"
      "fld (rq_manifest r') ''execution'' = fld (rq_manifest r) ''execution''"
      "canonical (request_content r) = Inr t'" "canonical (request_content r') = Inr t''" for t' t''
  proof -
    have settings: "returns (text_of owner ''owner_principal'' 128)" "returns (normalize_backtest_name (rq_name r'))"
      "returns (integer_of (if is_dict (fld (rq_manifest r') ''execution'')
         then fld_or (fld (rq_manifest r') ''execution'') ''max_attempts'' (PInt 2) else PInt 2) ''max_attempts'' 1 (Some 3))"
      using made unfolding that(1,3) by blast+
    have "job_request_hash r' = Inr (sha256_hex (utf8 t''))" by (simp add: job_request_hash_content that(5))
    from create_job_same_settings [OF found that(2) settings(1,3,2) this] t that(4) show ?thesis by simp
  qed
  show ?thesis using k replay taken same conflict by blast
qed

theorem create_is_idempotent_witness:
  "\<exists>j s1 s2. create_job sample_request (PStr ''user-1'') sample_id 5 (sample_store []) = (Inr j, s1)
     \<and> s2 = run_job_ops [ClaimJob (PStr sample_id) 6] s1
     \<and> (\<exists>k. find_job sample_id s2 = Some k \<and> job_identity k = job_identity j \<and> jb_status k = JobRunning
         \<and> create_job sample_request (PStr ''user-1'') ''backtest_other'' 7 s2 = (Inr k, s2)
         \<and> snd (create_job (sample_request\<lparr>rq_input_manifest_id := ''m2''\<rparr>) (PStr ''user-1'') ''backtest_other'' 7 s2) = s2)"
proof -
  have owner: "text_of (PStr ''user-1'') ''owner_principal'' 128 = Inr ''user-1''"
    by (simp add: text_of_def Let_def strip_def is_space_def code_def)
  obtain j s1 where c: "create_job sample_request (PStr ''user-1'') sample_id 5 (sample_store []) = (Inr j, s1)" "js_jobs s1 = [j]"
    "jb_job_id j = sample_id" "jb_status j = JobQueued" "jb_attempts j = 0" "jb_max_attempts j = 2"
    by (simp add: sample_store_def create_job_def sample_request_def committed_def Let_def owner job_id_text [OF sample_id_ok]
        integer_of_def job_request_hash_def canonical_def request_json_def sample_id_ok
        normalize_backtest_name_def strategy_available_def insert_job_def get_job_def find_job_def)
  define s2 where "s2 = run_job_ops [ClaimJob (PStr sample_id) 6] s1"
  have k: "\<exists>k. find_job sample_id s2 = Some k \<and> jb_status k = JobRunning"
    by (simp add: s2_def run_job_ops_def claim_def committed_def job_id_text [OF sample_id_ok] Let_def c find_job_def update_jobs_def)
  then obtain k where k: "find_job sample_id s2 = Some k" "jb_status k = JobRunning" by blast
  have "table_ok (js_jobs (sample_store []))" by (simp add: table_ok_def sample_store_def)
  from create_is_idempotent [OF c(1) sample_id_ok this _ _ s2_def, of k "sample_request\<lparr>rq_input_manifest_id := ''m2''\<rparr>"] k
  show ?thesis using c s2_def by (auto simp: c(3) sample_request_def)
qed

section \<open>A queued job is taken up\<close>

lemma not_earlier_trans: "\<not> earlier k best \<Longrightarrow> earlier x best \<Longrightarrow> \<not> earlier k x"
  unfolding earlier_def by auto

lemma earliest_of:
  "let e = fold (\<lambda>x best. if earlier x best then x else best) js j in e \<in> set (j # js) \<and> (\<forall>k \<in> set (j # js). \<not> earlier k e)"
proof (induction js arbitrary: j rule: rev_induct)
  case Nil
  then show ?case by (simp add: earlier_def)
next
  case (snoc x js)
  then show ?case
    using not_earlier_trans [of _ _ x] by (auto simp: Let_def earlier_def [of x x])
qed

text \<open>C36. Work is not lost: as long as some job is queued, the scan for work names the queued job that was
  created first, and claiming the job it names returns it, running its next attempt.\<close>

theorem queued_job_is_claimed:
  assumes "table_ok (js_jobs s)" "\<exists>k \<in> set (js_jobs s). jb_status k = JobQueued"
  shows "\<exists>jid j j'. next_queued_id s = Some jid \<and> find_job jid s = Some j \<and> jb_status j = JobQueued
    \<and> (\<forall>k \<in> set (js_jobs s). jb_status k = JobQueued \<longrightarrow> \<not> earlier k j)
    \<and> fst (claim (PStr jid) now s) = Inr (Some j') \<and> job_state j' = (JobRunning, jb_attempts j + 1)
    \<and> job_identity j' = job_identity j"
proof -
  define ready where "ready = filter (\<lambda>j. jb_status j = JobQueued \<and> jb_attempts j < jb_max_attempts j) (js_jobs s)"
  have mem: "k \<in> set ready \<longleftrightarrow> k \<in> set (js_jobs s) \<and> jb_status k = JobQueued" for k
    using table_okD [OF assms(1), of k] by (auto simp: ready_def job_ok_def)
  obtain k ks where ks: "ready = k # ks" using assms(2) mem by (cases ready) auto
  define j where "j = fold (\<lambda>x best. if earlier x best then x else best) ks k"
  have j: "j \<in> set ready" "\<forall>i \<in> set ready. \<not> earlier i j"
    using earliest_of [of ks k] by (simp_all add: ks j_def Let_def)
  have nq: "next_queued_id s = Some (jb_job_id j)"
    using ks by (simp add: next_queued_id_def ready_def [symmetric] j_def)
  have jm: "j \<in> set (js_jobs s)" "jb_status j = JobQueued" "jb_attempts j < jb_max_attempts j"
    using j(1) by (simp_all add: ready_def)
  have f: "find_job (jb_job_id j) s = Some j"
    using jm(1) find_job_unique [OF assms(1), of "jb_job_id j" _ j]
    by (cases "find_job (jb_job_id j) s") (auto simp: find_job_def find_None_iff)
  note pat = get_job_found(1) [OF assms(1) f]
  define up where "up = (\<lambda>j :: job. j\<lparr>jb_status := JobRunning, jb_attempts := jb_attempts j + 1, jb_updated_at := now,
    jb_error_code := None, jb_error_message := None\<rparr>)"
  define p where "p = (\<lambda>i :: job. jb_job_id i = jb_job_id j \<and> jb_status i = JobQueued \<and> jb_attempts i < jb_max_attempts i)"
  have "list_ex p (js_jobs s)" using jm by (auto simp: list_ex_iff p_def)
  then have "claim (PStr (jb_job_id j)) now s = committed (Inr (Some (jb_job_id j), update_jobs p up s))
     (\<lambda>claimed s'. case claimed of None \<Rightarrow> Inr None
      | Some claimed_id \<Rightarrow> andThen (get_job (PStr claimed_id) s') (\<lambda>j. Inr (Some j))) s"
    unfolding claim_def job_id_text [OF pat] by (simp add: Let_def p_def up_def)
  moreover have "find_job (jb_job_id j) (update_jobs p up s) = Some (up j)"
    using f jm by (subst find_job_update) (simp_all add: up_def p_def)
  ultimately have "fst (claim (PStr (jb_job_id j)) now s) = Inr (Some (up j))"
    by (simp add: committed_def get_job_def job_id_text [OF pat] pat)
  moreover have "job_state (up j) = (JobRunning, jb_attempts j + 1)" "job_identity (up j) = job_identity j"
    by (simp_all add: up_def job_state_def job_identity_def)
  ultimately show ?thesis using nq f jm(2) j(2) mem by blast
qed

theorem queued_job_is_claimed_witness:
  "\<exists>jid j j'. next_queued_id (sample_store [sample_job JobQueued 1]) = Some jid
    \<and> find_job jid (sample_store [sample_job JobQueued 1]) = Some j
    \<and> fst (claim (PStr jid) 5 (sample_store [sample_job JobQueued 1])) = Inr (Some j') \<and> job_state j' = (JobRunning, jb_attempts j + 1)"
proof -
  have "table_ok (js_jobs (sample_store [sample_job JobQueued 1]))" "\<exists>k \<in> set (js_jobs (sample_store [sample_job JobQueued 1])). jb_status k = JobQueued"
    by (simp_all add: table_ok_def sample_store_def sample_job_def job_ok_def sample_id_ok)
  from queued_job_is_claimed [OF this] show ?thesis by blast
qed

end
