(* ===== verification/Backtest_Input.thy ===== *)
theory Backtest_Input
  imports Backtest_Engine Backtest_Checks
begin

text \<open>
  The normalisers of \<^verbatim>\<open>services/backend/app/backtest.py\<close>: from the untyped parts of a request to the
  typed rows that the engine runs on. A normalised row is the engine's record extended by the fields
  that the engine does not read.
\<close>

section \<open>Rows\<close>

record universe =
  un_universe_id :: string
  un_version_id :: string
  un_membership_fingerprint :: string
  un_symbols :: "string list"

record normal_bar = bar +
  nb_high :: pyfloat
  nb_low :: pyfloat
  nb_volume :: pyfloat
  nb_adjustment_factor :: "pyfloat option"

record normal_action = corporate_action +
  na_end_date :: "string option"
  na_announcement_date :: "string option"
  na_implementation_announcement_date :: "string option"
  na_record_date :: "string option"
  na_cash_dividend_gross :: "pyfloat option"
  na_content_sha256 :: "string option"

record normal_benchmark = benchmark_bar +
  nm_open :: pyfloat
  nm_high :: pyfloat
  nm_low :: pyfloat
  nm_volume :: pyfloat
  nm_amount :: pyfloat
  nm_prev_close :: "pyfloat option"

record execution = execution_rules +
  ex_max_attempts :: int

definition MAX_BARS :: nat where "MAX_BARS = 2000001"
definition MAX_SIGNALS :: nat where "MAX_SIGNALS = 2000001"
definition MAX_ACTIONS :: nat where "MAX_ACTIONS = 10000"
definition MAX_BENCHMARK_BARS :: nat where "MAX_BENCHMARK_BARS = 5000"

definition at_row :: "string \<Rightarrow> nat \<Rightarrow> string \<Rightarrow> string" where
  "at_row table index rest = table @ ''['' @ nat_digits index @ '']'' @ rest"

definition optional_number :: "pyval \<Rightarrow> string \<Rightarrow> bool \<Rightarrow> pyfloat option res" where
  "optional_number value field positive = (if value = PNone then Inr None
     else andThen (number_of value field positive) (\<lambda>x. Inr (Some x)))"

definition fmin :: "pyfloat \<Rightarrow> pyfloat \<Rightarrow> pyfloat" where "fmin x y = (if flt y x then y else x)"

text \<open>The rows of a table in order, each checked against the keys of the rows before it.\<close>

fun normalize_rows :: "('k list \<Rightarrow> nat \<Rightarrow> pyval \<Rightarrow> ('k \<times> 'r) res) \<Rightarrow> 'k list \<Rightarrow> nat \<Rightarrow> pyval list \<Rightarrow> 'r list res" where
  "normalize_rows row seen index [] = Inr []"
| "normalize_rows row seen index (entry # entries) =
     andThen (row seen index entry) (\<lambda>(key, r).
     andThen (normalize_rows row (key # seen) (Suc index) entries) (\<lambda>rs. Inr (r # rs)))"

definition by_date_symbol :: "('r \<Rightarrow> string) \<Rightarrow> ('r \<Rightarrow> string) \<Rightarrow> 'r list \<Rightarrow> 'r list" where
  "by_date_symbol date symbol rs = sort_key date (sort_key symbol rs)"

section \<open>The universe\<close>

definition membership_fingerprint :: "string list \<Rightarrow> string" where
  "membership_fingerprint symbols = sha256_hex (utf8 (json_dumps False True (strs (sort (remdups symbols)))))"

definition normalize_universe :: "pyval \<Rightarrow> universe res" where
  "normalize_universe value =
    (if \<not> is_dict value then Inl (ValueError ''universe must be an object'')
     else andThen (reject_unknown value [''universe_id'', ''version_id'', ''membership_fingerprint'', ''symbols''] ''universe'') (\<lambda>_.
     andThen (text_of (fld_or value ''universe_id'' (PStr ''frozen-universe'')) ''universe.universe_id'' 128) (\<lambda>universe_id.
     andThen (text_of (fld value ''version_id'') ''universe.version_id'' 128) (\<lambda>version_id.
     andThen (text_of (fld value ''membership_fingerprint'') ''universe.membership_fingerprint'' 64) (\<lambda>supplied.
     if \<not> re_hex 64 supplied then Inl (ValueError ''universe.membership_fingerprint must be SHA-256'')
     else let symbols = fld value ''symbols'' in
     if \<not> is_list symbols \<or> the_list symbols = [] then Inl (ValueError ''universe.symbols must be a non-empty list'')
     else andThen (mapRes (\<lambda>entry. normalize_symbol entry ''universe.symbol'') (the_list symbols)) (\<lambda>entries.
     let normalized = sort (remdups entries) in
     if supplied \<noteq> membership_fingerprint normalized
     then Inl (ValueError ''universe membership fingerprint does not match symbols'')
     else Inr \<lparr>un_universe_id = universe_id, un_version_id = version_id, un_membership_fingerprint = supplied,
       un_symbols = normalized\<rparr>))))))"

section \<open>Bars\<close>

definition BAR_FIELDS :: "string list" where
  "BAR_FIELDS = [''symbol'', ''trade_date'', ''open'', ''high'', ''low'', ''close'', ''volume'', ''prev_close'',
     ''is_suspended'', ''suspended'', ''status'', ''up_limit'', ''down_limit'', ''adjustment_factor'']"

definition normalize_bar ::
    "string list \<Rightarrow> (string \<times> string) list \<Rightarrow> nat \<Rightarrow> pyval \<Rightarrow> ((string \<times> string) \<times> normal_bar) res" where
  "normalize_bar universe_symbols seen index entry =
    (let row = at_row ''bars'' index in
     if \<not> is_dict entry then Inl (ValueError (row '' must be an object''))
     else andThen (reject_unknown entry BAR_FIELDS (row [])) (\<lambda>_.
     andThen (normalize_symbol (fld entry ''symbol'') (row ''.symbol'')) (\<lambda>symbol.
     if symbol \<notin> set universe_symbols then Inl (ValueError (''bar symbol '' @ symbol @ '' is outside frozen universe''))
     else andThen (date_of (fld entry ''trade_date'') (row ''.trade_date'')) (\<lambda>trade_date.
     if (symbol, trade_date) \<in> set seen then Inl (ValueError (''duplicate bar for '' @ symbol @ '' on '' @ trade_date))
     else andThen (number_of (fld entry ''open'') (row ''.open'') True) (\<lambda>p_open.
     andThen (number_of (fld entry ''high'') (row ''.high'') True) (\<lambda>p_high.
     andThen (number_of (fld entry ''low'') (row ''.low'') True) (\<lambda>p_low.
     andThen (number_of (fld entry ''close'') (row ''.close'') True) (\<lambda>p_close.
     if flt p_high (fmax (fmax p_open p_close) p_low) then Inl (ValueError (row '' high violates OHLC envelope''))
     else if flt (fmin (fmin p_open p_close) p_high) p_low then Inl (ValueError (row '' low violates OHLC envelope''))
     else let status = fld entry ''status'' in
     andThen (if status = PNone then Inr True else in_strs status [''trading'', ''suspended'']) (\<lambda>known.
     if \<not> known then Inl (ValueError (row ''.status must be trading or suspended''))
     else let flag = fld_or entry ''is_suspended'' (fld_or entry ''suspended'' (PBool False)) in
     if \<not> is_bool flag then Inl (ValueError (row ''.suspended must be boolean''))
     else andThen (number_of (fld_or entry ''volume'' (PInt 0)) (row ''.volume'') False) (\<lambda>volume.
     andThen (optional_number (fld entry ''prev_close'') (row ''.prev_close'') True) (\<lambda>prev_close.
     andThen (optional_number (fld entry ''up_limit'') (row ''.up_limit'') True) (\<lambda>up_limit.
     andThen (optional_number (fld entry ''down_limit'') (row ''.down_limit'') True) (\<lambda>down_limit.
     andThen (optional_number (fld entry ''adjustment_factor'') (row ''.adjustment_factor'') True) (\<lambda>factor.
     Inr ((symbol, trade_date), \<lparr>bar_symbol = symbol, bar_trade_date = trade_date, bar_open = p_open, bar_close = p_close,
       bar_prev_close = prev_close, bar_up_limit = up_limit, bar_down_limit = down_limit,
       bar_is_suspended = the_bool flag \<or> status = PStr ''suspended'',
       nb_high = p_high, nb_low = p_low, nb_volume = volume, nb_adjustment_factor = factor\<rparr>)))))))))))))))"

text \<open>\<open>math.isclose\<close>\<close>

definition fabs :: "pyfloat \<Rightarrow> pyfloat" where "fabs x = (if flt x (FFin 0) then fneg x else x)"

definition isclose :: "pyfloat \<Rightarrow> pyfloat \<Rightarrow> pyfloat \<Rightarrow> pyfloat \<Rightarrow> bool" where
  "isclose a b rel_tol abs_tol \<longleftrightarrow> feq a b \<or>
     (a \<notin> {FInf, FNegInf} \<and> b \<notin> {FInf, FNegInf} \<and> (let diff = fabs (fsub b a) in
       fle diff (fabs (fmul rel_tol b)) \<or> fle diff (fabs (fmul rel_tol a)) \<or> fle diff abs_tol))"

definition factor_changed :: "pyfloat option \<Rightarrow> pyfloat option \<Rightarrow> bool" where
  "factor_changed factor previous_factor = (case (factor, previous_factor) of
     (Some f, Some p) \<Rightarrow> \<not> isclose f p (literal 1 12) (literal 1 12) | _ \<Rightarrow> False)"

text \<open>The bars of one symbol in date order: a supplied previous close must be the last close, unless a
  corporate action or a changed adjustment factor explains it; a missing one is filled in.\<close>

fun chain_bars :: "(string \<times> string) list \<Rightarrow> pyfloat option \<Rightarrow> pyfloat option \<Rightarrow> normal_bar list \<Rightarrow> normal_bar list res" where
  "chain_bars action_dates previous previous_factor [] = Inr []"
| "chain_bars action_dates previous previous_factor (row # rows) =
    (let supplied = bar_prev_close row; factor = nb_adjustment_factor row;
         changed = factor_changed factor previous_factor in
     if (case (supplied, previous) of (Some s, Some p) \<Rightarrow> \<not> isclose s p (literal 1 9) (literal 1 9) | _ \<Rightarrow> False)
        \<and> (bar_symbol row, bar_trade_date row) \<notin> set action_dates \<and> \<not> changed
     then Inl (ValueError (bar_symbol row @ '' '' @ bar_trade_date row @ '' prev_close is inconsistent''))
     else andThen (case (supplied, previous) of
         (None, Some p) \<Rightarrow> if changed then andThen (fdiv (fmul p (the previous_factor)) (the factor)) (\<lambda>x. Inr (Some x)) else Inr (Some p)
       | _ \<Rightarrow> Inr supplied) (\<lambda>prev_close.
     andThen (chain_bars action_dates (Some (bar_close row)) factor rows) (\<lambda>rest.
     Inr (row\<lparr>bar_prev_close := prev_close\<rparr> # rest))))"

fun replace_rows :: "string \<Rightarrow> normal_bar list \<Rightarrow> normal_bar list \<Rightarrow> normal_bar list" where
  "replace_rows symbol (r # rs) (u # us) =
     (if bar_symbol r = symbol then u # replace_rows symbol rs us else r # replace_rows symbol rs (u # us))"
| "replace_rows symbol rs us = rs"

definition chain_symbol :: "(string \<times> string) list \<Rightarrow> string \<Rightarrow> normal_bar list \<Rightarrow> normal_bar list res" where
  "chain_symbol action_dates symbol rows =
     andThen (chain_bars action_dates None None (filter (\<lambda>r. bar_symbol r = symbol) rows)) (\<lambda>chained.
     Inr (replace_rows symbol rows chained))"

definition normalize_bars :: "pyval \<Rightarrow> string list \<Rightarrow> (string \<times> string) list \<Rightarrow> normal_bar list res" where
  "normalize_bars value universe_symbols action_dates =
    (if \<not> is_list value \<or> the_list value = [] then Inl (ValueError ''bars must be a non-empty list'')
     else if MAX_BARS < length (the_list value)
     then Inl (BacktestResourceExceeded (''bars exceeds '' @ nat_digits MAX_BARS @ '' rows''))
     else andThen (normalize_rows (normalize_bar universe_symbols) [] 0 (the_list value)) (\<lambda>rows.
     let normalized = by_date_symbol bar_trade_date bar_symbol rows in
     foldRes (chain_symbol action_dates) (rev (remdups (rev (map bar_symbol normalized)))) normalized))"

section \<open>Signals\<close>

definition SIGNAL_FIELDS :: "string list" where
  "SIGNAL_FIELDS = [''symbol'', ''trade_date'', ''side'', ''action'', ''signal'', ''quantity'']"

definition direction_of :: "pyval \<Rightarrow> string \<Rightarrow> int res" where
  "direction_of raw message =
     andThen (in_constants raw [PStr ''buy'', PStr ''BUY'', PInt 1]) (\<lambda>buy. if buy then Inr 1 else
     andThen (in_constants raw [PStr ''sell'', PStr ''SELL'', PInt (-1)]) (\<lambda>sell. if sell then Inr (-1) else
     andThen (in_constants raw [PNone, PInt 0, PStr ''hold'', PStr ''HOLD'']) (\<lambda>hold. if hold then Inr 0 else
     Inl (ValueError message))))"

definition normalize_signal ::
    "string list \<Rightarrow> string list \<Rightarrow> (string \<times> string) list \<Rightarrow> nat \<Rightarrow> pyval \<Rightarrow> ((string \<times> string) \<times> signal) res" where
  "normalize_signal universe_symbols bar_dates seen index entry =
    (let row = at_row ''signals'' index in
     if \<not> is_dict entry then Inl (ValueError (row '' must be an object''))
     else andThen (reject_unknown entry SIGNAL_FIELDS (row [])) (\<lambda>_.
     andThen (normalize_symbol (fld entry ''symbol'') (row ''.symbol'')) (\<lambda>symbol.
     if symbol \<notin> set universe_symbols then Inl (ValueError (''signal symbol '' @ symbol @ '' is outside frozen universe''))
     else andThen (date_of (fld entry ''trade_date'') (row ''.trade_date'')) (\<lambda>trade_date.
     if trade_date \<notin> set bar_dates
     then Inl (ValueError (''signal date '' @ trade_date @ '' is not in the frozen trading input''))
     else if (symbol, trade_date) \<in> set seen
     then Inl (ValueError (''duplicate signal for '' @ symbol @ '' on '' @ trade_date))
     else andThen (direction_of (fld_or entry ''side'' (fld_or entry ''action'' (fld entry ''signal'')))
         (row '' side must be buy, sell, or hold'')) (\<lambda>direction.
     let quantity = fld entry ''quantity'' in
     andThen (if quantity = PNone then Inr None
       else andThen (integer_of quantity (row ''.quantity'') 1 (Some 10000000)) (\<lambda>n. Inr (Some n))) (\<lambda>q.
     Inr ((symbol, trade_date), \<lparr>sig_symbol = symbol, sig_trade_date = trade_date, sig_direction = direction,
       sig_quantity = q\<rparr>)))))))"

definition normalize_signals :: "pyval \<Rightarrow> string list \<Rightarrow> string list \<Rightarrow> signal list res" where
  "normalize_signals value universe_symbols bar_dates =
    (if \<not> is_list value then Inl (ValueError ''signals must be a list'')
     else if MAX_SIGNALS < length (the_list value)
     then Inl (BacktestResourceExceeded (''signals exceeds '' @ nat_digits MAX_SIGNALS @ '' rows''))
     else andThen (normalize_rows (normalize_signal universe_symbols bar_dates) [] 0 (the_list value)) (\<lambda>rows.
     Inr (by_date_symbol sig_trade_date sig_symbol rows)))"

section \<open>Execution rules\<close>

definition EXECUTION_FIELDS :: "string list" where
  "EXECUTION_FIELDS = [''initial_capital'', ''commission_rate'', ''stamp_tax_rate'', ''slippage_rate'', ''lot_size'',
     ''max_positions'', ''limit_threshold'', ''a_share_rules'', ''max_runtime_seconds'', ''max_attempts'']"

definition rate_outside :: "pyfloat \<Rightarrow> bool" where
  "rate_outside rate \<longleftrightarrow> flt rate (FFin 0) \<or> flt (FFin 1) rate"

definition normalize_execution :: "pyval \<Rightarrow> execution res" where
  "normalize_execution raw =
    (let value = (if raw = PNone then PDict [] else raw) in
     if \<not> is_dict value then Inl (ValueError ''execution must be an object'')
     else andThen (reject_unknown value EXECUTION_FIELDS ''execution'') (\<lambda>_.
     andThen (number_of (fld_or value ''initial_capital'' (PFloat (literal 100000 0))) ''execution.initial_capital'' True) (\<lambda>initial_capital.
     andThen (number_of (fld_or value ''commission_rate'' (PFloat (literal 3 4))) ''execution.commission_rate'' False) (\<lambda>commission_rate.
     andThen (number_of (fld_or value ''stamp_tax_rate'' (PFloat (literal 1 3))) ''execution.stamp_tax_rate'' False) (\<lambda>stamp_tax_rate.
     andThen (number_of (fld_or value ''slippage_rate'' (PFloat (FFin 0))) ''execution.slippage_rate'' False) (\<lambda>slippage_rate.
     andThen (number_of (fld_or value ''limit_threshold'' (PFloat (literal 10 2))) ''execution.limit_threshold'' False) (\<lambda>limit_threshold.
     if list_ex rate_outside [commission_rate, stamp_tax_rate, slippage_rate, limit_threshold]
     then Inl (ValueError ''execution rates must be between 0 and 1'')
     else let a_share_rules = fld_or value ''a_share_rules'' (PBool True) in
     if \<not> is_bool a_share_rules then Inl (ValueError ''execution.a_share_rules must be boolean'')
     else andThen (number_of (fld_or value ''max_runtime_seconds'' (PFloat (FFin 10))) ''execution.max_runtime_seconds'' True) (\<lambda>max_runtime_seconds.
     if flt (FFin 300) max_runtime_seconds
     then Inl (ValueError ''execution.max_runtime_seconds must not exceed 300 seconds'')
     else andThen (integer_of (fld_or value ''lot_size'' (PInt 100)) ''execution.lot_size'' 1 (Some 100000)) (\<lambda>lot_size.
     andThen (integer_of (fld_or value ''max_positions'' (PInt 10)) ''execution.max_positions'' 1 (Some 10000)) (\<lambda>max_positions.
     andThen (integer_of (fld_or value ''max_attempts'' (PInt 2)) ''execution.max_attempts'' 1 (Some 3)) (\<lambda>max_attempts.
     Inr \<lparr>ex_initial_capital = initial_capital, ex_commission_rate = commission_rate, ex_stamp_tax_rate = stamp_tax_rate,
       ex_slippage_rate = slippage_rate, ex_limit_threshold = limit_threshold, ex_lot_size = lot_size,
       ex_max_positions = max_positions, ex_a_share_rules = the_bool a_share_rules,
       ex_max_runtime_seconds = max_runtime_seconds, ex_max_attempts = max_attempts\<rparr>)))))))))))"

section \<open>Corporate actions\<close>

definition ACTION_FIELDS :: "string list" where
  "ACTION_FIELDS = [''symbol'', ''end_date'', ''announcement_date'', ''implementation_announcement_date'', ''record_date'',
     ''ex_date'', ''pay_date'', ''share_listing_date'', ''cash_dividend_per_share'', ''cash_dividend_gross'', ''share_ratio'',
     ''content_sha256'']"

definition optional_date :: "pyval \<Rightarrow> string \<Rightarrow> string option res" where
  "optional_date value field = (if \<not> truthy value then Inr None
     else andThen (date_of value field) (\<lambda>d. Inr (Some d)))"

definition normalize_action :: "string list \<Rightarrow> (string \<times> string \<times> string) list \<Rightarrow> nat \<Rightarrow> pyval
    \<Rightarrow> ((string \<times> string \<times> string) \<times> normal_action) res" where
  "normalize_action universe_symbols seen index entry =
    (let row = at_row ''corporate_actions'' index in
     if \<not> is_dict entry then Inl (ValueError (row '' must be an object''))
     else andThen (reject_unknown entry ACTION_FIELDS (row [])) (\<lambda>_.
     andThen (normalize_symbol (fld entry ''symbol'') (row ''.symbol'')) (\<lambda>symbol.
     if symbol \<notin> set universe_symbols
     then Inl (ValueError (''corporate action symbol '' @ symbol @ '' is outside frozen universe''))
     else andThen (date_of (fld entry ''ex_date'') (row ''.ex_date'')) (\<lambda>ex_date.
     andThen (optional_date (fld entry ''end_date'') (row ''.end_date'')) (\<lambda>end_date.
     let period = (case end_date of None \<Rightarrow> [] | Some d \<Rightarrow> d) in
     if (symbol, period, ex_date) \<in> set seen
     then Inl (ValueError (''duplicate corporate action for '' @ symbol @ '' on '' @ ex_date @ '' and period ''
       @ (if period = [] then ''unspecified'' else period)))
     else andThen (number_of (fld_or entry ''cash_dividend_per_share'' (PInt 0)) (row ''.cash_dividend_per_share'') False) (\<lambda>cash.
     andThen (number_of (fld_or entry ''share_ratio'' (PInt 0)) (row ''.share_ratio'') False) (\<lambda>ratio.
     if flt cash (FFin 0) \<or> flt ratio (FFin 0) \<or> flt (FFin 100) ratio
     then Inl (ValueError (row '' contains invalid non-negative values''))
     else andThen (optional_date (fld entry ''announcement_date'') (row ''.announcement_date'')) (\<lambda>announcement.
     andThen (optional_date (fld entry ''implementation_announcement_date'') (row ''.implementation_announcement_date'')) (\<lambda>implementation.
     andThen (optional_date (fld entry ''record_date'') (row ''.record_date'')) (\<lambda>record_date.
     andThen (optional_date (fld entry ''pay_date'') (row ''.pay_date'')) (\<lambda>pay_date.
     andThen (optional_date (fld entry ''share_listing_date'') (row ''.share_listing_date'')) (\<lambda>listing.
     andThen (optional_number (fld entry ''cash_dividend_gross'') (row ''.cash_dividend_gross'') False) (\<lambda>gross.
     andThen (if fld entry ''content_sha256'' = PNone then Inr None
       else andThen (text_of (fld entry ''content_sha256'') (row ''.content_sha256'') 64) (\<lambda>t. Inr (Some t))) (\<lambda>sha.
     Inr ((symbol, period, ex_date), \<lparr>ca_symbol = symbol, ca_ex_date = ex_date, ca_cash_dividend_per_share = cash,
       ca_share_ratio = ratio, ca_pay_date = pay_date, ca_share_listing_date = listing, na_end_date = end_date,
       na_announcement_date = announcement, na_implementation_announcement_date = implementation,
       na_record_date = record_date, na_cash_dividend_gross = gross, na_content_sha256 = sha\<rparr>)))))))))))))))"

definition normalize_actions :: "pyval \<Rightarrow> string list \<Rightarrow> normal_action list res" where
  "normalize_actions value universe_symbols =
    (if value = PNone then Inr []
     else if \<not> is_list value then Inl (ValueError ''corporate_actions must be a list'')
     else if MAX_ACTIONS < length (the_list value)
     then Inl (BacktestResourceExceeded (''corporate_actions exceeds '' @ nat_digits MAX_ACTIONS @ '' rows''))
     else andThen (normalize_rows (normalize_action universe_symbols) [] 0 (the_list value)) (\<lambda>rows.
     Inr (by_date_symbol ca_ex_date ca_symbol rows)))"

section \<open>Benchmark\<close>

definition BENCHMARK_FIELDS :: "string list" where
  "BENCHMARK_FIELDS = [''symbol'', ''trade_date'', ''open'', ''high'', ''low'', ''close'', ''prev_close'', ''volume'', ''amount'']"

text \<open>The keys already seen are pairs of the one symbol and a date.\<close>

definition normalize_benchmark_row ::
    "(string \<times> string) list \<Rightarrow> nat \<Rightarrow> pyval \<Rightarrow> ((string \<times> string) \<times> normal_benchmark) res" where
  "normalize_benchmark_row seen index entry =
    (let row = at_row ''benchmark'' index in
     if \<not> is_dict entry then Inl (ValueError (row '' must be an object''))
     else andThen (reject_unknown entry BENCHMARK_FIELDS (row [])) (\<lambda>_.
     andThen (text_of (fld entry ''symbol'') (row ''.symbol'') 24) (\<lambda>t.
     let symbol = upper t in
     if \<not> INDEX_SYMBOL_PATTERN symbol then Inl (ValueError ''benchmark symbol has invalid format'')
     else if seen \<noteq> [] \<and> symbol \<noteq> fst (hd seen)
     then Inl (ValueError ''benchmark must contain exactly one index symbol'')
     else andThen (date_of (fld entry ''trade_date'') (row ''.trade_date'')) (\<lambda>trade_date.
     if trade_date \<in> snd ` set seen then Inl (ValueError ''benchmark contains a duplicate date'')
     else andThen (number_of (fld entry ''open'') (row ''.open'') True) (\<lambda>p_open.
     andThen (number_of (fld entry ''high'') (row ''.high'') True) (\<lambda>p_high.
     andThen (number_of (fld entry ''low'') (row ''.low'') True) (\<lambda>p_low.
     andThen (number_of (fld entry ''close'') (row ''.close'') True) (\<lambda>p_close.
     if flt p_high (fmax (fmax (fmax p_open p_high) p_low) p_close) \<or> flt (fmin (fmin (fmin p_open p_high) p_low) p_close) p_low
     then Inl (ValueError ''benchmark OHLC envelope is invalid'')
     else andThen (number_of (fld_or entry ''volume'' (PInt 0)) (row ''.volume'') False) (\<lambda>volume.
     andThen (number_of (fld_or entry ''amount'' (PInt 0)) (row ''.amount'') False) (\<lambda>amount.
     andThen (optional_number (fld entry ''prev_close'') (row ''.prev_close'') True) (\<lambda>prev_close.
     Inr ((symbol, trade_date), \<lparr>bm_symbol = symbol, bm_trade_date = trade_date, bm_close = p_close, nm_open = p_open,
       nm_high = p_high, nm_low = p_low, nm_volume = volume, nm_amount = amount, nm_prev_close = prev_close\<rparr>))))))))))))"

definition normalize_benchmark :: "pyval \<Rightarrow> normal_benchmark list res" where
  "normalize_benchmark value =
    (if value = PNone then Inr []
     else if \<not> is_list value \<or> MAX_BENCHMARK_BARS < length (the_list value)
     then Inl (ValueError ''benchmark must be a bounded list'')
     else andThen (normalize_rows normalize_benchmark_row [] 0 (the_list value)) (\<lambda>rows.
     Inr (sort_key bm_trade_date rows)))"

end
