(* ===== verification/Backtest_Request.thy ===== *)
theory Backtest_Request
  imports Backtest_Input Backtest_Jobs
begin

text \<open>
  \<open>normalize_backtest_request\<close> of \<^verbatim>\<open>services/backend/app/backtest.py\<close>: the normalised inputs of a run,
  the manifest that is hashed and stored, and the request of the job store.
\<close>

section \<open>The inputs of a run\<close>

record inputs =
  in_universe :: universe
  in_bars :: "normal_bar list"
  in_signals :: "signal list"
  in_actions :: "normal_action list"
  in_benchmark :: "normal_benchmark list"
  in_execution :: execution

definition normalize_inputs :: "pyval \<Rightarrow> inputs res" where
  "normalize_inputs payload =
     andThen (normalize_universe (fld payload ''universe'')) (\<lambda>universe.
     let symbols = un_symbols universe in
     andThen (normalize_actions (fld payload ''corporate_actions'') symbols) (\<lambda>actions.
     let action_dates = map (\<lambda>a. (ca_symbol a, ca_ex_date a)) actions in
     andThen (normalize_bars (fld payload ''bars'') symbols action_dates) (\<lambda>bars.
     andThen (normalize_signals (fld_or payload ''signals'' (PList [])) symbols (map bar_trade_date bars)) (\<lambda>signals.
     andThen (normalize_execution (fld payload ''execution'')) (\<lambda>execution.
     andThen (normalize_benchmark (fld payload ''benchmark'')) (\<lambda>benchmark.
     Inr \<lparr>in_universe = universe, in_bars = bars, in_signals = signals, in_actions = actions,
       in_benchmark = benchmark, in_execution = execution\<rparr>))))))"

text \<open>What the engine reads of them.\<close>

definition engine_manifest :: "inputs \<Rightarrow> manifest" where
  "engine_manifest i = \<lparr>mf_bars = map bar.truncate (in_bars i), mf_signals = in_signals i,
     mf_actions = map corporate_action.truncate (in_actions i), mf_benchmark = map benchmark_bar.truncate (in_benchmark i),
     mf_execution = execution_rules.truncate (in_execution i)\<rparr>"

section \<open>The manifest as JSON\<close>

definition opt_float :: "string \<Rightarrow> pyfloat option \<Rightarrow> pydict" where
  "opt_float key x = (case x of None \<Rightarrow> [] | Some v \<Rightarrow> [(key, PFloat v)])"

definition opt_text :: "string \<Rightarrow> string option \<Rightarrow> pydict" where
  "opt_text key x = (case x of None \<Rightarrow> [] | Some v \<Rightarrow> [(key, PStr v)])"

definition universe_json :: "universe \<Rightarrow> pyval" where
  "universe_json u = PDict [(''universe_id'', PStr (un_universe_id u)), (''version_id'', PStr (un_version_id u)),
     (''membership_fingerprint'', PStr (un_membership_fingerprint u)), (''symbols'', strs (un_symbols u))]"

definition bar_json :: "normal_bar \<Rightarrow> pyval" where
  "bar_json b = PDict ([(''symbol'', PStr (bar_symbol b)), (''trade_date'', PStr (bar_trade_date b)),
     (''open'', PFloat (bar_open b)), (''high'', PFloat (nb_high b)), (''low'', PFloat (nb_low b)), (''close'', PFloat (bar_close b)),
     (''volume'', PFloat (nb_volume b)), (''is_suspended'', PBool (bar_is_suspended b))]
     @ opt_float ''prev_close'' (bar_prev_close b) @ opt_float ''up_limit'' (bar_up_limit b)
     @ opt_float ''down_limit'' (bar_down_limit b) @ opt_float ''adjustment_factor'' (nb_adjustment_factor b))"

definition signal_json :: "signal \<Rightarrow> pyval" where
  "signal_json s = PDict ([(''symbol'', PStr (sig_symbol s)), (''trade_date'', PStr (sig_trade_date s)),
     (''direction'', PInt (sig_direction s))]
     @ (case sig_quantity s of None \<Rightarrow> [] | Some n \<Rightarrow> [(''quantity'', PInt n)]))"

definition action_json :: "normal_action \<Rightarrow> pyval" where
  "action_json a = PDict ([(''symbol'', PStr (ca_symbol a)), (''ex_date'', PStr (ca_ex_date a)),
     (''cash_dividend_per_share'', PFloat (ca_cash_dividend_per_share a)), (''share_ratio'', PFloat (ca_share_ratio a))]
     @ opt_text ''end_date'' (na_end_date a) @ opt_text ''announcement_date'' (na_announcement_date a)
     @ opt_text ''implementation_announcement_date'' (na_implementation_announcement_date a)
     @ opt_text ''record_date'' (na_record_date a) @ opt_text ''pay_date'' (ca_pay_date a)
     @ opt_text ''share_listing_date'' (ca_share_listing_date a)
     @ opt_float ''cash_dividend_gross'' (na_cash_dividend_gross a) @ opt_text ''content_sha256'' (na_content_sha256 a))"

definition benchmark_json :: "normal_benchmark \<Rightarrow> pyval" where
  "benchmark_json b = PDict ([(''symbol'', PStr (bm_symbol b)), (''trade_date'', PStr (bm_trade_date b)),
     (''open'', PFloat (nm_open b)), (''high'', PFloat (nm_high b)), (''low'', PFloat (nm_low b)), (''close'', PFloat (bm_close b)),
     (''volume'', PFloat (nm_volume b)), (''amount'', PFloat (nm_amount b))] @ opt_float ''prev_close'' (nm_prev_close b))"

definition execution_json :: "execution \<Rightarrow> pyval" where
  "execution_json e = PDict [(''initial_capital'', PFloat (ex_initial_capital e)), (''commission_rate'', PFloat (ex_commission_rate e)),
     (''stamp_tax_rate'', PFloat (ex_stamp_tax_rate e)), (''slippage_rate'', PFloat (ex_slippage_rate e)),
     (''limit_threshold'', PFloat (ex_limit_threshold e)), (''lot_size'', PInt (ex_lot_size e)),
     (''max_positions'', PInt (ex_max_positions e)), (''a_share_rules'', PBool (ex_a_share_rules e)),
     (''max_runtime_seconds'', PFloat (ex_max_runtime_seconds e)), (''max_attempts'', PInt (ex_max_attempts e))]"

definition build_manifest :: "string \<Rightarrow> string \<Rightarrow> inputs \<Rightarrow> (pyval \<times> string) res" where
  "build_manifest strategy_version approval i =
    (let manifest = PDict [(''schema_version'', PStr ''backtest-input-v1''),
       (''strategy'', PDict [(''strategy_version_artifact_id'', PStr strategy_version)]),
       (''approval'', PDict [(''approval_artifact_id'', PStr approval)]),
       (''universe'', universe_json (in_universe i)), (''bars'', PList (map bar_json (in_bars i))),
       (''signals'', PList (map signal_json (in_signals i))), (''corporate_actions'', PList (map action_json (in_actions i))),
       (''benchmark'', PList (map benchmark_json (in_benchmark i))), (''execution'', execution_json (in_execution i)),
       (''environment'', PDict [(''engine'', PStr ''native''), (''engine_contract_version'', PStr ''native-a-share-v1''),
         (''reproducibility'', PStr ''reproducible'')])] in
     andThen (canonical manifest) (\<lambda>encoded. Inr (manifest, sha256_hex (utf8 encoded))))"

section \<open>Credential keys\<close>

definition SECRET_FRAGMENTS :: "string list" where
  "SECRET_FRAGMENTS = [''token'', ''password'', ''secret'', ''apikey'', ''accesskey'', ''privatekey'', ''credential'', ''authorization'']"

fun contains :: "string \<Rightarrow> string \<Rightarrow> bool" where
  "contains f s = (take (length f) s = f \<or> (case s of [] \<Rightarrow> False | _ # t \<Rightarrow> contains f t))"

declare contains.simps [simp del]

definition isalnum :: "char \<Rightarrow> bool" where
  "isalnum c \<longleftrightarrow> is_alnum c \<or> code c \<in> {170, 178, 179, 181, 185, 186, 188, 189, 190}
     \<or> (192 \<le> code c \<and> code c \<noteq> 215 \<and> code c \<noteq> 247)"

definition secret_key :: "string \<Rightarrow> bool" where
  "secret_key key = (let normalized = filter isalnum (lower key) in list_ex (\<lambda>f. contains f normalized) SECRET_FRAGMENTS)"

fun secret_free :: "pyval \<Rightarrow> bool" where
  "secret_free (PDict d) = list_all (\<lambda>(k, v). \<not> secret_key k \<and> secret_free v) d"
| "secret_free (PList vs) = list_all secret_free vs"
| "secret_free _ = True"

definition reject_secret_keys :: "pyval \<Rightarrow> unit res" where
  "reject_secret_keys v = (if secret_free v then Inr ()
     else Inl (ValueError ''backtest input must not contain credential fields''))"

section \<open>The request\<close>

definition REQUEST_FIELDS :: "string list" where
  "REQUEST_FIELDS = [''name'', ''task_id'', ''experiment_id'', ''strategy_version_artifact_id'', ''approval_artifact_id'',
     ''trace_id'', ''idempotency_key'', ''universe'', ''bars'', ''signals'', ''execution'', ''corporate_actions'', ''benchmark'']"

definition normalize_backtest_request :: "pyval \<Rightarrow> pyval \<Rightarrow> pyval \<Rightarrow> backtest_request res" where
  "normalize_backtest_request payload strategy_version_artifact_id approval_artifact_id =
    (if \<not> is_dict payload then Inl (ValueError ''backtest request must be an object'')
     else andThen (reject_unknown payload REQUEST_FIELDS ''backtest request'') (\<lambda>_.
     andThen (entity_id (fld payload ''task_id'') ''task_id'' ''task'') (\<lambda>task_id.
     andThen (if fld payload ''experiment_id'' = PNone then Inr None
       else andThen (entity_id (fld payload ''experiment_id'') ''experiment_id'' ''experiment'') (\<lambda>e. Inr (Some e))) (\<lambda>experiment_id.
     andThen (entity_id strategy_version_artifact_id ''strategy_version_artifact_id'' ''artifact'') (\<lambda>version_id.
     andThen (entity_id approval_artifact_id ''approval_artifact_id'' ''artifact'') (\<lambda>approval_id.
     andThen (trace_id (fld payload ''trace_id'')) (\<lambda>trace.
     andThen (checked_idempotency_key (fld payload ''idempotency_key'')) (\<lambda>key.
     andThen (normalize_inputs payload) (\<lambda>i.
     andThen (reject_secret_keys (PDict [(''universe'', universe_json (in_universe i)),
         (''bars'', PList (map bar_json (in_bars i))), (''signals'', PList (map signal_json (in_signals i))),
         (''execution'', execution_json (in_execution i)), (''corporate_actions'', PList (map action_json (in_actions i))),
         (''benchmark'', PList (map benchmark_json (in_benchmark i)))])) (\<lambda>_.
     andThen (build_manifest version_id approval_id i) (\<lambda>(manifest, input_manifest_id).
     andThen (normalize_backtest_name (fld payload ''name'')) (\<lambda>name.
     Inr \<lparr>rq_name = (case name of None \<Rightarrow> PNone | Some t \<Rightarrow> PStr t), rq_task_id = task_id,
       rq_experiment_id = experiment_id, rq_strategy_version = version_id, rq_approval = approval_id,
       rq_trace_id = trace, rq_idempotency_key = key, rq_manifest = manifest,
       rq_input_manifest_id = input_manifest_id, rq_more = []\<rparr>))))))))))))"

section \<open>The manifest read back\<close>

text \<open>What the casts of the engine (\<open>str\<close>, \<open>int\<close>, \<open>float\<close>, \<open>bool\<close>) give on the values a manifest is
  built of; a value of another type raises. The manifest is the one of accepted inputs, whose rows leave out
  an absent field; rows with an explicit \<open>None\<close>, as a stored snapshot may give, are not read here.\<close>

definition as_str :: "pyval \<Rightarrow> string res" where
  "as_str v = (if is_str v then Inr (the_str v) else Inl (TypeError ''not a text''))"

definition as_int :: "pyval \<Rightarrow> int res" where
  "as_int v = (if type_is_int v then Inr (the_int v) else Inl (TypeError ''not an integer''))"

definition as_float :: "pyval \<Rightarrow> pyfloat res" where
  "as_float v = (case v of PFloat x \<Rightarrow> Inr x | PInt n \<Rightarrow> float_of_int n | _ \<Rightarrow> Inl (TypeError ''not a number''))"

definition opt_as :: "(pyval \<Rightarrow> 'a res) \<Rightarrow> pyval \<Rightarrow> 'a option res" where
  "opt_as read v = (if v = PNone then Inr None else andThen (read v) (\<lambda>x. Inr (Some x)))"

definition read_bar :: "pyval \<Rightarrow> bar res" where
  "read_bar v = andThen (as_str (fld v ''symbol'')) (\<lambda>symbol. andThen (as_str (fld v ''trade_date'')) (\<lambda>date.
     andThen (as_float (fld v ''open'')) (\<lambda>p_open. andThen (as_float (fld v ''close'')) (\<lambda>p_close.
     andThen (opt_as as_float (fld v ''prev_close'')) (\<lambda>prev. andThen (opt_as as_float (fld v ''up_limit'')) (\<lambda>up.
     andThen (opt_as as_float (fld v ''down_limit'')) (\<lambda>down.
     Inr \<lparr>bar_symbol = symbol, bar_trade_date = date, bar_open = p_open, bar_close = p_close, bar_prev_close = prev,
       bar_up_limit = up, bar_down_limit = down, bar_is_suspended = truthy (fld v ''is_suspended'')\<rparr>)))))))"

definition read_signal :: "pyval \<Rightarrow> signal res" where
  "read_signal v = andThen (as_str (fld v ''symbol'')) (\<lambda>symbol. andThen (as_str (fld v ''trade_date'')) (\<lambda>date.
     andThen (as_int (fld v ''direction'')) (\<lambda>direction. andThen (opt_as as_int (fld v ''quantity'')) (\<lambda>quantity.
     Inr \<lparr>sig_symbol = symbol, sig_trade_date = date, sig_direction = direction, sig_quantity = quantity\<rparr>))))"

definition read_action :: "pyval \<Rightarrow> corporate_action res" where
  "read_action v = andThen (as_str (fld v ''symbol'')) (\<lambda>symbol. andThen (as_str (fld v ''ex_date'')) (\<lambda>date.
     andThen (as_float (fld v ''cash_dividend_per_share'')) (\<lambda>cash. andThen (as_float (fld v ''share_ratio'')) (\<lambda>ratio.
     andThen (opt_as as_str (fld v ''pay_date'')) (\<lambda>pay. andThen (opt_as as_str (fld v ''share_listing_date'')) (\<lambda>listing.
     Inr \<lparr>ca_symbol = symbol, ca_ex_date = date, ca_cash_dividend_per_share = cash, ca_share_ratio = ratio,
       ca_pay_date = pay, ca_share_listing_date = listing\<rparr>))))))"

definition read_benchmark :: "pyval \<Rightarrow> benchmark_bar res" where
  "read_benchmark v = andThen (as_str (fld v ''symbol'')) (\<lambda>symbol. andThen (as_str (fld v ''trade_date'')) (\<lambda>date.
     andThen (as_float (fld v ''close'')) (\<lambda>p_close.
     Inr \<lparr>bm_symbol = symbol, bm_trade_date = date, bm_close = p_close\<rparr>)))"

definition read_execution :: "pyval \<Rightarrow> execution_rules res" where
  "read_execution v = andThen (as_float (fld v ''initial_capital'')) (\<lambda>capital. andThen (as_float (fld v ''commission_rate'')) (\<lambda>commission.
     andThen (as_float (fld v ''stamp_tax_rate'')) (\<lambda>tax. andThen (as_float (fld v ''slippage_rate'')) (\<lambda>slippage.
     andThen (as_float (fld v ''limit_threshold'')) (\<lambda>threshold. andThen (as_int (fld v ''lot_size'')) (\<lambda>lot_size.
     andThen (as_int (fld v ''max_positions'')) (\<lambda>max_positions. andThen (as_float (fld v ''max_runtime_seconds'')) (\<lambda>runtime.
     Inr \<lparr>ex_initial_capital = capital, ex_commission_rate = commission, ex_stamp_tax_rate = tax, ex_slippage_rate = slippage,
       ex_limit_threshold = threshold, ex_lot_size = lot_size, ex_max_positions = max_positions,
       ex_a_share_rules = truthy (fld v ''a_share_rules''), ex_max_runtime_seconds = runtime\<rparr>))))))))"

definition read_manifest :: "pyval \<Rightarrow> manifest res" where
  "read_manifest v =
    (if fld v ''schema_version'' \<noteq> PStr ''backtest-input-v1'' then Inl (ValueError ''unsupported backtest input manifest'')
     else if \<not> is_dict (fld v ''execution'') then Inl (ValueError ''backtest execution manifest is invalid'')
     else let benchmark = fld_or v ''benchmark'' (PList []) in
     if \<not> is_list (fld v ''bars'') \<or> \<not> is_list (fld v ''signals'') \<or> \<not> is_list (fld v ''corporate_actions'') \<or> \<not> is_list benchmark
     then Inl (ValueError ''backtest input manifest is incomplete'')
     else andThen (read_execution (fld v ''execution'')) (\<lambda>execution.
     andThen (mapRes read_bar (the_list (fld v ''bars''))) (\<lambda>bars.
     andThen (mapRes read_signal (the_list (fld v ''signals''))) (\<lambda>signals.
     andThen (mapRes read_action (the_list (fld v ''corporate_actions''))) (\<lambda>actions.
     andThen (mapRes read_benchmark (the_list benchmark)) (\<lambda>benchmarks.
     Inr \<lparr>mf_bars = bars, mf_signals = signals, mf_actions = actions, mf_benchmark = benchmarks, mf_execution = execution\<rparr>))))))"

end
