(* ===== verification/Backtest_Accepted.thy ===== *)
theory Backtest_Accepted
  imports Backtest_Request
begin

text \<open>
  What the normalisers of \<^verbatim>\<open>services/backend/app/backtest.py\<close> promise to the engine: the well-formedness of
  accepted inputs, the way of the inputs through the stored manifest, and the run of an accepted request.
\<close>

section \<open>Single values\<close>

lemma finite_float_not_nan: "finite_float x \<Longrightarrow> x \<noteq> FNaN"
  by (simp add: finite_float_def)

lemma finite_positive: "finite_float x \<Longrightarrow> \<not> fle x (FFin 0) \<Longrightarrow> flt (FFin 0) x"
  by (cases x) (auto simp: finite_float_def fle_def feq_def)

lemma fle_iff: "finite_float x \<Longrightarrow> finite_float y \<Longrightarrow> fle x y \<longleftrightarrow> \<not> flt y x"
  by (cases x; cases y) (auto simp: finite_float_def fle_def feq_def)

lemma finite_FFin [simp]: "finite_float (FFin q)"
  by (simp add: finite_float_def)

lemma checked_float_returns: "checked_float field positive x = Inr y \<longleftrightarrow> y = x \<and> finite_float x \<and> (positive \<longrightarrow> flt (FFin 0) x)"
  by (cases x) (auto simp: checked_float_def finite_float_def fle_def feq_def)

lemma number_of_ok: "number_of v field positive = Inr x \<Longrightarrow> finite_float x \<and> (positive \<longrightarrow> flt (FFin 0) x)"
  by (cases v) (auto simp: number_of_def res_simps checked_float_returns)

lemma number_of_float: "finite_float x \<Longrightarrow> (positive \<longrightarrow> flt (FFin 0) x) \<Longrightarrow> number_of (PFloat x) field positive = Inr x"
  by (simp add: number_of_def checked_float_returns)

lemma optional_number_ok: "optional_number v field positive = Inr (Some x) \<Longrightarrow> finite_float x \<and> (positive \<longrightarrow> flt (FFin 0) x)"
  by (auto simp: optional_number_def res_simps dest: number_of_ok split: if_splits)

lemma integer_of_ok: "integer_of v field lo (Some hi) = Inr n \<Longrightarrow> lo \<le> n \<and> n \<le> hi"
  by (auto simp: integer_of_def Let_def split: if_splits)

lemma integer_of_int: "lo \<le> n \<Longrightarrow> n \<le> hi \<Longrightarrow> integer_of (PInt n) field lo (Some hi) = Inr n"
  by (simp add: integer_of_def Let_def)

lemma date_of_ok: "date_of v field = Inr d \<Longrightarrow> DATE_PATTERN d \<and> real_date d"
  by (auto simp: date_of_def Let_def split: if_splits)

lemma normalize_symbol_ok: "normalize_symbol v field = Inr s \<Longrightarrow> SYMBOL_PATTERN s"
  by (auto simp: normalize_symbol_def Let_def res_simps)

lemma direction_of_ok: "direction_of v message = Inr n \<Longrightarrow> n \<in> {-1, 0, 1}"
  unfolding direction_of_def by (elim returns_elims) auto

section \<open>Tables\<close>

lemma normalize_rows_ok:
  assumes "normalize_rows row seen i entries = Inr rs"
    "\<And>s j e k r. row s j e = Inr (k, r) \<Longrightarrow> g k \<notin> g ` set s \<and> key r = g k \<and> P r"
  shows "distinct (map key rs) \<and> set (map key rs) \<inter> g ` set seen = {} \<and> (\<forall>r \<in> set rs. P r) \<and> length rs = length entries"
  using assms(1)
proof (induction entries arbitrary: seen i rs)
  case Nil
  then show ?case by simp
next
  case (Cons e entries)
  then obtain k r rs' where r: "row seen i e = Inr (k, r)"
    and rest: "normalize_rows row (k # seen) (Suc i) entries = Inr rs'" and rs: "rs = r # rs'"
    by (auto simp: res_simps)
  from Cons.IH [OF rest] assms(2) [OF r] show ?case by (auto simp: rs)
qed

definition by_key :: "('r \<Rightarrow> string) \<Rightarrow> ('r \<Rightarrow> string) \<Rightarrow> 'r \<Rightarrow> 'r \<Rightarrow> bool" where
  "by_key date symbol a b \<longleftrightarrow> date a < date b \<or> date a = date b \<and> symbol a \<le> symbol b"

lemma sorted_wrt_insort:
  fixes f :: "'r \<Rightarrow> 'k :: linorder"
  assumes "sorted_wrt (\<lambda>a b. f a < f b \<or> f a = f b \<and> R a b) xs" "\<And>y. y \<in> set xs \<Longrightarrow> R x y"
  shows "sorted_wrt (\<lambda>a b. f a < f b \<or> f a = f b \<and> R a b) (insort_key f x xs)"
  using assms
proof (induction xs)
  case Nil
  then show ?case by simp
next
  case (Cons y ys)
  show ?case
  proof (cases "f x \<le> f y")
    case True
    then have "\<forall>z \<in> set (y # ys). f x < f z \<or> f x = f z \<and> R x z"
      using Cons.prems by fastforce
    then show ?thesis using True Cons.prems(1) by simp
  next
    case False
    then show ?thesis using Cons by (auto simp: set_insort_key)
  qed
qed

lemma sorted_wrt_sort_key:
  fixes f :: "'r \<Rightarrow> 'k :: linorder"
  assumes "sorted_wrt R xs"
  shows "sorted_wrt (\<lambda>a b. f a < f b \<or> f a = f b \<and> R a b) (sort_key f xs)"
  using assms by (induction xs) (auto intro!: sorted_wrt_insort)

lemma by_date_symbol_sorted: "sorted_wrt (by_key date symbol) (by_date_symbol date symbol rs)"
  unfolding by_date_symbol_def
  using sorted_wrt_sort_key [of "\<lambda>a b. symbol a \<le> symbol b" "sort_key symbol rs" date] sorted_sort_key [of symbol rs]
  by (simp add: by_key_def [abs_def] sorted_map)

lemma set_by_date_symbol [simp]: "set (by_date_symbol date symbol rs) = set rs"
  by (simp add: by_date_symbol_def)

lemma distinct_by_date_symbol: "distinct (map f rs) \<Longrightarrow> distinct (map f (by_date_symbol date symbol rs))"
  by (simp add: by_date_symbol_def distinct_map)

text \<open>The chain of previous closes: only that field changes, and it links every bar of a symbol to the
  bar before.\<close>

definition same_but_prev :: "normal_bar \<Rightarrow> normal_bar \<Rightarrow> bool" where
  "same_but_prev r r' \<longleftrightarrow> r' = r\<lparr>bar_prev_close := bar_prev_close r'\<rparr>"

fun follows :: "(string \<times> string) list \<Rightarrow> pyfloat option \<Rightarrow> pyfloat option \<Rightarrow> normal_bar list \<Rightarrow> bool" where
  "follows action_dates previous factor [] = True"
| "follows action_dates previous factor (b # bs) =
     ((case previous of None \<Rightarrow> True | Some p \<Rightarrow> (case bar_prev_close b of None \<Rightarrow> False
        | Some x \<Rightarrow> isclose x p (literal 1 9) (literal 1 9) \<or> (bar_symbol b, bar_trade_date b) \<in> set action_dates
           \<or> factor_changed (nb_adjustment_factor b) factor))
      \<and> follows action_dates (Some (bar_close b)) (nb_adjustment_factor b) bs)"

lemma same_but_prev_refl [simp, intro]: "same_but_prev r r"
  by (simp add: same_but_prev_def)

lemma same_but_prev_update [simp]: "same_but_prev r (r\<lparr>bar_prev_close := x\<rparr>)"
  by (simp add: same_but_prev_def)

lemma same_but_prev_trans: "same_but_prev r r' \<Longrightarrow> same_but_prev r' r'' \<Longrightarrow> same_but_prev r r''"
  unfolding same_but_prev_def by (cases r, cases r', cases r'') simp

lemma same_but_prev_fields:
  assumes "same_but_prev r r'"
  shows "bar_symbol r' = bar_symbol r" "bar_trade_date r' = bar_trade_date r" "bar_close r' = bar_close r"
    "bar_open r' = bar_open r" "nb_high r' = nb_high r" "nb_low r' = nb_low r" "nb_volume r' = nb_volume r"
    "nb_adjustment_factor r' = nb_adjustment_factor r" "bar_is_suspended r' = bar_is_suspended r"
    "bar_up_limit r' = bar_up_limit r" "bar_down_limit r' = bar_down_limit r"
proof -
  obtain x where "r' = r\<lparr>bar_prev_close := x\<rparr>" using assms unfolding same_but_prev_def by blast
  then show "bar_symbol r' = bar_symbol r" "bar_trade_date r' = bar_trade_date r" "bar_close r' = bar_close r"
    "bar_open r' = bar_open r" "nb_high r' = nb_high r" "nb_low r' = nb_low r" "nb_volume r' = nb_volume r"
    "nb_adjustment_factor r' = nb_adjustment_factor r" "bar_is_suspended r' = bar_is_suspended r"
    "bar_up_limit r' = bar_up_limit r" "bar_down_limit r' = bar_down_limit r"
    by simp_all
qed

lemma isclose_refl: "finite_float p \<Longrightarrow> isclose p p r a"
  by (simp add: isclose_def feq_def finite_float_not_nan)

lemma chain_bars_follows:
  assumes "chain_bars ds previous factor rows = Inr out" "\<And>r. r \<in> set rows \<Longrightarrow> finite_float (bar_close r)"
    "\<And>p. previous = Some p \<Longrightarrow> finite_float p"
  shows "list_all2 same_but_prev rows out \<and> follows ds previous factor out"
  using assms
proof (induction rows arbitrary: previous factor out)
  case Nil
  then show ?case by simp
next
  case (Cons row rows)
  obtain prev rest where chain: "chain_bars ds (Some (bar_close row)) (nb_adjustment_factor row) rows = Inr rest"
    and out: "out = row\<lparr>bar_prev_close := prev\<rparr> # rest"
    and prev: "(case (bar_prev_close row, previous) of
         (None, Some p) \<Rightarrow> if factor_changed (nb_adjustment_factor row) factor
            then andThen (fdiv (fmul p (the factor)) (the (nb_adjustment_factor row))) (\<lambda>x. Inr (Some x)) else Inr (Some p)
       | _ \<Rightarrow> Inr (bar_prev_close row)) = Inr prev"
    and ok: "\<not> ((case (bar_prev_close row, previous) of (Some s, Some p) \<Rightarrow> \<not> isclose s p (literal 1 9) (literal 1 9) | _ \<Rightarrow> False)
        \<and> (bar_symbol row, bar_trade_date row) \<notin> set ds \<and> \<not> factor_changed (nb_adjustment_factor row) factor)"
    using Cons.prems(1) unfolding chain_bars.simps Let_def
    by (elim returns_elims) auto
  have "list_all2 same_but_prev rows rest \<and> follows ds (Some (bar_close row)) (nb_adjustment_factor row) rest"
    by (rule Cons.IH [OF chain]) (use Cons.prems in auto)
  moreover have "case previous of None \<Rightarrow> True | Some p \<Rightarrow> (case prev of None \<Rightarrow> False
        | Some x \<Rightarrow> isclose x p (literal 1 9) (literal 1 9) \<or> (bar_symbol row, bar_trade_date row) \<in> set ds
           \<or> factor_changed (nb_adjustment_factor row) factor)"
    using prev ok Cons.prems(3) by (auto simp: res_simps isclose_refl split: option.splits if_splits)
  ultimately show ?case by (cases previous; cases prev) (simp_all add: out)
qed

lemma replace_rows_effect:
  assumes "list_all2 same_but_prev (filter (\<lambda>r. bar_symbol r = s) rows) us"
  shows "list_all2 same_but_prev rows (replace_rows s rows us)
    \<and> filter (\<lambda>r. bar_symbol r = s') (replace_rows s rows us) = (if s' = s then us else filter (\<lambda>r. bar_symbol r = s') rows)"
  using assms
proof (induction rows arbitrary: us)
  case Nil
  then show ?case by simp
next
  case (Cons r rows)
  show ?case
  proof (cases "bar_symbol r = s")
    case True
    then obtain u us' where us: "us = u # us'" and "same_but_prev r u" "list_all2 same_but_prev (filter (\<lambda>r. bar_symbol r = s) rows) us'"
      using Cons.prems by (auto simp: list_all2_Cons1)
    then show ?thesis using True Cons.IH [of us'] by (auto simp: same_but_prev_fields)
  next
    case False
    show ?thesis
    proof (cases us)
      case Nil
      then have "filter (\<lambda>r. bar_symbol r = s) (r # rows) = []" using Cons.prems by simp
      then show ?thesis by (auto simp: Nil intro: list_all2_refl)
    next
      case (Cons u us')
      then show ?thesis using False Cons.IH [of us] Cons.prems by auto
    qed
  qed
qed

lemma chain_all_follows:
  assumes "foldRes (chain_symbol ds) symbols rows = Inr out" "distinct symbols"
    "\<And>r. r \<in> set rows \<Longrightarrow> finite_float (bar_close r)"
  shows "list_all2 same_but_prev rows out
    \<and> (\<forall>s. s \<in> set symbols \<longrightarrow> follows ds None None (filter (\<lambda>r. bar_symbol r = s) out))
    \<and> (\<forall>s. s \<notin> set symbols \<longrightarrow> filter (\<lambda>r. bar_symbol r = s) out = filter (\<lambda>r. bar_symbol r = s) rows)"
  using assms
proof (induction symbols arbitrary: rows)
  case Nil
  then show ?case by (simp add: list_all2_refl)
next
  case (Cons s symbols)
  from Cons.prems(1) obtain us where chain: "chain_bars ds None None (filter (\<lambda>r. bar_symbol r = s) rows) = Inr us"
    and rest: "foldRes (chain_symbol ds) symbols (replace_rows s rows us) = Inr out"
    unfolding foldRes.simps chain_symbol_def [of ds s] by (elim returns_elims) simp
  have us: "list_all2 same_but_prev (filter (\<lambda>r. bar_symbol r = s) rows) us \<and> follows ds None None us"
    by (rule chain_bars_follows [OF chain]) (use Cons.prems(3) in auto)
  note step = replace_rows_effect [OF us [THEN conjunct1]]
  have fin: "finite_float (bar_close r)" if "r \<in> set (replace_rows s rows us)" for r
    using step [THEN conjunct1] that Cons.prems(3)
    by (metis list_all2_conv_all_nth in_set_conv_nth same_but_prev_fields(3))
  have "list_all2 same_but_prev rows out"
    by (rule list_all2_trans [OF _ step [THEN conjunct1] Cons.IH [OF rest _ fin, THEN conjunct1]])
      (use same_but_prev_trans Cons.prems(2) in auto)
  then show ?case using Cons.IH [OF rest _ fin] Cons.prems(2) us step by auto
qed

section \<open>Well-formed inputs\<close>

definition price_envelope :: "pyfloat \<Rightarrow> pyfloat \<Rightarrow> pyfloat \<Rightarrow> pyfloat \<Rightarrow> bool" where
  "price_envelope p_open p_high p_low p_close \<longleftrightarrow> list_all finite_float [p_open, p_high, p_low, p_close]
     \<and> flt (FFin 0) p_low \<and> fle p_low p_open \<and> fle p_low p_close \<and> fle p_open p_high \<and> fle p_close p_high"

definition bar_ok :: "string list \<Rightarrow> normal_bar \<Rightarrow> bool" where
  "bar_ok symbols b \<longleftrightarrow> bar_symbol b \<in> set symbols \<and> real_date (bar_trade_date b)
     \<and> price_envelope (bar_open b) (nb_high b) (nb_low b) (bar_close b)"

definition signal_ok :: "string list \<Rightarrow> string list \<Rightarrow> signal \<Rightarrow> bool" where
  "signal_ok symbols dates s \<longleftrightarrow> sig_symbol s \<in> set symbols \<and> sig_trade_date s \<in> set dates
     \<and> sig_direction s \<in> {-1, 0, 1} \<and> (case sig_quantity s of None \<Rightarrow> True | Some n \<Rightarrow> 1 \<le> n \<and> n \<le> 10000000)"

definition action_ok :: "string list \<Rightarrow> normal_action \<Rightarrow> bool" where
  "action_ok symbols a \<longleftrightarrow> ca_symbol a \<in> set symbols \<and> real_date (ca_ex_date a)
     \<and> finite_float (ca_cash_dividend_per_share a) \<and> fle (FFin 0) (ca_cash_dividend_per_share a)
     \<and> finite_float (ca_share_ratio a) \<and> fle (FFin 0) (ca_share_ratio a) \<and> fle (ca_share_ratio a) (FFin 100)"

definition benchmark_ok :: "normal_benchmark \<Rightarrow> bool" where
  "benchmark_ok b \<longleftrightarrow> INDEX_SYMBOL_PATTERN (bm_symbol b) \<and> real_date (bm_trade_date b)
     \<and> price_envelope (nm_open b) (nm_high b) (nm_low b) (bm_close b)"

definition unit_rate :: "pyfloat \<Rightarrow> bool" where
  "unit_rate r \<longleftrightarrow> finite_float r \<and> fle (FFin 0) r \<and> fle r (FFin 1)"

definition execution_ok :: "execution \<Rightarrow> bool" where
  "execution_ok e \<longleftrightarrow> finite_float (ex_initial_capital e) \<and> flt (FFin 0) (ex_initial_capital e)
     \<and> list_all unit_rate [ex_commission_rate e, ex_stamp_tax_rate e, ex_slippage_rate e, ex_limit_threshold e]
     \<and> 1 \<le> ex_lot_size e \<and> ex_lot_size e \<le> 100000 \<and> 1 \<le> ex_max_positions e \<and> ex_max_positions e \<le> 10000
     \<and> finite_float (ex_max_runtime_seconds e) \<and> flt (FFin 0) (ex_max_runtime_seconds e) \<and> fle (ex_max_runtime_seconds e) (FFin 300)
     \<and> 1 \<le> ex_max_attempts e \<and> ex_max_attempts e \<le> 3"

definition same_symbol :: "normal_benchmark list \<Rightarrow> bool" where
  "same_symbol rs \<longleftrightarrow> (case rs of [] \<Rightarrow> True | b # bs \<Rightarrow> list_all (\<lambda>r. bm_symbol r = bm_symbol b) bs)"

lemma price_envelope_high_low:
  assumes "number_of v1 f1 True = Inr p_open" "number_of v2 f2 True = Inr p_high" "number_of v3 f3 True = Inr p_low"
    "number_of v4 f4 True = Inr p_close"
    "\<not> flt p_high (fmax (fmax p_open p_close) p_low)" "\<not> flt (fmin (fmin p_open p_close) p_high) p_low"
  shows "price_envelope p_open p_high p_low p_close"
proof -
  have fin: "\<exists>q. x = FFin q \<and> 0 < q" if "number_of v f True = Inr x" for v f x
    using number_of_ok [OF that] by (cases x) (auto simp: finite_float_def)
  from fin [OF assms(1)] fin [OF assms(2)] fin [OF assms(3)] fin [OF assms(4)] assms(5,6) show ?thesis
    by (auto simp: price_envelope_def finite_float_def fmax_def fmin_def fle_def feq_def split: if_splits)
qed

lemma normalize_bar_ok:
  assumes "normalize_bar symbols seen i e = Inr (k, r)"
  shows "k \<notin> set seen \<and> (bar_symbol r, bar_trade_date r) = k \<and> bar_ok symbols r"
  using assms unfolding normalize_bar_def Let_def
  by (elim returns_elims; simp only: sum.inject sum.distinct prod.inject)
    (auto simp: bar_ok_def dest: date_of_ok intro: price_envelope_high_low)

lemma normalize_signal_ok:
  assumes "normalize_signal symbols dates seen i e = Inr (k, r)"
  shows "k \<notin> set seen \<and> (sig_symbol r, sig_trade_date r) = k \<and> signal_ok symbols dates r"
  using assms unfolding normalize_signal_def Let_def
  by (elim returns_elims; simp only: sum.inject sum.distinct prod.inject)
    (auto simp: signal_ok_def dest: direction_of_ok integer_of_ok)

lemma normalize_action_ok:
  assumes "normalize_action symbols seen i e = Inr (k, r)"
  shows "k \<notin> set seen
    \<and> (ca_symbol r, (case na_end_date r of None \<Rightarrow> [] | Some d \<Rightarrow> d), ca_ex_date r) = k \<and> action_ok symbols r"
  using assms unfolding normalize_action_def Let_def
  by (elim returns_elims; simp only: sum.inject sum.distinct prod.inject)
    (auto simp: action_ok_def fle_iff dest: date_of_ok number_of_ok)

lemma price_envelope_of_prices:
  assumes "number_of v1 f1 True = Inr p_open" "number_of v2 f2 True = Inr p_high" "number_of v3 f3 True = Inr p_low"
    "number_of v4 f4 True = Inr p_close"
    "\<not> flt p_high (fmax (fmax (fmax p_open p_high) p_low) p_close)" "\<not> flt (fmin (fmin (fmin p_open p_high) p_low) p_close) p_low"
  shows "price_envelope p_open p_high p_low p_close"
proof -
  have fin: "\<exists>q. x = FFin q \<and> 0 < q" if "number_of v f True = Inr x" for v f x
    using number_of_ok [OF that] by (cases x) (auto simp: finite_float_def)
  from fin [OF assms(1)] fin [OF assms(2)] fin [OF assms(3)] fin [OF assms(4)] assms(5,6) show ?thesis
    by (auto simp: price_envelope_def finite_float_def fmax_def fmin_def fle_def feq_def split: if_splits)
qed

lemma normalize_benchmark_row_ok:
  assumes "normalize_benchmark_row seen i e = Inr (k, r)"
  shows "snd k \<notin> snd ` set seen \<and> bm_trade_date r = snd k \<and> bm_symbol r = fst k \<and> benchmark_ok r
    \<and> (seen \<noteq> [] \<longrightarrow> bm_symbol r = fst (hd seen))"
  using assms unfolding normalize_benchmark_row_def Let_def
  by (elim returns_elims; simp only: sum.inject sum.distinct prod.inject)
    (auto simp: benchmark_ok_def image_iff dest: date_of_ok intro: price_envelope_of_prices)

lemma normalize_benchmark_rows_symbol:
  assumes "normalize_rows normalize_benchmark_row seen i entries = Inr rs"
  shows "\<exists>s. (seen \<noteq> [] \<longrightarrow> s = fst (hd seen)) \<and> (\<forall>r \<in> set rs. bm_symbol r = s)"
  using assms
proof (induction entries arbitrary: seen i rs)
  case Nil
  then show ?case by auto
next
  case (Cons e entries)
  then obtain k r rs' where r: "normalize_benchmark_row seen i e = Inr (k, r)"
    and rest: "normalize_rows normalize_benchmark_row (k # seen) (Suc i) entries = Inr rs'" and rs: "rs = r # rs'"
    by (auto simp: res_simps)
  from Cons.IH [OF rest] normalize_benchmark_row_ok [OF r] show ?case
    by (intro exI [of _ "fst k"]) (auto simp: rs)
qed

lemma normalize_execution_ok: "normalize_execution v = Inr e \<Longrightarrow> execution_ok e"
  unfolding normalize_execution_def Let_def
  by (elim returns_elims; simp only: sum.inject sum.distinct prod.inject)
    (auto simp: execution_ok_def unit_rate_def rate_outside_def fle_iff dest: number_of_ok integer_of_ok)

definition universe_ok :: "universe \<Rightarrow> bool" where
  "universe_ok u \<longleftrightarrow> un_symbols u \<noteq> [] \<and> sorted (un_symbols u) \<and> distinct (un_symbols u)
     \<and> list_all SYMBOL_PATTERN (un_symbols u) \<and> un_membership_fingerprint u = membership_fingerprint (un_symbols u)"

definition bars_ok :: "string list \<Rightarrow> (string \<times> string) list \<Rightarrow> normal_bar list \<Rightarrow> bool" where
  "bars_ok symbols action_dates bars \<longleftrightarrow> bars \<noteq> [] \<and> distinct (map (\<lambda>b. (bar_symbol b, bar_trade_date b)) bars)
     \<and> sorted_wrt (by_key bar_trade_date bar_symbol) bars \<and> list_all (bar_ok symbols) bars
     \<and> list_all (\<lambda>s. follows action_dates None None (filter (\<lambda>b. bar_symbol b = s) bars)) symbols"

definition signals_ok :: "string list \<Rightarrow> string list \<Rightarrow> signal list \<Rightarrow> bool" where
  "signals_ok symbols dates signals \<longleftrightarrow> distinct (map (\<lambda>s. (sig_symbol s, sig_trade_date s)) signals)
     \<and> sorted_wrt (by_key sig_trade_date sig_symbol) signals \<and> list_all (signal_ok symbols dates) signals"

definition actions_ok :: "string list \<Rightarrow> normal_action list \<Rightarrow> bool" where
  "actions_ok symbols actions \<longleftrightarrow>
     distinct (map (\<lambda>a. (ca_symbol a, (case na_end_date a of None \<Rightarrow> [] | Some d \<Rightarrow> d), ca_ex_date a)) actions)
     \<and> sorted_wrt (by_key ca_ex_date ca_symbol) actions \<and> list_all (action_ok symbols) actions"

definition benchmarks_ok :: "normal_benchmark list \<Rightarrow> bool" where
  "benchmarks_ok rows \<longleftrightarrow> distinct (map bm_trade_date rows) \<and> sorted (map bm_trade_date rows)
     \<and> same_symbol rows \<and> list_all benchmark_ok rows"

definition inputs_ok :: "inputs \<Rightarrow> bool" where
  "inputs_ok i \<longleftrightarrow> (let symbols = un_symbols (in_universe i) in universe_ok (in_universe i)
     \<and> bars_ok symbols (map (\<lambda>a. (ca_symbol a, ca_ex_date a)) (in_actions i)) (in_bars i)
     \<and> signals_ok symbols (map bar_trade_date (in_bars i)) (in_signals i) \<and> actions_ok symbols (in_actions i)
     \<and> benchmarks_ok (in_benchmark i) \<and> execution_ok (in_execution i))"

lemma normalize_universe_ok:
  assumes "normalize_universe v = Inr u"
  shows "universe_ok u"
proof -
  obtain entries where entries: "mapRes (\<lambda>e. normalize_symbol e ''universe.symbol'') (the_list (fld v ''symbols'')) = Inr entries"
    and some: "the_list (fld v ''symbols'') \<noteq> []" and symbols: "un_symbols u = sort (remdups entries)"
    and fingerprint: "un_membership_fingerprint u = membership_fingerprint (sort (remdups entries))"
    using assms unfolding normalize_universe_def Let_def by (elim returns_elims) auto
  have "list_all SYMBOL_PATTERN entries \<and> length entries = length (the_list (fld v ''symbols''))"
    by (rule mapRes_all [OF entries]) (rule normalize_symbol_ok)
  moreover from this have "entries \<noteq> []" using some by auto
  ultimately show ?thesis
    by (auto simp: universe_ok_def symbols fingerprint list_all_iff simp flip: set_empty)
qed

lemma same_but_prev_rows:
  assumes "list_all2 same_but_prev rows out"
  shows "map (\<lambda>b. (bar_symbol b, bar_trade_date b)) out = map (\<lambda>b. (bar_symbol b, bar_trade_date b)) rows"
    "list_all (bar_ok symbols) out = list_all (bar_ok symbols) rows"
    "sorted_wrt (by_key bar_trade_date bar_symbol) out = sorted_wrt (by_key bar_trade_date bar_symbol) rows"
proof -
  show rows: "map (\<lambda>b. (bar_symbol b, bar_trade_date b)) out = map (\<lambda>b. (bar_symbol b, bar_trade_date b)) rows"
    using assms by (induction) (simp_all add: same_but_prev_fields)
  have keyed: "sorted_wrt (by_key bar_trade_date bar_symbol) xs = sorted_wrt (\<lambda>p q. snd p < snd q \<or> snd p = snd q \<and> fst p \<le> fst q)
      (map (\<lambda>b. (bar_symbol b, bar_trade_date b)) xs)" for xs :: "normal_bar list"
    by (simp add: sorted_wrt_map by_key_def [abs_def])
  show "list_all (bar_ok symbols) out = list_all (bar_ok symbols) rows"
    using assms by (induction) (simp_all add: same_but_prev_fields bar_ok_def)
  show "sorted_wrt (by_key bar_trade_date bar_symbol) out = sorted_wrt (by_key bar_trade_date bar_symbol) rows"
    unfolding keyed using assms by (simp add: rows)
qed

lemma normalize_bars_ok:
  assumes "normalize_bars v symbols ds = Inr bars"
  shows "bars_ok symbols ds bars"
proof -
  define key where "key = (\<lambda>b :: normal_bar. (bar_symbol b, bar_trade_date b))"
  obtain rows where rows: "normalize_rows (normalize_bar symbols) [] 0 (the_list v) = Inr rows" and some: "the_list v \<noteq> []"
    and chain: "foldRes (chain_symbol ds) (rev (remdups (rev (map bar_symbol (by_date_symbol bar_trade_date bar_symbol rows)))))
        (by_date_symbol bar_trade_date bar_symbol rows) = Inr bars"
    using assms unfolding normalize_bars_def Let_def
    by (elim returns_elims) (simp only: sum.distinct, simp only: sum.distinct, blast)
  have table: "distinct (map key rows) \<and> set (map key rows) \<inter> id ` set [] = {} \<and> (\<forall>r \<in> set rows. bar_ok symbols r)
      \<and> length rows = length (the_list v)"
    by (rule normalize_rows_ok [OF rows]) (use normalize_bar_ok in \<open>auto simp: key_def\<close>)
  let ?rows = "by_date_symbol bar_trade_date bar_symbol rows"
  have distinct_first: "distinct (rev (remdups (rev (map bar_symbol ?rows))))" by simp
  have linked: "list_all2 same_but_prev ?rows bars
    \<and> (\<forall>s. s \<in> bar_symbol ` set rows \<longrightarrow> follows ds None None (filter (\<lambda>r. bar_symbol r = s) bars))
    \<and> (\<forall>s. s \<notin> bar_symbol ` set rows \<longrightarrow> filter (\<lambda>r. bar_symbol r = s) bars = filter (\<lambda>r. bar_symbol r = s) ?rows)"
    using chain_all_follows [OF chain distinct_first] table by (simp add: bar_ok_def price_envelope_def)
  have "follows ds None None (filter (\<lambda>r. bar_symbol r = s) bars)" for s
  proof (cases "s \<in> bar_symbol ` set rows")
    case False
    then have "filter (\<lambda>r. bar_symbol r = s) ?rows = []" by (auto simp: filter_empty_conv)
    then show ?thesis using linked False by simp
  qed (use linked in simp)
  moreover have "distinct (map key ?rows)" using table by (simp add: distinct_by_date_symbol)
  moreover have "length bars = length ?rows" using list_all2_lengthD [OF linked [THEN conjunct1]] by simp
  then have "bars \<noteq> []" using table some by (auto simp: by_date_symbol_def)
  ultimately show ?thesis
    using same_but_prev_rows [OF linked [THEN conjunct1]] by_date_symbol_sorted [of bar_trade_date bar_symbol rows] table
    by (simp add: bars_ok_def key_def list_all_iff)
qed

lemma normalize_signals_ok:
  assumes "normalize_signals v symbols dates = Inr signals"
  shows "signals_ok symbols dates signals"
proof -
  obtain rows where rows: "normalize_rows (normalize_signal symbols dates) [] 0 (the_list v) = Inr rows"
    and signals: "signals = by_date_symbol sig_trade_date sig_symbol rows"
    using assms unfolding normalize_signals_def by (elim returns_elims) simp_all
  have "distinct (map (\<lambda>s. (sig_symbol s, sig_trade_date s)) rows)
      \<and> set (map (\<lambda>s. (sig_symbol s, sig_trade_date s)) rows) \<inter> id ` set [] = {}
      \<and> (\<forall>r \<in> set rows. signal_ok symbols dates r) \<and> length rows = length (the_list v)"
    by (rule normalize_rows_ok [OF rows]) (use normalize_signal_ok in auto)
  then show ?thesis
    by (simp add: signals_ok_def signals by_date_symbol_sorted distinct_by_date_symbol list_all_iff)
qed

lemma normalize_actions_ok:
  assumes "normalize_actions v symbols = Inr actions"
  shows "actions_ok symbols actions"
proof (cases "v = PNone")
  case True
  then show ?thesis using assms by (simp add: normalize_actions_def actions_ok_def)
next
  case False
  then obtain rows where rows: "normalize_rows (normalize_action symbols) [] 0 (the_list v) = Inr rows"
    and actions: "actions = by_date_symbol ca_ex_date ca_symbol rows"
    using assms unfolding normalize_actions_def by (elim returns_elims) simp_all
  have "distinct (map (\<lambda>a. (ca_symbol a, (case na_end_date a of None \<Rightarrow> [] | Some d \<Rightarrow> d), ca_ex_date a)) rows)
      \<and> set (map (\<lambda>a. (ca_symbol a, (case na_end_date a of None \<Rightarrow> [] | Some d \<Rightarrow> d), ca_ex_date a)) rows) \<inter> id ` set [] = {}
      \<and> (\<forall>r \<in> set rows. action_ok symbols r) \<and> length rows = length (the_list v)"
    by (rule normalize_rows_ok [OF rows]) (use normalize_action_ok in auto)
  then show ?thesis
    by (simp add: actions_ok_def actions by_date_symbol_sorted distinct_by_date_symbol list_all_iff)
qed

lemma normalize_benchmark_ok:
  assumes "normalize_benchmark v = Inr out"
  shows "benchmarks_ok out"
proof (cases "v = PNone")
  case True
  then show ?thesis using assms by (simp add: normalize_benchmark_def benchmarks_ok_def same_symbol_def)
next
  case False
  then obtain rows where rows: "normalize_rows normalize_benchmark_row [] 0 (the_list v) = Inr rows"
    and out: "out = sort_key bm_trade_date rows"
    using assms unfolding normalize_benchmark_def by (elim returns_elims) simp_all
  have "distinct (map bm_trade_date rows) \<and> set (map bm_trade_date rows) \<inter> snd ` set ([] :: (string \<times> string) list) = {}
      \<and> (\<forall>r \<in> set rows. benchmark_ok r) \<and> length rows = length (the_list v)"
    by (rule normalize_rows_ok [OF rows, where g = snd]) (use normalize_benchmark_row_ok in blast)
  moreover obtain s where "\<forall>r \<in> set rows. bm_symbol r = s"
    using normalize_benchmark_rows_symbol [OF rows] by auto
  then have "\<forall>r \<in> set out. bm_symbol r = s" by (simp add: out)
  then have "same_symbol out" by (cases out) (auto simp: same_symbol_def list_all_iff)
  ultimately show ?thesis by (simp add: benchmarks_ok_def out distinct_map list_all_iff)
qed

lemma normalize_inputs_ok:
  assumes "normalize_inputs payload = Inr i"
  shows "inputs_ok i"
  using assms unfolding normalize_inputs_def Let_def
  by (elim returns_elims)
    (simp only: sum.inject, auto simp: inputs_ok_def normalize_universe_ok normalize_bars_ok normalize_signals_ok
       normalize_actions_ok normalize_benchmark_ok normalize_execution_ok)

section \<open>The way through the stored manifest\<close>

lemma read_float [simp]: "as_float (PFloat x) = Inr x" "as_str (PStr s) = Inr s" "as_int (PInt n) = Inr n"
  by (simp_all add: as_float_def as_str_def as_int_def)

lemma fld_append: "fld (PDict (d @ e)) k = (if has_key (PDict d) k then fld (PDict d) k else fld (PDict e) k)"
  by (induction d) auto

lemma has_key_append: "has_key (PDict (d @ e)) k \<longleftrightarrow> has_key (PDict d) k \<or> has_key (PDict e) k"
  by (induction d) auto

lemma fld_opt_float: "fld (PDict (opt_float key x)) k = (if k = key then case x of None \<Rightarrow> PNone | Some v \<Rightarrow> PFloat v else PNone)"
  by (simp add: opt_float_def split: option.split)

lemma fld_opt_text: "fld (PDict (opt_text key x)) k = (if k = key then case x of None \<Rightarrow> PNone | Some v \<Rightarrow> PStr v else PNone)"
  by (simp add: opt_text_def split: option.split)

lemma has_key_opt: "has_key (PDict (opt_float key x)) k \<longleftrightarrow> k = key \<and> x \<noteq> None"
    "has_key (PDict (opt_text key t)) k \<longleftrightarrow> k = key \<and> t \<noteq> None"
  by (auto simp: opt_float_def opt_text_def split: option.split)

lemma opt_as_case: "opt_as as_float (case x of None \<Rightarrow> PNone | Some v \<Rightarrow> PFloat v) = Inr x"
    "opt_as as_str (case t of None \<Rightarrow> PNone | Some v \<Rightarrow> PStr v) = Inr t" "opt_as r PNone = Inr None"
  by (simp_all add: opt_as_def split: option.split)

lemmas row_reads = fld_append has_key_append fld_opt_float fld_opt_text has_key_opt opt_as_case

lemma read_bar_json: "read_bar (bar_json b) = Inr (bar.truncate b)"
  by (simp add: read_bar_def bar_json_def row_reads bar.defs)

lemma read_signal_json: "read_signal (signal_json s) = Inr s"
  by (cases "sig_quantity s") (simp_all add: read_signal_def signal_json_def opt_as_def)

lemma read_action_json: "read_action (action_json a) = Inr (corporate_action.truncate a)"
  by (simp add: read_action_def action_json_def row_reads corporate_action.defs)

lemma read_benchmark_json: "read_benchmark (benchmark_json b) = Inr (benchmark_bar.truncate b)"
  by (simp add: read_benchmark_def benchmark_json_def benchmark_bar.defs)

lemma read_execution_json: "read_execution (execution_json e) = Inr (execution_rules.truncate e)"
  by (simp add: read_execution_def execution_json_def execution_rules.defs)

lemma read_built_manifest:
  assumes "build_manifest strategy_version approval i = Inr (manifest, h)"
  shows "read_manifest manifest = Inr (engine_manifest i)"
proof -
  have rows: "mapRes read_bar (map bar_json bs) = Inr (map bar.truncate bs)"
      "mapRes read_signal (map signal_json ss) = Inr ss"
      "mapRes read_action (map action_json cs) = Inr (map corporate_action.truncate cs)"
      "mapRes read_benchmark (map benchmark_json ms) = Inr (map benchmark_bar.truncate ms)" for bs ss cs ms
    using mapRes_map [where f = read_signal and g = signal_json and h = "\<lambda>s. s"]
    by (simp_all add: mapRes_map read_bar_json read_signal_json read_action_json read_benchmark_json)
  have "is_dict (execution_json (in_execution i))" by (simp add: execution_json_def)
  then show ?thesis
    using assms read_execution_json [of "in_execution i"] rows
    by (auto simp: build_manifest_def read_manifest_def engine_manifest_def res_simps Let_def fld_or_def)
qed

section \<open>A normalised execution profile\<close>

lemma unit_rate_inside: "unit_rate r \<Longrightarrow> \<not> rate_outside r \<and> number_of (PFloat r) field False = Inr r"
  by (auto simp: unit_rate_def rate_outside_def fle_iff number_of_float)

lemma reject_unknown_execution: "reject_unknown (execution_json e) EXECUTION_FIELDS field = Inr ()"
  by (simp add: reject_unknown_def unknown_keys_def execution_json_def EXECUTION_FIELDS_def)

lemma execution_again:
  assumes "execution_ok e"
  shows "normalize_execution (execution_json e) = Inr e"
proof -
  have positive: "number_of (PFloat x) field True = Inr x" if "finite_float x" "flt (FFin 0) x" for x field
    using that by (simp add: number_of_float)
  have "\<not> flt (FFin 300) (ex_max_runtime_seconds e)"
    using assms unfolding execution_ok_def by (metis finite_FFin fle_iff)
  then show ?thesis
    using assms reject_unknown_execution [of e "''execution''"]
    by (simp add: normalize_execution_def Let_def execution_json_def fld_or_def execution_ok_def unit_rate_inside
        positive integer_of_int)
qed

section \<open>Accepted requests\<close>

text \<open>C37. Inputs that the normalisers accept are well-formed: every table has one row per key, in order, of
  symbols of the frozen universe whose fingerprint was checked; prices are finite and positive and lie within the
  high and low of the day; signals are on dates that have bars; every previous close is the last close of the symbol
  unless a corporate action or a changed adjustment factor explains it; the execution rules are within their bounds.\<close>

theorem accepted_inputs_well_formed:
  assumes "normalize_inputs payload = Inr i"
  shows "inputs_ok i"
  using assms by (rule normalize_inputs_ok)

text \<open>C38. The manifest of an accepted request, hashed by its input id, reads back as the inputs of the engine.\<close>

theorem accepted_manifest_reads_back:
  assumes "normalize_backtest_request payload strategy_version approval = Inr request"
  shows "\<exists>i. normalize_inputs payload = Inr i \<and> read_manifest (rq_manifest request) = Inr (engine_manifest i)
    \<and> canonical (rq_manifest request) = Inr (json_dumps False True (rq_manifest request))
    \<and> rq_input_manifest_id request = sha256_hex (utf8 (json_dumps False True (rq_manifest request)))"
proof -
  obtain v a i manifest h where i: "normalize_inputs payload = Inr i" and b: "build_manifest v a i = Inr (manifest, h)"
    and request: "rq_manifest request = manifest" "rq_input_manifest_id request = h"
    using assms unfolding normalize_backtest_request_def Let_def
    by (elim returns_elims) (auto simp only: sum.inject sum.distinct simp_thms backtest_request.select_convs)
  from b have "canonical manifest = Inr (json_dumps False True manifest)" "h = sha256_hex (utf8 (json_dumps False True manifest))"
    by (auto simp: build_manifest_def res_simps Let_def canonical_def split: if_splits)
  with i read_built_manifest [OF b] show ?thesis by (auto simp: request)
qed

text \<open>A normalised execution profile is its own normal form.\<close>

theorem execution_profile_stable:
  assumes "normalize_execution v = Inr e"
  shows "normalize_execution (execution_json e) = Inr e"
  using execution_again [OF normalize_execution_ok [OF assms]] .

section \<open>The check for credential keys\<close>

text \<open>The rows of normalised inputs have fixed fields, none of which looks like a credential.\<close>

definition INPUT_KEYS :: "string list" where
  "INPUT_KEYS = [''universe'', ''bars'', ''signals'', ''execution'', ''corporate_actions'', ''benchmark'', ''universe_id'',
    ''version_id'', ''membership_fingerprint'', ''symbols'', ''symbol'', ''trade_date'', ''open'', ''high'', ''low'',
    ''close'', ''volume'', ''is_suspended'', ''prev_close'', ''up_limit'', ''down_limit'', ''adjustment_factor'',
    ''direction'', ''quantity'', ''ex_date'', ''end_date'', ''announcement_date'',
    ''implementation_announcement_date'', ''record_date'', ''pay_date'', ''share_listing_date'',
    ''cash_dividend_gross'', ''content_sha256'', ''cash_dividend_per_share'', ''share_ratio'', ''initial_capital'',
    ''commission_rate'', ''stamp_tax_rate'', ''slippage_rate'', ''limit_threshold'', ''lot_size'', ''max_positions'',
    ''a_share_rules'', ''max_runtime_seconds'', ''max_attempts'', ''amount'']"

lemma key_chars:
  "isalnum CHR ''2''" "lower_char CHR ''2'' = CHR ''2''" "isalnum CHR ''5''" "lower_char CHR ''5'' = CHR ''5''"
  "isalnum CHR ''6''" "lower_char CHR ''6'' = CHR ''6''" "isalnum CHR ''a''" "lower_char CHR ''a'' = CHR ''a''"
  "isalnum CHR ''b''" "lower_char CHR ''b'' = CHR ''b''" "isalnum CHR ''c''" "lower_char CHR ''c'' = CHR ''c''"
  "isalnum CHR ''d''" "lower_char CHR ''d'' = CHR ''d''" "isalnum CHR ''e''" "lower_char CHR ''e'' = CHR ''e''"
  "isalnum CHR ''f''" "lower_char CHR ''f'' = CHR ''f''" "isalnum CHR ''g''" "lower_char CHR ''g'' = CHR ''g''"
  "isalnum CHR ''h''" "lower_char CHR ''h'' = CHR ''h''" "isalnum CHR ''i''" "lower_char CHR ''i'' = CHR ''i''"
  "isalnum CHR ''j''" "lower_char CHR ''j'' = CHR ''j''" "isalnum CHR ''k''" "lower_char CHR ''k'' = CHR ''k''"
  "isalnum CHR ''l''" "lower_char CHR ''l'' = CHR ''l''" "isalnum CHR ''m''" "lower_char CHR ''m'' = CHR ''m''"
  "isalnum CHR ''n''" "lower_char CHR ''n'' = CHR ''n''" "isalnum CHR ''o''" "lower_char CHR ''o'' = CHR ''o''"
  "isalnum CHR ''p''" "lower_char CHR ''p'' = CHR ''p''" "isalnum CHR ''q''" "lower_char CHR ''q'' = CHR ''q''"
  "isalnum CHR ''r''" "lower_char CHR ''r'' = CHR ''r''" "isalnum CHR ''s''" "lower_char CHR ''s'' = CHR ''s''"
  "isalnum CHR ''t''" "lower_char CHR ''t'' = CHR ''t''" "isalnum CHR ''u''" "lower_char CHR ''u'' = CHR ''u''"
  "isalnum CHR ''v''" "lower_char CHR ''v'' = CHR ''v''" "isalnum CHR ''w''" "lower_char CHR ''w'' = CHR ''w''"
  "isalnum CHR ''x''" "lower_char CHR ''x'' = CHR ''x''" "isalnum CHR ''y''" "lower_char CHR ''y'' = CHR ''y''"
  "isalnum CHR ''z''" "lower_char CHR ''z'' = CHR ''z''"
  "\<not> isalnum CHR ''_''" "lower_char CHR ''_'' = CHR ''_''"
  by (simp_all add: isalnum_def is_alnum_def is_digit_def is_lower_def is_upper_def lower_char_def code_def)

lemma input_keys_open: "list_all (\<lambda>k. \<not> secret_key k) INPUT_KEYS"
proof -
  have "map (\<lambda>k. filter isalnum (lower k)) INPUT_KEYS = [''universe'', ''bars'', ''signals'', ''execution'', ''corporateactions'', ''benchmark'', ''universeid'',
    ''versionid'', ''membershipfingerprint'', ''symbols'', ''symbol'', ''tradedate'', ''open'', ''high'', ''low'',
    ''close'', ''volume'', ''issuspended'', ''prevclose'', ''uplimit'', ''downlimit'', ''adjustmentfactor'',
    ''direction'', ''quantity'', ''exdate'', ''enddate'', ''announcementdate'', ''implementationannouncementdate'',
    ''recorddate'', ''paydate'', ''sharelistingdate'', ''cashdividendgross'', ''contentsha256'',
    ''cashdividendpershare'', ''shareratio'', ''initialcapital'', ''commissionrate'', ''stamptaxrate'',
    ''slippagerate'', ''limitthreshold'', ''lotsize'', ''maxpositions'', ''asharerules'', ''maxruntimeseconds'',
    ''maxattempts'', ''amount'']"
    by (simp add: INPUT_KEYS_def lower_def key_chars)
  then have "list_all (\<lambda>n. \<not> list_ex (\<lambda>f. contains f n) SECRET_FRAGMENTS) (map (\<lambda>k. filter isalnum (lower k)) INPUT_KEYS)"
    by (simp add: SECRET_FRAGMENTS_def contains.simps)
  then show ?thesis by (simp add: secret_key_def list_all_iff Let_def)
qed

lemma inputs_open: "reject_secret_keys (PDict [(''universe'', universe_json u),
      (''bars'', PList (map bar_json bs)), (''signals'', PList (map signal_json ss)),
      (''execution'', execution_json e), (''corporate_actions'', PList (map action_json cs)),
      (''benchmark'', PList (map benchmark_json ms))]) = Inr ()"
proof -
  note plain = input_keys_open [unfolded INPUT_KEYS_def, simplified]
  have "secret_free (bar_json b)" "secret_free (signal_json s)" "secret_free (execution_json e)" "secret_free (action_json c)"
    "secret_free (benchmark_json r)" "secret_free (universe_json u)" for b s c r
    using plain by (auto simp: universe_json_def bar_json_def signal_json_def execution_json_def action_json_def
        benchmark_json_def opt_float_def opt_text_def strs_def list_all_iff split: option.split)
  then show ?thesis using plain by (simp add: reject_secret_keys_def list_all_iff)
qed

section \<open>A request evaluated\<close>

definition sample_bar :: "string \<Rightarrow> int \<Rightarrow> pydict \<Rightarrow> pyval" where
  "sample_bar date price extra = PDict ([(''symbol'', PStr ''600519.sh''), (''trade_date'', PStr date), (''open'', PInt price),
     (''high'', PInt price), (''low'', PInt price), (''close'', PInt price)] @ extra)"

definition made_id :: "string \<Rightarrow> char \<Rightarrow> string" where
  "made_id prefix c = prefix @ ''_'' @ replicate 32 c"

definition sample_payload :: pyval where
  "sample_payload = PDict [
     (''task_id'', PStr (made_id ''task'' CHR ''a'')), (''trace_id'', PStr ''trace-1''), (''idempotency_key'', PStr ''key-1''),
     (''universe'', PDict [(''version_id'', PStr ''v1''), (''membership_fingerprint'', PStr (membership_fingerprint [''600519.SH''])),
       (''symbols'', PList [PStr ''600519.SH''])]),
     (''corporate_actions'', PList [PDict [(''symbol'', PStr ''600519.SH''), (''ex_date'', PStr ''2024-01-04''),
       (''cash_dividend_per_share'', PInt 1)]]),
     (''bars'', PList [sample_bar ''20240103'' 3 [], sample_bar ''2024-01-02'' 2 [], sample_bar ''2024-01-04'' 4 [(''prev_close'', PInt 2)]]),
     (''signals'', PList [PDict [(''symbol'', PStr ''600519.SH''), (''trade_date'', PStr ''2024-01-02''), (''side'', PStr ''buy'')]]),
     (''execution'', PDict [(''initial_capital'', PInt 1000), (''commission_rate'', PInt 0), (''stamp_tax_rate'', PInt 0),
       (''slippage_rate'', PInt 0), (''limit_threshold'', PInt 1), (''max_runtime_seconds'', PInt 60)])]"

definition sample_normal_bar :: "string \<Rightarrow> rat \<Rightarrow> pyfloat option \<Rightarrow> normal_bar" where
  "sample_normal_bar date price prev = \<lparr>bar_symbol = ''600519.SH'', bar_trade_date = date, bar_open = FFin price,
     bar_close = FFin price, bar_prev_close = prev, bar_up_limit = None, bar_down_limit = None, bar_is_suspended = False,
     nb_high = FFin price, nb_low = FFin price, nb_volume = FFin 0, nb_adjustment_factor = None\<rparr>"

definition sample_inputs :: inputs where
  "sample_inputs = \<lparr>in_universe = \<lparr>un_universe_id = ''frozen-universe'', un_version_id = ''v1'',
       un_membership_fingerprint = membership_fingerprint [''600519.SH''], un_symbols = [''600519.SH'']\<rparr>,
     in_bars = [sample_normal_bar ''2024-01-02'' 2 None, sample_normal_bar ''2024-01-03'' 3 (Some (FFin 2)),
       sample_normal_bar ''2024-01-04'' 4 (Some (FFin 2))],
     in_signals = [\<lparr>sig_symbol = ''600519.SH'', sig_trade_date = ''2024-01-02'', sig_direction = 1, sig_quantity = None\<rparr>],
     in_actions = [\<lparr>ca_symbol = ''600519.SH'', ca_ex_date = ''2024-01-04'', ca_cash_dividend_per_share = FFin 1,
       ca_share_ratio = FFin 0, ca_pay_date = None, ca_share_listing_date = None, na_end_date = None,
       na_announcement_date = None, na_implementation_announcement_date = None, na_record_date = None,
       na_cash_dividend_gross = None, na_content_sha256 = None\<rparr>],
     in_benchmark = [],
     in_execution = \<lparr>ex_initial_capital = FFin 1000, ex_commission_rate = FFin 0, ex_stamp_tax_rate = FFin 0,
       ex_slippage_rate = FFin 0, ex_limit_threshold = FFin 1, ex_lot_size = 100, ex_max_positions = 10, ex_a_share_rules = True,
       ex_max_runtime_seconds = FFin 60, ex_max_attempts = 2\<rparr>\<rparr>"

lemma sample_strips: "strip ''600519.SH'' = ''600519.SH''" "strip ''600519.sh'' = ''600519.sh''" "strip ''v1'' = ''v1''"
  "strip ''frozen-universe'' = ''frozen-universe''" "strip ''2024-01-02'' = ''2024-01-02''" "strip ''2024-01-04'' = ''2024-01-04''"
  "strip ''20240103'' = ''20240103''"
  by code_simp+

lemma sample_texts: "upper ''600519.SH'' = ''600519.SH''" "upper ''600519.sh'' = ''600519.SH''" "SYMBOL_PATTERN ''600519.SH''"
  "real_date ''2024-01-02''" "real_date ''2024-01-03''" "real_date ''2024-01-04''" "DATE_PATTERN ''2024-01-02''"
  "DATE_PATTERN ''2024-01-03''" "DATE_PATTERN ''2024-01-04''" "\<not> re_digits 8 ''2024-01-02''" "\<not> re_digits 8 ''2024-01-04''"
  "re_digits 8 ''20240103''" "''2024-01-02'' < ''2024-01-03''" "''2024-01-03'' < ''2024-01-04''" "''2024-01-02'' < ''2024-01-04''"
  by code_simp+

lemma sample_symbol: "normalize_symbol (PStr ''600519.SH'') f = Inr ''600519.SH''" "normalize_symbol (PStr ''600519.sh'') f = Inr ''600519.SH''"
  by (simp_all add: normalize_symbol_def text_of_def Let_def sample_strips sample_texts)

lemma sample_date: "date_of (PStr ''2024-01-02'') f = Inr ''2024-01-02''" "date_of (PStr ''2024-01-04'') f = Inr ''2024-01-04''"
  "date_of (PStr ''20240103'') f = Inr ''2024-01-03''"
  by (simp_all add: date_of_def Let_def sample_strips sample_texts)

lemma sample_number: "number_of (PInt 0) f False = Inr (FFin 0)" "number_of (PInt 1) f False = Inr (FFin 1)"
  "(numeral n :: int) < 2 ^ 53 \<Longrightarrow> number_of (PInt (numeral n)) f positive = Inr (FFin (numeral n))"
  using float_of_int_exact [of 1]
  by (simp_all add: number_of_def exact_float_simps checked_float_returns)

lemma fingerprint_text: "text_of (PStr (membership_fingerprint ss)) f 64 = Inr (membership_fingerprint ss)"
    "re_hex 64 (membership_fingerprint ss)"
proof -
  show hex: "re_hex 64 (membership_fingerprint ss)" by (simp add: membership_fingerprint_def sha256_hex_digest)
  then have "strip (membership_fingerprint ss) = membership_fingerprint ss"
    by (intro strip_no_space) (auto simp: re_hex_def list_all_iff hex_no_space)
  then show "text_of (PStr (membership_fingerprint ss)) f 64 = Inr (membership_fingerprint ss)"
    using hex by (auto simp: text_of_def re_hex_def Let_def)
qed

lemma sample_universe: "normalize_universe (fld sample_payload ''universe'') = Inr (in_universe sample_inputs)"
  by (simp add: sample_payload_def sample_inputs_def normalize_universe_def Let_def reject_unknown_def unknown_keys_def fld_or_def
      fingerprint_text sample_symbol text_of_def [of "PStr ''v1''"] text_of_def [of "PStr ''frozen-universe''"] sample_strips)

lemma sample_actions: "normalize_actions (fld sample_payload ''corporate_actions'') [''600519.SH''] = Inr (in_actions sample_inputs)"
  by (simp add: sample_payload_def sample_inputs_def normalize_actions_def MAX_ACTIONS_def normalize_action_def Let_def
      reject_unknown_def unknown_keys_def ACTION_FIELDS_def fld_or_def sample_symbol sample_date sample_number optional_date_def
      optional_number_def by_date_symbol_def)

lemma sample_execution: "normalize_execution (fld sample_payload ''execution'') = Inr (in_execution sample_inputs)"
  by (simp add: sample_payload_def sample_inputs_def normalize_execution_def Let_def reject_unknown_def unknown_keys_def
      EXECUTION_FIELDS_def fld_or_def sample_number rate_outside_def integer_of_def)

lemma sample_signals: "normalize_signals (fld_or sample_payload ''signals'' (PList [])) [''600519.SH''] (map bar_trade_date (in_bars sample_inputs))
    = Inr (in_signals sample_inputs)"
  by (simp add: sample_payload_def sample_inputs_def normalize_signals_def MAX_SIGNALS_def normalize_signal_def Let_def
      reject_unknown_def unknown_keys_def SIGNAL_FIELDS_def fld_or_def sample_symbol sample_date sample_normal_bar_def
      direction_of_def in_constants_def py_eq.simps scalar_eq_def by_date_symbol_def)

lemma sample_bars: "normalize_bars (fld sample_payload ''bars'') [''600519.SH''] [(''600519.SH'', ''2024-01-04'')] = Inr (in_bars sample_inputs)"
  by (simp add: sample_payload_def sample_inputs_def normalize_bars_def MAX_BARS_def normalize_bar_def sample_bar_def Let_def
      reject_unknown_def unknown_keys_def BAR_FIELDS_def fld_or_def sample_symbol sample_date sample_normal_bar_def sample_number
      sample_texts optional_number_def by_date_symbol_def fmax_def fmin_def chain_symbol_def factor_changed_def)

lemma sample_normalized: "normalize_inputs sample_payload = Inr sample_inputs"
proof -
  have "un_symbols (in_universe sample_inputs) = [''600519.SH'']"
    "map (\<lambda>a. (ca_symbol a, ca_ex_date a)) (in_actions sample_inputs) = [(''600519.SH'', ''2024-01-04'')]"
    "fld sample_payload ''benchmark'' = PNone" "in_benchmark sample_inputs = []"
    by (simp_all add: sample_inputs_def sample_payload_def)
  then show ?thesis
    by (simp add: normalize_inputs_def sample_universe sample_actions sample_bars sample_signals sample_execution
        normalize_benchmark_def)
qed

lemma sample_strip: "strip (made_id ''task'' CHR ''a'') = made_id ''task'' CHR ''a''"
  "strip (made_id ''artifact'' CHR ''b'') = made_id ''artifact'' CHR ''b''"
  "strip (made_id ''artifact'' CHR ''c'') = made_id ''artifact'' CHR ''c''"
  by code_simp+

lemma made_id_form: "re_prefix_hex ''task_'' 32 (made_id ''task'' CHR ''a'')"
  "re_prefix_hex ''artifact_'' 32 (made_id ''artifact'' CHR ''b'')" "re_prefix_hex ''artifact_'' 32 (made_id ''artifact'' CHR ''c'')"
  by code_simp+

lemma made_id_length: "made_id p c \<noteq> []" "length (made_id p c) = length p + 33"
  by (simp_all add: made_id_def)

lemma sample_identity:
  "entity_id (PStr (made_id ''task'' CHR ''a'')) f ''task'' = Inr (made_id ''task'' CHR ''a'')"
  "entity_id (PStr (made_id ''artifact'' CHR ''b'')) f ''artifact'' = Inr (made_id ''artifact'' CHR ''b'')"
  "entity_id (PStr (made_id ''artifact'' CHR ''c'')) f ''artifact'' = Inr (made_id ''artifact'' CHR ''c'')"
  using made_id_form by (simp_all add: entity_id_def text_of_def Let_def sample_strip made_id_length)

lemma sample_manifest: "\<exists>m h. build_manifest v a sample_inputs = Inr (m, h)"
  by (simp add: build_manifest_def canonical_def sample_inputs_def sample_normal_bar_def universe_json_def bar_json_def
      signal_json_def execution_json_def action_json_def opt_float_def opt_text_def strs_def)

definition offered_request :: "backtest_request res" where
  "offered_request = normalize_backtest_request sample_payload (PStr (made_id ''artifact'' CHR ''b'')) (PStr (made_id ''artifact'' CHR ''c''))"

lemma sample_accepted: "\<exists>request. offered_request = Inr request"
proof -
  have shape: "is_dict sample_payload" "reject_unknown sample_payload REQUEST_FIELDS ''backtest request'' = Inr ()"
    "fld sample_payload ''task_id'' = PStr (made_id ''task'' CHR ''a'')" "fld sample_payload ''experiment_id'' = PNone"
    "fld sample_payload ''name'' = PNone" "trace_id (fld sample_payload ''trace_id'') = Inr ''trace-1''"
    "checked_idempotency_key (fld sample_payload ''idempotency_key'') = Inr ''key-1''"
    by (simp_all add: sample_payload_def reject_unknown_def unknown_keys_def REQUEST_FIELDS_def) (code_simp+)
  obtain m h where m: "build_manifest (made_id ''artifact'' CHR ''b'') (made_id ''artifact'' CHR ''c'') sample_inputs = Inr (m, h)"
    using sample_manifest by blast
  show ?thesis
    by (simp add: offered_request_def normalize_backtest_request_def shape sample_identity sample_normalized inputs_open
        normalize_backtest_name_def m)
qed

theorem accepted_inputs_well_formed_witness:
  "normalize_inputs sample_payload = Inr sample_inputs \<and> inputs_ok sample_inputs"
  using accepted_inputs_well_formed [OF sample_normalized] sample_normalized by simp

theorem accepted_manifest_reads_back_witness:
  "\<exists>request. offered_request = Inr request \<and> read_manifest (rq_manifest request) = Inr (engine_manifest sample_inputs)"
proof -
  obtain request where r: "offered_request = Inr request" using sample_accepted by blast
  from accepted_manifest_reads_back [OF r [unfolded offered_request_def]] sample_normalized r show ?thesis by auto
qed

theorem execution_profile_stable_witness:
  "normalize_execution (execution_json (in_execution sample_inputs)) = Inr (in_execution sample_inputs)"
  using execution_profile_stable [OF sample_execution] .

end
