(* ===== verification/Py_Number.thy ===== *)
theory Py_Number
  imports Backtest_Checks
begin

text \<open>
  Numbers read from texts and values: \<open>float(v)\<close>, and the decimal arithmetic of Python's module
  \<^verbatim>\<open>decimal\<close> in its default context (28 digits, ties to even). A finite decimal is the rational it
  denotes; the sign of zero and the number of trailing zeros are not kept.
\<close>

section \<open>Doubles\<close>

text \<open>\<open>float\<close> of a text: a sign, digits with single underscores between them, a fraction, an exponent, or
  one of the names of the special values.\<close>

definition grouped_digits :: "string \<Rightarrow> bool" where
  "grouped_digits s \<longleftrightarrow> s = [] \<or> is_digit (hd s) \<and> is_digit (last s)
     \<and> list_all (\<lambda>(a, b). a \<noteq> CHR ''_'' \<or> b \<noteq> CHR ''_'') (zip s (tl s))"

definition number_char :: "char \<Rightarrow> bool" where
  "number_char c \<longleftrightarrow> is_digit c \<or> c = CHR ''_''"

definition plain_digits :: "string \<Rightarrow> string" where
  "plain_digits s = filter is_digit s"

definition signed_text :: "string \<Rightarrow> bool \<times> string" where
  "signed_text s = (if startswith ''-'' s then (True, drop 1 s) else if startswith ''+'' s then (False, drop 1 s) else (False, s))"

definition float_text :: "string \<Rightarrow> pyfloat res" where
  "float_text s = (let (negative, u) = signed_text (lower (strip s)) in
     if u \<in> {''inf'', ''infinity''} then Inr (signed_inf negative)
     else if u = ''nan'' then Inr FNaN
     else let whole = takeWhile number_char u; rest = dropWhile number_char u;
              fraction = (if startswith ''.'' rest then takeWhile number_char (drop 1 rest) else []);
              tail = (if startswith ''.'' rest then dropWhile number_char (drop 1 rest) else rest);
              (down, power) = signed_text (drop 1 tail);
              e = (if tail = [] then 0 else int (decimal (plain_digits power))) in
     if \<not> grouped_digits whole \<or> \<not> grouped_digits fraction \<or> whole @ fraction = []
        \<or> \<not> (tail = [] \<or> hd tail = CHR ''e'' \<and> power \<noteq> [] \<and> list_all number_char power \<and> grouped_digits power)
     then Inl (ValueError ''could not convert string to float'')
     else let q = of_nat (decimal (plain_digits (whole @ fraction)))
              * pow_int 10 ((if down then - e else e) - int (length (plain_digits fraction))) in
     Inr (to_double (if negative then - q else q)))"

fun to_float :: "pyval \<Rightarrow> pyfloat res" where
  "to_float (PBool b) = Inr (FFin (if b then 1 else 0))"
| "to_float (PInt n) = float_of_int n"
| "to_float (PFloat x) = Inr x"
| "to_float (PStr s) = float_text s"
| "to_float _ = Inl (TypeError ''float() argument must be a string or a real number'')"

section \<open>Decimals\<close>

datatype pydecimal = DFin rat | DNotFinite

text \<open>\<open>Decimal(s)\<close> of a text is exact: underscores are ignored, and an exponent outside the bounds of the
  module makes it invalid.\<close>

definition special_decimal :: "string \<Rightarrow> bool" where
  "special_decimal u \<longleftrightarrow> u \<in> {''inf'', ''infinity''}
     \<or> startswith ''nan'' u \<and> list_all is_digit (drop 3 u) \<or> startswith ''snan'' u \<and> list_all is_digit (drop 4 u)"

definition decimal_text :: "string \<Rightarrow> pydecimal res" where
  "decimal_text s = (let (negative, u) = signed_text (lower (filter (\<lambda>c. c \<noteq> CHR ''_'') (strip s))) in
     if special_decimal u then Inr DNotFinite
     else let whole = takeWhile is_digit u; rest = dropWhile is_digit u;
              fraction = (if startswith ''.'' rest then takeWhile is_digit (drop 1 rest) else []);
              tail = (if startswith ''.'' rest then dropWhile is_digit (drop 1 rest) else rest);
              (down, power) = signed_text (drop 1 tail);
              coefficient = decimal (whole @ fraction);
              e = (if tail = [] then 0 else if down then - int (decimal power) else int (decimal power)) - int (length fraction);
              adjusted = e + int (length (nat_digits coefficient)) - 1 in
     if whole @ fraction = [] \<or> \<not> (tail = [] \<or> hd tail = CHR ''e'' \<and> power \<noteq> [] \<and> list_all is_digit power)
        \<or> 999999999999999999 < adjusted \<or> e < - 1999999999999999997
     then Inl (InvalidOperation ''decimal.ConversionSyntax'')
     else let q = of_nat coefficient * pow_int 10 e in Inr (DFin (if negative then - q else q)))"

text \<open>\<open>Decimal(str(x))\<close> of a double is the decimal that \<open>repr\<close> prints.\<close>

definition shown_decimal :: "rat \<Rightarrow> rat" where
  "shown_decimal q = (if q = 0 then 0
     else let (m, s) = shortest_from 16 1 \<bar>q\<bar>; d = of_int m * pow_int 10 s in if q < 0 then - d else d)"

fun float_decimal :: "pyfloat \<Rightarrow> pydecimal" where
  "float_decimal (FFin q) = DFin (shown_decimal q)"
| "float_decimal _ = DNotFinite"

text \<open>\<open>Decimal(str(v))\<close> of a number or a text.\<close>

fun decimal_of :: "pyval \<Rightarrow> pydecimal res" where
  "decimal_of (PInt n) = Inr (DFin (of_int n))"
| "decimal_of (PFloat x) = Inr (float_decimal x)"
| "decimal_of (PStr s) = decimal_text s"
| "decimal_of _ = Inl (InvalidOperation ''decimal.ConversionSyntax'')"

text \<open>The result of an operation, rounded to 28 digits; \<open>quantize\<close> to a number of decimals, which raises when
  the result needs more digits than that; and \<open>format(d, "f")\<close> of a value with four decimals.\<close>

definition dec28 :: "rat \<Rightarrow> rat" where
  "dec28 q = (if q = 0 then 0 else let s = dec_exp \<bar>q\<bar> - 27 in
     of_int (round_half_even (q * pow_int 10 (- s))) * pow_int 10 s)"

definition quantize :: "nat \<Rightarrow> rat \<Rightarrow> rat res" where
  "quantize n q = (let c = round_half_even (q * 10 ^ n) in
     if 10 ^ 28 \<le> \<bar>c\<bar> then Inl (InvalidOperation ''decimal.InvalidOperation'') else Inr (of_int c / 10 ^ n))"

definition fixed_text :: "rat \<Rightarrow> string" where
  "fixed_text q = (let c = round_half_even (q * 10000); ds = nat_digits (nat \<bar>c\<bar>);
     padded = replicate (5 - length ds) CHR ''0'' @ ds; n = length padded - 4 in
     (if c < 0 then ''-'' else []) @ take n padded @ ''.'' @ drop n padded)"

end
