(* ===== verification/Bars_Frame.thy ===== *)
theory Bars_Frame
  imports Backtest_Engine Backtest_Checks Py_Number
begin

text \<open>
  The columnar encoding of a panel of bars, \<^verbatim>\<open>packages/contracts/bars_frame.py\<close>. Rows and frames are the
  dictionaries of the code; the symbol and the date of a row are texts, on which the cast \<open>str\<close> is the
  identity.
\<close>

section \<open>Cells\<close>

definition BARS_FRAME_SCHEMA_VERSION :: string where "BARS_FRAME_SCHEMA_VERSION = ''bars_frame.v1''"

definition ADJUSTED_FIELDS :: "string list" where
  "ADJUSTED_FIELDS = [''open'', ''high'', ''low'', ''close'', ''prev_close'', ''up_limit'', ''down_limit'']"

definition finite_cell :: "pyval \<Rightarrow> string \<Rightarrow> pyval res" where
  "finite_cell v field = (case v of
       PFloat x \<Rightarrow> if finite_float x then Inr v
         else Inl (ValueError (''bars frame field '' @ field @ '' must contain only finite numbers''))
     | _ \<Rightarrow> Inr v)"

definition adjusted_cell :: "pyval \<Rightarrow> pyfloat \<Rightarrow> pyval res" where
  "adjusted_cell v factor = andThen (to_float v) (\<lambda>x. Inr (PFloat (float_round_to 8 (fmul x factor))))"

section \<open>The order of the rows\<close>

definition row_symbol :: "pyval \<Rightarrow> string" where "row_symbol row = the_str (fld row ''symbol'')"
definition row_date :: "pyval \<Rightarrow> string" where "row_date row = the_str (fld row ''trade_date'')"

text \<open>The index of a value in a list, as the lookup dictionaries give it.\<close>

definition place :: "string list \<Rightarrow> string \<Rightarrow> nat" where
  "place xs x = length (takeWhile (\<lambda>y. y \<noteq> x) xs)"

definition ordered_indices :: "pyval list \<Rightarrow> (string list \<times> string list \<times> nat list) res" where
  "ordered_indices rows =
    (let symbols = sort (remdups (map row_symbol rows)); dates = sort (remdups (map row_date rows));
         key = (\<lambda>i. (place symbols (row_symbol (rows ! i)), place dates (row_date (rows ! i))));
         order = sort_key (fst \<circ> key) (sort_key (snd \<circ> key) [0..<length rows]) in
     if length (remdups (map key order)) \<noteq> length rows
     then Inl (ValueError ''bars frame rows contain duplicate symbol/date pairs'')
     else Inr (symbols, dates, order))"

section \<open>Encoding\<close>

definition panel_fields :: "pyval list \<Rightarrow> string list" where
  "panel_fields rows = sort (filter (\<lambda>k. k \<notin> {''symbol'', ''trade_date''}) (remdups (concat (map keys_of rows))))"

definition cell :: "string \<Rightarrow> string \<Rightarrow> pyval \<Rightarrow> pyval \<Rightarrow> pyval" where
  "cell basis field row research =
    (if basis = ''research'' then fld research field
     else if basis = ''snapshot'' then fld row field
     else if field \<in> set ADJUSTED_FIELDS then fld row field
     else fld_or row field (fld research field))"

definition reproduces :: "pyval list \<Rightarrow> pyval list \<Rightarrow> pyfloat list \<Rightarrow> nat \<times> nat \<Rightarrow> string \<Rightarrow> unit res" where
  "reproduces rows research factors p field =
    (let (position, i) = p; raw = rows ! i; adjusted = fld (research ! i) field in
     if \<not> has_key raw field
     then if adjusted \<noteq> PNone
       then Inl (ValueError (''bars frame cannot reproduce '' @ field @ '' at row '' @ nat_digits position @ '' without raw input''))
       else Inr ()
     else andThen (if fld raw field = PNone then Inr PNone else adjusted_cell (fld raw field) (factors ! i)) (\<lambda>expected.
     if \<not> py_eq expected adjusted
     then Inl (ValueError (''bars frame cannot reproduce '' @ field @ '' at row '' @ nat_digits position @ '' from its adjustment multiplier''))
     else Inr ()))"

definition frame_columns :: "string \<Rightarrow> pyval list \<Rightarrow> pyval list \<Rightarrow> nat list \<Rightarrow> string list \<Rightarrow> (string \<times> pyval) list res" where
  "frame_columns basis bars research_bars order panel =
     mapRes (\<lambda>field. andThen (mapRes (\<lambda>i. finite_cell (cell basis field (bars ! i) (research_bars ! i)) field) order)
       (\<lambda>column. Inr (field, PList column))) panel"

definition reproducible :: "pyval list \<Rightarrow> pyval list \<Rightarrow> pyfloat list \<Rightarrow> nat list \<Rightarrow> unit res" where
  "reproducible rows research factors order =
     forEach (\<lambda>p. forEach (reproduces rows research factors p) ADJUSTED_FIELDS) (zip [0..<length order] order)"

definition frame_document :: "string \<Rightarrow> pyval list \<Rightarrow> pyval list \<Rightarrow> pyfloat list \<Rightarrow> string list \<times> string list \<times> nat list \<Rightarrow> pyval res" where
  "frame_document basis bars research_bars factors indices =
    (let (symbols, dates, order) = indices; raw_fields = panel_fields bars; research_fields = panel_fields research_bars in
     andThen (frame_columns basis bars research_bars order (sort (remdups (raw_fields @ research_fields)))) (\<lambda>columns.
     andThen (if basis = ''raw'' then reproducible bars research_bars factors order else Inr ()) (\<lambda>_.
     Inr (PDict ([(''schema_version'', PStr BARS_FRAME_SCHEMA_VERSION), (''basis'', PStr basis), (''symbols'', strs symbols),
       (''dates'', strs dates), (''symbol_index'', PList (map (\<lambda>i. PInt (int (place symbols (row_symbol (bars ! i))))) order)),
       (''date_index'', PList (map (\<lambda>i. PInt (int (place dates (row_date (bars ! i))))) order)),
       (''bars_fields'', strs raw_fields), (''research_fields'', strs research_fields), (''columns'', PDict columns)]
       @ (if basis = ''raw'' then [(''adjustment_multiplier'', PList (map (\<lambda>i. PFloat (factors ! i)) order))] else []))))))"

definition encode_bars_frame :: "pyval list \<Rightarrow> pyval list \<Rightarrow> string \<Rightarrow> pyval list option \<Rightarrow> pyval res" where
  "encode_bars_frame bars research_bars basis multipliers =
    (if basis \<notin> {''raw'', ''research'', ''snapshot''} then Inl (ValueError ''bars frame basis must be raw, research or snapshot'')
     else if length bars \<noteq> length research_bars
     then Inl (ValueError ''bars frame raw and research panels must have equal length'')
     else andThen (case multipliers of None \<Rightarrow> Inr (replicate (length bars) (FFin 1)) | Some vs \<Rightarrow> mapRes to_float vs) (\<lambda>factors.
     if length factors \<noteq> length bars then Inl (ValueError ''bars frame adjustment multipliers must align with rows'')
     else if list_ex (\<lambda>f. \<not> finite_float f) factors
     then Inl (ValueError ''bars frame adjustment multipliers must be finite'')
     else andThen (ordered_indices bars) (frame_document basis bars research_bars factors)))"

definition encode_research_frame :: "pyval list \<Rightarrow> pyval res" where
  "encode_research_frame rows = encode_bars_frame rows rows ''research'' None"

definition encode_snapshot_bars :: "pyval list \<Rightarrow> pyval res" where
  "encode_snapshot_bars bars = encode_bars_frame bars bars ''snapshot'' None"

section \<open>Validation and decoding\<close>

definition frame_column :: "nat \<Rightarrow> string \<times> pyval \<Rightarrow> unit res" where
  "frame_column count column = (let (field, values) = column in
     if \<not> is_list values \<or> length (the_list values) \<noteq> count
     then Inl (ValueError (''bars frame column '' @ field @ '' is misaligned''))
     else forEach (\<lambda>v. andThen (finite_cell v field) (\<lambda>_. Inr ())) (the_list values))"

definition frame_index :: "string \<Rightarrow> nat \<Rightarrow> pyval \<Rightarrow> unit res" where
  "frame_index name size_of v = (if \<not> int_between 0 (int size_of - 1) v
     then Inl (ValueError (''bars frame '' @ name @ '' index is out of range'')) else Inr ())"

definition frame_multiplier :: "pyval \<Rightarrow> unit res" where
  "frame_multiplier v = (let failed = Inl (ValueError ''bars frame adjustment multipliers must be finite numbers'') in
     case v of PInt n \<Rightarrow> andThen (float_of_int n) (\<lambda>_. Inr ())
     | PFloat x \<Rightarrow> if finite_float x then Inr () else failed | _ \<Rightarrow> failed)"

definition validated_frame :: "pyval \<Rightarrow> nat res" where
  "validated_frame frame =
    (if \<not> is_dict frame \<or> fld frame ''schema_version'' \<noteq> PStr BARS_FRAME_SCHEMA_VERSION
     then Inl (ValueError ''unsupported bars frame schema'')
     else andThen (in_strs (fld frame ''basis'') [''raw'', ''research'', ''snapshot'']) (\<lambda>known.
     if \<not> known then Inl (ValueError ''bars frame basis is invalid'')
     else let symbols = fld frame ''symbols''; dates = fld frame ''dates''; columns = fld frame ''columns'';
              symbol_index = fld frame ''symbol_index''; date_index = fld frame ''date_index'' in
     if \<not> is_list symbols \<or> \<not> list_all is_str (the_list symbols) then Inl (ValueError ''bars frame symbols are invalid'')
     else if \<not> is_list dates \<or> \<not> list_all is_str (the_list dates) then Inl (ValueError ''bars frame dates are invalid'')
     else if \<not> is_dict columns \<or> the_dict columns = [] then Inl (ValueError ''bars frame columns are invalid'')
     else if \<not> is_list symbol_index \<or> \<not> is_list date_index \<or> length (the_list symbol_index) \<noteq> length (the_list date_index)
     then Inl (ValueError ''bars frame row indices are invalid'')
     else let count = length (the_list symbol_index) in
     andThen (forEach (frame_column count) (the_dict columns)) (\<lambda>_.
     andThen (forEach (frame_index ''symbol'' (length (the_list symbols))) (the_list symbol_index)) (\<lambda>_.
     andThen (forEach (frame_index ''date'' (length (the_list dates))) (the_list date_index)) (\<lambda>_.
     andThen (if fld frame ''basis'' = PStr ''raw'' then let multipliers = fld frame ''adjustment_multiplier'' in
         if \<not> is_list multipliers \<or> length (the_list multipliers) \<noteq> count
         then Inl (ValueError ''bars frame adjustment multipliers are invalid'')
         else forEach frame_multiplier (the_list multipliers)
       else Inr ()) (\<lambda>_. Inr count))))))"

definition frame_row_count :: "pyval \<Rightarrow> nat res" where
  "frame_row_count frame = validated_frame frame"

definition add_field :: "pyval \<Rightarrow> nat \<Rightarrow> pyval \<Rightarrow> pyval \<Rightarrow> pyval res" where
  "add_field columns position field row =
    (if \<not> hashable field then Inl (TypeError ''unhashable type'')
     else if is_str field \<and> has_key columns (the_str field)
     then Inr (dict_set (the_str field) (the_list (fld columns (the_str field)) ! position) row)
     else Inr row)"

definition frame_row :: "pyval \<Rightarrow> pyval list \<Rightarrow> nat \<Rightarrow> pyval res" where
  "frame_row frame panel position =
    (let entry = (\<lambda>table index. the_list (fld frame table) ! nat (the_int (the_list (fld frame index) ! position))) in
     foldRes (add_field (fld frame ''columns'') position) panel
       (PDict [(''symbol'', entry ''symbols'' ''symbol_index''), (''trade_date'', entry ''dates'' ''date_index'')]))"

definition adjust_field :: "pyfloat \<Rightarrow> string \<Rightarrow> pyval \<Rightarrow> pyval res" where
  "adjust_field factor field row = (if fld row field = PNone then Inr row
     else andThen (adjusted_cell (fld row field) factor) (\<lambda>v. Inr (dict_set field v row)))"

definition decode_bars_frame :: "pyval \<Rightarrow> string option \<Rightarrow> pyval list res" where
  "decode_bars_frame frame wanted = andThen (validated_frame frame) (\<lambda>count.
     let basis = the_str (fld frame ''basis''); target = (case wanted of None \<Rightarrow> basis | Some t \<Rightarrow> t) in
     if target \<notin> {''raw'', ''research'', ''snapshot''} then Inl (ValueError ''bars frame decode basis must be raw, research or snapshot'')
     else if target = ''raw'' \<and> basis \<noteq> ''raw'' then Inl (ValueError ''raw panel is unavailable for a research frame'')
     else if target = ''research'' \<and> basis = ''snapshot'' then Inl (ValueError ''research panel is unavailable for a snapshot frame'')
     else if target = ''snapshot'' \<and> basis \<noteq> ''snapshot'' then Inl (ValueError ''snapshot panel is unavailable for this frame'')
     else andThen (item frame (if target \<in> {''raw'', ''snapshot''} then ''bars_fields'' else ''research_fields'')) (\<lambda>panel.
     if \<not> is_list panel then Inl (ValueError ''bars frame panel fields are invalid'')
     else andThen (mapRes (frame_row frame (the_list panel)) [0..<count]) (\<lambda>rows.
     if target = ''research'' \<and> basis = ''raw''
     then mapRes (\<lambda>(m, row). andThen (to_float m) (\<lambda>factor. foldRes (adjust_field factor) ADJUSTED_FIELDS row))
       (zip (the_list (fld frame ''adjustment_multiplier'')) rows)
     else Inr rows)))"

definition frame_research_rows :: "pyval \<Rightarrow> pyval list res" where
  "frame_research_rows frame = decode_bars_frame frame (Some ''research'')"

definition frame_raw_rows :: "pyval \<Rightarrow> pyval list res" where
  "frame_raw_rows frame = decode_bars_frame frame (Some ''raw'')"

definition frame_snapshot_rows :: "pyval \<Rightarrow> pyval list res" where
  "frame_snapshot_rows frame = decode_bars_frame frame (Some ''snapshot'')"

definition is_bars_frame :: "pyval \<Rightarrow> bool" where
  "is_bars_frame v \<longleftrightarrow> is_dict v \<and> fld v ''schema_version'' = PStr BARS_FRAME_SCHEMA_VERSION"

section \<open>The order of the rows, without indices\<close>

text \<open>The panel in the order of the frame, and a row with every field of the panel, absent ones as \<open>None\<close>.\<close>

definition panel_order :: "pyval list \<Rightarrow> pyval list" where
  "panel_order rows = sort_key row_symbol (sort_key row_date rows)"

definition complete_row :: "string list \<Rightarrow> pyval \<Rightarrow> pyval" where
  "complete_row panel row = PDict ((''symbol'', fld row ''symbol'') # (''trade_date'', fld row ''trade_date'')
     # map (\<lambda>f. (f, fld row f)) panel)"

definition panel_row :: "pyval \<Rightarrow> bool" where
  "panel_row row \<longleftrightarrow> is_dict row \<and> is_str (fld row ''symbol'') \<and> is_str (fld row ''trade_date'')"

lemma place_member: "x \<in> set xs \<Longrightarrow> place xs x < length xs \<and> xs ! place xs x = x"
  unfolding place_def by (induction xs) auto

lemma place_le:
  assumes "sorted xs" "distinct xs" "x \<in> set xs" "y \<in> set xs"
  shows "place xs x \<le> place xs y \<longleftrightarrow> x \<le> y"
proof -
  have "sorted_wrt (<) xs" using assms by (simp add: strict_sorted_iff)
  then show ?thesis
    using place_member [OF assms(3)] place_member [OF assms(4)]
    by (metis linorder_not_less order.strict_implies_order order_le_less sorted_wrt_nth_less)
qed

lemma insort_key_cong:
  "(\<And>y. y \<in> set xs \<Longrightarrow> (f x \<le> f y) = (g x \<le> g y)) \<Longrightarrow> insort_key f x xs = insort_key g x xs"
  by (induction xs) auto

lemma sort_key_cong:
  assumes "\<And>x y. x \<in> set xs \<Longrightarrow> y \<in> set xs \<Longrightarrow> (f x \<le> f y) = (g x \<le> g y)"
  shows "sort_key f xs = sort_key g xs"
  using assms
proof (induction xs)
  case (Cons x xs)
  then show ?case using insort_key_cong [of "sort_key g xs" f x g] by simp
qed simp

lemma insort_key_map: "insort_key f (g x) (map g xs) = map g (insort_key (\<lambda>y. f (g y)) x xs)"
  by (induction xs) auto

lemma sort_key_map: "sort_key f (map g xs) = map g (sort_key (\<lambda>y. f (g y)) xs)"
  by (induction xs) (simp_all add: insort_key_map)

lemma ordered_indices_returns:
  assumes "ordered_indices rows = Inr (symbols, dates, order)"
  shows "symbols = sort (remdups (map row_symbol rows))" "dates = sort (remdups (map row_date rows))"
    "distinct order" "set order = {0..<length rows}" "map ((!) rows) order = panel_order rows"
proof -
  show symbols: "symbols = sort (remdups (map row_symbol rows))" and dates: "dates = sort (remdups (map row_date rows))"
    using assms by (auto simp: ordered_indices_def Let_def split: if_splits)
  have order: "order = sort_key (\<lambda>i. place symbols (row_symbol (rows ! i))) (sort_key (\<lambda>i. place dates (row_date (rows ! i))) [0..<length rows])"
    using assms by (auto simp: ordered_indices_def Let_def symbols dates comp_def split: if_splits)
  show "distinct order" "set order = {0..<length rows}" by (simp_all add: order)
  let ?n = "[0..<length rows]"
  have "sort_key (\<lambda>i. place dates (row_date (rows ! i))) ?n = sort_key (\<lambda>i. row_date (rows ! i)) ?n"
    by (rule sort_key_cong) (simp add: dates place_le)
  moreover have "sort_key (\<lambda>i. place symbols (row_symbol (rows ! i))) (sort_key (\<lambda>i. row_date (rows ! i)) ?n)
      = sort_key (\<lambda>i. row_symbol (rows ! i)) (sort_key (\<lambda>i. row_date (rows ! i)) ?n)"
    by (rule sort_key_cong) (simp add: symbols place_le)
  ultimately have "order = sort_key (\<lambda>i. row_symbol (rows ! i)) (sort_key (\<lambda>i. row_date (rows ! i)) ?n)" by (simp add: order)
  then show "map ((!) rows) order = panel_order rows"
    by (simp add: panel_order_def map_nth flip: sort_key_map)
qed

lemma panel_fields_facts: "sorted (panel_fields rows)" "distinct (panel_fields rows)"
  "''symbol'' \<notin> set (panel_fields rows)" "''trade_date'' \<notin> set (panel_fields rows)"
  by (simp_all add: panel_fields_def)

lemma panel_fields_twice: "sort (remdups (panel_fields rows @ panel_fields rows)) = panel_fields rows"
  by (rule sorted_distinct_set_unique) (simp_all add: panel_fields_facts)

section \<open>Rows of a frame\<close>

lemma add_fields:
  assumes "distinct fs" "set fs \<inter> fst ` set d = {}" "\<And>f. f \<in> set fs \<Longrightarrow> has_key columns f"
  shows "foldRes (add_field columns position) (map PStr fs) (PDict d)
    = Inr (PDict (d @ map (\<lambda>f. (f, the_list (fld columns f) ! position)) fs))"
  using assms
proof (induction fs arbitrary: d)
  case Nil
  then show ?case by simp
next
  case (Cons f fs)
  have "AList.update f v d = d @ [(f, v)]" for v using Cons.prems(2) by (induction d) auto
  then have "add_field columns position (PStr f) (PDict d) = Inr (PDict (d @ [(f, the_list (fld columns f) ! position)]))"
    using Cons.prems by (simp add: add_field_def dict_set_def)
  then show ?case using Cons.prems Cons.IH [of "d @ [(f, the_list (fld columns f) ! position)]"] by auto
qed

lemma finite_cell_same: "finite_cell v f = Inr w \<Longrightarrow> w = v"
  by (auto simp: finite_cell_def split: pyval.splits if_splits)

text \<open>What an accepted frame holds.\<close>

definition frame_of :: "string \<Rightarrow> pyval list \<Rightarrow> pyval list \<Rightarrow> pyfloat list \<Rightarrow> nat list \<Rightarrow> pyval" where
  "frame_of basis bars research factors order =
    (let symbols = sort (remdups (map row_symbol bars)); dates = sort (remdups (map row_date bars)) in
     PDict ([(''schema_version'', PStr BARS_FRAME_SCHEMA_VERSION), (''basis'', PStr basis), (''symbols'', strs symbols),
       (''dates'', strs dates), (''symbol_index'', PList (map (\<lambda>i. PInt (int (place symbols (row_symbol (bars ! i))))) order)),
       (''date_index'', PList (map (\<lambda>i. PInt (int (place dates (row_date (bars ! i))))) order)),
       (''bars_fields'', strs (panel_fields bars)), (''research_fields'', strs (panel_fields research)),
       (''columns'', PDict (map (\<lambda>f. (f, PList (map (\<lambda>i. cell basis f (bars ! i) (research ! i)) order)))
          (sort (remdups (panel_fields bars @ panel_fields research)))))]
       @ (if basis = ''raw'' then [(''adjustment_multiplier'', PList (map (\<lambda>i. PFloat (factors ! i)) order))] else [])))"

lemma encode_returns:
  assumes "encode_bars_frame bars research basis ms = Inr frame"
  obtains factors symbols dates order where "ordered_indices bars = Inr (symbols, dates, order)"
    "frame = frame_of basis bars research factors order" "list_all finite_float factors" "length factors = length bars"
    "basis \<in> {''raw'', ''research'', ''snapshot''}" "length research = length bars"
    "\<And>f i. f \<in> set (panel_fields bars) \<union> set (panel_fields research) \<Longrightarrow> i \<in> set order
       \<Longrightarrow> finite_cell (cell basis f (bars ! i) (research ! i)) f = Inr (cell basis f (bars ! i) (research ! i))"
    "basis = ''raw'' \<Longrightarrow> (\<forall>p \<in> set (zip [0..<length order] order). \<forall>f \<in> set ADJUSTED_FIELDS. reproduces bars research factors p f = Inr ())"
proof -
  from assms obtain factors indices where basis: "basis \<in> {''raw'', ''research'', ''snapshot''}"
    and rlen: "length bars = length research"
    and len: "length factors = length bars" and fin: "\<not> list_ex (\<lambda>f. \<not> finite_float f) factors"
    and ind: "ordered_indices bars = Inr indices" and doc: "frame_document basis bars research factors indices = Inr frame"
    unfolding encode_bars_frame_def Let_def by (elim if_returnsE andThen_returnsE; simp only: sum.distinct not_not) blast
  obtain symbols dates order where i: "indices = (symbols, dates, order)" by (cases indices)
  note ord = ind [unfolded i]
  note same = ordered_indices_returns(1,2) [OF ord]
  from doc obtain columns where columns: "frame_columns basis bars research order (sort (remdups (panel_fields bars @ panel_fields research))) = Inr columns"
    and raw: "basis = ''raw'' \<Longrightarrow> reproducible bars research factors order = Inr ()"
    and frame: "frame = PDict ([(''schema_version'', PStr BARS_FRAME_SCHEMA_VERSION), (''basis'', PStr basis), (''symbols'', strs symbols),
       (''dates'', strs dates), (''symbol_index'', PList (map (\<lambda>i. PInt (int (place symbols (row_symbol (bars ! i))))) order)),
       (''date_index'', PList (map (\<lambda>i. PInt (int (place dates (row_date (bars ! i))))) order)),
       (''bars_fields'', strs (panel_fields bars)), (''research_fields'', strs (panel_fields research)), (''columns'', PDict columns)]
       @ (if basis = ''raw'' then [(''adjustment_multiplier'', PList (map (\<lambda>i. PFloat (factors ! i)) order))] else []))"
    unfolding frame_document_def i Let_def prod.case andThen_returns by (elim exE conjE) (cases "basis = ''raw''"; simp)
  have one: "mapRes (\<lambda>i. finite_cell (g i) f) order = Inr cs \<Longrightarrow> cs = map g order" for f g cs
    by (erule mapRes_eq) (simp add: finite_cell_same)
  have cols: "columns = map (\<lambda>f. (f, PList (map (\<lambda>i. cell basis f (bars ! i) (research ! i)) order)))
      (sort (remdups (panel_fields bars @ panel_fields research)))"
    by (rule mapRes_eq [OF columns [unfolded frame_columns_def]]) (auto simp: res_simps simp del: mapRes_returns dest: one)
  have fins: "finite_cell (cell basis f (bars ! i) (research ! i)) f = Inr (cell basis f (bars ! i) (research ! i))"
    if "f \<in> set (panel_fields bars) \<union> set (panel_fields research)" "i \<in> set order" for f i
  proof -
    have "f \<in> set (sort (remdups (panel_fields bars @ panel_fields research)))" using that(1) by simp
    from mapRes_member(2) [OF columns [unfolded frame_columns_def] this] obtain cs
      where "mapRes (\<lambda>i. finite_cell (cell basis f (bars ! i) (research ! i)) f) order = Inr cs"
      unfolding andThen_returns by blast
    from mapRes_member(2) [OF this that(2)] show ?thesis by (auto dest: finite_cell_same)
  qed
  have "frame = frame_of basis bars research factors order"
    unfolding frame frame_of_def Let_def cols same by (rule refl)
  moreover have "list_all finite_float factors" using fin by (simp add: list_all_iff list_ex_iff)
  ultimately show thesis
    using that [OF ord _ _ len basis rlen [symmetric] fins] raw by (auto simp: reproducible_def forEach_returns)
qed

section \<open>What a frame decodes to\<close>

lemma frame_of_valid:
  assumes ord: "ordered_indices bars = Inr (symbols, dates, order)"
    and fin: "\<And>f i. f \<in> set (panel_fields bars) \<union> set (panel_fields research) \<Longrightarrow> i \<in> set order
       \<Longrightarrow> finite_cell (cell basis f (bars ! i) (research ! i)) f = Inr (cell basis f (bars ! i) (research ! i))"
    and some: "panel_fields bars \<noteq> [] \<or> panel_fields research \<noteq> []"
    and factors: "list_all finite_float factors" "length factors = length bars"
    and basis: "basis \<in> {''raw'', ''research'', ''snapshot''}"
  shows "validated_frame (frame_of basis bars research factors order) = Inr (length order)"
proof -
  let ?symbols = "sort (remdups (map row_symbol bars))" and ?dates = "sort (remdups (map row_date bars))"
  let ?F = "frame_of basis bars research factors order"
  have fields: "fld ?F ''schema_version'' = PStr BARS_FRAME_SCHEMA_VERSION" "fld ?F ''basis'' = PStr basis"
    "fld ?F ''symbols'' = strs ?symbols" "fld ?F ''dates'' = strs ?dates"
    "fld ?F ''symbol_index'' = PList (map (\<lambda>i. PInt (int (place ?symbols (row_symbol (bars ! i))))) order)"
    "fld ?F ''date_index'' = PList (map (\<lambda>i. PInt (int (place ?dates (row_date (bars ! i))))) order)"
    "fld ?F ''columns'' = PDict (map (\<lambda>f. (f, PList (map (\<lambda>i. cell basis f (bars ! i) (research ! i)) order)))
          (sort (remdups (panel_fields bars @ panel_fields research))))"
    "fld (frame_of ''raw'' bars research factors order) ''adjustment_multiplier'' = PList (map (\<lambda>i. PFloat (factors ! i)) order)"
    "is_dict ?F"
    by (simp_all add: frame_of_def Let_def)
  have order: "set order = {0..<length bars}" by (rule ordered_indices_returns [OF ord])
  have place: "place ?symbols (row_symbol (bars ! i)) < length ?symbols" "place ?dates (row_date (bars ! i)) < length ?dates"
    if "i \<in> set order" for i
    using that place_member [of "row_symbol (bars ! i)" ?symbols] place_member [of "row_date (bars ! i)" ?dates]
    by (auto simp: order)
  have multipliers: "frame_multiplier (PFloat (factors ! i)) = Inr ()" if "i \<in> set order" for i
    using that factors by (simp add: frame_multiplier_def order list_all_length)
  have columns: "frame_column (length order) (f, PList (map (\<lambda>i. cell basis f (bars ! i) (research ! i)) order)) = Inr ()"
    if "f \<in> set (panel_fields bars) \<union> set (panel_fields research)" for f
    using fin that by (auto simp: frame_column_def forEach_returns)
  have indices: "forEach (frame_index ''symbol'' (length ?symbols)) (map (\<lambda>i. PInt (int (place ?symbols (row_symbol (bars ! i))))) order) = Inr ()"
    "forEach (frame_index ''date'' (length ?dates)) (map (\<lambda>i. PInt (int (place ?dates (row_date (bars ! i))))) order) = Inr ()"
    using place by (auto simp: forEach_map frame_index_def int_between_def)
  have "forEach (frame_column (length order)) (map (\<lambda>f. (f, PList (map (\<lambda>i. cell basis f (bars ! i) (research ! i)) order)))
      (sort (remdups (panel_fields bars @ panel_fields research)))) = Inr ()"
    using columns by (auto simp: forEach_map)
  moreover have "sort (remdups (panel_fields bars @ panel_fields research)) \<noteq> []"
    using some by (metis set_append set_empty set_remdups set_sort sup_eq_bot_iff)
  moreover have "forEach frame_multiplier (map (\<lambda>i. PFloat (factors ! i)) order) = Inr ()"
    using multipliers by (simp add: forEach_map)
  ultimately show ?thesis
    using basis indices
    by (simp add: validated_frame_def Let_def fields strs_def list_all_iff)
qed

lemma frame_row_of:
  assumes ord: "ordered_indices bars = Inr (symbols, dates, order)" and rows: "list_all panel_row bars"
    and panel: "panel \<in> {panel_fields bars, panel_fields research}" and k: "k < length order"
  shows "frame_row (frame_of basis bars research factors order) (map PStr panel) k
    = Inr (PDict ((''symbol'', fld (bars ! (order ! k)) ''symbol'') # (''trade_date'', fld (bars ! (order ! k)) ''trade_date'')
       # map (\<lambda>f. (f, cell basis f (bars ! (order ! k)) (research ! (order ! k)))) panel))"
proof -
  let ?symbols = "sort (remdups (map row_symbol bars))" and ?dates = "sort (remdups (map row_date bars))"
  let ?i = "order ! k"
  let ?all = "sort (remdups (panel_fields bars @ panel_fields research))"
  let ?columns = "map (\<lambda>f. (f, PList (map (\<lambda>i. cell basis f (bars ! i) (research ! i)) order))) ?all"
  have i: "?i < length bars" using ordered_indices_returns(4) [OF ord] k nth_mem [of k order] by auto
  then have "?symbols ! place ?symbols (row_symbol (bars ! ?i)) = row_symbol (bars ! ?i)"
    "?dates ! place ?dates (row_date (bars ! ?i)) = row_date (bars ! ?i)"
    "place ?symbols (row_symbol (bars ! ?i)) < length ?symbols" "place ?dates (row_date (bars ! ?i)) < length ?dates"
    using place_member [of "row_symbol (bars ! ?i)" ?symbols] place_member [of "row_date (bars ! ?i)" ?dates] by auto
  moreover have "panel_row (bars ! ?i)" using rows i by (simp add: list_all_length)
  ultimately have ends: "map PStr ?symbols ! place ?symbols (row_symbol (bars ! ?i)) = fld (bars ! ?i) ''symbol''"
    "map PStr ?dates ! place ?dates (row_date (bars ! ?i)) = fld (bars ! ?i) ''trade_date''"
    by (auto simp: panel_row_def row_symbol_def row_date_def is_str_conv)
  have keys: "has_key (PDict ?columns) f" "fld (PDict ?columns) f = PList (map (\<lambda>i. cell basis f (bars ! i) (research ! i)) order)"
    if "f \<in> set panel" for f
    using that panel by (auto simp: has_key_iff fld_PDict_map)
  have distinct: "distinct panel" "''symbol'' \<notin> set panel" "''trade_date'' \<notin> set panel" using panel panel_fields_facts by auto
  have "foldRes (add_field (PDict ?columns) k) (map PStr panel) (PDict [(''symbol'', fld (bars ! ?i) ''symbol''), (''trade_date'', fld (bars ! ?i) ''trade_date'')])
    = Inr (PDict ([(''symbol'', fld (bars ! ?i) ''symbol''), (''trade_date'', fld (bars ! ?i) ''trade_date'')]
        @ map (\<lambda>f. (f, the_list (fld (PDict ?columns) f) ! k)) panel))"
    by (rule add_fields) (use distinct keys in auto)
  then show ?thesis
    using keys k ends by (simp add: frame_row_def frame_of_def Let_def strs_def)
qed

lemma snapshot_decodes:
  assumes "encode_snapshot_bars bars = Inr frame" "list_all panel_row bars" "panel_fields bars \<noteq> []"
  shows "frame_snapshot_rows frame = Inr (map (complete_row (panel_fields bars)) (panel_order bars))
    \<and> frame_row_count frame = Inr (length bars) \<and> is_bars_frame frame"
proof (rule encode_returns [OF assms(1) [unfolded encode_snapshot_bars_def]])
  fix factors symbols dates order
  assume ord: "ordered_indices bars = Inr (symbols, dates, order)" and frame: "frame = frame_of ''snapshot'' bars bars factors order"
    and factors: "list_all finite_float factors" "length factors = length bars"
    and fin: "\<And>f i. f \<in> set (panel_fields bars) \<union> set (panel_fields bars) \<Longrightarrow> i \<in> set order
       \<Longrightarrow> finite_cell (cell ''snapshot'' f (bars ! i) (bars ! i)) f = Inr (cell ''snapshot'' f (bars ! i) (bars ! i))"
  have valid: "validated_frame frame = Inr (length order)"
    unfolding frame by (rule frame_of_valid [OF ord fin _ factors]) (use assms(3) in simp_all)
  have "frame_row frame (map PStr (panel_fields bars)) k = Inr (complete_row (panel_fields bars) (bars ! (order ! k)))"
    if "k < length order" for k
    unfolding frame complete_row_def
    using frame_row_of [OF ord assms(2) _ that, of "panel_fields bars" bars "''snapshot''" factors]
    by (simp add: cell_def)
  then have "mapRes (frame_row frame (map PStr (panel_fields bars))) [0..<length order]
      = Inr (map (\<lambda>k. complete_row (panel_fields bars) (bars ! (order ! k))) [0..<length order])"
    by (rule mapRes_upt)
  moreover have "map (\<lambda>k. complete_row (panel_fields bars) (bars ! (order ! k))) [0..<length order]
      = map (complete_row (panel_fields bars)) (map ((!) bars) order)"
    by (rule nth_equalityI) simp_all
  ultimately have "frame_snapshot_rows frame = Inr (map (complete_row (panel_fields bars)) (panel_order bars))"
    using valid ordered_indices_returns(5) [OF ord]
    by (simp add: frame_snapshot_rows_def decode_bars_frame_def frame frame_of_def Let_def item_def strs_def panel_order_def)
  moreover have "length order = length bars"
    using arg_cong [OF ordered_indices_returns(5) [OF ord], of length] by (simp add: panel_order_def)
  then have "frame_row_count frame = Inr (length bars)" by (simp add: frame_row_count_def valid)
  moreover have "is_bars_frame frame" by (simp add: is_bars_frame_def frame frame_of_def Let_def)
  ultimately show ?thesis by blast
qed

section \<open>The research panel of a raw frame\<close>

text \<open>A row of the research panel with the fields of the panel, as the decoder rebuilds it from the raw cells.\<close>

definition raw_cell :: "pyval list \<Rightarrow> pyval list \<Rightarrow> nat \<Rightarrow> string \<Rightarrow> pyval" where
  "raw_cell bars research i f = cell ''raw'' f (bars ! i) (research ! i)"

definition agrees :: "pyval \<Rightarrow> pyval \<Rightarrow> string \<Rightarrow> bool" where
  "agrees row research f \<longleftrightarrow> (if f \<in> set ADJUSTED_FIELDS then py_eq (fld row f) (fld research f) else fld row f = fld research f)"

lemma adjust_fields:
  assumes "distinct fs" "\<And>f. f \<in> set fs \<Longrightarrow> fld row f \<noteq> PNone \<Longrightarrow> \<exists>v. adjusted_cell (fld row f) factor = Inr v"
  shows "\<exists>row'. foldRes (adjust_field factor) fs row = Inr row'
    \<and> (\<forall>f. fld row' f = (if f \<in> set fs \<and> fld row f \<noteq> PNone then projr (adjusted_cell (fld row f) factor) else fld row f))"
  using assms
proof (induction fs arbitrary: row)
  case Nil
  then show ?case by simp
next
  case (Cons g fs)
  show ?case
  proof (cases "fld row g = PNone")
    case True
    then show ?thesis using Cons.IH [of row] Cons.prems by (auto simp: adjust_field_def)
  next
    case False
    then obtain v where v: "adjusted_cell (fld row g) factor = Inr v" using Cons.prems(2) [of g] by auto
    have "\<exists>row'. foldRes (adjust_field factor) fs (dict_set g v row) = Inr row'
      \<and> (\<forall>f. fld row' f = (if f \<in> set fs \<and> fld (dict_set g v row) f \<noteq> PNone
          then projr (adjusted_cell (fld (dict_set g v row) f) factor) else fld (dict_set g v row) f))"
      by (rule Cons.IH) (use Cons.prems in \<open>auto split: if_splits\<close>)
    moreover have "adjust_field factor g row = Inr (dict_set g v row)" using False v by (simp add: adjust_field_def)
    ultimately show ?thesis using False v Cons.prems(1) by auto
  qed
qed

lemma reproduced:
  assumes "reproduces bars research factors (k, i) f = Inr ()" "f \<in> set ADJUSTED_FIELDS"
  shows "if fld (bars ! i) f = PNone then fld (research ! i) f = PNone
    else \<exists>v. adjusted_cell (fld (bars ! i) f) (factors ! i) = Inr v \<and> py_eq v (fld (research ! i) f)"
proof -
  have none: "scalar_eq PNone v \<longleftrightarrow> v = PNone" for v by (cases v) (auto simp: scalar_eq_def split: option.splits)
  have "\<not> has_key (bars ! i) f \<Longrightarrow> fld (bars ! i) f = PNone" by (simp add: has_key_def fld_def)
  then show ?thesis
    using assms(1) by (auto simp: reproduces_def Let_def res_simps none split: if_splits)
qed

text \<open>C39. A raw frame that the encoder accepted decodes to the research panel: the rows in symbol and date order, every
  adjusted field equal to the research one under Python's equality, every other field of the research panel
  the same, provided the two panels agree on the other fields that the raw rows have.\<close>

theorem raw_frame_decodes_to_research:
  assumes "encode_bars_frame bars research ''raw'' ms = Inr frame" "list_all panel_row bars" "panel_fields research \<noteq> []"
    "\<And>i f. i < length bars \<Longrightarrow> f \<notin> set ADJUSTED_FIELDS \<Longrightarrow> has_key (bars ! i) f \<Longrightarrow> fld (bars ! i) f = fld (research ! i) f"
  shows "\<exists>order rows. distinct order \<and> set order = {0..<length bars} \<and> map ((!) bars) order = panel_order bars
    \<and> frame_research_rows frame = Inr rows \<and> length rows = length order
    \<and> (\<forall>k < length order. fld (rows ! k) ''symbol'' = fld (bars ! (order ! k)) ''symbol''
       \<and> fld (rows ! k) ''trade_date'' = fld (bars ! (order ! k)) ''trade_date''
       \<and> (\<forall>f \<in> set (panel_fields research). agrees (rows ! k) (research ! (order ! k)) f))"
proof (rule encode_returns [OF assms(1)])
  fix factors symbols dates order
  assume ord: "ordered_indices bars = Inr (symbols, dates, order)" and frame: "frame = frame_of ''raw'' bars research factors order"
    and factors: "list_all finite_float factors" "length factors = length bars"
    and fin: "\<And>f i. f \<in> set (panel_fields bars) \<union> set (panel_fields research) \<Longrightarrow> i \<in> set order
       \<Longrightarrow> finite_cell (cell ''raw'' f (bars ! i) (research ! i)) f = Inr (cell ''raw'' f (bars ! i) (research ! i))"
    and raw: "''raw'' = ''raw'' \<Longrightarrow> (\<forall>p \<in> set (zip [0..<length order] order). \<forall>f \<in> set ADJUSTED_FIELDS. reproduces bars research factors p f = Inr ())"
  let ?panel = "panel_fields research"
  have valid: "validated_frame frame = Inr (length order)"
    unfolding frame by (rule frame_of_valid [OF ord fin _ factors]) (use assms(3) in simp_all)
  define base where "base = (\<lambda>k. PDict ((''symbol'', fld (bars ! (order ! k)) ''symbol'') # (''trade_date'', fld (bars ! (order ! k)) ''trade_date'')
       # map (\<lambda>f. (f, cell ''raw'' f (bars ! (order ! k)) (research ! (order ! k)))) ?panel))"
  have "mapRes (frame_row frame (map PStr ?panel)) [0..<length order] = Inr (map base [0..<length order])"
    by (rule mapRes_upt) (simp add: frame base_def frame_row_of [OF ord assms(2)])
  then have decode: "frame_research_rows frame = mapRes (\<lambda>(m, row). andThen (to_float m) (\<lambda>factor. foldRes (adjust_field factor) ADJUSTED_FIELDS row))
      (zip (map (\<lambda>i. PFloat (factors ! i)) order) (map base [0..<length order]))"
    using valid by (simp add: frame_research_rows_def decode_bars_frame_def frame frame_of_def Let_def item_def strs_def)
  have base_fld: "fld (base k) f = (if f \<in> set ?panel then cell ''raw'' f (bars ! (order ! k)) (research ! (order ! k)) else PNone)"
    if "f \<notin> {''symbol'', ''trade_date''}" for k f
    using that by (simp add: base_def fld_PDict_map)
  have adjusted: "f \<notin> {''symbol'', ''trade_date''}" "cell ''raw'' f r s = fld r f" if "f \<in> set ADJUSTED_FIELDS" for f r s
    using that by (auto simp: ADJUSTED_FIELDS_def cell_def)
  have check: "reproduces bars research factors (k, order ! k) f = Inr ()" if "k < length order" "f \<in> set ADJUSTED_FIELDS" for k f
    using raw that by (force simp: set_zip)
  have row: "\<exists>row'. foldRes (adjust_field (factors ! (order ! k))) ADJUSTED_FIELDS (base k) = Inr row'
      \<and> (\<forall>f. fld row' f = (if f \<in> set ADJUSTED_FIELDS \<and> fld (base k) f \<noteq> PNone
         then projr (adjusted_cell (fld (base k) f) (factors ! (order ! k))) else fld (base k) f))" if "k < length order" for k
  proof (rule adjust_fields)
    show "distinct ADJUSTED_FIELDS" by (simp add: ADJUSTED_FIELDS_def)
    fix f
    assume f: "f \<in> set ADJUSTED_FIELDS" and "fld (base k) f \<noteq> PNone"
    then have "fld (base k) f = fld (bars ! (order ! k)) f" "fld (bars ! (order ! k)) f \<noteq> PNone"
      using base_fld adjusted by (auto split: if_splits)
    with reproduced [OF check [OF that f] f] show "\<exists>v. adjusted_cell (fld (base k) f) (factors ! (order ! k)) = Inr v" by auto
  qed
  then obtain out where out: "\<And>k. k < length order \<Longrightarrow> foldRes (adjust_field (factors ! (order ! k))) ADJUSTED_FIELDS (base k) = Inr (out k)"
    and out_fld: "\<And>k f. k < length order \<Longrightarrow> fld (out k) f = (if f \<in> set ADJUSTED_FIELDS \<and> fld (base k) f \<noteq> PNone
         then projr (adjusted_cell (fld (base k) f) (factors ! (order ! k))) else fld (base k) f)"
    by metis
  have "frame_research_rows frame = Inr (map out [0..<length order])"
    unfolding decode mapRes_returns by (simp add: list_all2_conv_all_nth out)
  moreover have "agrees (out k) (research ! (order ! k)) f" if k: "k < length order" and f: "f \<in> set ?panel" for k f
  proof (cases "f \<in> set ADJUSTED_FIELDS")
    case True
    have "fld (base k) f = fld (bars ! (order ! k)) f" using base_fld adjusted True f by simp
    then show ?thesis
      using reproduced [OF check [OF k True] True] True
      by (auto simp: agrees_def out_fld [OF k] scalar_eq_def split: if_splits)
  next
    case False
    have "order ! k < length bars" using ordered_indices_returns(4) [OF ord] k nth_mem [of k order] by auto
    moreover have "f \<notin> {''symbol'', ''trade_date''}" using f panel_fields_facts by auto
    ultimately show ?thesis
      using False f assms(4) by (simp add: agrees_def out_fld [OF k] base_fld cell_def fld_or_def)
  qed
  moreover have "fld (out k) ''symbol'' = fld (bars ! (order ! k)) ''symbol''" "fld (out k) ''trade_date'' = fld (bars ! (order ! k)) ''trade_date''"
    if "k < length order" for k
    using that by (simp_all add: out_fld ADJUSTED_FIELDS_def base_def)
  ultimately show ?thesis
    using ordered_indices_returns [OF ord] by (intro exI [of _ order] exI [of _ "map out [0..<length order]"]) simp
qed

text \<open>A panel of one bar, adjusted by the factor 2.\<close>

definition tiny_row :: "rat \<Rightarrow> pyval" where
  "tiny_row price = PDict [(''symbol'', PStr ''A''), (''trade_date'', PStr ''1''), (''open'', PFloat (FFin price)), (''volume'', PInt 5)]"

lemma tiny_indices: "ordered_indices [tiny_row 2] = Inr ([''A''], [''1''], [0])"
  by (simp add: ordered_indices_def place_def tiny_row_def row_symbol_def row_date_def Let_def comp_def)

lemma tiny_panel: "panel_fields [tiny_row p] = [''open'', ''volume'']"
  by (simp add: panel_fields_def tiny_row_def)

lemma tiny_columns: "frame_columns ''raw'' [tiny_row 2] [tiny_row 4] [0] [''open'', ''volume''] = Inr [(''open'', PList [PFloat (FFin 2)]), (''volume'', PList [PInt 5])]"
  by (simp add: frame_columns_def cell_def finite_cell_def finite_float_def tiny_row_def fld_or_def ADJUSTED_FIELDS_def)

lemma tiny_adjusted: "adjusted_cell (PFloat (FFin 2)) (FFin 2) = Inr (PFloat (FFin 4))"
  by (simp add: adjusted_cell_def exact_float_simps del: float_round_to.simps)

lemma tiny_reproducible: "reproducible [tiny_row 2] [tiny_row 4] [FFin 2] [0] = Inr ()"
  by (simp add: reproducible_def reproduces_def tiny_row_def ADJUSTED_FIELDS_def tiny_adjusted scalar_eq_def Let_def)

lemma tiny_factor: "to_float (PInt 2) = Inr (FFin 2)" by (simp add: exact_float_simps)

lemma tiny_frame: "\<exists>frame. encode_bars_frame [tiny_row 2] [tiny_row 4] ''raw'' (Some [PInt 2]) = Inr frame"
  by (simp add: encode_bars_frame_def tiny_indices frame_document_def tiny_panel tiny_columns tiny_reproducible tiny_factor finite_float_def Let_def del: to_float.simps)

theorem raw_frame_decodes_to_research_witness:
  "\<exists>frame rows. encode_bars_frame [tiny_row 2] [tiny_row 4] ''raw'' (Some [PInt 2]) = Inr frame
    \<and> frame_research_rows frame = Inr rows \<and> length rows = 1 \<and> fld (rows ! 0) ''volume'' = PInt 5
    \<and> py_eq (fld (rows ! 0) ''open'') (PFloat (FFin 4))"
proof -
  obtain frame where frame: "encode_bars_frame [tiny_row 2] [tiny_row 4] ''raw'' (Some [PInt 2]) = Inr frame"
    using tiny_frame by blast
  have "list_all panel_row [tiny_row 2]" by (simp add: panel_row_def tiny_row_def)
  moreover have panel: "panel_fields [tiny_row 4] = [''open'', ''volume'']" by (rule tiny_panel)
  moreover have "fld ([tiny_row 2] ! i) f = fld ([tiny_row 4] ! i) f"
    if "i < length [tiny_row 2]" "f \<notin> set ADJUSTED_FIELDS" for i f
    using that by (simp add: tiny_row_def ADJUSTED_FIELDS_def)
  ultimately obtain order rows where order: "distinct order" "set order = {0..<length [tiny_row 2]}"
    and rows: "frame_research_rows frame = Inr rows" "length rows = length order"
    and same: "\<forall>k < length order. \<forall>f \<in> set (panel_fields [tiny_row 4]). agrees (rows ! k) ([tiny_row 4] ! (order ! k)) f"
    using raw_frame_decodes_to_research [OF frame] by (metis list.distinct(1))
  have "length order = 1" using order distinct_card [of order] by simp
  then have one: "order = [0]" using order(2) by (cases order) auto
  have "agrees (rows ! 0) (tiny_row 4) ''volume''" "agrees (rows ! 0) (tiny_row 4) ''open''"
    using same one by (auto simp: panel)
  then show ?thesis
    using frame rows one by (auto simp: agrees_def ADJUSTED_FIELDS_def tiny_row_def)
qed

end
