(* ===== verification/Signal_Snapshot.thy ===== *)
theory Signal_Snapshot
  imports Backtest_Accepted Bars_Frame Json_Size
begin

text \<open>
  Frozen signal snapshots: \<open>normalize_signal_snapshot\<close>, \<open>snapshot_bars\<close> and
  \<open>signal_snapshot_content_sha256\<close> of \<^verbatim>\<open>services/backend/app/backtest.py\<close>.
\<close>

section \<open>The document\<close>

definition SNAPSHOT_FIELDS :: "string list" where
  "SNAPSHOT_FIELDS = [''universe'', ''bars'', ''signals'', ''execution'', ''corporate_actions'', ''benchmark'', ''source'']"

definition SOURCE_FIELDS :: "string list" where
  "SOURCE_FIELDS = [''producer'', ''note'', ''data_readiness'', ''ml_lineage'', ''selection_constraints'']"

definition READINESS_FIELDS :: "string list" where
  "READINESS_FIELDS = [''requirement_sha256'', ''ready_input_sha256'', ''research_view_sha256'', ''requirement_plan_sha256'']"

definition REQUIRED_ML_LINEAGE :: "string list" where
  "REQUIRED_ML_LINEAGE = [''ml_strategy_artifact_id'', ''ml_strategy_approval_artifact_id'', ''model_artifact_id'',
     ''feature_snapshot_artifact_id'', ''prediction_snapshot_artifact_id'', ''stock_pool_snapshot_id'', ''policy_sha256'']"

definition ALLOWED_ML_LINEAGE :: "string list" where
  "ALLOWED_ML_LINEAGE = REQUIRED_ML_LINEAGE @ [''model_bundle_artifact_id'', ''regime_snapshot_artifact_id'', ''routing_policy_sha256'']"

definition MAX_SNAPSHOT_BYTES :: nat where "MAX_SNAPSHOT_BYTES = 32 * 1024 * 1024"

definition source_readiness :: "pyval \<Rightarrow> pydict res" where
  "source_readiness source = (let readiness = fld_or source ''data_readiness'' (PDict []) in
     if \<not> is_dict readiness then Inl (ValueError ''source.data_readiness must be an object'')
     else andThen (reject_unknown readiness READINESS_FIELDS ''source.data_readiness'') (\<lambda>_.
     mapRes (\<lambda>(key, v). andThen (text_of v (''source.data_readiness.'' @ key) 64) (\<lambda>t. Inr (key, PStr t))) (the_dict readiness)))"

definition source_constraints :: "pyval \<Rightarrow> pydict res" where
  "source_constraints source = (let constraints = fld_or source ''selection_constraints'' (PDict []) in
     if \<not> is_dict constraints then Inl (ValueError ''source.selection_constraints must be an object'')
     else andThen (reject_unknown constraints [''unfunded_lots_skipped''] ''source.selection_constraints'') (\<lambda>_.
     let skipped = fld constraints ''unfunded_lots_skipped'' in
     if skipped = PNone then Inr []
     else if \<not> int_at_least 0 skipped
     then Inl (ValueError ''source.selection_constraints.unfunded_lots_skipped must be a non-negative integer'')
     else Inr [(''unfunded_lots_skipped'', skipped)]))"

definition source_ml_lineage :: "pyval \<Rightarrow> pydict res" where
  "source_ml_lineage source = (let lineage = fld source ''ml_lineage'' in
     if lineage = PNone then Inr []
     else if \<not> is_dict lineage then Inl (ValueError ''source.ml_lineage must be an object'')
     else andThen (reject_unknown lineage ALLOWED_ML_LINEAGE ''source.ml_lineage'') (\<lambda>_.
     if \<not> keys_include lineage REQUIRED_ML_LINEAGE then Inl (ValueError ''source.ml_lineage is incomplete'')
     else mapRes (\<lambda>key. andThen (text_of (fld lineage key) (''source.ml_lineage.'' @ key) 128) (\<lambda>t. Inr (key, PStr t)))
       (sort (keys_of lineage))))"

definition unless_empty :: "string \<Rightarrow> pydict \<Rightarrow> pydict" where
  "unless_empty key d = (if d = [] then [] else [(key, PDict d)])"

definition normalize_source :: "pyval \<Rightarrow> pyval res" where
  "normalize_source raw =
    (let source = (if raw = PNone then PDict [] else raw) in
     if \<not> is_dict source then Inl (ValueError ''signal snapshot source must be an object'')
     else andThen (reject_unknown source SOURCE_FIELDS ''signal snapshot source'') (\<lambda>_.
     andThen (text_of (fld_or source ''producer'' (PStr ''keyless-import'')) ''source.producer'' 64) (\<lambda>producer.
     andThen (source_readiness source) (\<lambda>readiness. andThen (source_constraints source) (\<lambda>constraints.
     andThen (source_ml_lineage source) (\<lambda>lineage.
     Inr (PDict ([(''producer'', PStr producer)] @ unless_empty ''data_readiness'' readiness
       @ unless_empty ''selection_constraints'' constraints @ unless_empty ''ml_lineage'' lineage))))))))"

definition signal_snapshot_content_sha256 :: "pyval \<Rightarrow> string res" where
  "signal_snapshot_content_sha256 document = andThen (canonical document) (\<lambda>encoded. Inr (sha256_hex (utf8 encoded)))"

definition snapshot_document :: "string \<Rightarrow> string \<Rightarrow> inputs \<Rightarrow> pyval \<Rightarrow> pyval \<Rightarrow> pyval" where
  "snapshot_document version_artifact version_id i frame source = PDict [
     (''schema_version'', PStr ''signal-snapshot-v2''),
     (''strategy'', PDict [(''strategy_version_artifact_id'', PStr version_artifact), (''strategy_version_id'', PStr version_id)]),
     (''universe'', universe_json (in_universe i)), (''bars_frame'', frame),
     (''signals'', PList (map signal_json (in_signals i))), (''corporate_actions'', PList (map action_json (in_actions i))),
     (''benchmark'', PList (map benchmark_json (in_benchmark i))), (''execution'', execution_json (in_execution i)),
     (''source'', source)]"

definition normalize_signal_snapshot :: "pyval \<Rightarrow> pyval \<Rightarrow> pyval \<Rightarrow> pyval res" where
  "normalize_signal_snapshot payload strategy_version_artifact_id strategy_version_id =
    (if \<not> is_dict payload then Inl (ValueError ''signal snapshot must be an object'')
     else andThen (reject_unknown payload SNAPSHOT_FIELDS ''signal snapshot'') (\<lambda>_.
     andThen (entity_id strategy_version_artifact_id ''strategy_version_artifact_id'' ''artifact'') (\<lambda>version_artifact.
     andThen (text_of strategy_version_id ''strategy_version_id'' 128) (\<lambda>version_id.
     andThen (normalize_inputs payload) (\<lambda>i.
     andThen (reject_secret_keys (PDict [(''universe'', universe_json (in_universe i)),
         (''bars'', PList (map bar_json (in_bars i))), (''signals'', PList (map signal_json (in_signals i))),
         (''execution'', execution_json (in_execution i)), (''corporate_actions'', PList (map action_json (in_actions i))),
         (''benchmark'', PList (map benchmark_json (in_benchmark i)))])) (\<lambda>_.
     andThen (normalize_source (fld payload ''source'')) (\<lambda>source.
     andThen (encode_snapshot_bars (map bar_json (in_bars i))) (\<lambda>frame.
     let document = snapshot_document version_artifact version_id i frame source in
     andThen (canonical document) (\<lambda>encoded.
     if MAX_SNAPSHOT_BYTES < length (utf8 encoded)
     then Inl (BacktestResourceExceeded ''signal snapshot exceeds object size limit'')
     else Inr (snapshot_document version_artifact version_id i frame
       (dict_set ''content_sha256'' (PStr (sha256_hex (utf8 encoded))) source)))))))))))"

section \<open>The bars of a stored snapshot\<close>

definition snapshot_bars :: "pyval \<Rightarrow> pyval list res" where
  "snapshot_bars content =
    (if \<not> is_dict content then Inl (ValueError ''signal snapshot content is invalid'')
     else let frame = fld content ''bars_frame''; bars = fld content ''bars'';
              too_many = Inl (BacktestResourceExceeded (''bars exceeds '' @ nat_digits MAX_BARS @ '' rows'')) in
     if is_bars_frame frame
     then andThen (frame_row_count frame) (\<lambda>count. if MAX_BARS < count then too_many
       else andThen (frame_snapshot_rows frame) (\<lambda>rows. Inr (by_date_symbol row_date row_symbol rows)))
     else if is_list bars then (if MAX_BARS < length (the_list bars) then too_many else Inr (the_list bars))
     else Inl (ValueError ''signal snapshot bars are unavailable''))"

section \<open>A snapshot reads back\<close>

lemma bar_json_row: "row_symbol (bar_json b) = bar_symbol b" "row_date (bar_json b) = bar_trade_date b" "panel_row (bar_json b)"
  by (simp_all add: bar_json_def row_symbol_def row_date_def panel_row_def)

lemma complete_row_key: "row_symbol (complete_row panel row) = row_symbol row" "row_date (complete_row panel row) = row_date row"
  by (simp_all add: complete_row_def row_symbol_def row_date_def)

lemma sorted_wrt_unique:
  assumes "sorted_wrt R xs" "sorted_wrt R ys" "distinct xs" "distinct ys" "set xs = set ys"
    "\<And>x y. x \<in> set xs \<Longrightarrow> y \<in> set xs \<Longrightarrow> R x y \<Longrightarrow> R y x \<Longrightarrow> x = y"
  shows "xs = ys"
  using assms
proof (induction xs arbitrary: ys)
  case Nil
  then show ?case by simp
next
  case (Cons x xs)
  then obtain y ys' where ys: "ys = y # ys'" by (cases ys) auto
  have "x = y"
  proof (rule ccontr)
    assume "x \<noteq> y"
    then have "R x y" "R y x" using Cons.prems(1,2,5) ys by auto
    then show False using Cons.prems(5,6) ys \<open>x \<noteq> y\<close> by (metis list.set_intros(1))
  qed
  moreover have "xs = ys'"
  proof (rule Cons.IH)
    show "set xs = set ys'" using Cons.prems(3,4,5) ys \<open>x = y\<close> by (auto simp: insert_eq_iff)
    show "a = b" if "a \<in> set xs" "b \<in> set xs" "R a b" "R b a" for a b using that Cons.prems(6) by simp
  qed (use Cons.prems ys in simp_all)
  ultimately show ?case by (simp add: ys)
qed

lemma by_date_symbol_map: "by_date_symbol date symbol (map f xs) = map f (by_date_symbol (\<lambda>x. date (f x)) (\<lambda>x. symbol (f x)) xs)"
  by (simp add: by_date_symbol_def sort_key_map)

lemma panel_order_map: "panel_order (map bar_json bars) = map bar_json (sort_key bar_symbol (sort_key bar_trade_date bars))"
  by (simp add: panel_order_def sort_key_map bar_json_row)

lemma order_restored:
  assumes "bars_ok symbols ds bars"
  shows "by_date_symbol bar_trade_date bar_symbol (sort_key bar_symbol (sort_key bar_trade_date bars)) = bars" (is "?sorted = bars")
proof (rule sorted_wrt_unique)
  show "sorted_wrt (by_key bar_trade_date bar_symbol) ?sorted" by (rule by_date_symbol_sorted)
  show "sorted_wrt (by_key bar_trade_date bar_symbol) bars" using assms by (simp add: bars_ok_def)
  have keys: "distinct (map (\<lambda>b. (bar_symbol b, bar_trade_date b)) bars)" using assms by (simp add: bars_ok_def)
  then show "distinct bars" by (simp add: distinct_map)
  then show "distinct ?sorted" by (simp add: by_date_symbol_def)
  show "set ?sorted = set bars" by (simp add: by_date_symbol_def)
  show "x = y" if "x \<in> set ?sorted" "y \<in> set ?sorted" "by_key bar_trade_date bar_symbol x y" "by_key bar_trade_date bar_symbol y x" for x y
  proof -
    have "(bar_symbol x, bar_trade_date x) = (bar_symbol y, bar_trade_date y)" using that(3,4) by (auto simp: by_key_def)
    then show ?thesis using inj_onD [OF keys [unfolded distinct_map, THEN conjunct2]] that(1,2) by (auto simp: by_date_symbol_def)
  qed
qed

lemma normalize_bars_rows:
  assumes "normalize_bars v symbols ds = Inr bars"
  shows "\<exists>rows. normalize_rows (normalize_bar symbols) [] 0 (the_list v) = Inr rows \<and> \<not> MAX_BARS < length (the_list v)
    \<and> foldRes (chain_symbol ds) (rev (remdups (rev (map bar_symbol (by_date_symbol bar_trade_date bar_symbol rows)))))
        (by_date_symbol bar_trade_date bar_symbol rows) = Inr bars"
  using assms unfolding normalize_bars_def Let_def
  by (elim returns_elims; (simp only: sum.distinct)?; blast)

lemma normalize_bars_bounded:
  assumes "normalize_bars v symbols ds = Inr bars"
  shows "length bars \<le> MAX_BARS"
proof -
  obtain rows where rows: "normalize_rows (normalize_bar symbols) [] 0 (the_list v) = Inr rows" and few: "\<not> MAX_BARS < length (the_list v)"
    and chain: "foldRes (chain_symbol ds) (rev (remdups (rev (map bar_symbol (by_date_symbol bar_trade_date bar_symbol rows)))))
        (by_date_symbol bar_trade_date bar_symbol rows) = Inr bars"
    using normalize_bars_rows [OF assms] by blast
  have rows_ok: "(\<forall>r \<in> set rows. bar_ok symbols r) \<and> length rows = length (the_list v)"
    using normalize_rows_ok [OF rows, where g = "\<lambda>b. b" and key = "\<lambda>b. (bar_symbol b, bar_trade_date b)" and P = "bar_ok symbols"]
      normalize_bar_ok by simp
  have "distinct (rev (remdups (rev (map bar_symbol (by_date_symbol bar_trade_date bar_symbol rows)))))" by simp
  moreover have "finite_float (bar_close r)" if "r \<in> set (by_date_symbol bar_trade_date bar_symbol rows)" for r
    using rows_ok that by (auto simp: bar_ok_def price_envelope_def by_date_symbol_def)
  ultimately have "list_all2 same_but_prev (by_date_symbol bar_trade_date bar_symbol rows) bars"
    using chain_all_follows [OF chain] by blast
  then have "length bars = length (by_date_symbol bar_trade_date bar_symbol rows)" by (simp add: list_all2_lengthD)
  then show ?thesis using rows_ok few by (simp add: by_date_symbol_def)
qed

lemma panel_of_bars: "bars \<noteq> [] \<Longrightarrow> panel_fields (map bar_json bars) \<noteq> []"
proof -
  assume "bars \<noteq> []"
  then obtain b bs where bars: "bars = b # bs" by (cases bars) auto
  have "''open'' \<in> set (keys_of (bar_json b))" by (simp add: bar_json_def)
  then have "''open'' \<in> set (panel_fields (map bar_json bars))" by (simp add: bars panel_fields_def)
  then show ?thesis by (metis empty_iff list.set(1))
qed

lemma frame_rows_restored:
  assumes "encode_snapshot_bars (map bar_json bars) = Inr frame" "bars_ok symbols ds bars" "length bars \<le> MAX_BARS"
    "is_dict content" "fld content ''bars_frame'' = frame"
  shows "snapshot_bars content = Inr (map (complete_row (panel_fields (map bar_json bars))) (map bar_json bars))"
proof -
  let ?panel = "panel_fields (map bar_json bars)"
  have some: "bars \<noteq> []" using assms(2) by (simp add: bars_ok_def)
  have decoded: "frame_snapshot_rows frame = Inr (map (complete_row ?panel) (panel_order (map bar_json bars)))
      \<and> frame_row_count frame = Inr (length (map bar_json bars)) \<and> is_bars_frame frame"
    by (rule snapshot_decodes [OF assms(1)]) (use bar_json_row panel_of_bars [OF some] in \<open>simp_all add: list_all_iff\<close>)
  have "by_date_symbol row_date row_symbol (map (complete_row ?panel) (panel_order (map bar_json bars)))
      = map (complete_row ?panel) (map bar_json bars)"
    using order_restored [OF assms(2)] by (simp add: by_date_symbol_map panel_order_map complete_row_key bar_json_row)
  then show ?thesis
    using decoded assms(3-5) by (simp add: snapshot_bars_def Let_def)
qed

text \<open>C40. The document of an accepted snapshot gives back the bars of its inputs, in their order, with every field
  of the panel: a field that a bar lacks and another has comes back as \<open>None\<close>. Its fingerprint is the hash of the
  document without the fingerprint.\<close>

theorem accepted_snapshot_reads_back:
  assumes "normalize_signal_snapshot payload version_artifact version_id = Inr document"
  shows "\<exists>i source h. normalize_inputs payload = Inr i
    \<and> snapshot_bars document = Inr (map (complete_row (panel_fields (map bar_json (in_bars i)))) (map bar_json (in_bars i)))
    \<and> fld document ''source'' = dict_set ''content_sha256'' (PStr h) source
    \<and> signal_snapshot_content_sha256 (dict_set ''source'' source document) = Inr h"
proof -
  obtain a v i frame source encoded where i: "normalize_inputs payload = Inr i"
    and frame: "encode_snapshot_bars (map bar_json (in_bars i)) = Inr frame"
    and encoded: "canonical (snapshot_document a v i frame source) = Inr encoded"
    and document: "document = snapshot_document a v i frame (dict_set ''content_sha256'' (PStr (sha256_hex (utf8 encoded))) source)"
    using assms unfolding normalize_signal_snapshot_def Let_def
    by (elim returns_elims; (simp only: sum.distinct sum.inject)?; blast)
  have ok: "inputs_ok i" by (rule normalize_inputs_ok [OF i])
  have "\<exists>v s ds. normalize_bars v s ds = Inr (in_bars i)"
    using i by (auto simp: normalize_inputs_def res_simps Let_def) blast
  then have few: "length (in_bars i) \<le> MAX_BARS" using normalize_bars_bounded by blast
  have "snapshot_bars document = Inr (map (complete_row (panel_fields (map bar_json (in_bars i)))) (map bar_json (in_bars i)))"
  proof (rule frame_rows_restored [OF frame _ few])
    show "bars_ok (un_symbols (in_universe i)) (map (\<lambda>a. (ca_symbol a, ca_ex_date a)) (in_actions i)) (in_bars i)"
      using ok by (simp add: inputs_ok_def Let_def)
    show "is_dict document" "fld document ''bars_frame'' = frame" by (simp_all add: document snapshot_document_def)
  qed
  moreover have "dict_set ''source'' source document = snapshot_document a v i frame source"
    by (simp add: document snapshot_document_def dict_set_def)
  moreover have "fld document ''source'' = dict_set ''content_sha256'' (PStr (sha256_hex (utf8 encoded))) source"
    by (simp add: document snapshot_document_def)
  ultimately show ?thesis
    using i encoded by (intro exI [of _ i] exI [of _ source] exI [of _ "sha256_hex (utf8 encoded)"])
      (simp add: signal_snapshot_content_sha256_def)
qed

section \<open>A snapshot evaluated\<close>

definition frozen_payload :: pyval where
  "frozen_payload = PDict (map (\<lambda>k. (k, fld sample_payload k)) [''universe'', ''bars'', ''signals'', ''execution'', ''corporate_actions''])"

lemma snapshot_inputs: "normalize_inputs frozen_payload = Inr sample_inputs"
proof -
  have "fld frozen_payload ''universe'' = fld sample_payload ''universe''" "fld frozen_payload ''bars'' = fld sample_payload ''bars''"
    "fld_or frozen_payload ''signals'' (PList []) = fld_or sample_payload ''signals'' (PList [])"
    "fld frozen_payload ''execution'' = fld sample_payload ''execution''" "fld frozen_payload ''benchmark'' = fld sample_payload ''benchmark''"
    "fld frozen_payload ''corporate_actions'' = fld sample_payload ''corporate_actions''"
    by (simp_all add: frozen_payload_def fld_or_def) (simp_all add: sample_payload_def)
  then have "normalize_inputs frozen_payload = normalize_inputs sample_payload"
    unfolding normalize_inputs_def by (simp only:)
  then show ?thesis by (simp add: sample_normalized)
qed

lemma frozen_source: "normalize_source (fld frozen_payload ''source'') = Inr (PDict [(''producer'', PStr ''keyless-import'')])"
proof -
  have "strip ''keyless-import'' = ''keyless-import''" by code_simp
  then show ?thesis
    by (simp add: frozen_payload_def normalize_source_def reject_unknown_def unknown_keys_def text_of_def fld_or_def
        source_readiness_def source_constraints_def source_ml_lineage_def unless_empty_def)
qed

lemma sample_frame: "\<exists>frame. encode_snapshot_bars (map bar_json (in_bars sample_inputs)) = Inr frame
   \<and> finite_json frame \<and> json_bound frame \<le> 10000"
proof -
  have floats: "length (float_repr (FFin 0)) = 3" "length (float_repr (FFin 2)) = 3" "length (float_repr (FFin 3)) = 3" "length (float_repr (FFin 4)) = 3"
    by code_simp+
  have digits: "length (int_str 0) = 1" "length (int_str 1) = 1" "length (int_str 2) = 1" by code_simp+
  have less: "\<not> ''2024-01-03'' \<le> ''2024-01-02''" "\<not> ''2024-01-04'' \<le> ''2024-01-03''" "\<not> ''2024-01-04'' \<le> ''2024-01-02''"
    "''2024-01-02'' \<le> ''2024-01-03''" "''2024-01-03'' \<le> ''2024-01-04''" "''2024-01-02'' \<le> ''2024-01-04''"
    by code_simp+
  have fields: "sort [''open'', ''high'', ''low'', ''close'', ''volume'', ''is_suspended'', ''prev_close''] =
      [''close'', ''high'', ''is_suspended'', ''low'', ''open'', ''prev_close'', ''volume'']" by code_simp
  show ?thesis
    by (simp add: encode_snapshot_bars_def encode_bars_frame_def ordered_indices_def frame_document_def frame_columns_def
        panel_fields_def place_def sample_inputs_def sample_normal_bar_def bar_json_def row_symbol_def row_date_def
        opt_float_def cell_def finite_cell_def strs_def Let_def comp_def upt_rec less fields floats digits nth_Cons'
        BARS_FRAME_SCHEMA_VERSION_def del: float_repr.simps)
qed

lemma sample_document_small:
  assumes "finite_json frame" "json_bound frame \<le> 10000"
  shows "finite_json (snapshot_document a v sample_inputs frame (PDict [(''producer'', PStr ''keyless-import'')]))
    \<and> json_bound (snapshot_document a v sample_inputs frame (PDict [(''producer'', PStr ''keyless-import'')]))
      \<le> 14000 + 6 * length a + 6 * length v"
proof -
  have floats: "length (float_repr (FFin 0)) = 3" "length (float_repr (FFin 1)) = 3" "length (float_repr (FFin 60)) = 4"
    "length (float_repr (FFin 1000)) = 6"
    by code_simp+
  have digits: "length (int_str 1) = 1" "length (int_str 2) = 1" "length (int_str 10) = 2" "length (int_str 100) = 3"
    by code_simp+
  have "length (membership_fingerprint [''600519.SH'']) = 64" using fingerprint_text(2) by (simp add: re_hex_def)
  then show ?thesis
    using assms
    by (simp add: snapshot_document_def sample_inputs_def universe_json_def signal_json_def action_json_def execution_json_def
        opt_float_def opt_text_def strs_def floats digits del: float_repr.simps)
qed

lemma sample_snapshot:
  "\<exists>document. normalize_signal_snapshot frozen_payload (PStr (made_id ''artifact'' CHR ''b'')) (PStr ''v1'') = Inr document"
proof -
  obtain frame where frame: "encode_snapshot_bars (map bar_json (in_bars sample_inputs)) = Inr frame"
    and small: "finite_json frame" "json_bound frame \<le> 10000"
    using sample_frame by blast
  let ?D = "snapshot_document (made_id ''artifact'' CHR ''b'') ''v1'' sample_inputs frame (PDict [(''producer'', PStr ''keyless-import'')])"
  have "length (utf8 (json_dumps False True ?D)) \<le> 2 * json_bound ?D"
    using length_utf8 [of "json_dumps False True ?D"] length_json_dumps [of False True ?D] by linarith
  also have "\<dots> \<le> 100000"
    using sample_document_small [OF small, of "made_id ''artifact'' CHR ''b''" "''v1''"] by (simp add: made_id_length)
  finally have "\<not> MAX_SNAPSHOT_BYTES < length (utf8 (json_dumps False True ?D))" by (simp add: MAX_SNAPSHOT_BYTES_def)
  moreover have "canonical ?D = Inr (json_dumps False True ?D)"
    using sample_document_small [OF small, of "made_id ''artifact'' CHR ''b''" "''v1''"] by (simp add: canonical_def)
  moreover have "is_dict frozen_payload" "reject_unknown frozen_payload SNAPSHOT_FIELDS ''signal snapshot'' = Inr ()"
    "text_of (PStr ''v1'') ''strategy_version_id'' 128 = Inr ''v1''"
    by (simp_all add: frozen_payload_def reject_unknown_def unknown_keys_def SNAPSHOT_FIELDS_def text_of_def sample_strips)
  ultimately show ?thesis
    by (simp add: normalize_signal_snapshot_def sample_identity snapshot_inputs inputs_open frozen_source frame Let_def)
qed

lemma complete_row_field: "f \<in> set panel \<Longrightarrow> has_key (complete_row panel b) f"
  by (auto simp: complete_row_def has_key_iff)

lemma complete_row_absent:
  assumes "''prev_close'' \<in> set panel" "\<not> has_key b ''prev_close''"
  shows "fld (complete_row panel b) ''prev_close'' = PNone"
  using assms by (simp add: complete_row_def fld_PDict_map) (simp add: has_key_def fld_def)

text \<open>The first bar of the sample has no previous close; it comes back with the value \<open>None\<close>.\<close>

theorem accepted_snapshot_reads_back_witness:
  "\<exists>document row rows. normalize_signal_snapshot frozen_payload (PStr (made_id ''artifact'' CHR ''b'')) (PStr ''v1'') = Inr document
    \<and> snapshot_bars document = Inr (row # rows) \<and> has_key row ''prev_close'' \<and> fld row ''prev_close'' = PNone
    \<and> \<not> has_key (hd (map bar_json (in_bars sample_inputs))) ''prev_close''"
proof -
  obtain document where d: "normalize_signal_snapshot frozen_payload (PStr (made_id ''artifact'' CHR ''b'')) (PStr ''v1'') = Inr document"
    using sample_snapshot by blast
  let ?bars = "map bar_json (in_bars sample_inputs)"
  let ?row = "complete_row (panel_fields ?bars)"
  have "snapshot_bars document = Inr (map ?row ?bars)"
    using accepted_snapshot_reads_back [OF d] snapshot_inputs by auto
  moreover have first: "?bars = hd ?bars # tl ?bars" by (simp add: sample_inputs_def)
  then have "map ?row ?bars = ?row (hd ?bars) # map ?row (tl ?bars)" by (metis list.simps(9))
  ultimately have bars: "snapshot_bars document = Inr (?row (hd ?bars) # map ?row (tl ?bars))" by (simp only:)
  have field: "''prev_close'' \<in> set (panel_fields ?bars)" and absent: "\<not> has_key (hd ?bars) ''prev_close''"
    by (simp_all add: panel_fields_def sample_inputs_def sample_normal_bar_def bar_json_def opt_float_def)
  show ?thesis
    using d bars complete_row_field [OF field] complete_row_absent [OF field absent] absent by blast
qed

end
