(* ===== verification/Spec2Isabelle.thy ===== *)
theory Spec2Isabelle
  imports Plan_Store Plan_Approval Continuation_Request Request_Budget Containment_Projection
    Business_Recovery Judgment_Machine Backtest_Causality Backtest_Job_History Signal_Snapshot
begin

text \<open>
  A model of the research domain of BeyondQuant: what decides which step of a research task may
  happen, which model turn may be made for it and at what cost, and what is concluded when an
  execution is lost. These decisions are made by the pure contract package
  \<^verbatim>\<open>src/packages/contracts\<close>, which the backend, the gateway and the runtime adapter share, by
  the backend's plan ledger \<^verbatim>\<open>src/services/backend/app/research_execution_plan.py\<close> and judgment store
  \<^verbatim>\<open>src/services/backend/app/research_judgment.py\<close>, by its backtest module
  \<^verbatim>\<open>src/services/backend/app/backtest.py\<close>, and by the gateway's containment projection \<^verbatim>\<open>src/services/gateway/app/session_containment.py\<close>. The
  definitions are translated from these files, in the order of the code, and compute.

  \<^bold>\<open>How the parts interact.\<close> A research task has one durable \<^emph>\<open>execution plan\<close>: a closed JSON
  object naming the stage, the round, the next action, its capabilities and the approval it is
  bound to. Only \<open>advance\<close> makes the next version of a plan; the \<^emph>\<open>ledger\<close> stores it with an
  idempotent receipt per operation. A human gate is passed by an \<^emph>\<open>approval\<close> of the exact digest
  bound into the pending command. A judgment stage is passed by a model \<^emph>\<open>proposal\<close>, from which
  the \<^emph>\<open>reducer\<close> derives the next plan state. Each model turn runs under an \<^emph>\<open>execution profile\<close>
  (for an ordinary product turn or for a background continuation) built from the user's
  \<^emph>\<open>execution options\<close>, and each provider request of a judgment stage under a \<^emph>\<open>request budget\<close>.
  When an executor dies, the \<^emph>\<open>containment\<close> contract classifies the loss, the gateway projects it
  for the reader, and the \<^emph>\<open>recovery\<close> contract says whether and how the lost work may be retried.

  \<^bold>\<open>Theories.\<close>
  \<^item> \<open>Py_Prelude\<close>, \<open>Py_Value\<close>, \<open>Py_Json\<close>, \<open>Json_Size\<close>, \<open>Sha256\<close>, \<open>Digest\<close>: what the code uses of Python.
    Exceptions are values of \<open>pyerr\<close>, a function that may raise returns \<open>pyerr + 'a\<close>; an
    untyped argument (\<open>object\<close>) is a \<open>pyval\<close>; a dictionary keeps its insertion order; \<open>==\<close> and
    \<open>in\<close> follow Python across \<open>bool\<close>, \<open>int\<close> and \<open>float\<close>; \<open>json.dumps\<close> is the compact form and
    SHA-256 is computed. The collections \<open>res_simps\<close> and \<open>shape_simps\<close> hold the rules that say
    when a computation returns and what a closed field set is. \<open>Json_Size\<close> bounds the length of the
    text of a value.
  \<^item> \<open>Contract_Specs\<close>: the contracts that recur, as locales. A \<open>checker\<close> returns its argument; a
    \<open>normaliser\<close> returns a normal form (every checker is one); a \<open>rebuilt_carrier\<close> accepts a value
    only if it is the one built again from its free parts; a \<open>machine\<close> keeps an invariant and a
    \<open>versioned_machine\<close> counts its operations; an \<open>upper_bounds_gate\<close> admits exactly within all
    dimensions. Each is interpreted on the definitions of the code, in the theory of the
    component.
  \<^item> \<open>Plan_Vocabulary\<close>, \<open>Research_Plan\<close>, \<open>Plan_Machine\<close>:
    \<^verbatim>\<open>packages/contracts/research_execution_plan.py\<close>. The tables of stages, actions, statuses,
    approvals and transitions; \<open>validate_plan\<close>, \<open>new_plan\<close>, \<open>plan_at_stage\<close>, \<open>advance\<close>. The
    abstract specification is the step relation \<open>plan_step\<close> on \<open>plan_state\<close>: \<open>advance\<close>
    refines it in both directions. The lemmas show what a valid plan is (\<open>plan_ok\<close>), that no write
    capability is exposed without an approval bound to this revision, that runs keep the
    identities and count versions, that a completed plan is final and that every plan can be
    ended in at most three calls.
  \<^item> \<open>Plan_Store\<close>: \<^verbatim>\<open>services/backend/app/research_execution_plan.py\<close>. The tables of the database
    are a record \<open>plan_db\<close>, a transaction is a function on it that either returns the new
    database or raises and leaves it. Histories are sequences of such transactions, in any
    interleaving; the lemmas are an invariant of the store, idempotent replay, and that of two
    writers expecting the same version one loses.
  \<^item> \<open>Plan_Approval\<close>: \<^verbatim>\<open>packages/contracts/research_plan_approval.py\<close>, the digest of a pending
    command, its binding into the plan, and what a decision derives.
  \<^item> \<open>Execution_Options\<close>, \<open>Product_Turn\<close>, \<open>Continuation_Request\<close>:
    \<^verbatim>\<open>packages/contracts/agent_execution_options.py\<close>, \<^verbatim>\<open>product_turn_request.py\<close> and
    \<^verbatim>\<open>continuation_request.py\<close>. Options and their normal form, profiles with digest, limits,
    reservations and usage receipts; the lemmas show that an accepted profile can only be the one
    built from its options and free fields, and that a receipt names every overrun.
  \<^item> \<open>Request_Budget\<close>: \<^verbatim>\<open>packages/contracts/research_request_budget.py\<close>, the registered limits and
    the decision on one provider request, as a gate of upper bounds.
  \<^item> \<open>Session_Containment\<close>, \<open>Containment_Projection\<close>:
    \<^verbatim>\<open>packages/contracts/session_failure_containment.py\<close> and
    \<^verbatim>\<open>services/gateway/app/session_containment.py\<close>. The facts of a loss, the fences, the settlement
    of attempts and the classification; the projection of the evidence of a session. The lemmas
    show that everything fails closed.
  \<^item> \<open>Business_Recovery\<close>: \<^verbatim>\<open>packages/contracts/business_recovery.py\<close>, the identity of a lost
    execution, the carrier of a recovery, its budget and the allocation of attempts; the history
    of allocations is an inductive relation.
  \<^item> \<open>Judgment_Input\<close>, \<open>Judgment_Requests\<close>, \<open>Judgment_Commit\<close>:
    \<^verbatim>\<open>packages/contracts/research_judgment.py\<close>. The stage input, the proposal, the fence on model
    calls, the requests of the judgment runner, and the reducer. The abstract specification
    \<open>judgment_step\<close> is a part of \<open>plan_step\<close>, so what the reducer decides \<open>advance\<close> can do.
  \<^item> \<open>Judgment_Calls\<close>, \<open>Judgment_Results\<close>, \<open>Judgment_Machine\<close>:
    \<^verbatim>\<open>services/backend/app/research_judgment.py\<close>. The database \<open>judgment_db\<close> is the plan ledger with
    the table of stage calls and the table of consumer claims. \<open>Judgment_Calls\<close> builds the stage input and
    admits calls; \<open>Judgment_Results\<close> commits a proposal and a result, moves the plan, derives the
    durable progress, completes the call, and holds the claims and dispatch intents. The status transition of a
    research task (\<open>ResearchStore.transition\<close>, another module) is a parameter. \<open>Judgment_Machine\<close> runs any history of
    these transactions with those of the ledger and any change of the other tables: the invariant of the ledger holds on, a plan
    revision has at most two calls at a stage, a first call without progress ends at
    \<^verbatim>\<open>needs_attention\<close>, and completed calls and recorded intents are final.
  \<^item> \<open>Py_Float\<close>: the double arithmetic of Python, every operation the exact rational result rounded
    to the nearest double, ties to even; integers below \<open>2 ^ 53\<close> are exact. \<open>Py_Number\<close>: \<open>float\<close> and
    \<open>Decimal\<close> of texts and numbers, and the decimal arithmetic of 28 digits.
  \<^item> \<open>Backtest_Engine\<close>, \<open>Backtest_Trades\<close>, \<open>Backtest_Example\<close>, \<open>Backtest_Runs\<close>,
    \<open>Backtest_Causality\<close>: \<open>run_native_backtest\<close> of \<^verbatim>\<open>services/backend/app/backtest.py\<close>. The local
    variables of the loop are the record \<open>engine\<close>, and the closures of the function (\<open>log\<close>,
    \<open>block\<close>, \<open>available\<close>, \<open>apply_actions\<close>, \<open>settle_actions\<close>) are functions on it. A session
    applies and settles corporate actions, executes the signals of the session before, sells first,
    and values the book. The lemmas show what each phase may touch, the account of shares and the
    T+1 rule, that every trade is explained by a signal of the session before, a bar inside the price limits and its fill
    price (whole lots where the A-share rules are on), and that nothing
    recorded up to a date depends on what comes later; an evaluated run shows where the limit on
    active positions is not enforced.
  \<^item> \<open>Backtest_Checks\<close>, \<open>Backtest_Input\<close>, \<open>Backtest_Request\<close>, \<open>Backtest_Accepted\<close>: the normalisers of
    the same file, \<open>normalize_backtest_request\<close> and the manifest. A normalised row extends the record the
    engine reads; the rows are written as JSON, hashed, stored and read back. The lemmas show that accepted
    inputs are well-formed (\<open>inputs_ok\<close>), that the previous closes form a chain, that the manifest
    reads back as the inputs of the engine, and that an execution profile is its own normal form.
  \<^item> \<open>Bars_Frame\<close>, \<open>Signal_Snapshot\<close>: \<^verbatim>\<open>packages/contracts/bars_frame.py\<close> and the snapshot functions of
    \<^verbatim>\<open>backtest.py\<close>. A panel of bars is stored by columns, in symbol and date order, and decoded to rows
    again; a frozen snapshot holds the accepted inputs with its own hash. The lemmas describe the order
    without indices (\<open>panel_order\<close>) and what the decoder gives back.
  \<^item> \<open>Backtest_Jobs\<close>, \<open>Backtest_Job_Machine\<close>, \<open>Backtest_Job_History\<close>: \<open>BacktestJobStore\<close> of the same file.
    The table is a list of rows, a transaction a function on the store that returns or raises, the
    clocks of the database and of the process are arguments, and the research store and the trigger that
    assigns a workspace are parameters. The abstract specification is the step relation \<open>job_step\<close> of one
    job and \<open>store_step\<close> of the table; every history of transactions refines it, a job changes its
    state finitely often, the report of an attempt that is over changes nothing, a running attempt whose lease
    has run out cannot complete it (its failure report still counts), and a completed
    job has exactly its artifact.

  \<^bold>\<open>Bounds and fuel.\<close> No definition of a component runs on fuel: recursion is on the data, on a
  measure, or over the list of operations of a history. The one fuelled function is
  \<open>shortest_from\<close> of \<open>Py_Json\<close>, the digits of a float: it tries one to seventeen digits, and
  seventeen always read back as the same double. Integers are Python's unbounded ones; the
  code's own bounds (\<open>2 ^ 63 - 1\<close>, at most three rounds, at most three recovery attempts) are
  checks of the model as they are of the code. The words of SHA-256 are 32 bits wide.

  \<^bold>\<open>What is simplified.\<close> A text is a list of the characters 0 to 255, so a code point above 255
  is outside the model; dictionary keys are texts, as in decoded JSON. Floats are rationals with
  the three special values, without the sign of zero; outside the backtest engine the code only
  adds one to a round, which is exact. The engine reads its manifest through the casts \<open>str\<close>,
  \<open>int\<close> and \<open>float\<close>, which are identities on the records the model takes, and the clock is an
  argument. A check that
  returns its argument where the callers ignore it returns nothing. In messages, the text that
  \<open>repr\<close> gives of a field name is exact for printable ASCII. The ledger leaves out time stamps
  and the text of SQL: a row is the columns the code reads and writes, and a failed transaction
  leaves the database as it was. Collision resistance is assumed nowhere: theorems on digests
  speak of the hashed text.

  \<^bold>\<open>Not modelled.\<close> The other contracts (runtime continuity, terminal attachment, AgentRun
  lifecycle, product approval requests, the ACP slot, prebind and operator fence records, the
  public projections) are left out: closed field sets and digests of the kind shown here. The judgment store is
  modelled without the transactions of the ACP root (begin, register, cancel intent, root result, settlement,
  status), whose facts come from the runtime adapter. Of \<^verbatim>\<open>domain_call_admission.py\<close> only the action
  table that the recovery contract reads is translated. The services are HTTP and database glue
  around these decisions or components of their own: the backend's market data, paper
  trading and machine learning modules, the analysis of the backtest module, the runtime
  adapter and the ACP transports (processes and sockets of the agent host), the gateway's routes
  and sessions, the workers, the frontend and the scripts.
\<close>

end
